(* ===== verification/Prelude.thy ===== *)
theory Prelude
  imports Main
begin

text \<open>
  Shared vocabulary of the development.

  A Go function that talks to a cloud API is modelled in state-passing style: the outside world
  (and the process memory the function writes) is a value of an arbitrary type \<open>'w\<close>, and an
  operation is a function \<open>'w \<Rightarrow> 'a res \<times> 'w\<close>.  The outcome \<open>'a res\<close> is a value, a Go
  error value, or a run-time panic (nil dereference, slice bounds, explicit \<open>panic\<close>).
  A pure Go function that can fail returns \<open>'a res\<close> directly.

  Besides the two monads the theory holds the loop combinators that stand for
  \<open>for ... range\<close> with early return, and the frame predicate \<open>keeps\<close>: an operation keeps
  a predicate on worlds when running it cannot make the predicate false.  Because the world is
  arbitrary, \<open>keeps\<close> says which API calls an operation can make.
\<close>

named_theorems io_simps \<open>evaluation rules of the world-passing monad\<close>
named_theorems keeps_rules \<open>composition rules of the frame predicate\<close>

section \<open>Error values and outcomes\<close>

text \<open>
  Error values.  \<open>ApiErr code text\<close> is an error an API client returned: its text, and its code
  when the value implements \<open>awserr.Error\<close>.  \<open>Errorf fmt causes\<close> is \<open>fmt.Errorf\<close> or
  \<open>errors.New\<close>: the format literal, and the errors rendered into it.
  \<open>InstanceNotFound\<close> and \<open>NotImplemented\<close> are the sentinel values of \<open>cloudprovider\<close>,
  \<open>ErrWaitTimeout\<close> the one of apimachinery's \<open>wait\<close>.
\<close>

datatype go_error =
    ApiErr "string option" string
  | InstanceNotFound
  | NotImplemented
  | ErrWaitTimeout
  | Errorf string "go_error list"

datatype 'a res = Ok 'a | Err go_error | Panic string

type_synonym ('w, 'a) io = "'w \<Rightarrow> 'a res \<times> 'w"

primrec res_bind :: "'a res \<Rightarrow> ('a \<Rightarrow> 'b res) \<Rightarrow> 'b res" where
  "res_bind (Ok a) f = f a"
| "res_bind (Err e) f = Err e"
| "res_bind (Panic p) f = Panic p"

primrec res_map :: "('a \<Rightarrow> 'b) \<Rightarrow> 'a res \<Rightarrow> 'b res" where
  "res_map f (Ok a) = Ok (f a)"
| "res_map f (Err e) = Err e"
| "res_map f (Panic p) = Panic p"

text \<open>The text of an error, as \<open>err.Error()\<close> gives it: the text of a rendered cause follows the
  format literal.\<close>

fun errText :: "go_error \<Rightarrow> string" where
  "errText (ApiErr _ t) = t"
| "errText InstanceNotFound = ''instance not found''"
| "errText NotImplemented = ''unimplemented''"
| "errText ErrWaitTimeout = ''timed out waiting for the condition''"
| "errText (Errorf f es) = f @ concat (map errText es)"

text \<open>The code of an error that implements \<open>awserr.Error\<close>.\<close>

fun awsCode :: "go_error \<Rightarrow> string option" where
  "awsCode (ApiErr c _) = c"
| "awsCode _ = None"

lemma res_bind_eq_Ok [simp]: "res_bind m f = Ok b \<longleftrightarrow> (\<exists>a. m = Ok a \<and> f a = Ok b)"
  by (cases m) auto

lemma res_map_eq_Ok [simp]: "res_map f m = Ok b \<longleftrightarrow> (\<exists>a. m = Ok a \<and> b = f a)"
  by (cases m) auto

text \<open>Whether a run ended with a value.\<close>

definition isOk :: "'a res \<Rightarrow> bool" where
  "isOk r = (case r of Ok _ \<Rightarrow> True | Err _ \<Rightarrow> False | Panic _ \<Rightarrow> False)"

lemma isOk_run: "isOk (fst m) \<Longrightarrow> \<exists>a w. m = (Ok a, w)"
  by (cases m) (auto simp: isOk_def split: res.splits)

lemma res_bind_assoc: "res_bind (res_bind m f) g = res_bind m (\<lambda>a. res_bind (f a) g)"
  by (cases m) auto

section \<open>The world-passing monad\<close>

definition ok :: "'a \<Rightarrow> ('w, 'a) io" where
  "ok a w = (Ok a, w)"

definition raise :: "go_error \<Rightarrow> ('w, 'a) io" where
  "raise e w = (Err e, w)"

definition panic :: "string \<Rightarrow> ('w, 'a) io" where
  "panic p w = (Panic p, w)"

definition lift :: "'a res \<Rightarrow> ('w, 'a) io" where
  "lift r w = (r, w)"

text \<open>\<open>attempt m f h\<close>: run \<open>m\<close>; on success go on with \<open>f\<close>, on an error value with \<open>h\<close>.  A panic
  propagates.  \<open>bnd\<close> is the common \<open>if err != nil { return err }\<close>.\<close>

definition attempt :: "('w, 'a) io \<Rightarrow> ('a \<Rightarrow> ('w, 'b) io) \<Rightarrow> (go_error \<Rightarrow> ('w, 'b) io) \<Rightarrow> ('w, 'b) io" where
  "attempt m f h w = (case m w of
       (Ok a, w') \<Rightarrow> f a w'
     | (Err e, w') \<Rightarrow> h e w'
     | (Panic p, w') \<Rightarrow> (Panic p, w'))"

definition bnd :: "('w, 'a) io \<Rightarrow> ('a \<Rightarrow> ('w, 'b) io) \<Rightarrow> ('w, 'b) io" where
  "bnd m f = attempt m f raise"

text \<open>\<open>for _, x := range xs { ... return err ... }\<close>\<close>

primrec forEach :: "'a list \<Rightarrow> ('a \<Rightarrow> ('w, unit) io) \<Rightarrow> ('w, unit) io" where
  "forEach [] f = ok ()"
| "forEach (x # xs) f = bnd (f x) (\<lambda>_. forEach xs f)"

text \<open>The same with local variables the body assigns.\<close>

primrec foldIO :: "('s \<Rightarrow> 'a \<Rightarrow> ('w, 's) io) \<Rightarrow> 's \<Rightarrow> 'a list \<Rightarrow> ('w, 's) io" where
  "foldIO f s [] = ok s"
| "foldIO f s (x # xs) = bnd (f s x) (\<lambda>s'. foldIO f s' xs)"

primrec foldRes :: "('s \<Rightarrow> 'a \<Rightarrow> 's res) \<Rightarrow> 's \<Rightarrow> 'a list \<Rightarrow> 's res" where
  "foldRes f s [] = Ok s"
| "foldRes f s (x # xs) = res_bind (f s x) (\<lambda>s'. foldRes f s' xs)"

text \<open>\<open>for _, x := range xs { if p(x) { ys = append(ys, x) } }\<close>, where the test can panic.\<close>

primrec filterRes :: "('a \<Rightarrow> bool res) \<Rightarrow> 'a list \<Rightarrow> 'a list res" where
  "filterRes p [] = Ok []"
| "filterRes p (x # xs) = res_bind (p x) (\<lambda>b. res_map (\<lambda>ys. if b then x # ys else ys) (filterRes p xs))"

lemma filterRes_pure: "(\<And>x. x \<in> set xs \<Longrightarrow> p x = Ok (q x)) \<Longrightarrow> filterRes p xs = Ok (filter q xs)"
  by (induction xs) auto

lemma filterRes_Ok: "filterRes p xs = Ok ys \<Longrightarrow> ys = filter (\<lambda>x. p x = Ok True) xs \<and> (\<forall>x\<in>set xs. \<exists>b. p x = Ok b)"
  by (induction xs arbitrary: ys) auto

lemma run_simps [simp, io_simps]:
  "ok a w = (Ok a, w)" "raise e w = (Err e, w)" "panic p w = (Panic p, w)" "lift r w = (r, w)"
  by (simp_all add: ok_def raise_def panic_def lift_def)

lemma attempt_Ok [simp, io_simps]: "m w = (Ok a, w') \<Longrightarrow> attempt m f h w = f a w'"
  and attempt_Err [simp, io_simps]: "m w = (Err e, w') \<Longrightarrow> attempt m f h w = h e w'"
  and attempt_Panic [simp, io_simps]: "m w = (Panic p, w') \<Longrightarrow> attempt m f h w = (Panic p, w')"
  by (simp_all add: attempt_def)

lemma bnd_Ok [simp, io_simps]: "m w = (Ok a, w') \<Longrightarrow> bnd m f w = f a w'"
  and bnd_Err [simp, io_simps]: "m w = (Err e, w') \<Longrightarrow> bnd m f w = (Err e, w')"
  and bnd_Panic [simp, io_simps]: "m w = (Panic p, w') \<Longrightarrow> bnd m f w = (Panic p, w')"
  by (simp_all add: bnd_def)

lemma bnd_eq_Ok:
  "bnd m f w = (Ok b, w2) \<longleftrightarrow> (\<exists>a w1. m w = (Ok a, w1) \<and> f a w1 = (Ok b, w2))"
  by (auto simp: bnd_def attempt_def split: res.splits prod.splits)

lemma attempt_eq_Ok:
  "attempt m f h w = (Ok b, w2) \<longleftrightarrow>
     (\<exists>a w1. m w = (Ok a, w1) \<and> f a w1 = (Ok b, w2)) \<or>
     (\<exists>e w1. m w = (Err e, w1) \<and> h e w1 = (Ok b, w2))"
  by (auto simp: attempt_def split: res.splits prod.splits)

text \<open>Taking a successful run apart.\<close>

lemma bnd_OkE: "bnd m f w = (Ok b, w2) \<Longrightarrow> (\<And>a w1. m w = (Ok a, w1) \<Longrightarrow> f a w1 = (Ok b, w2) \<Longrightarrow> thesis) \<Longrightarrow> thesis"
  by (auto simp: bnd_eq_Ok)

lemma bnd_lift_OkE: "bnd (lift r) f w = (Ok b, w2) \<Longrightarrow> (\<And>a. r = Ok a \<Longrightarrow> f a w = (Ok b, w2) \<Longrightarrow> thesis) \<Longrightarrow> thesis"
  by (auto simp: bnd_eq_Ok)

lemma guard_OkE: "(if g then raise e else m) w = (Ok b, w2) \<Longrightarrow> (\<not> g \<Longrightarrow> m w = (Ok b, w2) \<Longrightarrow> thesis) \<Longrightarrow> thesis"
  by (auto split: if_splits)

lemma ok_OkE: "ok a w = (Ok b, w2) \<Longrightarrow> (b = a \<Longrightarrow> w2 = w \<Longrightarrow> thesis) \<Longrightarrow> thesis"
  by simp

text \<open>The check that a query has exactly one answer.\<close>

lemma sole_run:
  "(if xs = [] then raise e1 else if length xs \<noteq> 1 then raise e2 else ok (hd xs)) w = (Ok x, w') \<longleftrightarrow> xs = [x] \<and> w' = w"
  by (cases xs) auto

lemma bnd_assoc: "bnd (bnd m f) g = bnd m (\<lambda>a. bnd (f a) g)"
  by (auto simp: bnd_def attempt_def fun_eq_iff split: res.splits prod.splits)

lemma bnd_panics:
  assumes "\<And>a w p. fst (f a w) \<noteq> Panic p"
  shows "(\<exists>p. fst (bnd m f w) = Panic p) \<longleftrightarrow> (\<exists>p. fst (m w) = Panic p)"
  using assms by (auto simp: bnd_def attempt_def split: res.splits prod.splits)

lemma bnd_ok [simp]: "bnd (ok a) f = f a"
  by (simp add: fun_eq_iff bnd_def attempt_def)

lemma bnd_raise [simp]: "bnd (raise e) f = raise e"
  by (simp add: fun_eq_iff bnd_def attempt_def)

lemma bnd_lift_Ok [simp]: "bnd (lift (Ok a)) f = f a"
  by (simp add: fun_eq_iff bnd_def attempt_def)

text \<open>An operation of the environment, run by code that also has memory of its own.\<close>

definition onSnd :: "('w, 'a) io \<Rightarrow> ('m \<times> 'w, 'a) io" where
  "onSnd m = (\<lambda>(s, w). case m w of (r, w') \<Rightarrow> (r, (s, w')))"

lemma onSnd_run [simp]: "m w = (r, w') \<Longrightarrow> onSnd m (s, w) = (r, (s, w'))"
  by (simp add: onSnd_def)

section \<open>Frames: which calls an operation can make\<close>

definition keeps :: "('w \<Rightarrow> bool) \<Rightarrow> ('w, 'a) io \<Rightarrow> bool" where
  "keeps P m \<longleftrightarrow> (\<forall>w. P w \<longrightarrow> P (snd (m w)))"

lemma keepsI: "(\<And>w. P w \<Longrightarrow> P (snd (m w))) \<Longrightarrow> keeps P m"
  by (simp add: keeps_def)

lemma keepsD: "keeps P m \<Longrightarrow> P w \<Longrightarrow> m w = (r, w') \<Longrightarrow> P w'"
  by (metis keeps_def snd_conv)

lemma keeps_ok [keeps_rules, simp]: "keeps P (ok a)"
  and keeps_raise [keeps_rules, simp]: "keeps P (raise e)"
  and keeps_panic [keeps_rules, simp]: "keeps P (panic p)"
  and keeps_lift [keeps_rules, simp]: "keeps P (lift r)"
  by (simp_all add: keeps_def)

lemma keeps_attempt [keeps_rules]:
  assumes "keeps P m" "\<And>a. keeps P (f a)" "\<And>e. keeps P (h e)"
  shows "keeps P (attempt m f h)"
proof (rule keepsI)
  fix w assume "P w"
  then have "P (snd (m w))" using assms(1) by (simp add: keeps_def)
  then show "P (snd (attempt m f h w))"
    using assms(2,3) by (auto simp: attempt_def keeps_def split: res.splits prod.splits)
qed

lemma keeps_bnd [keeps_rules]: "keeps P m \<Longrightarrow> (\<And>a. keeps P (f a)) \<Longrightarrow> keeps P (bnd m f)"
  by (simp add: bnd_def keeps_attempt)

lemma keeps_bnd_lift: "(\<And>a. r = Ok a \<Longrightarrow> keeps P (f a)) \<Longrightarrow> keeps P (bnd (lift r) f)"
  by (cases r) (auto simp: keeps_def bnd_def attempt_def)

lemma keeps_bnd_val:
  assumes "keeps P m" "\<And>w a w'. m w = (Ok a, w') \<Longrightarrow> keeps P (f a)"
  shows "keeps P (bnd m f)"
proof (rule keepsI)
  fix w assume "P w"
  obtain r w1 where m: "m w = (r, w1)" by (cases "m w")
  then have "P w1" using keepsD[OF assms(1) \<open>P w\<close>] by blast
  then show "P (snd (bnd m f w))"
    using m assms(2) by (cases r) (auto simp: keeps_def)
qed

lemma keeps_if [keeps_rules]: "(b \<Longrightarrow> keeps P m) \<Longrightarrow> (\<not> b \<Longrightarrow> keeps P n) \<Longrightarrow> keeps P (if b then m else n)"
  by simp

lemma keeps_option [keeps_rules]:
  "(x = None \<Longrightarrow> keeps P m) \<Longrightarrow> (\<And>a. x = Some a \<Longrightarrow> keeps P (f a)) \<Longrightarrow>
     keeps P (case x of None \<Rightarrow> m | Some a \<Rightarrow> f a)"
  by (cases x) auto

lemma keeps_list [keeps_rules]:
  "(xs = [] \<Longrightarrow> keeps P m) \<Longrightarrow> (\<And>y ys. xs = y # ys \<Longrightarrow> keeps P (f y ys)) \<Longrightarrow>
     keeps P (case xs of [] \<Rightarrow> m | y # ys \<Rightarrow> f y ys)"
  by (cases xs) auto

lemma keeps_prod [keeps_rules]: "(\<And>a b. x = (a, b) \<Longrightarrow> keeps P (f a b)) \<Longrightarrow> keeps P (case x of (a, b) \<Rightarrow> f a b)"
  by (cases x) auto

lemma keeps_Let [keeps_rules]: "keeps P (f x) \<Longrightarrow> keeps P (Let x f)"
  by simp

lemma keeps_forEach [keeps_rules]: "(\<And>x. x \<in> set xs \<Longrightarrow> keeps P (f x)) \<Longrightarrow> keeps P (forEach xs f)"
  by (induction xs) (auto intro!: keeps_bnd)

lemma keeps_foldIO [keeps_rules]: "(\<And>s x. x \<in> set xs \<Longrightarrow> keeps P (f s x)) \<Longrightarrow> keeps P (foldIO f s xs)"
  by (induction xs arbitrary: s) (auto intro!: keeps_bnd)

text \<open>An operation that keeps every predicate makes no call at all.\<close>

lemma keeps_all_iff: "(\<forall>P. keeps P m) \<longleftrightarrow> (\<forall>w. snd (m w) = w)"
proof
  assume *: "\<forall>P. keeps P m"
  show "\<forall>w. snd (m w) = w"
  proof
    fix w from * have "keeps (\<lambda>v. v = w) m" by blast
    then show "snd (m w) = w" by (simp add: keeps_def)
  qed
qed (simp add: keeps_def)

text \<open>\<open>grows cnt k m\<close>: running \<open>m\<close> raises the counter \<open>cnt\<close> of the world by at most \<open>k\<close>.\<close>

definition grows :: "('w \<Rightarrow> nat) \<Rightarrow> nat \<Rightarrow> ('w, 'a) io \<Rightarrow> bool" where
  "grows cnt k m \<longleftrightarrow> (\<forall>w. cnt (snd (m w)) \<le> cnt w + k)"

lemma grows_mono: "grows cnt k m \<Longrightarrow> k \<le> l \<Longrightarrow> grows cnt l m"
  unfolding grows_def by (meson add_left_mono order_trans)

lemma grows_keeps: "(\<And>k. keeps (\<lambda>w. cnt w \<le> k) m) \<Longrightarrow> grows cnt l m"
  unfolding grows_def keeps_def by (meson le_add1 order_refl order_trans)

lemma grows_ok [simp]: "grows cnt k (ok a)" and grows_raise [simp]: "grows cnt k (raise e)"
  by (simp_all add: grows_def)

lemma grows_attempt:
  assumes "grows cnt k m" "\<And>a. grows cnt l (f a)" "\<And>e. grows cnt l (h e)"
  shows "grows cnt (k + l) (attempt m f h)"
  unfolding grows_def
proof
  fix w
  obtain r w1 where m: "m w = (r, w1)" by (cases "m w")
  then have "cnt w1 \<le> cnt w + k" using assms(1) unfolding grows_def by (metis snd_conv)
  moreover have "cnt (snd (f a w1)) \<le> cnt w1 + l" "cnt (snd (h e w1)) \<le> cnt w1 + l" for a e
    using assms(2,3) by (simp_all add: grows_def)
  ultimately show "cnt (snd (attempt m f h w)) \<le> cnt w + (k + l)"
    by (cases r) (simp_all add: m, (metis add.assoc add_le_mono1 le_trans)+)
qed

lemma grows_bnd: "grows cnt k m \<Longrightarrow> (\<And>a. grows cnt l (f a)) \<Longrightarrow> grows cnt (k + l) (bnd m f)"
  by (simp add: bnd_def grows_attempt)

section \<open>Loops over a slice\<close>

lemma foldRes_append: "foldRes f s (xs @ ys) = res_bind (foldRes f s xs) (\<lambda>s'. foldRes f s' ys)"
  by (induction xs arbitrary: s) (auto simp: res_bind_assoc)

lemma forEach_append: "forEach (xs @ ys) f = bnd (forEach xs f) (\<lambda>_. forEach ys f)"
  by (induction xs) (auto simp: bnd_assoc)

lemma foldIO_inv:
  assumes "foldIO f s xs w = (Ok s', w')" "Q s"
    and "\<And>s x w s' w'. x \<in> set xs \<Longrightarrow> f s x w = (Ok s', w') \<Longrightarrow> Q s \<Longrightarrow> Q s'"
  shows "Q s'"
  using assms
proof (induction xs arbitrary: s w)
  case (Cons x xs)
  then obtain s1 w1 where "f s x w = (Ok s1, w1)" "foldIO f s1 xs w1 = (Ok s', w')" by (auto simp: bnd_eq_Ok)
  then show ?case using Cons.IH[of s1 w1] Cons.prems(2,3) by (metis list.set_intros(1,2))
qed simp

text \<open>A body that only updates local variables makes \<open>foldIO\<close> a plain fold.\<close>

lemma foldIO_pure: "(\<And>s x. x \<in> set xs \<Longrightarrow> f s x = ok (g s x)) \<Longrightarrow> foldIO f s xs = ok (foldl g s xs)"
  by (induction xs arbitrary: s) auto

section \<open>Pointers to scalars\<close>

text \<open>The generated getters of the API types (\<open>x.GetVmId()\<close>), \<open>aws.StringValue\<close> and
  \<open>aws.Int64Value\<close> give the zero value for a nil pointer.\<close>

definition strval :: "string option \<Rightarrow> string" where
  "strval p = (case p of None \<Rightarrow> [] | Some s \<Rightarrow> s)"

definition intval :: "int option \<Rightarrow> int" where
  "intval p = (case p of None \<Rightarrow> 0 | Some i \<Rightarrow> i)"

definition boolval :: "bool option \<Rightarrow> bool" where
  "boolval p = (case p of None \<Rightarrow> False | Some b \<Rightarrow> b)"

definition listval :: "'a list option \<Rightarrow> 'a list" where
  "listval p = (case p of None \<Rightarrow> [] | Some xs \<Rightarrow> xs)"

lemma ptr_simps [simp]:
  "strval None = []" "strval (Some s) = s" "intval None = 0" "intval (Some i) = i"
  "boolval None = False" "boolval (Some b) = b" "listval None = []" "listval (Some xs) = xs"
  by (simp_all add: strval_def intval_def boolval_def listval_def)

text \<open>A key that occurs once selects one element.\<close>

lemma filter_unique:
  "distinct (map f xs) \<Longrightarrow> x \<in> set xs \<Longrightarrow> P x \<Longrightarrow> filter (\<lambda>y. f y = f x \<and> P y) xs = [x]"
proof (induction xs)
  case (Cons y ys)
  show ?case
  proof (cases "x = y")
    case True
    then have "filter (\<lambda>z. f z = f x \<and> P z) ys = []" using Cons.prems(1)
      by (metis (mono_tags, lifting) distinct.simps(2) filter_False image_eqI list.set_map list.simps(9))
    then show ?thesis using True Cons.prems(3) by simp
  next
    case False
    then have "f y \<noteq> f x" using Cons.prems by force
    then show ?thesis using False Cons by simp
  qed
qed simp

end
