(* ===== verification/Go_Strings.thy ===== *)
theory Go_Strings
  imports Prelude "HOL-Library.Char_ord" "HOL-Library.List_Lexorder"
begin

text \<open>
  The functions of Go's \<open>strings\<close>, \<open>strconv\<close> and \<open>sort\<close> packages that the provider calls, on
  byte strings.  Case mapping and white space are the ASCII ones: the keys, protocols, zone names
  and identifiers the provider handles are ASCII.  Comparison is the byte order of Go strings,
  which is the lexicographic order of \<open>HOL-Library.List_Lexorder\<close> over \<open>HOL-Library.Char_ord\<close>.
\<close>

named_theorems go_str \<open>facts about the string functions\<close>

section \<open>Characters\<close>

definition code :: "char \<Rightarrow> nat" where
  "code c = of_char c"

definition isDigit :: "char \<Rightarrow> bool" where
  "isDigit c \<longleftrightarrow> 48 \<le> code c \<and> code c \<le> 57"

definition isUpper :: "char \<Rightarrow> bool" where
  "isUpper c \<longleftrightarrow> 65 \<le> code c \<and> code c \<le> 90"

definition isLower :: "char \<Rightarrow> bool" where
  "isLower c \<longleftrightarrow> 97 \<le> code c \<and> code c \<le> 122"

definition isSpace :: "char \<Rightarrow> bool" where
  "isSpace c \<longleftrightarrow> code c = 32 \<or> (9 \<le> code c \<and> code c \<le> 13)"

definition lowerChar :: "char \<Rightarrow> char" where
  "lowerChar c = (if isUpper c then char_of (code c + 32) else c)"

definition upperChar :: "char \<Rightarrow> char" where
  "upperChar c = (if isLower c then char_of (code c - 32) else c)"

section \<open>Package strings\<close>

definition HasPrefix :: "string \<Rightarrow> string \<Rightarrow> bool" where
  "HasPrefix s p \<longleftrightarrow> take (length p) s = p"

definition HasSuffix :: "string \<Rightarrow> string \<Rightarrow> bool" where
  "HasSuffix s p \<longleftrightarrow> HasPrefix (rev s) (rev p)"

definition TrimPrefix :: "string \<Rightarrow> string \<Rightarrow> string" where
  "TrimPrefix s p = (if HasPrefix s p then drop (length p) s else s)"

fun ContainsStr :: "string \<Rightarrow> string \<Rightarrow> bool" where
  "ContainsStr [] t \<longleftrightarrow> t = []"
| "ContainsStr (c # s) t \<longleftrightarrow> HasPrefix (c # s) t \<or> ContainsStr s t"

text \<open>\<open>strings.Split\<close> with a separator of one character.\<close>

fun Split :: "char \<Rightarrow> string \<Rightarrow> string list" where
  "Split c [] = [[]]"
| "Split c (x # xs) =
     (if x = c then [] # Split c xs
      else (case Split c xs of [] \<Rightarrow> [[x]] | y # ys \<Rightarrow> (x # y) # ys))"

definition TrimBy :: "(char \<Rightarrow> bool) \<Rightarrow> string \<Rightarrow> string" where
  "TrimBy p s = rev (dropWhile p (rev (dropWhile p s)))"

definition Trim :: "string \<Rightarrow> string \<Rightarrow> string" where
  "Trim s cutset = TrimBy (\<lambda>c. c \<in> set cutset) s"

definition TrimSpace :: "string \<Rightarrow> string" where
  "TrimSpace s = TrimBy isSpace s"

text \<open>\<open>strings.Fields\<close>: the maximal runs of non-space characters.\<close>

fun fieldsFrom :: "string \<Rightarrow> string \<Rightarrow> string list" where
  "fieldsFrom acc [] = (if acc = [] then [] else [rev acc])"
| "fieldsFrom acc (c # cs) =
     (if isSpace c then (if acc = [] then fieldsFrom [] cs else rev acc # fieldsFrom [] cs)
      else fieldsFrom (c # acc) cs)"

definition Fields :: "string \<Rightarrow> string list" where
  "Fields s = fieldsFrom [] s"

definition ToLower :: "string \<Rightarrow> string" where
  "ToLower s = map lowerChar s"

definition ToUpper :: "string \<Rightarrow> string" where
  "ToUpper s = map upperChar s"

definition EqualFold :: "string \<Rightarrow> string \<Rightarrow> bool" where
  "EqualFold s t \<longleftrightarrow> ToLower s = ToLower t"

text \<open>\<open>strings.Replace(s, "c", "", -1)\<close>\<close>

definition RemoveAll :: "char \<Rightarrow> string \<Rightarrow> string" where
  "RemoveAll c s = filter (\<lambda>x. x \<noteq> c) s"

definition JoinStr :: "string list \<Rightarrow> string \<Rightarrow> string" where
  "JoinStr xs sep = concat (case xs of [] \<Rightarrow> [] | y # ys \<Rightarrow> y # map (\<lambda>z. sep @ z) ys)"

text \<open>\<open>strings.Compare(a, b) > 0\<close>\<close>

definition ComparePos :: "string \<Rightarrow> string \<Rightarrow> bool" where
  "ComparePos a b \<longleftrightarrow> b < a"

definition sortStrings :: "string list \<Rightarrow> string list" where
  "sortStrings xs = sort xs"

section \<open>Package strconv\<close>

definition digitVal :: "char \<Rightarrow> nat" where
  "digitVal c = code c - 48"

definition digitChar :: "nat \<Rightarrow> char" where
  "digitChar d = char_of (48 + d)"

fun parseNat :: "nat \<Rightarrow> string \<Rightarrow> nat option" where
  "parseNat acc [] = Some acc"
| "parseNat acc (c # cs) = (if isDigit c then parseNat (10 * acc + digitVal c) cs else None)"

definition splitSign :: "string \<Rightarrow> bool \<times> string" where
  "splitSign s = (case s of
       [] \<Rightarrow> (False, [])
     | c # cs \<Rightarrow> if c = CHR ''+'' then (False, cs) else if c = CHR ''-'' then (True, cs) else (False, s))"

text \<open>\<open>strconv.ParseInt(s, 10, 64)\<close>, and with bit size 0 (and \<open>strconv.Atoi\<close>) on a 64-bit
  platform: \<open>None\<close> stands for a non-nil error (syntax or range).\<close>

definition ParseInt :: "string \<Rightarrow> int option" where
  "ParseInt s = (let (neg, ds) = splitSign s in
     if ds = [] then None
     else (case parseNat 0 ds of
        None \<Rightarrow> None
      | Some n \<Rightarrow> (let v = (if neg then - int n else int n) in
          if - (2 ^ 63) \<le> v \<and> v < 2 ^ 63 then Some v else None)))"

definition ParseBool :: "string \<Rightarrow> bool option" where
  "ParseBool s =
     (if s \<in> set [''1'', ''t'', ''T'', ''true'', ''TRUE'', ''True''] then Some True
      else if s \<in> set [''0'', ''f'', ''F'', ''false'', ''FALSE'', ''False''] then Some False
      else None)"

fun natString :: "nat \<Rightarrow> string" where
  "natString n = (if n < 10 then [digitChar n] else natString (n div 10) @ [digitChar (n mod 10)])"

declare natString.simps [simp del]

definition FormatInt :: "int \<Rightarrow> string" where
  "FormatInt i = (if i < 0 then CHR ''-'' # natString (nat (- i)) else natString (nat i))"

section \<open>Facts\<close>

lemma HasPrefix_append [simp, go_str]: "HasPrefix (p @ s) p"
  by (simp add: HasPrefix_def)

lemma HasPrefix_iff: "HasPrefix s p \<longleftrightarrow> (\<exists>t. s = p @ t)"
  by (metis HasPrefix_append HasPrefix_def append_take_drop_id)

lemma TrimPrefix_append [simp, go_str]: "TrimPrefix (p @ s) p = s"
  by (simp add: TrimPrefix_def)

lemma Split_not_Nil [simp]: "Split c s \<noteq> []"
  by (induction s) (auto split: list.splits)

lemma Split_no_sep [simp, go_str]: "c \<notin> set s \<Longrightarrow> Split c s = [s]"
  by (induction s) auto

lemma Split_append_sep [go_str]: "c \<notin> set a \<Longrightarrow> Split c (a @ c # b) = a # Split c b"
  by (induction a) auto

lemma Split_no_sep_inside: "x \<in> set (Split c s) \<Longrightarrow> c \<notin> set x"
proof (induction s arbitrary: x)
  case (Cons a s)
  show ?case
  proof (cases "a = c")
    case False
    obtain y ys where y: "Split c s = y # ys" using Split_not_Nil by (metis list.exhaust)
    then have "x = a # y \<or> x \<in> set ys" using Cons.prems False by auto
    then show ?thesis using Cons.IH y False by auto
  qed (use Cons in auto)
qed simp

lemma dropWhile_hd: "dropWhile p xs \<noteq> [] \<Longrightarrow> \<not> p (hd (dropWhile p xs))"
  using hd_dropWhile by blast

lemma set_TrimBy: "set (TrimBy p s) \<subseteq> set s"
  by (auto simp: TrimBy_def dest!: set_dropWhileD)

lemma length_TrimBy: "length (TrimBy p s) \<le> length s"
proof -
  have "length (dropWhile p (rev (dropWhile p s))) \<le> length (rev (dropWhile p s))"
    by (rule length_dropWhile_le)
  also have "\<dots> \<le> length s" by (simp add: length_dropWhile_le)
  finally show ?thesis by (simp add: TrimBy_def)
qed

lemma last_TrimBy: "TrimBy p s \<noteq> [] \<Longrightarrow> \<not> p (last (TrimBy p s))"
proof -
  assume "TrimBy p s \<noteq> []"
  then have "dropWhile p (rev (dropWhile p s)) \<noteq> []" by (simp add: TrimBy_def)
  from dropWhile_hd [OF this] show ?thesis unfolding TrimBy_def last_rev .
qed

lemma hd_TrimBy:
  assumes "TrimBy p s \<noteq> []"
  shows "\<not> p (hd (TrimBy p s))"
proof -
  let ?t = "dropWhile p s"
  obtain pre where pre: "rev ?t = pre @ dropWhile p (rev ?t)"
    by (metis takeWhile_dropWhile_id)
  then have "?t = TrimBy p s @ rev pre"
    by (metis TrimBy_def rev_append rev_rev_ident)
  then have "hd ?t = hd (TrimBy p s)" "?t \<noteq> []" using assms by (simp_all add: hd_append)
  then show ?thesis using dropWhile_hd by metis
qed

lemma dropWhile_none: "\<forall>c\<in>set s. \<not> p c \<Longrightarrow> dropWhile p s = s"
  by (cases s) auto

lemma TrimBy_id: "\<forall>c\<in>set s. \<not> p c \<Longrightarrow> TrimBy p s = s"
  by (simp add: TrimBy_def dropWhile_none)

lemma Trim_slashes: "CHR ''/'' \<notin> set s \<Longrightarrow> Trim s ''/'' = s"
  unfolding Trim_def by (rule TrimBy_id) auto

lemma length_ToLower [simp]: "length (ToLower s) = length s"
  and length_ToUpper [simp]: "length (ToUpper s) = length s"
  by (simp_all add: ToLower_def ToUpper_def)

lemma EqualFold_refl [simp]: "EqualFold s s"
  by (simp add: EqualFold_def)

lemma EqualFold_sym: "EqualFold s t \<longleftrightarrow> EqualFold t s"
  by (auto simp: EqualFold_def)

lemma EqualFold_trans: "EqualFold s t \<Longrightarrow> EqualFold t u \<Longrightarrow> EqualFold s u"
  by (simp add: EqualFold_def)

lemma code_digitChar: "d < 10 \<Longrightarrow> code (digitChar d) = 48 + d"
  by (simp add: code_def digitChar_def)

lemma isDigit_digitChar [simp]: "d < 10 \<Longrightarrow> isDigit (digitChar d)"
  by (simp add: isDigit_def code_digitChar)

lemma digitVal_digitChar [simp]: "d < 10 \<Longrightarrow> digitVal (digitChar d) = d"
  by (simp add: digitVal_def code_digitChar)

lemma parseNat_append:
  "parseNat acc (xs @ ys) = (case parseNat acc xs of None \<Rightarrow> None | Some n \<Rightarrow> parseNat n ys)"
  by (induction xs arbitrary: acc) auto

lemma parseNat_natString: "parseNat 0 (natString n) = Some n"
proof (induction n rule: natString.induct)
  case (1 n)
  then show ?case by (cases "n < 10") (simp_all add: natString.simps [of n] parseNat_append)
qed

lemma natString_hd: "\<exists>d cs. natString n = digitChar d # cs \<and> d < 10"
proof (induction n rule: natString.induct)
  case (1 n)
  then show ?case by (cases "n < 10") (auto simp: natString.simps [of n])
qed

lemma splitSign_natString: "splitSign (natString n) = (False, natString n)"
proof -
  obtain d cs where d: "natString n = digitChar d # cs" "d < 10" using natString_hd by blast
  have "code (digitChar d) \<noteq> code CHR ''+''" "code (digitChar d) \<noteq> code CHR ''-''"
    using d(2) by (simp_all add: code_digitChar) (simp_all add: code_def)
  then have "digitChar d \<noteq> CHR ''+''" "digitChar d \<noteq> CHR ''-''" by metis+
  then show ?thesis by (simp add: splitSign_def d)
qed

text \<open>Printing an \<open>int64\<close> and reading it back gives the same number.\<close>

lemma ParseInt_FormatInt:
  assumes "- (2 ^ 63) \<le> i" "i < 2 ^ 63"
  shows "ParseInt (FormatInt i) = Some i"
proof -
  have ne: "natString n \<noteq> []" for n using natString_hd [of n] by auto
  show ?thesis
  proof (cases "i < 0")
    case True
    then have "splitSign (FormatInt i) = (True, natString (nat (- i)))"
      by (simp add: splitSign_def FormatInt_def)
    with True assms ne show ?thesis
      by (simp add: ParseInt_def parseNat_natString)
  next
    case False
    then have "splitSign (FormatInt i) = (False, natString (nat i))"
      by (simp add: FormatInt_def splitSign_natString)
    with False assms ne show ?thesis
      by (simp add: ParseInt_def parseNat_natString)
  qed
qed

lemma ParseInt_range: "ParseInt s = Some i \<Longrightarrow> - (2 ^ 63) \<le> i \<and> i < 2 ^ 63"
  by (auto simp: ParseInt_def Let_def split: prod.splits option.splits if_splits)

lemma sortStrings_facts [simp]:
  "set (sortStrings xs) = set xs" "sorted (sortStrings xs)" "distinct (sortStrings xs) = distinct xs"
  "length (sortStrings xs) = length xs"
  by (simp_all add: sortStrings_def)


lemma JoinStr_simps [simp]:
  "JoinStr [] sep = []" "JoinStr [y] sep = y"
  "JoinStr (y # z # zs) sep = y @ sep @ JoinStr (z # zs) sep"
  by (simp_all add: JoinStr_def)

lemma JoinStr_Split: "JoinStr (Split c s) [c] = s"
proof (induction s)
  case (Cons a s)
  show ?case
  proof (cases "Split c s")
    case (Cons y ys)
    then show ?thesis using Cons.IH by (cases ys) auto
  qed simp
qed simp

lemma Split_JoinStr:
  "xs \<noteq> [] \<Longrightarrow> (\<And>x. x \<in> set xs \<Longrightarrow> c \<notin> set x) \<Longrightarrow> Split c (JoinStr xs [c]) = xs"
proof (induction xs)
  case (Cons x xs)
  then show ?case by (cases xs) (auto simp: Split_append_sep)
qed simp

lemma concat_Split: "concat (Split c s) = RemoveAll c s"
  by (induction c s rule: Split.induct) (auto simp: RemoveAll_def split: list.splits)

end
