(* ===== verification/Go_Maps.thy ===== *)
theory Go_Maps
  imports Go_Strings "HOL-Library.Multiset"
begin

text \<open>
  Go maps and the \<open>sets.String\<close> of apimachinery.

  A Go map that is only looked up is a HOL map \<open>'k \<rightharpoonup> 'v\<close>.  A map that is also ranged over is
  an association list with distinct keys; the order of the list stands for the unspecified
  iteration order.  \<open>sets.String\<close> is a HOL set, and its \<open>List\<close> method is the sorted list.

  The locale \<open>go_map\<close> states what the clients of a Go map rely on, and derives once what a loop
  of assignments leaves in the map; it is interpreted on the association lists.
\<close>

section \<open>Association lists as Go maps\<close>

type_synonym ('k, 'v) gomap = "('k \<times> 'v) list"

fun mput :: "'k \<Rightarrow> 'v \<Rightarrow> ('k, 'v) gomap \<Rightarrow> ('k, 'v) gomap" where
  "mput k v [] = [(k, v)]"
| "mput k v ((a, b) # m) = (if a = k then (k, v) # m else (a, b) # mput k v m)"

definition mdel :: "'k \<Rightarrow> ('k, 'v) gomap \<Rightarrow> ('k, 'v) gomap" where
  "mdel k m = filter (\<lambda>p. fst p \<noteq> k) m"

definition mwf :: "('k, 'v) gomap \<Rightarrow> bool" where
  "mwf m \<longleftrightarrow> distinct (map fst m)"

text \<open>\<open>m[k]\<close> for a map of strings: the zero value for a missing key.\<close>

definition mstr :: "('k \<rightharpoonup> string) \<Rightarrow> 'k \<Rightarrow> string" where
  "mstr m k = strval (m k)"

lemma map_of_rev_distinct: "distinct (map fst kvs) \<Longrightarrow> map_of (rev kvs) = map_of kvs"
  by (rule map_of_inject_set [THEN iffD2]) (simp_all flip: rev_map)

section \<open>The contract of a map\<close>

locale go_map =
  fixes empty :: "'m"
    and put :: "'k \<Rightarrow> 'v \<Rightarrow> 'm \<Rightarrow> 'm"
    and del :: "'k \<Rightarrow> 'm \<Rightarrow> 'm"
    and get :: "'m \<Rightarrow> 'k \<Rightarrow> 'v option"
    and wf :: "'m \<Rightarrow> bool"
  assumes get_empty: "get empty k = None"
    and get_put: "get (put k v m) j = (if j = k then Some v else get m j)"
    and get_del: "get (del k m) j = (if j = k then None else get m j)"
    and wf_empty: "wf empty"
    and wf_put: "wf m \<Longrightarrow> wf (put k v m)"
    and wf_del: "wf m \<Longrightarrow> wf (del k m)"
begin

text \<open>A loop \<open>for k, v := range kvs { m[k] = v }\<close>: the last assignment of a key wins.\<close>

lemma get_puts:
  "get (foldl (\<lambda>m (k, v). put k v m) m kvs) j =
     (case map_of (rev kvs) j of None \<Rightarrow> get m j | Some v \<Rightarrow> Some v)"
  by (induction kvs arbitrary: m) (auto simp: get_put map_add_def split: option.splits)

lemma wf_puts: "wf m \<Longrightarrow> wf (foldl (\<lambda>m (k, v). put k v m) m kvs)"
  by (induction kvs arbitrary: m) (auto simp: wf_put)

text \<open>With distinct keys the order of the assignments does not matter.\<close>

lemma get_puts_distinct:
  "distinct (map fst kvs) \<Longrightarrow>
     get (foldl (\<lambda>m (k, v). put k v m) m kvs) j = (case map_of kvs j of None \<Rightarrow> get m j | Some v \<Rightarrow> Some v)"
  using get_puts [of m kvs j] by (simp add: map_of_rev_distinct)

lemma dom_put: "dom (get (put k v m)) = insert k (dom (get m))"
  by (auto simp: dom_def get_put)

lemma dom_del: "dom (get (del k m)) = dom (get m) - {k}"
  by (auto simp: dom_def get_del)

end

lemma map_of_mput: "map_of (mput k v m) j = (if j = k then Some v else map_of m j)"
  by (induction k v m rule: mput.induct) auto

lemma map_of_mdel: "map_of (mdel k m) j = (if j = k then None else map_of m j)"
  by (induction m) (auto simp: mdel_def)

lemma keys_mput: "fst ` set (mput k v m) = insert k (fst ` set m)"
  by (induction k v m rule: mput.induct) auto

lemma keys_mdel: "fst ` set (mdel k m) = fst ` set m - {k}"
  by (auto simp: mdel_def)

lemma mwf_mput: "mwf m \<Longrightarrow> mwf (mput k v m)"
proof (induction k v m rule: mput.induct)
  case (2 k v a b m)
  then show ?case using keys_mput [of k v m] by (auto simp: mwf_def)
qed (simp add: mwf_def)

lemma mwf_mdel: "mwf m \<Longrightarrow> mwf (mdel k m)"
  by (simp add: mwf_def mdel_def distinct_map_filter)

lemma mwf_Nil [simp]: "mwf []"
  by (simp add: mwf_def)

interpretation gm: go_map "[]" mput mdel map_of mwf
  by unfold_locales (simp_all add: map_of_mput map_of_mdel mwf_mput mwf_mdel)

lemmas gomap_simps = map_of_mput map_of_mdel keys_mput keys_mdel

lemma map_of_iff_wf: "mwf m \<Longrightarrow> map_of m k = Some v \<longleftrightarrow> (k, v) \<in> set m"
  by (simp add: mwf_def)

lemma map_of_key: "k \<in> fst ` set m \<Longrightarrow> \<exists>v. map_of m k = Some v"
  using map_of_eq_None_iff[of m k] by (cases "map_of m k") simp_all

lemma mwf_mset: "mset m = mset m' \<Longrightarrow> mwf m \<longleftrightarrow> mwf m'"
  unfolding mwf_def by (metis mset_map mset_eq_imp_distinct_iff)

lemma mdel_notin: "k \<notin> fst ` set m \<Longrightarrow> mdel k m = m"
  by (force simp: mdel_def filter_id_conv)

lemma length_mdel: "mwf m \<Longrightarrow> k \<in> fst ` set m \<Longrightarrow> Suc (length (mdel k m)) = length m"
proof (induction m)
  case (Cons p m)
  show ?case
  proof (cases "fst p = k")
    case True
    then have "k \<notin> fst ` set m" using Cons.prems by (auto simp: mwf_def)
    then show ?thesis using True mdel_notin [of k m] by (simp add: mdel_def)
  next
    case False
    then show ?thesis using Cons by (auto simp: mdel_def mwf_def)
  qed
qed simp

section \<open>String sets\<close>

definition setList :: "string set \<Rightarrow> string list" where
  "setList S = sorted_list_of_set S"

lemma setList_facts [simp]:
  "finite S \<Longrightarrow> set (setList S) = S" "sorted (setList S)" "distinct (setList S)"
  by (simp_all add: setList_def)

lemma setList_empty_iff: "finite S \<Longrightarrow> setList S = [] \<longleftrightarrow> S = {}"
  by (metis setList_facts(1) set_empty)

text \<open>\<open>stringSetFromPointers\<close> and \<open>stringSetToPointers\<close> of \<open>osc_utils.go\<close> (a nil slice and a nil set are \<open>None\<close>,
  the elements of a set come in some order), and \<open>Contains\<close> of \<open>utils.go\<close>.\<close>

definition stringSetFromPointers :: "string option list option \<Rightarrow> string set option" where
  "stringSetFromPointers pointers = map_option (foldl (\<lambda>out p. insert (case p of None \<Rightarrow> [] | Some s \<Rightarrow> s) out) {}) pointers"

definition stringSetToPointers :: "string set option \<Rightarrow> string option list option" where
  "stringSetToPointers strings = map_option (\<lambda>S. map Some (setList S)) strings"

fun Contains :: "string list \<Rightarrow> string \<Rightarrow> bool" where
  "Contains [] element = False"
| "Contains (el # rest) element = (if el = element then True else Contains rest element)"

lemma Contains_iff [simp]: "Contains xs x \<longleftrightarrow> x \<in> set xs"
  by (induction xs) auto

lemma foldl_insert: "foldl (\<lambda>out p. insert (f p) out) S ps = f ` set ps \<union> S"
  by (induction ps arbitrary: S) auto

lemma stringSetFromPointers_Some [simp]: "stringSetFromPointers (Some (map Some xs)) = Some (set xs)"
  by (simp add: stringSetFromPointers_def foldl_insert image_image)

lemma stringSet_roundtrip: "finite S \<Longrightarrow> stringSetFromPointers (stringSetToPointers (Some S)) = Some S"
  by (simp add: stringSetToPointers_def)

end
