(* ===== verification/Consts.thy ===== *)
theory Consts
  imports Go_Strings
begin

text \<open>
  The constants of \<open>ccm_const.go\<close>, \<open>tags.go\<close> and \<open>osc_loadbalancer.go\<close>: annotation names, tag
  names, limits and defaults.  Durations are in seconds.
\<close>

named_theorems const_defs \<open>the constants, for evaluation\<close>

section \<open>ccm_const.go\<close>

definition NLBHealthCheckRuleDescription :: string where
  "NLBHealthCheckRuleDescription = ''kubernetes.io/rule/nlb/health''"

definition NLBClientRuleDescription :: string where
  "NLBClientRuleDescription = ''kubernetes.io/rule/nlb/client''"

definition NLBMtuDiscoveryRuleDescription :: string where
  "NLBMtuDiscoveryRuleDescription = ''kubernetes.io/rule/nlb/mtu''"

definition ProviderName :: string where
  "ProviderName = ''osc''"

definition TagNameKubernetesService :: string where
  "TagNameKubernetesService = ''kubernetes.io/service-name''"

definition TagNameSubnetInternalELB :: string where
  "TagNameSubnetInternalELB = ''kubernetes.io/role/internal-elb''"

definition TagNameSubnetPublicELB :: string where
  "TagNameSubnetPublicELB = ''kubernetes.io/role/elb''"

definition ServiceAnnotationLoadBalancerInternal :: string where
  "ServiceAnnotationLoadBalancerInternal = ''service.beta.kubernetes.io/aws-load-balancer-internal''"

definition ServiceAnnotationLoadBalancerProxyProtocol :: string where
  "ServiceAnnotationLoadBalancerProxyProtocol = ''service.beta.kubernetes.io/aws-load-balancer-proxy-protocol''"

definition ServiceAnnotationLoadBalancerAccessLogEmitInterval :: string where
  "ServiceAnnotationLoadBalancerAccessLogEmitInterval = ''service.beta.kubernetes.io/aws-load-balancer-access-log-emit-interval''"

definition ServiceAnnotationLoadBalancerAccessLogEnabled :: string where
  "ServiceAnnotationLoadBalancerAccessLogEnabled = ''service.beta.kubernetes.io/aws-load-balancer-access-log-enabled''"

definition ServiceAnnotationLoadBalancerAccessLogS3BucketName :: string where
  "ServiceAnnotationLoadBalancerAccessLogS3BucketName = ''service.beta.kubernetes.io/aws-load-balancer-access-log-s3-bucket-name''"

definition ServiceAnnotationLoadBalancerAccessLogS3BucketPrefix :: string where
  "ServiceAnnotationLoadBalancerAccessLogS3BucketPrefix = ''service.beta.kubernetes.io/aws-load-balancer-access-log-s3-bucket-prefix''"

definition ServiceAnnotationLoadBalancerConnectionDrainingEnabled :: string where
  "ServiceAnnotationLoadBalancerConnectionDrainingEnabled = ''service.beta.kubernetes.io/aws-load-balancer-connection-draining-enabled''"

definition ServiceAnnotationLoadBalancerConnectionDrainingTimeout :: string where
  "ServiceAnnotationLoadBalancerConnectionDrainingTimeout = ''service.beta.kubernetes.io/aws-load-balancer-connection-draining-timeout''"

definition ServiceAnnotationLoadBalancerConnectionIdleTimeout :: string where
  "ServiceAnnotationLoadBalancerConnectionIdleTimeout = ''service.beta.kubernetes.io/aws-load-balancer-connection-idle-timeout''"

definition ServiceAnnotationLoadBalancerCrossZoneLoadBalancingEnabled :: string where
  "ServiceAnnotationLoadBalancerCrossZoneLoadBalancingEnabled = ''service.beta.kubernetes.io/aws-load-balancer-cross-zone-load-balancing-enabled''"

definition ServiceAnnotationLoadBalancerExtraSecurityGroups :: string where
  "ServiceAnnotationLoadBalancerExtraSecurityGroups = ''service.beta.kubernetes.io/aws-load-balancer-extra-security-groups''"

definition ServiceAnnotationLoadBalancerSecurityGroups :: string where
  "ServiceAnnotationLoadBalancerSecurityGroups = ''service.beta.kubernetes.io/aws-load-balancer-security-groups''"

definition ServiceAnnotationLoadBalancerCertificate :: string where
  "ServiceAnnotationLoadBalancerCertificate = ''service.beta.kubernetes.io/aws-load-balancer-ssl-cert''"

definition ServiceAnnotationLoadBalancerSSLPorts :: string where
  "ServiceAnnotationLoadBalancerSSLPorts = ''service.beta.kubernetes.io/aws-load-balancer-ssl-ports''"

definition ServiceAnnotationLoadBalancerSSLNegotiationPolicy :: string where
  "ServiceAnnotationLoadBalancerSSLNegotiationPolicy = ''service.beta.kubernetes.io/aws-load-balancer-ssl-negotiation-policy''"

definition ServiceAnnotationLoadBalancerBEProtocol :: string where
  "ServiceAnnotationLoadBalancerBEProtocol = ''service.beta.kubernetes.io/aws-load-balancer-backend-protocol''"

definition ServiceAnnotationLoadBalancerAdditionalTags :: string where
  "ServiceAnnotationLoadBalancerAdditionalTags = ''service.beta.kubernetes.io/aws-load-balancer-additional-resource-tags''"

definition ServiceAnnotationLoadBalancerHCHealthyThreshold :: string where
  "ServiceAnnotationLoadBalancerHCHealthyThreshold = ''service.beta.kubernetes.io/aws-load-balancer-healthcheck-healthy-threshold''"

definition ServiceAnnotationLoadBalancerHCUnhealthyThreshold :: string where
  "ServiceAnnotationLoadBalancerHCUnhealthyThreshold = ''service.beta.kubernetes.io/aws-load-balancer-healthcheck-unhealthy-threshold''"

definition ServiceAnnotationLoadBalancerHCTimeout :: string where
  "ServiceAnnotationLoadBalancerHCTimeout = ''service.beta.kubernetes.io/aws-load-balancer-healthcheck-timeout''"

definition ServiceAnnotationLoadBalancerHCInterval :: string where
  "ServiceAnnotationLoadBalancerHCInterval = ''service.beta.kubernetes.io/aws-load-balancer-healthcheck-interval''"

definition ServiceAnnotationLoadBalancerNameLength :: string where
  "ServiceAnnotationLoadBalancerNameLength = ''service.beta.kubernetes.io/osc-load-balancer-name-length''"

definition ServiceAnnotationLoadBalancerName :: string where
  "ServiceAnnotationLoadBalancerName = ''service.beta.kubernetes.io/osc-load-balancer-name''"

definition ServiceAnnotationLoadBalancerSubnetID :: string where
  "ServiceAnnotationLoadBalancerSubnetID = ''service.beta.kubernetes.io/osc-load-balancer-subnet-id''"

definition TagNameClusterNode :: string where
  "TagNameClusterNode = ''OscK8sNodeName''"

definition TagNameMainSG :: string where
  "TagNameMainSG = ''OscK8sMainSG/''"

definition DefaultSrcSgName :: string where
  "DefaultSrcSgName = ''outscale-elb-sg''"

definition DefaultSgOwnerID :: string where
  "DefaultSgOwnerID = ''outscale-elb''"

definition LbNameMaxLength :: int where
  "LbNameMaxLength = 32"

definition createTagSteps :: nat where
  "createTagSteps = 9"

definition MaxReadThenCreateRetries :: nat where
  "MaxReadThenCreateRetries = 30"

text \<open>From the backend protocol of the annotation to the protocol of the listener.\<close>

definition backendProtocolMapping :: "string \<rightharpoonup> string" where
  "backendProtocolMapping = map_of
     [(''https'', ''https''), (''http'', ''https''), (''ssl'', ''ssl''), (''tcp'', ''ssl'')]"

section \<open>tags.go\<close>

definition TagNameKubernetesClusterPrefix :: string where
  "TagNameKubernetesClusterPrefix = ''OscK8sClusterID/''"

definition TagNameKubernetesClusterLegacy :: string where
  "TagNameKubernetesClusterLegacy = ''project''"

definition ResourceLifecycleOwned :: string where
  "ResourceLifecycleOwned = ''owned''"

definition ResourceLifecycleShared :: string where
  "ResourceLifecycleShared = ''shared''"

section \<open>osc_loadbalancer.go\<close>

definition ProxyProtocolPolicyName :: string where
  "ProxyProtocolPolicyName = ''k8s-proxyprotocol-enabled''"

text \<open>\<open>fmt.Sprintf(SSLNegotiationPolicyNameFormat, name)\<close>\<close>

definition SSLNegotiationPolicyName :: "string \<Rightarrow> string" where
  "SSLNegotiationPolicyName name = ''k8s-SSLNegotiationPolicy-'' @ name"

definition defaultHCHealthyThreshold :: int where
  "defaultHCHealthyThreshold = 2"

definition defaultHCUnhealthyThreshold :: int where
  "defaultHCUnhealthyThreshold = 6"

definition defaultHCTimeout :: int where
  "defaultHCTimeout = 5"

definition defaultHCInterval :: int where
  "defaultHCInterval = 10"

declare NLBHealthCheckRuleDescription_def [const_defs]
  NLBClientRuleDescription_def [const_defs]
  NLBMtuDiscoveryRuleDescription_def [const_defs]
  ProviderName_def [const_defs]
  TagNameKubernetesService_def [const_defs]
  TagNameSubnetInternalELB_def [const_defs]
  TagNameSubnetPublicELB_def [const_defs]
  ServiceAnnotationLoadBalancerInternal_def [const_defs]
  ServiceAnnotationLoadBalancerProxyProtocol_def [const_defs]
  ServiceAnnotationLoadBalancerAccessLogEmitInterval_def [const_defs]
  ServiceAnnotationLoadBalancerAccessLogEnabled_def [const_defs]
  ServiceAnnotationLoadBalancerAccessLogS3BucketName_def [const_defs]
  ServiceAnnotationLoadBalancerAccessLogS3BucketPrefix_def [const_defs]
  ServiceAnnotationLoadBalancerConnectionDrainingEnabled_def [const_defs]
  ServiceAnnotationLoadBalancerConnectionDrainingTimeout_def [const_defs]
  ServiceAnnotationLoadBalancerConnectionIdleTimeout_def [const_defs]
  ServiceAnnotationLoadBalancerCrossZoneLoadBalancingEnabled_def [const_defs]
  ServiceAnnotationLoadBalancerExtraSecurityGroups_def [const_defs]
  ServiceAnnotationLoadBalancerSecurityGroups_def [const_defs]
  ServiceAnnotationLoadBalancerCertificate_def [const_defs]
  ServiceAnnotationLoadBalancerSSLPorts_def [const_defs]
  ServiceAnnotationLoadBalancerSSLNegotiationPolicy_def [const_defs]
  ServiceAnnotationLoadBalancerBEProtocol_def [const_defs]
  ServiceAnnotationLoadBalancerAdditionalTags_def [const_defs]
  ServiceAnnotationLoadBalancerHCHealthyThreshold_def [const_defs]
  ServiceAnnotationLoadBalancerHCUnhealthyThreshold_def [const_defs]
  ServiceAnnotationLoadBalancerHCTimeout_def [const_defs]
  ServiceAnnotationLoadBalancerHCInterval_def [const_defs]
  ServiceAnnotationLoadBalancerNameLength_def [const_defs]
  ServiceAnnotationLoadBalancerName_def [const_defs]
  ServiceAnnotationLoadBalancerSubnetID_def [const_defs]
  TagNameClusterNode_def [const_defs]
  TagNameMainSG_def [const_defs]
  DefaultSrcSgName_def [const_defs]
  DefaultSgOwnerID_def [const_defs]
  LbNameMaxLength_def [const_defs]
  createTagSteps_def [const_defs]
  MaxReadThenCreateRetries_def [const_defs]
  backendProtocolMapping_def [const_defs]
  TagNameKubernetesClusterPrefix_def [const_defs]
  TagNameKubernetesClusterLegacy_def [const_defs]
  ResourceLifecycleOwned_def [const_defs]
  ResourceLifecycleShared_def [const_defs]
  ProxyProtocolPolicyName_def [const_defs]
  SSLNegotiationPolicyName_def [const_defs]
  defaultHCHealthyThreshold_def [const_defs]
  defaultHCUnhealthyThreshold_def [const_defs]
  defaultHCTimeout_def [const_defs]
  defaultHCInterval_def [const_defs]

end
