(* ===== verification/Cloud_API.thy ===== *)
theory Cloud_API
  imports Go_Maps Consts
begin

text \<open>
  The data the provider exchanges with its environment and the interfaces through which it does.

  The records of the Outscale SDK (\<open>osc.Vm\<close>, \<open>osc.SecurityGroup\<close>, ...), of the ELB SDK and of
  Kubernetes hold the fields the provider reads or writes; a pointer is an \<open>option\<close>, a slice of
  pointers is the list of the pointees.  The interfaces \<open>Compute\<close>, \<open>LoadBalancer\<close> and
  \<open>EC2Metadata\<close> of \<open>oapi_itf.go\<close> are records of operations on an arbitrary world, so a theorem
  about a routine holds for every client.  \<open>Clock\<close> and \<open>Libs\<close> hold the time functions and the
  third-party functions the provider calls.
\<close>

section \<open>Outscale resources\<close>

record ResourceTag =
  tag_Key :: string
  tag_Value :: string

record SecurityGroupsMember =
  sgm_AccountId :: "string option"
  sgm_SecurityGroupId :: "string option"
  sgm_SecurityGroupName :: "string option"

record SecurityGroupRule =
  rule_FromPortRange :: "int option"
  rule_ToPortRange :: "int option"
  rule_IpProtocol :: "string option"
  rule_IpRanges :: "string list option"
  rule_SecurityGroupsMembers :: "SecurityGroupsMember list option"
  rule_ServiceIds :: "string list option"

record SecurityGroup =
  sg_SecurityGroupId :: "string option"
  sg_SecurityGroupName :: "string option"
  sg_Tags :: "ResourceTag list option"
  sg_InboundRules :: "SecurityGroupRule list option"

record SecurityGroupLight =
  sgl_SecurityGroupId :: "string option"
  sgl_SecurityGroupName :: "string option"

record Placement =
  pl_SubregionName :: "string option"

record NicLight =
  nic_State :: "string option"
  nic_PrivateIps :: "string option list option"

record Vm =
  vm_VmId :: "string option"
  vm_State :: "string option"
  vm_VmType :: "string option"
  vm_NetId :: "string option"
  vm_SubnetId :: "string option"
  vm_PrivateDnsName :: "string option"
  vm_PublicDnsName :: "string option"
  vm_PrivateIp :: "string option"
  vm_PublicIp :: "string option"
  vm_Placement :: "Placement option"
  vm_Nics :: "NicLight list option"
  vm_SecurityGroups :: "SecurityGroupLight list option"
  vm_Tags :: "ResourceTag list option"

record Subnet =
  sn_SubnetId :: "string option"
  sn_SubregionName :: "string option"
  sn_NetId :: "string option"
  sn_Tags :: "ResourceTag list option"

record LinkRouteTable =
  lrt_SubnetId :: "string option"
  lrt_Main :: "bool option"

record Route =
  rt_DestinationIpRange :: "string option"
  rt_GatewayId :: "string option"
  rt_State :: "string option"
  rt_VmId :: "string option"

record RouteTable =
  rtb_RouteTableId :: "string option"
  rtb_LinkRouteTables :: "LinkRouteTable list option"
  rtb_Routes :: "Route list option"
  rtb_Tags :: "ResourceTag list option"

text \<open>\<open>instance.Placement.GetSubregionName()\<close>: the getter accepts a nil receiver.\<close>

definition GetSubregionName :: "Vm \<Rightarrow> string" where
  "GetSubregionName i = (case vm_Placement i of None \<Rightarrow> [] | Some p \<Rightarrow> strval (pl_SubregionName p))"

section \<open>Requests of the compute API\<close>

record FiltersVm =
  fv_VmIds :: "string list option"
  fv_TagKeys :: "string list option"
  fv_Tags :: "string list option"

record FiltersSecurityGroup =
  fsg_SecurityGroupIds :: "string list option"
  fsg_SecurityGroupNames :: "string list option"
  fsg_NetIds :: "string list option"
  fsg_TagKeys :: "string list option"
  fsg_Tags :: "string list option"
  fsg_InboundRuleSecurityGroupIds :: "string list option"
  fsg_InboundRuleSecurityGroupNames :: "string list option"

record FiltersSubnet =
  fsn_NetIds :: "string list option"
  fsn_SubnetIds :: "string list option"

record FiltersRouteTable =
  frt_NetIds :: "string list option"
  frt_RouteTableIds :: "string list option"

definition noVmFilter :: FiltersVm where
  "noVmFilter = \<lparr>fv_VmIds = None, fv_TagKeys = None, fv_Tags = None\<rparr>"

definition noSgFilter :: FiltersSecurityGroup where
  "noSgFilter = \<lparr>fsg_SecurityGroupIds = None, fsg_SecurityGroupNames = None, fsg_NetIds = None,
     fsg_TagKeys = None, fsg_Tags = None, fsg_InboundRuleSecurityGroupIds = None,
     fsg_InboundRuleSecurityGroupNames = None\<rparr>"

definition noSubnetFilter :: FiltersSubnet where
  "noSubnetFilter = \<lparr>fsn_NetIds = None, fsn_SubnetIds = None\<rparr>"

definition noRtFilter :: FiltersRouteTable where
  "noRtFilter = \<lparr>frt_NetIds = None, frt_RouteTableIds = None\<rparr>"

record CreateSecurityGroupRequest =
  csg_NetId :: "string option"
  csg_SecurityGroupName :: string
  csg_Description :: string

text \<open>A request to create or delete inbound rules of a group: rules, or a group to link.\<close>

record SecurityGroupRuleRequest =
  srr_Flow :: string
  srr_SecurityGroupId :: string
  srr_Rules :: "SecurityGroupRule list option"
  srr_SecurityGroupName :: "string option"
  srr_SecurityGroupAccountId :: "string option"

record CreateTagsRequest =
  ctr_ResourceIds :: "string list"
  ctr_Tags :: "ResourceTag list"

record CreateRouteRequest =
  crr_DestinationIpRange :: string
  crr_VmId :: "string option"
  crr_RouteTableId :: string

record DeleteRouteRequest =
  drr_DestinationIpRange :: string
  drr_RouteTableId :: string

record UpdateVmRequest =
  uvr_VmId :: string
  uvr_IsSourceDestChecked :: "bool option"

section \<open>Load balancer resources and requests\<close>

record Listener =
  li_InstancePort :: "int option"
  li_LoadBalancerPort :: "int option"
  li_Protocol :: "string option"
  li_InstanceProtocol :: "string option"
  li_SSLCertificateId :: "string option"

record HealthCheck =
  hc_Target :: "string option"
  hc_HealthyThreshold :: "int option"
  hc_UnhealthyThreshold :: "int option"
  hc_Timeout :: "int option"
  hc_Interval :: "int option"

record BackendServerDescription =
  bs_InstancePort :: "int option"
  bs_PolicyNames :: "string list"

record LoadBalancerDescription =
  lb_LoadBalancerName :: "string option"
  lb_DNSName :: "string option"
  lb_Subnets :: "string list"
  lb_SecurityGroups :: "string list"
  lb_Instances :: "string option list"
  lb_ListenerDescriptions :: "Listener option list"
  lb_BackendServerDescriptions :: "BackendServerDescription list"
  lb_HealthCheck :: "HealthCheck option"

record AccessLog =
  al_Enabled :: "bool option"
  al_EmitInterval :: "int option"
  al_S3BucketName :: "string option"
  al_S3BucketPrefix :: "string option"

record LoadBalancerAttributes =
  la_AccessLog :: "AccessLog option"
  la_DrainingEnabled :: "bool option"
  la_DrainingTimeout :: "int option"
  la_IdleTimeout :: "int option"
  la_CrossZoneLoadBalancing :: "bool option option"
  la_AdditionalAttributes :: "(string \<times> string) list"

record CreateLoadBalancerInput =
  clb_LoadBalancerName :: string
  clb_Listeners :: "Listener list"
  clb_Scheme :: "string option"
  clb_Subnets :: "string list option"
  clb_AvailabilityZones :: "string list"
  clb_SecurityGroups :: "string list option"
  clb_Tags :: "(string, string) gomap"

record CreateLoadBalancerPolicyInput =
  clp_LoadBalancerName :: "string option"
  clp_PolicyName :: string
  clp_PolicyTypeName :: string
  clp_PolicyAttributes :: "(string \<times> string) list"

section \<open>The interfaces of oapi\_itf.go\<close>

record 'w Compute =
  ReadVms :: "FiltersVm option \<Rightarrow> ('w, Vm list) io"
  ReadSecurityGroups :: "FiltersSecurityGroup \<Rightarrow> ('w, SecurityGroup list) io"
  CreateSecurityGroup :: "CreateSecurityGroupRequest \<Rightarrow> ('w, SecurityGroup option) io"
  DeleteSecurityGroup :: "string \<Rightarrow> ('w, unit) io"
  CreateSecurityGroupRule :: "SecurityGroupRuleRequest \<Rightarrow> ('w, unit) io"
  DeleteSecurityGroupRule :: "SecurityGroupRuleRequest \<Rightarrow> ('w, unit) io"
  DescribeSubnets :: "FiltersSubnet \<Rightarrow> ('w, Subnet list) io"
  CreateTags :: "CreateTagsRequest \<Rightarrow> ('w, unit) io"
  ReadRouteTables :: "FiltersRouteTable \<Rightarrow> ('w, RouteTable list) io"
  api_CreateRoute :: "CreateRouteRequest \<Rightarrow> ('w, unit) io"
  api_DeleteRoute :: "DeleteRouteRequest \<Rightarrow> ('w, unit) io"
  UpdateVM :: "UpdateVmRequest \<Rightarrow> ('w, unit) io"

text \<open>\<open>DescribeLoadBalancerPolicies\<close> is the one call whose result the provider reads although the
  call returned an error, so it gives the result pointer and the error together.\<close>

record 'w LoadBalancer =
  CreateLoadBalancer :: "CreateLoadBalancerInput \<Rightarrow> ('w, unit) io"
  DeleteLoadBalancer :: "string option \<Rightarrow> ('w, unit) io"
  DescribeLoadBalancers :: "string \<Rightarrow> ('w, LoadBalancerDescription list) io"
  AddTags :: "string \<Rightarrow> (string, string) gomap \<Rightarrow> ('w, unit) io"
  RegisterInstancesWithLoadBalancer :: "string \<Rightarrow> string list \<Rightarrow> ('w, unit) io"
  DeregisterInstancesFromLoadBalancer :: "string \<Rightarrow> string list \<Rightarrow> ('w, unit) io"
  CreateLoadBalancerPolicy :: "CreateLoadBalancerPolicyInput \<Rightarrow> ('w, unit) io"
  SetLoadBalancerPoliciesForBackendServer :: "string \<Rightarrow> int \<Rightarrow> string list \<Rightarrow> ('w, unit) io"
  SetLoadBalancerPoliciesOfListener :: "string \<Rightarrow> int \<Rightarrow> string list \<Rightarrow> ('w, unit) io"
  DescribeLoadBalancerPolicies ::
    "string option \<Rightarrow> string list \<Rightarrow> ('w, string list option \<times> go_error option) io"
  DetachLoadBalancerFromSubnets :: "string \<Rightarrow> string list \<Rightarrow> ('w, unit) io"
  AttachLoadBalancerToSubnets :: "string \<Rightarrow> string list \<Rightarrow> ('w, unit) io"
  CreateLoadBalancerListeners :: "string \<Rightarrow> Listener option list \<Rightarrow> ('w, unit) io"
  DeleteLoadBalancerListeners :: "string \<Rightarrow> int option list \<Rightarrow> ('w, unit) io"
  ApplySecurityGroupsToLoadBalancer :: "string \<Rightarrow> string list \<Rightarrow> ('w, unit) io"
  ConfigureHealthCheck :: "string option \<Rightarrow> HealthCheck \<Rightarrow> ('w, unit) io"
  DescribeLoadBalancerAttributes :: "string \<Rightarrow> ('w, LoadBalancerAttributes) io"
  ModifyLoadBalancerAttributes :: "string \<Rightarrow> LoadBalancerAttributes \<Rightarrow> ('w, unit) io"

text \<open>\<open>GetInstanceIdentityDocument\<close>, which nothing calls, is left out.\<close>

record 'w EC2Metadata =
  md_Available :: "('w, bool) io"
  GetMetadata :: "string \<Rightarrow> ('w, string) io"

text \<open>
  The client of the Outscale SDK behind the implementation of \<open>Compute\<close> and behind the v2 instance
  interface.  \<open>Execute()\<close> gives the response, the HTTP response and the error, each of which the callers
  test for themselves: the field of interest of the response, the status text, the error.
\<close>

type_synonym 'r reply = "'r option \<times> string option \<times> go_error option"

record 'w APIClient =
  sdk_ReadVms :: "FiltersVm option \<Rightarrow> ('w, Vm list reply) io"
  sdk_ReadSecurityGroups :: "FiltersSecurityGroup \<Rightarrow> ('w, SecurityGroup list reply) io"
  sdk_ReadSubnets :: "FiltersSubnet \<Rightarrow> ('w, Subnet list reply) io"
  sdk_ReadRouteTables :: "FiltersRouteTable \<Rightarrow> ('w, RouteTable list reply) io"
  sdk_CreateSecurityGroup :: "CreateSecurityGroupRequest \<Rightarrow> ('w, SecurityGroup reply) io"
  sdk_DeleteSecurityGroup :: "string \<Rightarrow> ('w, unit reply) io"
  sdk_CreateSecurityGroupRule :: "SecurityGroupRuleRequest \<Rightarrow> ('w, unit reply) io"
  sdk_DeleteSecurityGroupRule :: "SecurityGroupRuleRequest \<Rightarrow> ('w, unit reply) io"
  sdk_CreateTags :: "CreateTagsRequest \<Rightarrow> ('w, unit reply) io"
  sdk_CreateRoute :: "CreateRouteRequest \<Rightarrow> ('w, unit reply) io"
  sdk_DeleteRoute :: "DeleteRouteRequest \<Rightarrow> ('w, unit reply) io"
  sdk_UpdateVm :: "UpdateVmRequest \<Rightarrow> ('w, unit reply) io"

text \<open>\<open>time.Now\<close> in nanoseconds and \<open>time.Sleep\<close> in seconds.\<close>

record 'w Clock =
  Now :: "('w, int) io"
  Sleep :: "int \<Rightarrow> ('w, unit) io"

section \<open>Kubernetes objects\<close>

record Node =
  node_Name :: string
  node_ProviderID :: string

record ServicePort =
  sp_Name :: string
  sp_Protocol :: string
  sp_Port :: int
  sp_NodePort :: int

record Service =
  svc_Namespace :: string
  svc_Name :: string
  svc_UID :: string
  svc_Annotations :: "string \<rightharpoonup> string"
  svc_SessionAffinity :: string
  svc_Ports :: "ServicePort list"
  svc_LoadBalancerIP :: string

text \<open>
  Third-party functions: \<open>servicehelpers\<close> of k8s.io/cloud-provider, the \<open>Validate\<close> method of the
  ELB SDK's \<open>HealthCheck\<close>, \<open>wait.ExponentialBackoff\<close> of apimachinery (its argument is a
  condition that also assigns the local \<open>lastErr\<close>), and the JSON text the SDK gives a security
  group rule.
\<close>

record 'w Libs =
  GetLoadBalancerSourceRanges :: "Service \<Rightarrow> string list res"
  GetServiceHealthCheckPathPort :: "Service \<Rightarrow> string \<times> int"
  HealthCheckValidate :: "HealthCheck \<Rightarrow> go_error option"
  ExponentialBackoff ::
    "nat \<Rightarrow> ('w \<times> go_error option, bool) io \<Rightarrow> ('w \<times> go_error option, unit) io"
  jsonRule :: "SecurityGroupRule \<Rightarrow> string"

end
