(* ===== verification/Tags.thy ===== *)
theory Tags
  imports Cloud_API
begin

text \<open>
  \<open>tags.go\<close>: how the resources of a cluster are tagged and recognised.  The cluster id is found
  on the tags of the instance the controller runs on (or in the configuration), every resource
  the provider creates is tagged with it, and every listing is filtered by it.  The environment
  of the process (\<open>os.LookupEnv\<close>) is the argument \<open>env\<close>.
\<close>

section \<open>The model\<close>

record resourceTagging =
  ClusterID :: string
  usesLegacyTags :: bool

definition tagNameKubernetesCluster :: "(string \<rightharpoonup> string) \<Rightarrow> string" where
  "tagNameKubernetesCluster env =
     (case env ''TAG_NAME_KUBERNETES_CLUSTER'' of None \<Rightarrow> TagNameKubernetesClusterLegacy | Some v \<Rightarrow> v)"

text \<open>One turn of the loop of \<open>findClusterIDs\<close>: the two tests are independent.\<close>

definition findClusterIDsStep ::
  "(string \<rightharpoonup> string) \<Rightarrow> string \<times> string \<Rightarrow> ResourceTag \<Rightarrow> (string \<times> string) res" where
  "findClusterIDsStep env ids tag = (let (legacy, new) = ids; tagKey = tag_Key tag in
     res_bind
       (if HasPrefix tagKey TagNameKubernetesClusterPrefix
        then (if new \<noteq> [] then Err (Errorf ''Found multiple cluster tags with prefix %s (%q and %q)'' [])
              else Ok (TrimPrefix tagKey TagNameKubernetesClusterPrefix))
        else Ok new)
       (\<lambda>new'.
         if tagKey = tagNameKubernetesCluster env
         then (if legacy \<noteq> [] then Err (Errorf ''Found multiple %s tags (%q and %q)'' [])
               else Ok (tag_Value tag, new'))
         else Ok (legacy, new')))"

definition findClusterIDs ::
  "(string \<rightharpoonup> string) \<Rightarrow> ResourceTag list option \<Rightarrow> (string \<times> string) res" where
  "findClusterIDs env tags = (case tags of
       None \<Rightarrow> Panic ''nil pointer dereference''
     | Some ts \<Rightarrow> foldRes (findClusterIDsStep env) ([], []) ts)"

text \<open>\<open>init\<close> and \<open>initFromTags\<close> write the receiver: the world is the \<open>resourceTagging\<close> itself.\<close>

definition tagging_init :: "string \<Rightarrow> string \<Rightarrow> (resourceTagging, unit) io" where
  "tagging_init legacyClusterID clusterID t =
     (if legacyClusterID \<noteq> [] \<and> clusterID \<noteq> [] \<and> legacyClusterID \<noteq> clusterID
      then (Err (Errorf ''clusterID tags did not match: %q vs %q'' []), t)
      else
        (let t1 = (if legacyClusterID \<noteq> [] then t\<lparr>usesLegacyTags := True\<rparr> else t);
             cid = (if legacyClusterID \<noteq> [] then legacyClusterID else clusterID);
             t2 = t1\<lparr>ClusterID := cid\<rparr>
         in if cid \<noteq> [] then (Ok (), t2)
            else (Err (Errorf ''AWS cloud failed to find ClusterID'' []), t2)))"

definition initFromTags :: "(string \<rightharpoonup> string) \<Rightarrow> ResourceTag list option \<Rightarrow> (resourceTagging, unit) io" where
  "initFromTags env tags =
     bnd (lift (findClusterIDs env tags)) (\<lambda>(legacyClusterID, newClusterID).
       tagging_init legacyClusterID newClusterID)"

definition clusterTagKey :: "resourceTagging \<Rightarrow> string" where
  "clusterTagKey t = TagNameKubernetesClusterPrefix @ ClusterID t"

definition clusterID_of :: "resourceTagging \<Rightarrow> string" where
  "clusterID_of t = ClusterID t"

definition hasClusterAWSTag :: "resourceTagging \<Rightarrow> (string option \<times> string option) list \<Rightarrow> bool" where
  "hasClusterAWSTag t tags =
     (if ClusterID t = [] then True
      else list_ex (\<lambda>tag. strval (fst tag) = clusterTagKey t) tags)"

definition hasClusterTag :: "resourceTagging \<Rightarrow> ResourceTag list option \<Rightarrow> bool res" where
  "hasClusterTag t tags =
     (if ClusterID t = [] then Ok True
      else (case tags of
          None \<Rightarrow> Panic ''nil pointer dereference''
        | Some ts \<Rightarrow> Ok (list_ex (\<lambda>tag. tag_Key tag = clusterTagKey t) ts)))"

definition buildTags ::
  "(string \<rightharpoonup> string) \<Rightarrow> resourceTagging \<Rightarrow> string \<Rightarrow> (string, string) gomap \<Rightarrow> (string, string) gomap" where
  "buildTags env t lifecycle additionalTags =
     (let tags = foldl (\<lambda>m (k, v). mput k v m) [] additionalTags in
      if ClusterID t = [] then tags
      else
        (let tags1 = (if usesLegacyTags t then mput (tagNameKubernetesCluster env) (ClusterID t) tags else tags)
         in mput (clusterTagKey t) lifecycle tags1))"

text \<open>The condition \<open>createTags\<close> hands to the backoff: it assigns \<open>lastErr\<close> on failure.\<close>

definition createTagsCond ::
  "'w Compute \<Rightarrow> CreateTagsRequest \<Rightarrow> ('w \<times> go_error option, bool) io" where
  "createTagsCond client request s = (case CreateTags client request (fst s) of
       (Ok _, w) \<Rightarrow> (Ok True, (w, snd s))
     | (Err e, w) \<Rightarrow> (Ok False, (w, Some e))
     | (Panic p, w) \<Rightarrow> (Panic p, (w, snd s)))"

definition tagList :: "(string, string) gomap \<Rightarrow> ResourceTag list" where
  "tagList m = map (\<lambda>(k, v). \<lparr>tag_Key = k, tag_Value = v\<rparr>) m"

definition createTags ::
  "(string \<rightharpoonup> string) \<Rightarrow> 'w Libs \<Rightarrow> resourceTagging \<Rightarrow> 'w Compute \<Rightarrow> string \<Rightarrow> string \<Rightarrow>
    (string, string) gomap \<Rightarrow> ('w, unit) io" where
  "createTags env libs t client resourceID lifecycle additionalTags w =
     (let tags = buildTags env t lifecycle additionalTags in
      if tags = [] then (Ok (), w)
      else
        (let request = \<lparr>ctr_ResourceIds = [resourceID], ctr_Tags = tagList tags\<rparr>
         in case ExponentialBackoff libs createTagSteps (createTagsCond client request) (w, None) of
              (Ok _, s) \<Rightarrow> (Ok (), fst s)
            | (Err e, s) \<Rightarrow>
                (if e = ErrWaitTimeout
                 then (case snd s of None \<Rightarrow> (Ok (), fst s) | Some lastErr \<Rightarrow> (Err lastErr, fst s))
                 else (Err e, fst s))
            | (Panic p, s) \<Rightarrow> (Panic p, fst s)))"

text \<open>One turn of the comparison loop of \<open>readRepairClusterTags\<close>.\<close>

definition repairStep ::
  "(string, string) gomap \<Rightarrow> (string, string) gomap \<Rightarrow> string \<times> string \<Rightarrow> (string, string) gomap res" where
  "repairStep actualTagMap addTags kv = (let (k, expected) = kv; actual = mstr (map_of actualTagMap) k in
     if actual = expected then Ok addTags
     else if actual = [] then Ok (mput k expected addTags)
     else Err (Errorf ''resource %q has tag belonging to another cluster: %q=%q (expected %q)'' []))"

definition readRepairClusterTags ::
  "(string \<rightharpoonup> string) \<Rightarrow> 'w Libs \<Rightarrow> resourceTagging \<Rightarrow> 'w Compute \<Rightarrow> string \<Rightarrow> string \<Rightarrow>
    (string, string) gomap \<Rightarrow> ResourceTag list option \<Rightarrow> ('w, unit) io" where
  "readRepairClusterTags env libs t client resourceID lifecycle additionalTags observedTags =
     (case observedTags of
        None \<Rightarrow> raise (Errorf ''Got an nil Tags'' [])
      | Some obs \<Rightarrow>
          (let actualTagMap = foldl (\<lambda>m tag. mput (tag_Key tag) (tag_Value tag) m) [] obs;
               expectedTags = buildTags env t lifecycle additionalTags
           in bnd (lift (foldRes (repairStep actualTagMap) [] expectedTags)) (\<lambda>addTags.
                if addTags = [] then ok ()
                else attempt (createTags env libs t client resourceID lifecycle addTags) ok
                       (\<lambda>e. raise (Errorf ''error adding missing tags to resource %q: %q'' [e])))))"

text \<open>Filters of the EC2 API: a name and values.\<close>

type_synonym ec2Filter = "string \<times> string list"

definition newEc2Filter :: "string \<Rightarrow> string list \<Rightarrow> ec2Filter" where
  "newEc2Filter name values = (name, values)"

definition addFilters :: "resourceTagging \<Rightarrow> ec2Filter list \<Rightarrow> ec2Filter list" where
  "addFilters t filters =
     (if ClusterID t = [] then filters else filters @ [newEc2Filter ''tag-key'' [clusterTagKey t]])"

definition addLegacyFilters :: "(string \<rightharpoonup> string) \<Rightarrow> resourceTagging \<Rightarrow> ec2Filter list \<Rightarrow> ec2Filter list" where
  "addLegacyFilters env t filters =
     (if ClusterID t = [] then filters
      else filters @ [newEc2Filter (''tag:'' @ tagNameKubernetesCluster env) [ClusterID t]])"

section \<open>Finding the cluster id\<close>

text \<open>The ids a tag list carries under the new and under the legacy key, in order.\<close>

definition newIDs :: "ResourceTag list \<Rightarrow> string list" where
  "newIDs ts = map (\<lambda>t. TrimPrefix (tag_Key t) TagNameKubernetesClusterPrefix)
     (filter (\<lambda>t. HasPrefix (tag_Key t) TagNameKubernetesClusterPrefix) ts)"

definition legacyIDs :: "(string \<rightharpoonup> string) \<Rightarrow> ResourceTag list \<Rightarrow> string list" where
  "legacyIDs env ts = map tag_Value (filter (\<lambda>t. tag_Key t = tagNameKubernetesCluster env) ts)"

text \<open>A list of ids is unambiguous when only its last entry can be non-empty.\<close>

definition soleID :: "string list \<Rightarrow> string option" where
  "soleID ids = (if \<forall>i\<in>set (butlast ids). i = [] then Some (if ids = [] then [] else last ids) else None)"

fun runID :: "string \<Rightarrow> string list \<Rightarrow> string option" where
  "runID n [] = Some n"
| "runID n (x # xs) = (if n \<noteq> [] then None else runID x xs)"

lemma runID_soleID: "runID n xs = soleID (n # xs)"
  by (induction n xs rule: runID.induct) (auto simp: soleID_def)

lemma soleID_Nil_Cons: "soleID ([] # xs) = soleID xs"
  by (auto simp: soleID_def)

lemma findClusterIDsStep_Ok:
  "findClusterIDsStep env (l, n) t = Ok p \<longleftrightarrow>
     (HasPrefix (tag_Key t) TagNameKubernetesClusterPrefix \<longrightarrow> n = []) \<and>
     (tag_Key t = tagNameKubernetesCluster env \<longrightarrow> l = []) \<and>
     p = ((if tag_Key t = tagNameKubernetesCluster env then tag_Value t else l),
          (if HasPrefix (tag_Key t) TagNameKubernetesClusterPrefix
           then TrimPrefix (tag_Key t) TagNameKubernetesClusterPrefix else n))"
  by (auto simp: findClusterIDsStep_def Let_def)

lemma foldRes_findClusterIDs:
  "foldRes (findClusterIDsStep env) (l0, n0) ts = Ok (l, n) \<longleftrightarrow>
     runID l0 (legacyIDs env ts) = Some l \<and> runID n0 (newIDs ts) = Some n"
proof (induction ts arbitrary: l0 n0)
  case Nil
  then show ?case by (auto simp: legacyIDs_def newIDs_def)
next
  case (Cons t ts)
  have leg: "legacyIDs env (t # ts) =
      (if tag_Key t = tagNameKubernetesCluster env then [tag_Value t] else []) @ legacyIDs env ts"
    and new: "newIDs (t # ts) =
      (if HasPrefix (tag_Key t) TagNameKubernetesClusterPrefix
       then [TrimPrefix (tag_Key t) TagNameKubernetesClusterPrefix] else []) @ newIDs ts"
    by (simp_all add: legacyIDs_def newIDs_def)
  show ?case unfolding leg new by (auto simp: findClusterIDsStep_Ok Cons.IH split: if_splits)
qed

text \<open>The loop returns an error value or goes on; it never panics.\<close>

lemma foldRes_findClusterIDs_no_panic: "foldRes (findClusterIDsStep env) ids ts \<noteq> Panic p"
proof (induction ts arbitrary: ids)
  case (Cons t ts)
  have "findClusterIDsStep env ids t \<noteq> Panic p" by (auto simp: findClusterIDsStep_def Let_def split: prod.split)
  then show ?case using Cons by (cases "findClusterIDsStep env ids t") auto
qed simp

text \<open>
  C29. \<open>findClusterIDs\<close>, exactly: it succeeds if, among the tags with the cluster prefix and among the tags with the
  legacy name, every one but the last carries an empty id, and it returns the ids of the last such tags (empty when
  there is none); in every other case it returns an error.  So a duplicate is an error only when an earlier
  one carries a non-empty id: duplicates with empty earlier ids are accepted and the last one
  wins, although the comment of the function says that duplicate tags are an error.
\<close>

theorem findClusterIDs_Ok_iff:
  "(findClusterIDs env (Some tags) = Ok (legacy, new) \<longleftrightarrow>
     soleID (legacyIDs env tags) = Some legacy \<and> soleID (newIDs tags) = Some new) \<and>
   ((\<exists>e. findClusterIDs env (Some tags) = Err e) \<longleftrightarrow>
     soleID (legacyIDs env tags) = None \<or> soleID (newIDs tags) = None)"
proof -
  have success: "findClusterIDs env (Some tags) = Ok (l, n) \<longleftrightarrow>
      soleID (legacyIDs env tags) = Some l \<and> soleID (newIDs tags) = Some n" for l n
    by (simp add: findClusterIDs_def foldRes_findClusterIDs runID_soleID soleID_Nil_Cons)
  have "findClusterIDs env (Some tags) \<noteq> Panic m" for m
    by (simp add: findClusterIDs_def foldRes_findClusterIDs_no_panic)
  then have "(\<exists>e. findClusterIDs env (Some tags) = Err e) \<longleftrightarrow> (\<nexists>l n. findClusterIDs env (Some tags) = Ok (l, n))"
    by (cases "findClusterIDs env (Some tags)") auto
  then show ?thesis unfolding success by auto
qed

text \<open>The duplicate the comment excludes, accepted: an empty cluster id first.\<close>

lemma findClusterIDs_accepts_duplicate:
  "findClusterIDs Map.empty (Some [\<lparr>tag_Key = ''OscK8sClusterID/'', tag_Value = ''owned''\<rparr>,
     \<lparr>tag_Key = ''OscK8sClusterID/c1'', tag_Value = ''owned''\<rparr>]) = Ok ([], ''c1'')"
  by code_simp

section \<open>Building and recognising tags\<close>

lemma map_of_buildTags:
  assumes "mwf additionalTags"
  shows "map_of (buildTags env t lifecycle additionalTags) k =
    (if ClusterID t \<noteq> [] \<and> k = clusterTagKey t then Some lifecycle
     else if ClusterID t \<noteq> [] \<and> usesLegacyTags t \<and> k = tagNameKubernetesCluster env then Some (ClusterID t)
     else map_of additionalTags k)"
  using assms unfolding mwf_def
  by (auto simp: buildTags_def Let_def map_of_mput gm.get_puts_distinct split: option.splits)

lemma mwf_buildTags: "mwf (buildTags env t lifecycle additionalTags)"
  by (auto simp: buildTags_def Let_def intro!: mwf_mput gm.wf_puts)

lemma keys_tagList: "tag_Key ` set (tagList m) = fst ` set m"
  by (force simp: tagList_def)

lemma hasClusterTag_tagList:
  "ClusterID t \<noteq> [] \<Longrightarrow> hasClusterTag t (Some (tagList m)) = Ok (map_of m (clusterTagKey t) \<noteq> None)"
  by (force simp: hasClusterTag_def list_ex_iff tagList_def map_of_eq_None_iff)

lemma clusterTagKey_eq_iff [simp]: "clusterTagKey t = clusterTagKey t' \<longleftrightarrow> ClusterID t = ClusterID t'"
  by (simp add: clusterTagKey_def)

text \<open>
  C28. Clusters are isolated: a resource tagged by \<open>buildTags\<close> of one tagging is recognised by
  \<open>hasClusterTag\<close> of another exactly when both have the same cluster id (the user's additional
  tags and the legacy tag name do not themselves forge the other cluster's tag key).
\<close>

theorem buildTags_hasClusterTag:
  assumes "mwf additionalTags" "ClusterID t \<noteq> []" "ClusterID t' \<noteq> []"
    and "clusterTagKey t' \<notin> fst ` set additionalTags"
    and "tagNameKubernetesCluster env \<noteq> clusterTagKey t'"
  shows "hasClusterTag t' (Some (tagList (buildTags env t lifecycle additionalTags))) =
     Ok (ClusterID t' = ClusterID t)"
  using assms by (simp add: hasClusterTag_tagList map_of_buildTags map_of_eq_None_iff)

theorem buildTags_hasClusterTag_witness:
  "hasClusterTag \<lparr>ClusterID = ''b'', usesLegacyTags = False\<rparr>
     (Some (tagList (buildTags Map.empty \<lparr>ClusterID = ''a'', usesLegacyTags = True\<rparr> ''owned'' [(''k'', ''v'')])))
   = Ok False"
  using buildTags_hasClusterTag [of "[(''k'', ''v'')]" "\<lparr>ClusterID = ''a'', usesLegacyTags = True\<rparr>"
      "\<lparr>ClusterID = ''b'', usesLegacyTags = False\<rparr>" Map.empty "''owned''"]
  by (simp add: mwf_def clusterTagKey_def tagNameKubernetesCluster_def const_defs)

lemma map_of_filter_keys: "(k, v) \<in> set (filter (\<lambda>p. P (fst p)) m) \<longleftrightarrow> (k, v) \<in> set m \<and> P k"
  by auto

lemma singleton_if_distinct:
  assumes "distinct xs" "x \<in> set xs" "\<And>y. y \<in> set xs \<Longrightarrow> y = x"
  shows "xs = [x]"
proof (cases xs)
  case (Cons a ys)
  have "a = x" by (rule assms(3)) (simp add: Cons)
  moreover have "ys = []"
  proof (rule ccontr)
    assume "ys \<noteq> []"
    then have "hd ys \<in> set ys" by simp
    moreover have "hd ys = x" by (rule assms(3)) (use \<open>hd ys \<in> set ys\<close> Cons in simp)
    ultimately show False using assms(1) Cons \<open>a = x\<close> by simp
  qed
  ultimately show ?thesis using Cons by simp
qed (use assms(2) in simp)

lemma filter_key_wf:
  assumes "mwf m" "map_of m k = Some v" "\<And>j. j \<in> fst ` set m \<Longrightarrow> P j \<longleftrightarrow> j = k"
  shows "filter (\<lambda>p. P (fst p)) m = [(k, v)]"
proof (rule singleton_if_distinct)
  show "distinct (filter (\<lambda>p. P (fst p)) m)" using assms(1) by (simp add: mwf_def distinct_map)
  show "(k, v) \<in> set (filter (\<lambda>p. P (fst p)) m)"
    using assms(2) assms(3) [of k] map_of_SomeD [of m k v] by (simp add: image_iff) (metis fst_conv)
  fix p assume "p \<in> set (filter (\<lambda>p. P (fst p)) m)"
  then have "p \<in> set m" "fst p = k" using assms(3) by auto
  then show "p = (k, v)" using assms(1,2) by (metis map_of_iff_wf option.inject prod.collapse)
qed

lemma newIDs_tagList:
  "newIDs (tagList m) = map (\<lambda>p. TrimPrefix (fst p) TagNameKubernetesClusterPrefix)
     (filter (\<lambda>p. HasPrefix (fst p) TagNameKubernetesClusterPrefix) m)"
  by (induction m) (auto simp: newIDs_def tagList_def)

lemma legacyIDs_tagList:
  "legacyIDs env (tagList m) = map snd (filter (\<lambda>p. fst p = tagNameKubernetesCluster env) m)"
  by (induction m) (auto simp: legacyIDs_def tagList_def)

lemma keys_buildTags:
  "fst ` set (buildTags env t lifecycle add) \<subseteq>
     fst ` set add \<union> {clusterTagKey t, tagNameKubernetesCluster env}"
proof -
  have "fst ` set (foldl (\<lambda>m (k, v). mput k v m) m add) \<subseteq> fst ` set m \<union> fst ` set add" for m
  proof (induction add arbitrary: m)
    case (Cons p add)
    from Cons.IH [of "mput (fst p) (snd p) m"] show ?case
      by (auto simp: keys_mput case_prod_unfold)
  qed simp
  from this [of "[]"] show ?thesis by (auto simp: buildTags_def Let_def keys_mput)
qed

text \<open>The tags carry no cluster key besides the one \<open>buildTags\<close> adds.\<close>

definition clean_tags :: "(string \<rightharpoonup> string) \<Rightarrow> (string, string) gomap \<Rightarrow> bool" where
  "clean_tags env add \<longleftrightarrow> mwf add \<and>
     (\<forall>k\<in>fst ` set add. \<not> HasPrefix k TagNameKubernetesClusterPrefix \<and> k \<noteq> tagNameKubernetesCluster env)"

lemma newIDs_buildTags:
  assumes "clean_tags env add" "ClusterID t \<noteq> []"
    and "\<not> HasPrefix (tagNameKubernetesCluster env) TagNameKubernetesClusterPrefix"
  shows "newIDs (tagList (buildTags env t lifecycle add)) = [ClusterID t]"
proof -
  let ?m = "buildTags env t lifecycle add"
  have "filter (\<lambda>p. HasPrefix (fst p) TagNameKubernetesClusterPrefix) ?m = [(clusterTagKey t, lifecycle)]"
  proof (rule filter_key_wf)
    show "map_of ?m (clusterTagKey t) = Some lifecycle"
      using assms by (simp add: map_of_buildTags clean_tags_def)
    fix j assume "j \<in> fst ` set ?m"
    with keys_buildTags [of env t lifecycle add]
    have "j \<in> fst ` set add \<or> j = clusterTagKey t \<or> j = tagNameKubernetesCluster env" by blast
    then show "HasPrefix j TagNameKubernetesClusterPrefix \<longleftrightarrow> j = clusterTagKey t"
      using assms by (auto simp: clean_tags_def clusterTagKey_def)
  qed (rule mwf_buildTags)
  then show ?thesis by (simp add: newIDs_tagList clusterTagKey_def)
qed

lemma legacyIDs_buildTags:
  assumes "clean_tags env add" "ClusterID t \<noteq> []"
    and "\<not> HasPrefix (tagNameKubernetesCluster env) TagNameKubernetesClusterPrefix"
  shows "legacyIDs env (tagList (buildTags env t lifecycle add)) = (if usesLegacyTags t then [ClusterID t] else [])"
proof -
  let ?m = "buildTags env t lifecycle add" and ?k = "tagNameKubernetesCluster env"
  have ne: "?k \<noteq> clusterTagKey t" using assms(3) by (metis HasPrefix_append clusterTagKey_def)
  have notin: "?k \<notin> fst ` set add" using assms(1) by (auto simp: clean_tags_def)
  then have lk: "map_of ?m ?k = (if usesLegacyTags t then Some (ClusterID t) else None)"
    using assms ne by (auto simp: map_of_buildTags clean_tags_def map_of_eq_None_iff)
  show ?thesis
  proof (cases "usesLegacyTags t")
    case True
    then have "filter (\<lambda>p. fst p = ?k) ?m = [(?k, ClusterID t)]"
      using lk by (intro filter_key_wf) (simp_all add: mwf_buildTags)
    then show ?thesis using True by (simp add: legacyIDs_tagList)
  next
    case False
    then have "?k \<notin> fst ` set ?m" using lk by (simp add: map_of_eq_None_iff)
    then have "filter (\<lambda>p. fst p = ?k) ?m = []" by (force simp: filter_empty_conv)
    then show ?thesis using False by (simp add: legacyIDs_tagList)
  qed
qed

text \<open>
  C26. Round trip: a controller that starts on an instance whose tags were written by \<open>buildTags\<close>
  recovers from them, with \<open>initFromTags\<close>, exactly the tagging that wrote them: the cluster id and
  whether the legacy tag is in use.
\<close>

theorem initFromTags_buildTags:
  assumes "clean_tags env additionalTags" "ClusterID t \<noteq> []"
    and "\<not> HasPrefix (tagNameKubernetesCluster env) TagNameKubernetesClusterPrefix"
  shows "initFromTags env (Some (tagList (buildTags env t lifecycle additionalTags)))
           \<lparr>ClusterID = [], usesLegacyTags = False\<rparr> = (Ok (), t)"
proof -
  have "findClusterIDs env (Some (tagList (buildTags env t lifecycle additionalTags))) =
      Ok ((if usesLegacyTags t then ClusterID t else []), ClusterID t)"
    using assms newIDs_buildTags legacyIDs_buildTags
    by (simp add: findClusterIDs_def foldRes_findClusterIDs runID_soleID soleID_Nil_Cons soleID_def)
  then show ?thesis using assms(2)
    by (cases t) (simp add: initFromTags_def tagging_init_def Let_def)
qed

theorem initFromTags_buildTags_witness:
  "initFromTags Map.empty
     (Some (tagList (buildTags Map.empty \<lparr>ClusterID = ''prod'', usesLegacyTags = True\<rparr> ''owned'' [(''app'', ''web'')])))
     \<lparr>ClusterID = [], usesLegacyTags = False\<rparr> = (Ok (), \<lparr>ClusterID = ''prod'', usesLegacyTags = True\<rparr>)"
  by (rule initFromTags_buildTags)
     (simp_all add: clean_tags_def mwf_def HasPrefix_def tagNameKubernetesCluster_def const_defs)

text \<open>
  \<open>init\<close> accepts a legacy and a new cluster id exactly when at least one is given and they do not
  contradict each other; then the cluster id is the given one and legacy tags are in use from then
  on exactly when a legacy id was given (or they were already).
\<close>

theorem tagging_init_Ok_iff:
  "tagging_init legacy new t = (Ok (), t') \<longleftrightarrow>
     \<not> (legacy = [] \<and> new = []) \<and> (legacy = [] \<or> new = [] \<or> legacy = new) \<and>
     t' = t\<lparr>ClusterID := (if legacy \<noteq> [] then legacy else new),
            usesLegacyTags := (if legacy = [] then usesLegacyTags t else True)\<rparr>"
  by (cases t) (auto simp: tagging_init_def Let_def)

section \<open>Writing tags\<close>

text \<open>What apimachinery documents of \<open>ExponentialBackoff\<close>: the condition is tried up to \<open>Steps\<close> times,
  until it reports success or an error; when the steps are exhausted the result is \<open>ErrWaitTimeout\<close>.\<close>

fun backoff_ref :: "nat \<Rightarrow> ('s, bool) io \<Rightarrow> ('s, unit) io" where
  "backoff_ref 0 cond s = (Err ErrWaitTimeout, s)"
| "backoff_ref (Suc n) cond s = (case cond s of
       (Ok True, s') \<Rightarrow> (Ok (), s')
     | (Ok False, s') \<Rightarrow> backoff_ref n cond s'
     | (Err e, s') \<Rightarrow> (Err e, s')
     | (Panic p, s') \<Rightarrow> (Panic p, s'))"

text \<open>The retry loop \<open>createTags\<close> promises: try again on every error, at most \<open>n\<close> times, and report the
  error of the last try.\<close>

fun tryTags :: "nat \<Rightarrow> 'w Compute \<Rightarrow> CreateTagsRequest \<Rightarrow> ('w, unit) io" where
  "tryTags 0 client request w = (Ok (), w)"
| "tryTags (Suc n) client request w = (case CreateTags client request w of
       (Ok _, w') \<Rightarrow> (Ok (), w')
     | (Err e, w') \<Rightarrow> (if n = 0 then (Err e, w') else tryTags n client request w')
     | (Panic p, w') \<Rightarrow> (Panic p, w'))"

definition tagsOutcome :: "unit res \<times> 'w \<times> go_error option \<Rightarrow> unit res \<times> 'w" where
  "tagsOutcome out = (case out of
       (Ok _, s) \<Rightarrow> (Ok (), fst s)
     | (Err e, s) \<Rightarrow>
         (if e = ErrWaitTimeout
          then (case snd s of None \<Rightarrow> (Ok (), fst s) | Some lastErr \<Rightarrow> (Err lastErr, fst s))
          else (Err e, fst s))
     | (Panic p, s) \<Rightarrow> (Panic p, fst s))"

lemma tagsOutcome_backoff:
  "tagsOutcome (backoff_ref (Suc n) (createTagsCond client request) (w, lst)) = tryTags (Suc n) client request w"
proof (induction n arbitrary: w lst)
  case 0
  then show ?case
    by (auto simp: tagsOutcome_def createTagsCond_def split: res.splits prod.splits)
next
  case (Suc n)
  obtain r w' where cl: "CreateTags client request w = (r, w')" by (cases "CreateTags client request w")
  then show ?case
  proof (cases r)
    case (Err e)
    then have "createTagsCond client request (w, lst) = (Ok False, (w', Some e))"
      using cl by (simp add: createTagsCond_def)
    then show ?thesis using Suc.IH [of w' "Some e"] cl Err by simp
  qed (use cl in \<open>simp_all add: createTagsCond_def tagsOutcome_def\<close>)
qed

lemma createTags_unfold:
  "createTags env libs t client rid lifecycle add w =
     (let tags = buildTags env t lifecycle add in
      if tags = [] then (Ok (), w)
      else tagsOutcome (ExponentialBackoff libs createTagSteps
             (createTagsCond client \<lparr>ctr_ResourceIds = [rid], ctr_Tags = tagList tags\<rparr>) (w, None)))"
  by (simp add: createTags_def tagsOutcome_def Let_def split: prod.split)

lemma keeps_createTags:
  assumes "ExponentialBackoff libs = backoff_ref"
    and "\<And>ts. keeps P (CreateTags client \<lparr>ctr_ResourceIds = [rid], ctr_Tags = ts\<rparr>)"
  shows "keeps P (createTags env libs t client rid lifecycle add)"
proof -
  have bo: "P (fst s) \<Longrightarrow>
      P (fst (snd (backoff_ref n (createTagsCond client \<lparr>ctr_ResourceIds = [rid], ctr_Tags = ts\<rparr>) s)))" for n ts s
  proof (induction n arbitrary: s)
    case (Suc n)
    then show ?case
      using keepsD[OF assms(2)[of ts], of "fst s"]
      by (auto simp: createTagsCond_def split: res.splits prod.splits bool.splits)
  qed simp
  show ?thesis
  proof (rule keepsI)
    fix w assume "P w"
    then show "P (snd (createTags env libs t client rid lifecycle add w))"
      using bo[of "(w, None)"]
      by (auto simp: createTags_unfold assms(1) tagsOutcome_def Let_def split: res.splits prod.splits option.splits)
        (metis fst_conv snd_conv)+
  qed
qed

lemma keeps_readRepair:
  assumes "ExponentialBackoff libs = backoff_ref"
    and "\<And>ts. keeps P (CreateTags client \<lparr>ctr_ResourceIds = [rid], ctr_Tags = ts\<rparr>)"
  shows "keeps P (readRepairClusterTags env libs t client rid lifecycle add obs)"
  unfolding readRepairClusterTags_def Let_def
  by (intro keeps_rules keeps_createTags assms)

text \<open>
  With the documented backoff, \<open>createTags\<close> sends the built tags up to nine times, once after
  each failure, stops at the first success, and after nine failures returns the error of the last
  \<open>CreateTags\<close> call instead of the timeout.
\<close>

theorem createTags_retries:
  assumes "ExponentialBackoff libs = backoff_ref"
  shows "createTags env libs t client rid lifecycle add w =
    (let tags = buildTags env t lifecycle add in
     if tags = [] then (Ok (), w)
     else tryTags 9 client \<lparr>ctr_ResourceIds = [rid], ctr_Tags = tagList tags\<rparr> w)"
proof -
  have "tagsOutcome (backoff_ref createTagSteps (createTagsCond client r) (w, None)) = tryTags 9 client r w" for r
    using tagsOutcome_backoff [of 8 client r w None]
    by (simp add: createTagSteps_def del: backoff_ref.simps tryTags.simps)
  then show ?thesis by (simp add: createTags_unfold assms Let_def)
qed

text \<open>A client that fails while its counter is positive, and libraries with the documented backoff.\<close>

definition flakyClient :: "nat Compute" where
  "flakyClient = \<lparr>ReadVms = (\<lambda>_. ok []), ReadSecurityGroups = (\<lambda>_. ok []), CreateSecurityGroup = (\<lambda>_. ok None),
     DeleteSecurityGroup = (\<lambda>_. ok ()), CreateSecurityGroupRule = (\<lambda>_. ok ()), DeleteSecurityGroupRule = (\<lambda>_. ok ()),
     DescribeSubnets = (\<lambda>_. ok []),
     CreateTags = (\<lambda>_ n. if n = 0 then (Ok (), 0) else (Err (ApiErr None ''NotFound''), n - 1)),
     ReadRouteTables = (\<lambda>_. ok []), api_CreateRoute = (\<lambda>_. ok ()), api_DeleteRoute = (\<lambda>_. ok ()), UpdateVM = (\<lambda>_. ok ())\<rparr>"

definition plainLibs :: "'w Libs" where
  "plainLibs = \<lparr>GetLoadBalancerSourceRanges = (\<lambda>_. Ok [''0.0.0.0/0'']), GetServiceHealthCheckPathPort = (\<lambda>_. ([], 0)),
     HealthCheckValidate = (\<lambda>_. None), ExponentialBackoff = backoff_ref, jsonRule = (\<lambda>_. [])\<rparr>"

theorem createTags_retries_witness:
  "createTags Map.empty plainLibs \<lparr>ClusterID = ''a'', usesLegacyTags = False\<rparr> flakyClient ''sg-1'' ''owned'' [] 20 =
     (Err (ApiErr None ''NotFound''), 11) \<and>
   createTags Map.empty plainLibs \<lparr>ClusterID = ''a'', usesLegacyTags = False\<rparr> flakyClient ''sg-1'' ''owned'' [] 3 =
     (Ok (), 0)"
proof -
  have "ExponentialBackoff (plainLibs :: nat Libs) = backoff_ref" by (simp add: plainLibs_def)
  from createTags_retries [OF this] show ?thesis
    by (simp add: flakyClient_def buildTags_def Let_def eval_nat_numeral)
qed

lemma observed_map: "foldl (\<lambda>m tag. mput (tag_Key tag) (tag_Value tag) m) m0 obs =
    foldl (\<lambda>m (k, v). mput k v m) m0 (map (\<lambda>t. (tag_Key t, tag_Value t)) obs)"
  by (induction obs arbitrary: m0) auto

lemma mput_fresh: "k \<notin> fst ` set m \<Longrightarrow> mput k v m = m @ [(k, v)]"
  by (induction k v m rule: mput.induct) auto

lemma foldRes_repairStep:
  assumes "distinct (map fst exp)" "fst ` set add \<inter> fst ` set exp = {}"
  shows "foldRes (repairStep actual) add exp =
    (if list_ex (\<lambda>(k, v). mstr (map_of actual) k \<notin> {[], v}) exp
     then Err (Errorf ''resource %q has tag belonging to another cluster: %q=%q (expected %q)'' [])
     else Ok (add @ filter (\<lambda>(k, v). mstr (map_of actual) k \<noteq> v) exp))"
  using assms
proof (induction exp arbitrary: add)
  case (Cons p exp)
  obtain k v where p: "p = (k, v)" by (cases p)
  have step: "repairStep actual add (k, v) =
      (if mstr (map_of actual) k \<notin> {[], v} then Err (Errorf ''resource %q has tag belonging to another cluster: %q=%q (expected %q)'' [])
       else Ok (if mstr (map_of actual) k = v then add else add @ [(k, v)]))"
    using Cons.prems(2) by (auto simp: repairStep_def Let_def p mput_fresh)
  have "foldRes (repairStep actual) (if mstr (map_of actual) k = v then add else add @ [(k, v)]) exp =
    (if list_ex (\<lambda>(k, v). mstr (map_of actual) k \<notin> {[], v}) exp
     then Err (Errorf ''resource %q has tag belonging to another cluster: %q=%q (expected %q)'' [])
     else Ok ((if mstr (map_of actual) k = v then add else add @ [(k, v)]) @ filter (\<lambda>(k, v). mstr (map_of actual) k \<noteq> v) exp))"
    using Cons.prems by (intro Cons.IH) (auto simp: p)
  then show ?case by (auto simp: p step)
qed simp

lemma foldRes_repair_noop:
  assumes "\<And>k expected. (k, expected) \<in> set exp \<Longrightarrow> mstr (map_of actual) k = expected"
  shows "foldRes (repairStep actual) add exp = Ok add"
  using assms by (induction exp) (auto simp: repairStep_def)

lemma repair_missing:
  assumes "ClusterID t \<noteq> []" "\<not> usesLegacyTags t" "clusterTagKey t \<notin> tag_Key ` set obs"
  shows "readRepairClusterTags env libs t client rid lifecycle [] (Some obs) =
    (if lifecycle = [] then ok () else
     attempt (createTags env libs t client rid lifecycle [(clusterTagKey t, lifecycle)]) ok
       (\<lambda>e. raise (Errorf ''error adding missing tags to resource %q: %q'' [e])))"
proof -
  have "mstr (map_of (foldl (\<lambda>m tag. mput (tag_Key tag) (tag_Value tag) m) [] obs)) (clusterTagKey t) = []"
    using assms(3) unfolding observed_map gm.get_puts by (auto simp: mstr_def split: option.splits dest!: map_of_SomeD)
  then show ?thesis
    using assms(1,2) by (auto simp: readRepairClusterTags_def buildTags_def Let_def repairStep_def)
qed

text \<open>The value of a tag of the resource, empty when there is none: the last tag of the name counts.  Against it an expected tag
  is a conflict, missing, or there.\<close>

definition observed :: "ResourceTag list \<Rightarrow> string \<Rightarrow> string" where
  "observed obs k = mstr (map_of (rev (map (\<lambda>g. (tag_Key g, tag_Value g)) obs))) k"

definition conflicting :: "ResourceTag list \<Rightarrow> (string, string) gomap \<Rightarrow> bool" where
  "conflicting obs expected = list_ex (\<lambda>(k, v). observed obs k \<noteq> [] \<and> observed obs k \<noteq> v) expected"

definition missingTags :: "ResourceTag list \<Rightarrow> (string, string) gomap \<Rightarrow> (string, string) gomap" where
  "missingTags obs expected = filter (\<lambda>(k, v). observed obs k \<noteq> v) expected"

lemma actualTagMap_observed:
  "mstr (map_of (foldl (\<lambda>m tag. mput (tag_Key tag) (tag_Value tag) m) [] obs)) k = observed obs k"
  unfolding observed_map gm.get_puts by (simp add: observed_def mstr_def split: option.split)

text \<open>Building tags once more, from some of the tags that were built, gives tags that were built.\<close>

lemma buildTags_subset:
  assumes "mwf add" "set some \<subseteq> set (buildTags env t lifecycle add)" "mwf some"
  shows "set some \<subseteq> set (buildTags env t lifecycle some)"
    "set (buildTags env t lifecycle some) \<subseteq> set (buildTags env t lifecycle add)"
proof -
  have look: "(k, v) \<in> set (buildTags env t lifecycle m) \<longleftrightarrow> map_of (buildTags env t lifecycle m) k = Some v" for m k v
    by (simp add: map_of_iff_wf mwf_buildTags)
  have sub: "map_of some k = Some v \<Longrightarrow> map_of (buildTags env t lifecycle add) k = Some v" for k v
    using assms(2) look map_of_SomeD[of some k v] by blast
  show "set some \<subseteq> set (buildTags env t lifecycle some)"
  proof (rule subrelI)
    fix k v assume "(k, v) \<in> set some"
    then have kv: "map_of some k = Some v" using assms(3) by (simp add: map_of_iff_wf)
    show "(k, v) \<in> set (buildTags env t lifecycle some)"
      using sub[OF kv] kv unfolding look map_of_buildTags[OF assms(1)] map_of_buildTags[OF assms(3)] by (auto split: if_splits)
  qed
  show "set (buildTags env t lifecycle some) \<subseteq> set (buildTags env t lifecycle add)"
  proof (rule subrelI)
    fix k v assume "(k, v) \<in> set (buildTags env t lifecycle some)"
    then show "(k, v) \<in> set (buildTags env t lifecycle add)"
      using sub[of k v] unfolding look map_of_buildTags[OF assms(1)] map_of_buildTags[OF assms(3)] by (auto split: if_splits)
  qed
qed

text \<open>What a repair sends: every expected tag that is missing, and no tag that would change a value the resource carries.\<close>

lemma repair_sends:
  fixes env t lifecycle obs
  assumes "mwf additionalTags"
  defines "expected \<equiv> buildTags env t lifecycle additionalTags"
  defines "sent \<equiv> buildTags env t lifecycle (missingTags obs expected)"
  shows "list_all (\<lambda>(k, v). observed obs k = v \<or> (k, v) \<in> set sent) expected"
    "conflicting obs expected \<or> list_all (\<lambda>(k, v). observed obs k = [] \<or> observed obs k = v) sent"
proof -
  have "mwf (missingTags obs expected)"
    using mwf_buildTags[of env t lifecycle additionalTags] by (simp add: missingTags_def expected_def mwf_def distinct_map_filter)
  then have "set (missingTags obs expected) \<subseteq> set sent" "set sent \<subseteq> set expected"
    using buildTags_subset[OF assms(1), of "missingTags obs expected" env t lifecycle]
    by (simp_all add: expected_def sent_def missingTags_def)
  then show "list_all (\<lambda>(k, v). observed obs k = v \<or> (k, v) \<in> set sent) expected"
    "conflicting obs expected \<or> list_all (\<lambda>(k, v). observed obs k = [] \<or> observed obs k = v) sent"
    by (auto simp: missingTags_def conflicting_def list_all_iff list_ex_iff)
qed

text \<open>
  C27. \<open>readRepairClusterTags\<close>, exactly.  An expected tag that the resource carries with another non-empty value is an error, and
  no call is made.  When nothing is missing no call is made either.  Otherwise one set of tags is sent, up to nine times: it holds every
  expected tag that is missing, and no tag of it changes a non-empty value that the resource carries, so what
  other clusters have written stays.  (Only the own cluster's tags are looked at: the tag of another cluster has another
  key, so it neither stops the repair nor is it touched.)
\<close>

theorem readRepair_exact:
  assumes "ExponentialBackoff libs = backoff_ref" "mwf additionalTags"
  shows "\<exists>expected sent. expected = buildTags env t lifecycle additionalTags \<and>
    readRepairClusterTags env libs t client rid lifecycle additionalTags (Some obs) w =
      (if conflicting obs expected
       then (Err (Errorf ''resource %q has tag belonging to another cluster: %q=%q (expected %q)'' []), w)
       else if missingTags obs expected = [] then (Ok (), w)
       else (case tryTags 9 client \<lparr>ctr_ResourceIds = [rid], ctr_Tags = tagList sent\<rparr> w of
           (Ok u, w') \<Rightarrow> (Ok u, w')
         | (Err e, w') \<Rightarrow> (Err (Errorf ''error adding missing tags to resource %q: %q'' [e]), w')
         | (Panic p, w') \<Rightarrow> (Panic p, w'))) \<and>
    list_all (\<lambda>(k, v). observed obs k = v \<or> (k, v) \<in> set sent) expected \<and>
    (conflicting obs expected \<or> list_all (\<lambda>(k, v). observed obs k = [] \<or> observed obs k = v) sent)"
proof -
  let ?expected = "buildTags env t lifecycle additionalTags"
  let ?sent = "buildTags env t lifecycle (missingTags obs ?expected)"
  let ?actual = "foldl (\<lambda>m tag. mput (tag_Key tag) (tag_Value tag) m) [] obs"
  have loop: "foldRes (repairStep ?actual) [] ?expected =
      (if conflicting obs ?expected
       then Err (Errorf ''resource %q has tag belonging to another cluster: %q=%q (expected %q)'' [])
       else Ok (missingTags obs ?expected))"
    using foldRes_repairStep[of ?expected "[]" ?actual] mwf_buildTags[of env t lifecycle additionalTags]
    by (simp add: mwf_def actualTagMap_observed conflicting_def missingTags_def)
  have "missingTags obs ?expected \<noteq> [] \<Longrightarrow> ?sent \<noteq> []"
    using repair_sends(1)[OF assms(2), where env = env and t = t and lifecycle = lifecycle and obs = obs] by (fastforce simp: missingTags_def list_all_iff filter_empty_conv)
  then have "readRepairClusterTags env libs t client rid lifecycle additionalTags (Some obs) w =
      (if conflicting obs ?expected
       then (Err (Errorf ''resource %q has tag belonging to another cluster: %q=%q (expected %q)'' []), w)
       else if missingTags obs ?expected = [] then (Ok (), w)
       else (case tryTags 9 client \<lparr>ctr_ResourceIds = [rid], ctr_Tags = tagList ?sent\<rparr> w of
           (Ok u, w') \<Rightarrow> (Ok u, w')
         | (Err e, w') \<Rightarrow> (Err (Errorf ''error adding missing tags to resource %q: %q'' [e]), w')
         | (Panic p, w') \<Rightarrow> (Panic p, w')))"
    by (simp add: readRepairClusterTags_def Let_def loop attempt_def createTags_retries[OF assms(1)] del: tryTags.simps
        split: res.splits prod.splits)
  then show ?thesis using repair_sends[OF assms(2), where env = env and t = t and lifecycle = lifecycle and obs = obs] by blast
qed

text \<open>The tags of a resource of another cluster, and of one with a conflicting tag.\<close>

definition foreignTags :: "ResourceTag list" where
  "foreignTags = [\<lparr>tag_Key = ''OscK8sClusterID/b'', tag_Value = ''owned''\<rparr>, \<lparr>tag_Key = ''app'', tag_Value = ''web''\<rparr>]"

theorem readRepair_exact_witness:
  "readRepairClusterTags Map.empty plainLibs \<lparr>ClusterID = ''a'', usesLegacyTags = False\<rparr> flakyClient ''sg-1'' ''owned''
     [(''app'', ''web'')] (Some foreignTags) 3 = (Ok (), 0) \<and>
   observed foreignTags ''OscK8sClusterID/b'' = ''owned'' \<and>
   (\<exists>e. readRepairClusterTags Map.empty plainLibs \<lparr>ClusterID = ''a'', usesLegacyTags = False\<rparr> flakyClient ''sg-1'' ''owned''
     [(''app'', ''shop'')] (Some foreignTags) 3 = (Err e, 3))"
proof -
  have lib: "ExponentialBackoff (plainLibs :: nat Libs) = backoff_ref" by (simp add: plainLibs_def)
  have "\<not> conflicting foreignTags (buildTags Map.empty \<lparr>ClusterID = ''a'', usesLegacyTags = False\<rparr> ''owned'' [(''app'', ''web'')])"
    "missingTags foreignTags (buildTags Map.empty \<lparr>ClusterID = ''a'', usesLegacyTags = False\<rparr> ''owned'' [(''app'', ''web'')]) \<noteq> []"
    "conflicting foreignTags (buildTags Map.empty \<lparr>ClusterID = ''a'', usesLegacyTags = False\<rparr> ''owned'' [(''app'', ''shop'')])"
    "observed foreignTags ''OscK8sClusterID/b'' = ''owned''"
    by code_simp+
  moreover have "tryTags 9 flakyClient q 3 = (Ok (), 0)" for q by (simp add: flakyClient_def eval_nat_numeral)
  ultimately show ?thesis
    using readRepair_exact[OF lib, of "[(''app'', ''web'')]" Map.empty "\<lparr>ClusterID = ''a'', usesLegacyTags = False\<rparr>" "''owned''"
        flakyClient "''sg-1''" foreignTags 3]
      readRepair_exact[OF lib, of "[(''app'', ''shop'')]" Map.empty "\<lparr>ClusterID = ''a'', usesLegacyTags = False\<rparr>" "''owned''"
        flakyClient "''sg-1''" foreignTags 3]
    by (auto simp: mwf_def simp del: tryTags.simps)
qed

text \<open>
  When every expected tag is already on the resource, \<open>readRepairClusterTags\<close> succeeds without an
  API call, so repeating it is harmless.
\<close>

theorem readRepair_complete_noop:
  assumes "mwf additionalTags"
    and "\<forall>k v. map_of (buildTags env t lifecycle additionalTags) k = Some v \<longrightarrow>
           map_of (rev (map (\<lambda>g. (tag_Key g, tag_Value g)) obs)) k = Some v"
  shows "readRepairClusterTags env libs t client rid lifecycle additionalTags (Some obs) w = (Ok (), w)"
proof -
  let ?actual = "foldl (\<lambda>m tag. mput (tag_Key tag) (tag_Value tag) m) [] obs"
  have "mstr (map_of ?actual) k = v" if "(k, v) \<in> set (buildTags env t lifecycle additionalTags)" for k v
  proof -
    from that have "map_of (buildTags env t lifecycle additionalTags) k = Some v"
      by (simp add: map_of_iff_wf mwf_buildTags)
    with assms(2) have "map_of (rev (map (\<lambda>g. (tag_Key g, tag_Value g)) obs)) k = Some v" by blast
    then have "map_of ?actual k = Some v" unfolding observed_map gm.get_puts by simp
    then show ?thesis by (simp add: mstr_def)
  qed
  then show ?thesis by (simp add: readRepairClusterTags_def Let_def foldRes_repair_noop)
qed

theorem readRepair_complete_noop_witness:
  "readRepairClusterTags Map.empty plainLibs \<lparr>ClusterID = ''a'', usesLegacyTags = False\<rparr> flakyClient ''sg-1'' ''owned'' []
     (Some [\<lparr>tag_Key = ''x'', tag_Value = ''y''\<rparr>, \<lparr>tag_Key = ''OscK8sClusterID/a'', tag_Value = ''owned''\<rparr>]) 7 = (Ok (), 7)"
  by (rule readRepair_complete_noop) (simp_all add: buildTags_def clusterTagKey_def const_defs)

end
