(* ===== verification/Cloud.thy ===== *)
theory Cloud
  imports Tags
begin

text \<open>
  The configuration of the provider (\<open>ccm_cloud_config.go\<close>), the description of the machine it runs
  on (\<open>oapi_vm.go\<close>) and the \<open>Cloud\<close> object (\<open>ccm_cloud.go\<close>) whose methods the other theories model.

  The fields of \<open>Cloud\<close> that never change after start-up are fields of the record \<open>Cloud\<close>.  The one
  field that does, the snapshot of the instance cache, belongs to the world: a method that uses the
  cache runs on worlds of type \<open>'x sys\<close>, which pair the snapshot with the rest of the world.
  The Kubernetes client, the event recorder and the client builder, which no method reads, are left
  out; the node informer is the function that looks a node up in its store.
\<close>

section \<open>Configuration\<close>

record GlobalConfig =
  cfg_Zone :: string
  cfg_VPC :: string
  cfg_SubnetID :: string
  RouteTableID :: string
  RoleARN :: string
  KubernetesClusterTag :: string
  KubernetesClusterID :: string
  DisableSecurityGroupIngress :: bool
  ElbSecurityGroup :: string
  DisableStrictZoneCheck :: bool

record ServiceOverride =
  so_Service :: string
  so_Region :: string
  so_URL :: string
  so_SigningRegion :: string
  so_SigningMethod :: string
  so_SigningName :: string

record CloudConfig =
  Global :: GlobalConfig
  cfg_ServiceOverride :: "(string, ServiceOverride) gomap"

text \<open>The body of the loop of \<open>validateOverrides\<close>: the entry is changed in place, so a failing check
  leaves the changes made before it.  \<open>seen\<close> is the local set of signatures.\<close>

definition validateOverride :: "string list \<Rightarrow> string \<times> ServiceOverride \<Rightarrow> (CloudConfig, string list) io" where
  "validateOverride seen = (\<lambda>(onum, ovrd) cfg.
     (let name = TrimSpace (so_Service ovrd);
          region = TrimSpace (so_Region ovrd);
          url = TrimSpace (so_URL ovrd);
          signingRegion = TrimSpace (so_SigningRegion ovrd);
          put = (\<lambda>o'. cfg\<lparr>cfg_ServiceOverride := mput onum o' (cfg_ServiceOverride cfg)\<rparr>);
          o1 = ovrd\<lparr>so_Service := name\<rparr>;
          o2 = o1\<lparr>so_Region := region\<rparr>;
          signature = name @ ''_'' @ region
      in
      if name = [] then raise (Errorf ''service name is missing [Service is ] in override %s'' []) cfg
      else if region = [] then raise (Errorf ''service region is missing [Region is ] in override %s'' []) (put o1)
      else if url = [] then raise (Errorf ''url is missing [URL is ] in override %s'' []) (put o2)
      else if signingRegion = [] then
        raise (Errorf ''signingRegion is missing [SigningRegion is ] in override %s'' []) (put o2)
      else if signature \<in> set seen then
        raise (Errorf ''duplicate entry found for service override [%s] (%s in %s)'' []) (put o2)
      else ok (signature # seen) (put o2)))"

definition validateOverrides :: "(CloudConfig, unit) io" where
  "validateOverrides cfg =
     (if length (cfg_ServiceOverride cfg) = 0 then ok () cfg
      else bnd (foldIO validateOverride [] (cfg_ServiceOverride cfg)) (\<lambda>_. ok ()) cfg)"

record ResolvedEndpoint =
  ep_URL :: string
  ep_SigningRegion :: string
  ep_SigningMethod :: string
  ep_SigningName :: string

text \<open>\<open>endpoints.DefaultResolver().EndpointFor\<close> is the parameter.\<close>

definition getResolver ::
  "(string \<Rightarrow> string \<Rightarrow> ResolvedEndpoint res) \<Rightarrow> CloudConfig \<Rightarrow> string \<Rightarrow> string \<Rightarrow> ResolvedEndpoint res" where
  "getResolver defaultResolver cfg service region =
     (if length (cfg_ServiceOverride cfg) = 0 then defaultResolver service region
      else (case find (\<lambda>(_, override). so_Service override = service \<and> so_Region override = region)
                   (cfg_ServiceOverride cfg) of
              Some (_, override) \<Rightarrow> Ok \<lparr>ep_URL = so_URL override, ep_SigningRegion = so_SigningRegion override,
                  ep_SigningMethod = so_SigningMethod override, ep_SigningName = so_SigningName override\<rparr>
            | None \<Rightarrow> defaultResolver service region))"

section \<open>The machine and the cloud object\<close>

record 'w VM =
  self_compute :: "'w Compute option"
  self_vmID :: string
  self_nodeName :: string
  self_availabilityZone :: string
  self_vpcID :: string
  self_subnetID :: string
  self_instanceType :: string

record allInstancesSnapshot =
  snap_timestamp :: int
  snap_instances :: "(string, Vm) gomap"

record 'x sys =
  sys_snap :: "allInstancesSnapshot option"
  sys_rest :: 'x

text \<open>The receiver of the v2 instance interface (\<open>instances_v2.go\<close>).  The SDK context is part of the
  client; \<open>tags\<close> points to the tagging of the cloud object, which does not change once it is shared.\<close>

record 'w instancesV2 =
  v2_availabilityZone :: string
  v2_client :: "'w APIClient"
  v2_region :: string
  v2_tags :: resourceTagging

record 'w Cloud =
  c_compute :: "'w Compute"
  c_loadBalancer :: "'w LoadBalancer"
  c_metadata :: "'w EC2Metadata"
  c_cfg :: CloudConfig
  c_region :: string
  c_vpcID :: string
  c_instances :: "'w instancesV2 option"
  c_tagging :: resourceTagging
  c_selfAWSInstance :: "'w VM option"
  c_nodeInformerHasSynced :: "('w, bool) io option"
  c_nodeLister :: "string \<Rightarrow> ('w, Node) io"
  c_environ :: "string \<rightharpoonup> string"
  c_clock :: "'w Clock"
  c_libs :: "'w Libs"

definition globalCfg :: "'w Cloud \<Rightarrow> GlobalConfig" where
  "globalCfg c = Global (c_cfg c)"

text \<open>A field of \<open>c.selfAWSInstance\<close>: a nil pointer panics.\<close>

definition selfInstance :: "'w Cloud \<Rightarrow> ('w, 'w VM) io" where
  "selfInstance c = (case c_selfAWSInstance c of Some i \<Rightarrow> ok i
     | None \<Rightarrow> panic ''invalid memory address or nil pointer dereference'')"

section \<open>Overrides: what validation guarantees\<close>

definition signatureOf :: "ServiceOverride \<Rightarrow> string" where
  "signatureOf ovr = so_Service ovr @ ''_'' @ so_Region ovr"

definition trimmed :: "ServiceOverride \<Rightarrow> ServiceOverride" where
  "trimmed ovr = ovr\<lparr>so_Service := TrimSpace (so_Service ovr), so_Region := TrimSpace (so_Region ovr)\<rparr>"

definition overrideComplete :: "ServiceOverride \<Rightarrow> bool" where
  "overrideComplete ovr \<longleftrightarrow> TrimSpace (so_Service ovr) \<noteq> [] \<and> TrimSpace (so_Region ovr) \<noteq> [] \<and>
     TrimSpace (so_URL ovr) \<noteq> [] \<and> TrimSpace (so_SigningRegion ovr) \<noteq> []"

lemma validateOverride_Ok:
  "validateOverride seen (onum, ovr) cfg = (Ok seen', cfg') \<longleftrightarrow>
     overrideComplete ovr \<and> signatureOf (trimmed ovr) \<notin> set seen \<and> seen' = signatureOf (trimmed ovr) # seen \<and>
     cfg' = cfg\<lparr>cfg_ServiceOverride := mput onum (trimmed ovr) (cfg_ServiceOverride cfg)\<rparr>"
  by (auto simp: validateOverride_def Let_def overrideComplete_def signatureOf_def trimmed_def)

lemma foldIO_validateOverride:
  "foldIO validateOverride seen ovs cfg = (Ok seen', cfg') \<longleftrightarrow>
     list_all (overrideComplete \<circ> snd) ovs \<and>
     (let sigs = map (signatureOf \<circ> trimmed \<circ> snd) ovs in
      distinct sigs \<and> set sigs \<inter> set seen = {} \<and> seen' = rev sigs @ seen) \<and>
     cfg' = cfg\<lparr>cfg_ServiceOverride :=
        foldl (\<lambda>m (k, v). mput k v m) (cfg_ServiceOverride cfg) (map (\<lambda>(k, v). (k, trimmed v)) ovs)\<rparr>"
proof (induction ovs arbitrary: seen cfg)
  case (Cons p ovs)
  obtain k v where p: "p = (k, v)" by (cases p)
  show ?case
    by (auto simp: p bnd_eq_Ok validateOverride_Ok Cons.IH Let_def)
qed auto

lemma puts_trimmed_same:
  "distinct (map fst m) \<Longrightarrow>
     foldl (\<lambda>m (k, v). mput k v m) m (map (\<lambda>(k, v). (k, f v)) m) = map (\<lambda>(k, v). (k, f v)) m"
proof -
  have mput_app: "k \<notin> fst ` set xs \<Longrightarrow> mput k v (xs @ (k, w) # ys) = xs @ (k, v) # ys" for k v w xs ys
    by (induction xs) (auto)
  have "distinct (map fst (xs @ ys)) \<Longrightarrow>
     foldl (\<lambda>m (k, v). mput k v m) (map (\<lambda>(k, v). (k, f v)) xs @ ys) (map (\<lambda>(k, v). (k, f v)) ys) =
     map (\<lambda>(k, v). (k, f v)) (xs @ ys)" for xs ys
  proof (induction ys arbitrary: xs)
    case (Cons y ys)
    obtain k v where y: "y = (k, v)" by (cases y)
    have "k \<notin> fst ` set (map (\<lambda>(k, v). (k, f v)) xs)" using Cons.prems y by force
    then show ?case using Cons.IH[of "xs @ [y]"] Cons.prems by (simp add: y mput_app)
  qed simp
  from this[of "[]" m] show "distinct (map fst m) \<Longrightarrow> ?thesis" by simp
qed

lemma validateOverrides_Ok:
  assumes "mwf (cfg_ServiceOverride c)"
  shows "validateOverrides c = (Ok (), c') \<longleftrightarrow>
     list_all (overrideComplete \<circ> snd) (cfg_ServiceOverride c) \<and>
     distinct (map (signatureOf \<circ> trimmed \<circ> snd) (cfg_ServiceOverride c)) \<and>
     c' = c\<lparr>cfg_ServiceOverride := map (\<lambda>(k, v). (k, trimmed v)) (cfg_ServiceOverride c)\<rparr>"
proof (cases "cfg_ServiceOverride c = []")
  case True
  then show ?thesis by (cases c) (auto simp: validateOverrides_def)
next
  case False
  then show ?thesis
    using assms puts_trimmed_same[of "cfg_ServiceOverride c" trimmed]
    by (simp add: validateOverrides_def bnd_eq_Ok foldIO_validateOverride Let_def mwf_def eq_commute[of c'])
qed

lemma find_unique_perm:
  assumes "mset xs = mset ys" "\<And>x y. x \<in> set xs \<Longrightarrow> y \<in> set xs \<Longrightarrow> P x \<Longrightarrow> P y \<Longrightarrow> x = y"
  shows "find P xs = find P ys"
proof -
  have set: "set xs = set ys" using assms(1) by (rule mset_eq_setD)
  show ?thesis
  proof (cases "find P xs")
    case None
    then show ?thesis using set by (metis find_None_iff)
  next
    case (Some x)
    then have x: "x \<in> set xs" "P x" by (auto simp: find_Some_iff)
    then obtain y where y: "find P ys = Some y" using set by (metis find_None_iff not_Some_eq)
    then have "y \<in> set ys" "P y" by (auto simp: find_Some_iff)
    then show ?thesis using assms(2)[OF x(1), of y] x set y Some by auto
  qed
qed

text \<open>
  Once \<open>validateOverrides\<close> has accepted a configuration, the endpoint \<open>getResolver\<close> gives for a
  service and region does not depend on the order in which Go iterates over the override map: at most
  one override matches.
\<close>

theorem getResolver_order_independent:
  assumes "validateOverrides c = (Ok (), c')" "mwf (cfg_ServiceOverride c)"
    and "mset ovs = mset (cfg_ServiceOverride c')"
  shows "getResolver dflt (c'\<lparr>cfg_ServiceOverride := ovs\<rparr>) service region = getResolver dflt c' service region"
proof -
  let ?m = "cfg_ServiceOverride c"
  have d: "distinct (map (signatureOf \<circ> trimmed \<circ> snd) ?m)"
    and c': "cfg_ServiceOverride c' = map (\<lambda>(k, v). (k, trimmed v)) ?m"
    using assms(1) validateOverrides_Ok[OF assms(2)] by auto
  have "map (signatureOf \<circ> snd) (cfg_ServiceOverride c') = map (signatureOf \<circ> trimmed \<circ> snd) ?m"
    by (simp add: c' case_prod_unfold comp_def)
  then have inj: "inj_on (signatureOf \<circ> snd) (set (cfg_ServiceOverride c'))"
    using d by (metis distinct_map)
  have "find (\<lambda>(_, o'). so_Service o' = service \<and> so_Region o' = region) ovs =
        find (\<lambda>(_, o'). so_Service o' = service \<and> so_Region o' = region) (cfg_ServiceOverride c')"
  proof (rule find_unique_perm[OF assms(3)])
    fix x y
    assume "x \<in> set ovs" "y \<in> set ovs"
      "case x of (_, o') \<Rightarrow> so_Service o' = service \<and> so_Region o' = region"
      "case y of (_, o') \<Rightarrow> so_Service o' = service \<and> so_Region o' = region"
    then show "x = y"
      using mset_eq_setD[OF assms(3)] by (intro inj_onD[OF inj]) (auto simp: signatureOf_def)
  qed
  moreover have "length ovs = length (cfg_ServiceOverride c')" using assms(3) by (metis size_mset)
  ultimately show ?thesis by (simp add: getResolver_def)
qed

definition exOverride :: "string \<Rightarrow> ServiceOverride" where
  "exOverride s = \<lparr>so_Service = s, so_Region = '' eu-west-2 '', so_URL = ''https://x'',
     so_SigningRegion = ''eu'', so_SigningMethod = [], so_SigningName = []\<rparr>"

definition exGlobal :: GlobalConfig where
  "exGlobal = \<lparr>cfg_Zone = ''eu-west-2a'', cfg_VPC = [], cfg_SubnetID = [], RouteTableID = [], RoleARN = [],
     KubernetesClusterTag = [], KubernetesClusterID = ''c1'', DisableSecurityGroupIngress = False,
     ElbSecurityGroup = [], DisableStrictZoneCheck = False\<rparr>"

definition exConfig :: CloudConfig where
  "exConfig = \<lparr>Global = exGlobal,
     cfg_ServiceOverride = [(''1'', exOverride ''lbu''), (''2'', exOverride ''fcu '')]\<rparr>"

theorem getResolver_order_independent_witness:
  "getResolver (\<lambda>_ _. Err NotImplemented)
       ((snd (validateOverrides exConfig))\<lparr>cfg_ServiceOverride :=
          rev (cfg_ServiceOverride (snd (validateOverrides exConfig)))\<rparr>) ''fcu'' ''eu-west-2'' =
     getResolver (\<lambda>_ _. Err NotImplemented) (snd (validateOverrides exConfig)) ''fcu'' ''eu-west-2''"
proof (rule getResolver_order_independent)
  have "fst (validateOverrides exConfig) = Ok ()" by code_simp
  then show "validateOverrides exConfig = (Ok (), snd (validateOverrides exConfig))"
    by (metis prod.collapse)
qed (simp_all add: exConfig_def mwf_def)


text \<open>A compute client that lists nothing and accepts every request.\<close>

definition quietClient :: "'w Compute" where
  "quietClient = \<lparr>ReadVms = (\<lambda>_. ok []), ReadSecurityGroups = (\<lambda>_. ok []), CreateSecurityGroup = (\<lambda>_. ok None),
     DeleteSecurityGroup = (\<lambda>_. ok ()), CreateSecurityGroupRule = (\<lambda>_. ok ()), DeleteSecurityGroupRule = (\<lambda>_. ok ()),
     DescribeSubnets = (\<lambda>_. ok []), CreateTags = (\<lambda>_. ok ()), ReadRouteTables = (\<lambda>_. ok []),
     api_CreateRoute = (\<lambda>_. ok ()), api_DeleteRoute = (\<lambda>_. ok ()), UpdateVM = (\<lambda>_. ok ())\<rparr>"

text \<open>A cloud object around a compute client, with nothing else configured.\<close>

definition noElb :: "'w LoadBalancer" where
  "noElb = \<lparr>CreateLoadBalancer = (\<lambda>_. raise NotImplemented), DeleteLoadBalancer = (\<lambda>_. raise NotImplemented),
     DescribeLoadBalancers = (\<lambda>_. raise NotImplemented), AddTags = (\<lambda>_ _. raise NotImplemented),
     RegisterInstancesWithLoadBalancer = (\<lambda>_ _. raise NotImplemented),
     DeregisterInstancesFromLoadBalancer = (\<lambda>_ _. raise NotImplemented),
     CreateLoadBalancerPolicy = (\<lambda>_. raise NotImplemented),
     SetLoadBalancerPoliciesForBackendServer = (\<lambda>_ _ _. raise NotImplemented),
     SetLoadBalancerPoliciesOfListener = (\<lambda>_ _ _. raise NotImplemented),
     DescribeLoadBalancerPolicies = (\<lambda>_ _. raise NotImplemented),
     DetachLoadBalancerFromSubnets = (\<lambda>_ _. raise NotImplemented),
     AttachLoadBalancerToSubnets = (\<lambda>_ _. raise NotImplemented),
     CreateLoadBalancerListeners = (\<lambda>_ _. raise NotImplemented),
     DeleteLoadBalancerListeners = (\<lambda>_ _. raise NotImplemented),
     ApplySecurityGroupsToLoadBalancer = (\<lambda>_ _. raise NotImplemented),
     ConfigureHealthCheck = (\<lambda>_ _. raise NotImplemented),
     DescribeLoadBalancerAttributes = (\<lambda>_. raise NotImplemented),
     ModifyLoadBalancerAttributes = (\<lambda>_ _. raise NotImplemented)\<rparr>"

definition exCloud :: "'w Compute \<Rightarrow> 'w Cloud" where
  "exCloud client = \<lparr>c_compute = client, c_loadBalancer = noElb,
     c_metadata = \<lparr>md_Available = ok False, GetMetadata = (\<lambda>_. raise NotImplemented)\<rparr>,
     c_cfg = \<lparr>Global = exGlobal\<lparr>ElbSecurityGroup := ''sg-global''\<rparr>, cfg_ServiceOverride = []\<rparr>,
     c_region = ''eu-west-2'', c_vpcID = ''vpc-1'', c_instances = None, c_tagging = \<lparr>ClusterID = ''c1'', usesLegacyTags = False\<rparr>,
     c_selfAWSInstance = None, c_nodeInformerHasSynced = None, c_nodeLister = (\<lambda>_. raise NotImplemented),
     c_environ = Map.empty, c_clock = \<lparr>Now = ok 0, Sleep = (\<lambda>_. ok ())\<rparr>,
     c_libs = plainLibs\<rparr>"


definition exVm :: "string \<Rightarrow> string list \<Rightarrow> Vm" where
  "exVm vmid sgs = \<lparr>vm_VmId = Some vmid, vm_State = Some ''running'', vm_VmType = None, vm_NetId = None,
     vm_SubnetId = None, vm_PrivateDnsName = None, vm_PublicDnsName = None, vm_PrivateIp = None, vm_PublicIp = None,
     vm_Placement = None, vm_Nics = None,
     vm_SecurityGroups = Some (map (\<lambda>s. \<lparr>sgl_SecurityGroupId = Some s, sgl_SecurityGroupName = None\<rparr>) sgs),
     vm_Tags = None\<rparr>"

end
