(* ===== verification/Go_Net.thy ===== *)
theory Go_Net
  imports Go_Strings
begin

text \<open>
  The functions of the packages \<open>net\<close> and \<open>path\<close> that the provider calls: \<open>net.ParseIP\<close> and the text
  form of an address, and \<open>path.Join\<close>.  An address is the list of its eight 16-bit groups; an IPv4
  address is in the mapped form \<open>net.IPv4\<close> builds.  A malformed text gives \<open>None\<close>, the nil \<open>IP\<close>.
\<close>

section \<open>Hexadecimal digits\<close>

definition ishex :: "char \<Rightarrow> bool" where
  "ishex c \<longleftrightarrow> isDigit c \<or> (97 \<le> code c \<and> code c \<le> 102) \<or> (65 \<le> code c \<and> code c \<le> 70)"

definition unhex :: "char \<Rightarrow> nat" where
  "unhex c = (if isDigit c then code c - 48 else if 97 \<le> code c then code c - 87 else code c - 55)"

definition hexVal :: "string \<Rightarrow> nat" where
  "hexVal s = foldl (\<lambda>n c. 16 * n + unhex c) 0 s"

definition hexChar :: "nat \<Rightarrow> char" where
  "hexChar d = (if d < 10 then digitChar d else char_of (87 + d))"

fun hexString :: "nat \<Rightarrow> string" where
  "hexString n = (if n < 16 then [hexChar n] else hexString (n div 16) @ [hexChar (n mod 16)])"

declare hexString.simps [simp del]

section \<open>IP addresses\<close>

type_synonym IP = "nat list"

text \<open>One decimal field: digits without a superfluous leading zero, at most 255.\<close>

definition octet :: "string \<Rightarrow> nat option" where
  "octet s = (if s = [] \<or> (length s > 1 \<and> hd s = CHR ''0'') then None
     else (case parseNat 0 s of None \<Rightarrow> None | Some n \<Rightarrow> (if n \<le> 255 then Some n else None)))"

definition parseOctets :: "string \<Rightarrow> (nat \<times> nat \<times> nat \<times> nat) option" where
  "parseOctets s = (case map octet (Split (CHR ''.'') s) of
       [Some a, Some b, Some c, Some d] \<Rightarrow> Some (a, b, c, d)
     | _ \<Rightarrow> None)"

definition IPv4 :: "nat \<Rightarrow> nat \<Rightarrow> nat \<Rightarrow> nat \<Rightarrow> IP" where
  "IPv4 a b c d = [0, 0, 0, 0, 0, 65535, 256 * a + b, 256 * c + d]"

definition parseIPv4 :: "string \<Rightarrow> IP option" where
  "parseIPv4 s = map_option (\<lambda>(a, b, c, d). IPv4 a b c d) (parseOctets s)"

text \<open>The loop of \<open>parseIPv6\<close>: the first argument counts the groups there is still room for, \<open>gs\<close> are the
  groups read, \<open>ellipsis\<close> the position of the double colon.  The result is the unread rest, the groups
  and the position.\<close>

fun v6loop :: "nat \<Rightarrow> string \<Rightarrow> IP \<Rightarrow> nat option \<Rightarrow> (string \<times> IP \<times> nat option) option" where
  "v6loop 0 s gs ellipsis = Some (s, gs, ellipsis)"
| "v6loop (Suc k) s gs ellipsis =
     (let h = takeWhile ishex s; r = dropWhile ishex s; gs' = gs @ [hexVal h] in
      if h = [] \<or> hexVal h > 65535 then None
      else (case r of
          [] \<Rightarrow> Some ([], gs', ellipsis)
        | c # r1 \<Rightarrow>
           (if c = CHR ''.'' then
              (if (ellipsis = None \<and> length gs \<noteq> 6) \<or> length gs + 2 > 8 then None
               else map_option (\<lambda>(a, b, c, d). ([], gs @ [256 * a + b, 256 * c + d], ellipsis)) (parseOctets s))
            else if c \<noteq> CHR '':'' then None
            else (case r1 of
                [] \<Rightarrow> None
              | c2 # r2 \<Rightarrow>
                 (if c2 \<noteq> CHR '':'' then v6loop k r1 gs' ellipsis
                  else if ellipsis \<noteq> None then None
                  else if r2 = [] then Some ([], gs', Some (length gs'))
                  else v6loop k r2 gs' (Some (length gs')))))))"

definition parseIPv6 :: "string \<Rightarrow> IP option" where
  "parseIPv6 s =
     (if s = ''::'' then Some (replicate 8 0)
      else
        (let (s1, e) = (if HasPrefix s ''::'' then (drop 2 s, Some 0) else (s, None)) in
         case v6loop 8 s1 [] e of
           None \<Rightarrow> None
         | Some (rest, gs, ellipsis) \<Rightarrow>
            (if rest \<noteq> [] then None
             else if length gs < 8 then
               map_option (\<lambda>e. take e gs @ replicate (8 - length gs) 0 @ drop e gs) ellipsis
             else if ellipsis \<noteq> None then None
             else Some gs)))"

definition ParseIP :: "string \<Rightarrow> IP option" where
  "ParseIP s = (case find (\<lambda>c. c = CHR ''.'' \<or> c = CHR '':'') s of
       None \<Rightarrow> None
     | Some c \<Rightarrow> (if c = CHR ''.'' then parseIPv4 s else parseIPv6 s))"

text \<open>\<open>IP.String()\<close>: a mapped address in dotted form, any other with its longest run of at least two zero
  groups (the first one of that length) as a double colon.\<close>

definition zeroRun :: "IP \<Rightarrow> nat \<Rightarrow> nat" where
  "zeroRun gs i = length (takeWhile (\<lambda>g. g = 0) (drop i gs))"

definition longestRun :: "IP \<Rightarrow> nat \<times> nat" where
  "longestRun gs = foldl (\<lambda>(e, n) i. if zeroRun gs i > n then (i, zeroRun gs i) else (e, n)) (0, 0) [0..<length gs]"

definition dotted :: "nat \<Rightarrow> nat \<Rightarrow> nat \<Rightarrow> nat \<Rightarrow> string" where
  "dotted a b c d = JoinStr (map natString [a, b, c, d]) ''.''"

definition IPString :: "IP \<Rightarrow> string" where
  "IPString gs =
     (if take 6 gs = [0, 0, 0, 0, 0, 65535] \<and> length gs = 8
      then dotted (gs ! 6 div 256) (gs ! 6 mod 256) (gs ! 7 div 256) (gs ! 7 mod 256)
      else
        (let (e, n) = longestRun gs in
         if n \<ge> 2
         then JoinStr (map hexString (take e gs)) '':'' @ ''::'' @ JoinStr (map hexString (drop (e + n) gs)) '':''
         else JoinStr (map hexString gs) '':''))"

section \<open>Package path\<close>

text \<open>\<open>path.Clean\<close> of a path that does not start with a slash, on its components.\<close>

definition cleanStep :: "string list \<Rightarrow> string \<Rightarrow> string list" where
  "cleanStep out e =
     (if e = [] \<or> e = ''.'' then out
      else if e = ''..'' then (if out = [] \<or> last out = ''..'' then out @ [e] else butlast out)
      else out @ [e])"

definition pathClean :: "string \<Rightarrow> string" where
  "pathClean p = (let out = foldl cleanStep [] (Split (CHR ''/'') p) in
     if out = [] then ''.'' else JoinStr out ''/'')"

text \<open>\<open>path.Join\<close> of elements the first of which does not start with a slash.\<close>

definition pathJoin :: "string list \<Rightarrow> string" where
  "pathJoin elems = (let es = filter (\<lambda>e. e \<noteq> []) elems in if es = [] then [] else pathClean (JoinStr es ''/''))"

section \<open>Facts\<close>

lemma natString_octet: "n \<le> 255 \<Longrightarrow> octet (natString n) = Some n"
proof -
  assume n: "n \<le> 255"
  have ne: "natString m \<noteq> []" for m using natString_hd[of m] by auto
  have hd0: "hd (natString m) = CHR ''0'' \<Longrightarrow> m = 0" for m
  proof (induction m rule: natString.induct)
    case (1 m)
    show ?case
    proof (cases "m < 10")
      case True
      then have "natString m = [digitChar m]" by (simp add: natString.simps[of m])
      then have "code (digitChar m) = 48" using 1(2) by (simp add: code_def)
      then show ?thesis using code_digitChar[OF True] by simp
    next
      case False
      then have "natString m = natString (m div 10) @ [digitChar (m mod 10)]" by (simp add: natString.simps[of m])
      then have "m div 10 = 0" using 1 False ne[of "m div 10"] by simp
      then show ?thesis using False by simp
    qed
  qed
  have "\<not> (length (natString n) > 1 \<and> hd (natString n) = CHR ''0'')"
  proof
    assume *: "length (natString n) > 1 \<and> hd (natString n) = CHR ''0''"
    then have "n = 0" using hd0 by blast
    then show False using * by (simp add: natString.simps[of 0])
  qed
  then show ?thesis using n ne[of n] by (simp add: octet_def parseNat_natString)
qed

lemma natString_digits: "set (natString n) \<subseteq> {c. isDigit c}"
proof (induction n rule: natString.induct)
  case (1 n)
  show ?case
  proof (cases "n < 10")
    case True
    then show ?thesis by (simp add: natString.simps[of n])
  next
    case False
    then show ?thesis using 1[OF False] by (simp add: natString.simps[of n])
  qed
qed

lemma natString_no_dot: "CHR ''.'' \<notin> set (natString n)"
  using natString_digits[of n] by (auto simp: isDigit_def code_def)

lemma parseOctets_dotted:
  assumes "a \<le> 255" "b \<le> 255" "c \<le> 255" "d \<le> 255"
  shows "parseOctets (dotted a b c d) = Some (a, b, c, d)"
proof -
  have "Split (CHR ''.'') (dotted a b c d) = map natString [a, b, c, d]"
    unfolding dotted_def by (rule Split_JoinStr) (auto simp: natString_no_dot)
  then show ?thesis using assms by (simp add: parseOctets_def natString_octet)
qed

lemma octet_bound: "octet s = Some n \<Longrightarrow> n \<le> 255"
  by (auto simp: octet_def split: if_splits option.splits)

text \<open>The text of a parsed IPv4 address parses to the same address: node addresses are canonical.\<close>

lemma ParseIP_dotted:
  assumes "a \<le> 255" "b \<le> 255" "c \<le> 255" "d \<le> 255"
  shows "ParseIP (dotted a b c d) = Some (IPv4 a b c d)"
proof -
  have app: "find P (xs @ y # ys) = Some y" if "\<forall>x\<in>set xs. \<not> P x" "P y" for P xs and y :: char and ys
    using that by (induction xs) auto
  have "\<forall>x\<in>set (natString a). \<not> (x = CHR ''.'' \<or> x = CHR '':'')"
    using natString_digits[of a] by (auto simp: isDigit_def code_def)
  then have "find (\<lambda>c. c = CHR ''.'' \<or> c = CHR '':'') (dotted a b c d) = Some (CHR ''.'')"
    unfolding dotted_def by (simp add: JoinStr_def app)
  then show ?thesis using assms by (simp add: ParseIP_def parseIPv4_def parseOctets_dotted)
qed

lemma IPString_IPv4:
  assumes "a \<le> 255" "b \<le> 255" "c \<le> 255" "d \<le> 255"
  shows "IPString (IPv4 a b c d) = dotted a b c d"
proof -
  have "(256 * x + y) div 256 = x" "(256 * x + y) mod 256 = y" if "y \<le> 255" for x y :: nat
    using that by simp_all
  then show ?thesis using assms by (simp add: IPString_def IPv4_def)
qed

lemma parseIPv4_canonical:
  assumes "parseIPv4 s = Some ip"
  shows "ParseIP (IPString ip) = Some ip"
proof -
  obtain a b c d where o: "parseOctets s = Some (a, b, c, d)" and ip: "ip = IPv4 a b c d"
    using assms by (auto simp: parseIPv4_def)
  have "a \<le> 255 \<and> b \<le> 255 \<and> c \<le> 255 \<and> d \<le> 255"
    using o octet_bound unfolding parseOctets_def by (auto split: list.splits option.splits)
  then show ?thesis by (simp add: ip IPString_IPv4 ParseIP_dotted)
qed

end
