(* ===== verification/Instances.thy ===== *)
theory Instances
  imports Cloud Go_Net
begin

text \<open>
  Instance ids and the instance cache (\<open>instances.go\<close>), and the queries for instances of
  \<open>ccm_cloud.go\<close>.  A provider id is parsed with \<open>net/url\<close>; \<open>urlParse\<close> below is that parser for a string
  that starts with a scheme, as far as the scheme, the path and the reasons to reject the string go.
\<close>

section \<open>The URL parser\<close>

datatype urlMode = EncodePath | EncodeHost | EncodeZone | EncodeUser | EncodeFragment

text \<open>\<open>shouldEscape(c, encodeHost)\<close>, which is \<open>shouldEscape(c, encodeZone)\<close> as well.\<close>

definition hostEscape :: "char \<Rightarrow> bool" where
  "hostEscape c \<longleftrightarrow> \<not> (isLower c \<or> isUpper c \<or> isDigit c \<or>
     c \<in> set ''!$&()*+,;=:[]<>-_.~'' \<or> code c = 34 \<or> code c = 39)"

text \<open>\<open>unescape\<close>: \<open>None\<close> is an error.\<close>

fun unescape :: "urlMode \<Rightarrow> string \<Rightarrow> string option" where
  "unescape mode [] = Some []"
| "unescape mode (c # s) =
     (if c = CHR ''%'' then
        (case s of
           a # b # t \<Rightarrow>
             (if \<not> (ishex a \<and> ishex b) then None
              else if mode = EncodeHost \<and> unhex a < 8 \<and> \<not> (a = CHR ''2'' \<and> b = CHR ''5'') then None
              else if mode = EncodeZone \<and> \<not> (a = CHR ''2'' \<and> b = CHR ''5'') \<and>
                      unhex a * 16 + unhex b \<noteq> 32 \<and> hostEscape (char_of (unhex a * 16 + unhex b)) then None
              else map_option (\<lambda>r. char_of (unhex a * 16 + unhex b) # r) (unescape mode t))
         | _ \<Rightarrow> None)
      else if (mode = EncodeHost \<or> mode = EncodeZone) \<and> code c < 128 \<and> hostEscape c then None
      else map_option (\<lambda>r. c # r) (unescape mode s))"

text \<open>The part before and the part from the first occurrence of a character on, and after its last one.\<close>

definition upTo :: "char \<Rightarrow> string \<Rightarrow> string" where
  "upTo c s = takeWhile (\<lambda>x. x \<noteq> c) s"

definition fromFirst :: "char \<Rightarrow> string \<Rightarrow> string" where
  "fromFirst c s = dropWhile (\<lambda>x. x \<noteq> c) s"

definition afterLast :: "char \<Rightarrow> string \<Rightarrow> string" where
  "afterLast c s = rev (takeWhile (\<lambda>x. x \<noteq> c) (rev s))"

definition beforeLast :: "char \<Rightarrow> string \<Rightarrow> string" where
  "beforeLast c s = rev (tl (dropWhile (\<lambda>x. x \<noteq> c) (rev s)))"

definition validOptionalPort :: "string \<Rightarrow> bool" where
  "validOptionalPort port = (case port of [] \<Rightarrow> True | c # s \<Rightarrow> c = CHR '':'' \<and> list_all isDigit s)"

text \<open>The index of the first \<open>%25\<close>.\<close>

fun splitZone :: "string \<Rightarrow> (string \<times> string) option" where
  "splitZone [] = None"
| "splitZone (c # s) = (if HasPrefix (c # s) ''%25'' then Some ([], c # s)
     else map_option (\<lambda>(a, b). (c # a, b)) (splitZone s))"

definition parseHost :: "string \<Rightarrow> bool" where
  "parseHost host =
     (if HasPrefix host ''['' then
        (if CHR '']'' \<notin> set host then False
         else if \<not> validOptionalPort (afterLast (CHR '']'') host) then False
         else (case splitZone (beforeLast (CHR '']'') host) of
             Some (a, z) \<Rightarrow> unescape EncodeHost a \<noteq> None \<and> unescape EncodeZone z \<noteq> None \<and>
               unescape EncodeHost (CHR '']'' # afterLast (CHR '']'') host) \<noteq> None
           | None \<Rightarrow> unescape EncodeHost host \<noteq> None))
      else if CHR '':'' \<in> set host \<and> \<not> validOptionalPort (CHR '':'' # afterLast (CHR '':'') host) then False
      else unescape EncodeHost host \<noteq> None)"

definition validUserinfo :: "string \<Rightarrow> bool" where
  "validUserinfo s = list_all (\<lambda>c. isLower c \<or> isUpper c \<or> isDigit c \<or> c \<in> set ''-._:~!$&()*+,;=%@'' \<or> code c = 39) s"

definition parseAuthority :: "string \<Rightarrow> bool" where
  "parseAuthority authority =
     (if CHR ''@'' \<notin> set authority then parseHost authority
      else
        (let userinfo = beforeLast (CHR ''@'') authority in
         parseHost (afterLast (CHR ''@'') authority) \<and> validUserinfo userinfo \<and>
         unescape EncodeUser (upTo (CHR '':'') userinfo) \<noteq> None \<and>
         unescape EncodeUser (tl (fromFirst (CHR '':'') userinfo)) \<noteq> None))"

text \<open>\<open>url.Parse("aws://" + rest)\<close>: the path, or \<open>None\<close> when the string is rejected.\<close>

definition urlParse :: "string \<Rightarrow> string option" where
  "urlParse rest =
     (let u = upTo (CHR ''#'') rest;
          frag = tl (fromFirst (CHR ''#'') rest);
          hier = upTo (CHR ''?'') u;
          authority = upTo (CHR ''/'') hier;
          path = fromFirst (CHR ''/'') hier
      in
      if list_ex (\<lambda>c. code c < 32 \<or> code c = 127) u then None
      else if \<not> parseAuthority authority then None
      else (case unescape EncodePath path of
              None \<Rightarrow> None
            | Some p \<Rightarrow> (if unescape EncodeFragment frag = None then None else Some p)))"

section \<open>Instance ids\<close>

text \<open>The regular expression \<open>^i-[^/]*$\<close>.\<close>

definition awsInstanceRegMatch :: "string \<Rightarrow> bool" where
  "awsInstanceRegMatch s \<longleftrightarrow> HasPrefix s ''i-'' \<and> CHR ''/'' \<notin> set s"

definition MapToAWSInstanceID :: "string \<Rightarrow> string res" where
  "MapToAWSInstanceID name =
     (let rest = (if HasPrefix name ''aws://'' then TrimPrefix name ''aws://'' else ''//'' @ name) in
      case urlParse rest of
        None \<Rightarrow> Err (Errorf ''Invalid instance name (%s): %v'' [])
      | Some path \<Rightarrow>
         (let tokens = Split (CHR ''/'') (Trim path ''/'');
              awsID = (if length tokens = 1 then tokens ! 0 else if length tokens = 2 then tokens ! 1 else [])
          in if awsID = [] \<or> \<not> awsInstanceRegMatch awsID
             then Err (Errorf ''Invalid format for AWS instance (%s)'' [])
             else Ok awsID))"

definition mapToAWSInstanceIDs :: "Node list \<Rightarrow> string list res" where
  "mapToAWSInstanceIDs nodes = foldRes (\<lambda>instanceIDs node.
     if node_ProviderID node = [] then Err (Errorf ''node %q did not have ProviderID set'' [])
     else (case MapToAWSInstanceID (node_ProviderID node) of
             Ok instanceID \<Rightarrow> Ok (instanceIDs @ [instanceID])
           | Err _ \<Rightarrow> Err (Errorf ''unable to parse ProviderID %q for node %q'' [])
           | Panic p \<Rightarrow> Panic p)) [] nodes"

definition mapToAWSInstanceIDsTolerant :: "Node list \<Rightarrow> string list" where
  "mapToAWSInstanceIDsTolerant nodes = foldl (\<lambda>instanceIDs node.
     if node_ProviderID node = [] then instanceIDs
     else (case MapToAWSInstanceID (node_ProviderID node) of
             Ok instanceID \<Rightarrow> instanceIDs @ [instanceID]
           | _ \<Rightarrow> instanceIDs)) [] nodes"

section \<open>Queries\<close>

definition vmIdFilter :: "string list \<Rightarrow> FiltersVm option" where
  "vmIdFilter ids = Some (noVmFilter\<lparr>fv_VmIds := Some ids\<rparr>)"

definition describeInstance :: "'w Compute \<Rightarrow> string \<Rightarrow> ('w, Vm) io" where
  "describeInstance client instanceID =
     bnd (ReadVms client (vmIdFilter [instanceID])) (\<lambda>instances.
       if length instances = 0 then raise (Errorf ''no instances found for instance: %s'' [])
       else if length instances > 1 then raise (Errorf ''multiple instances found for instance: %s'' [])
       else ok (hd instances))"

definition describeInstances :: "'w Cloud \<Rightarrow> FiltersVm option \<Rightarrow> ('w, Vm list) io" where
  "describeInstances c filters =
     bnd (ReadVms (c_compute c) filters) (\<lambda>response.
     lift (filterRes (\<lambda>i. hasClusterTag (c_tagging c) (vm_Tags i)) response))"

definition getInstancesByIDs :: "'w Cloud \<Rightarrow> string list option \<Rightarrow> ('w, (string, Vm) gomap) io" where
  "getInstancesByIDs c instanceIDs = (case instanceIDs of
       None \<Rightarrow> ok []
     | Some ids \<Rightarrow>
        (if length ids = 0 then ok []
         else bnd (ReadVms (c_compute c) (vmIdFilter ids)) (\<lambda>instances.
           ok (foldl (\<lambda>m i. if strval (vm_VmId i) = [] then m else mput (strval (vm_VmId i)) i m) [] instances))))"

text \<open>The result pointer is nil when the API answered with another id.\<close>

definition getInstanceByID :: "'w Cloud \<Rightarrow> string \<Rightarrow> ('w, Vm option) io" where
  "getInstanceByID c instanceID =
     bnd (getInstancesByIDs c (Some [instanceID])) (\<lambda>instances.
       if length instances = 0 then raise InstanceNotFound
       else if length instances > 1 then raise (Errorf ''multiple instances found for instance: %s'' [])
       else ok (map_of instances instanceID))"

definition getInstancesByNodeNames :: "'w Cloud \<Rightarrow> string list \<Rightarrow> string list \<Rightarrow> ('w, Vm list option) io" where
  "getInstancesByNodeNames c nodeNames states =
     bnd (describeInstances c (Some noVmFilter)) (\<lambda>instances.
       (let oscInstances = filter (\<lambda>i. Contains nodeNames (strval (vm_PrivateDnsName i)) \<and>
              (length states = 0 \<or> Contains states (strval (vm_State i)))) instances
        in ok (if length oscInstances = 0 then None else Some oscInstances)))"

definition mapNodeNameToPrivateDNSName :: "string \<Rightarrow> string" where
  "mapNodeNameToPrivateDNSName nodeName = nodeName"

definition mapInstanceToNodeName :: "Vm \<Rightarrow> string" where
  "mapInstanceToNodeName i = strval (vm_PrivateDnsName i)"

definition findInstanceByNodeName :: "'w Cloud \<Rightarrow> string \<Rightarrow> ('w, Vm option) io" where
  "findInstanceByNodeName c nodeName =
     (let privateDNSName = mapNodeNameToPrivateDNSName nodeName;
          filters = noVmFilter\<lparr>fv_TagKeys := Some [clusterTagKey (c_tagging c)],
            fv_Tags := Some [TagNameClusterNode @ ''='' @ privateDNSName]\<rparr>
      in bnd (describeInstances c (Some filters)) (\<lambda>instances.
           if length instances = 0 then ok None
           else if length instances > 1 then raise (Errorf ''multiple instances found for name: %s'' [])
           else (case vm_State (hd instances) of
                   None \<Rightarrow> panic ''invalid memory address or nil pointer dereference''
                 | Some state \<Rightarrow> ok (if state = ''terminated'' then None else Some (hd instances)))))"

definition nodeNameToProviderID :: "'w Cloud \<Rightarrow> string \<Rightarrow> ('w, string) io" where
  "nodeNameToProviderID c nodeName =
     (if length nodeName = 0 then raise (Errorf ''no nodeName provided'' [])
      else bnd (case c_nodeInformerHasSynced c of None \<Rightarrow> ok False | Some synced \<Rightarrow> synced) (\<lambda>synced.
        if \<not> synced then raise (Errorf ''node informer has not synced yet'' [])
        else bnd (c_nodeLister c nodeName) (\<lambda>node.
          if length (node_ProviderID node) = 0 then raise (Errorf ''node has no providerID'' [])
          else lift (MapToAWSInstanceID (node_ProviderID node)))))"

definition getInstanceByNodeName :: "'w Cloud \<Rightarrow> string \<Rightarrow> ('w, Vm) io" where
  "getInstanceByNodeName c nodeName =
     bnd (attempt (nodeNameToProviderID c nodeName) (\<lambda>vmID. getInstanceByID c vmID)
            (\<lambda>_. findInstanceByNodeName c nodeName))
       (\<lambda>instance. case instance of None \<Rightarrow> raise InstanceNotFound | Some i \<Rightarrow> ok i)"

section \<open>The instance cache\<close>

record cacheCriteria =
  MaxAge :: int
  HasInstances :: "string list"

definition olderThan :: "allInstancesSnapshot \<Rightarrow> allInstancesSnapshot \<Rightarrow> bool" where
  "olderThan s other \<longleftrightarrow> snap_timestamp s < snap_timestamp other"

definition FindInstances :: "allInstancesSnapshot \<Rightarrow> string list \<Rightarrow> (string, Vm) gomap" where
  "FindInstances s ids = foldl (\<lambda>m i. case map_of (snap_instances s) i of None \<Rightarrow> m | Some v \<Rightarrow> mput i v m) [] ids"

definition MeetsCriteria :: "'w Clock \<Rightarrow> allInstancesSnapshot \<Rightarrow> cacheCriteria \<Rightarrow> ('w, bool) io" where
  "MeetsCriteria clk s criteria =
     (let hasAll = list_all (\<lambda>i. map_of (snap_instances s) i \<noteq> None) (HasInstances criteria) in
      if MaxAge criteria > 0
      then bnd (Now clk) (\<lambda>now. ok (if now - snap_timestamp s > MaxAge criteria then False else hasAll))
      else ok hasAll)"

text \<open>The critical section that stores a snapshot unless the cache holds a newer one.\<close>

definition storeSnapshot :: "allInstancesSnapshot \<Rightarrow> ('x sys, unit) io" where
  "storeSnapshot s w = (Ok (),
     (case sys_snap w of
        Some old \<Rightarrow> (if olderThan s old then w else w\<lparr>sys_snap := Some s\<rparr>)
      | None \<Rightarrow> w\<lparr>sys_snap := Some s\<rparr>))"

definition getSnapshot :: "('x sys, allInstancesSnapshot option) io" where
  "getSnapshot w = (Ok (sys_snap w), w)"

definition describeAllInstancesUncached :: "'x sys Cloud \<Rightarrow> ('x sys, allInstancesSnapshot) io" where
  "describeAllInstancesUncached c =
     bnd (Now (c_clock c)) (\<lambda>now.
     bnd (describeInstances c None) (\<lambda>instances.
       (let m = foldl (\<lambda>m i. mput (strval (vm_VmId i)) i m) [] instances;
            snap = \<lparr>snap_timestamp = now, snap_instances = m\<rparr>
        in bnd (storeSnapshot snap) (\<lambda>_. ok snap))))"

definition describeAllInstancesCached :: "'x sys Cloud \<Rightarrow> cacheCriteria \<Rightarrow> ('x sys, allInstancesSnapshot) io" where
  "describeAllInstancesCached c criteria =
     bnd getSnapshot (\<lambda>snap0.
     bnd (case snap0 of None \<Rightarrow> ok None
          | Some s \<Rightarrow> bnd (MeetsCriteria (c_clock c) s criteria) (\<lambda>meets. ok (if meets then Some s else None))) (\<lambda>snap.
       case snap of None \<Rightarrow> describeAllInstancesUncached c | Some s \<Rightarrow> ok s))"


section \<open>Provider ids: round trips\<close>

text \<open>The characters of ids and zones: letters, digits, dash, underscore and dot.\<close>

definition plainText :: "string \<Rightarrow> bool" where
  "plainText s \<longleftrightarrow> list_all (\<lambda>c. isLower c \<or> isUpper c \<or> isDigit c \<or> c \<in> set ''-_.'') s"

lemma plain_code: "plainText s \<Longrightarrow> c \<in> set s \<Longrightarrow> 45 \<le> code c \<and> code c \<le> 122 \<and> code c \<noteq> 47 \<and> code c \<noteq> 63"
  by (auto simp: plainText_def list_all_iff isLower_def isUpper_def isDigit_def code_def)

lemma plain_notin: "plainText s \<Longrightarrow> code c < 45 \<or> code c = 47 \<or> code c = 63 \<or> 122 < code c \<Longrightarrow> c \<notin> set s"
  using plain_code by fastforce

lemma unescape_clean: "mode \<notin> {EncodeHost, EncodeZone} \<Longrightarrow> CHR ''%'' \<notin> set s \<Longrightarrow> unescape mode s = Some s"
  by (induction s) auto

lemma cut_simps [simp]:
  "c \<notin> set s \<Longrightarrow> upTo c s = s" "c \<notin> set s \<Longrightarrow> fromFirst c s = []"
  "upTo c (c # s) = []" "fromFirst c (c # s) = c # s"
  by (induction s) (auto simp: upTo_def fromFirst_def)

lemma parseAuthority_Nil: "parseAuthority []"
  by (simp add: parseAuthority_def parseHost_def HasPrefix_def)

lemma urlParse_clean:
  assumes "\<forall>c\<in>set path. c \<notin> set ''#?%'' \<and> 32 \<le> code c \<and> code c \<noteq> 127"
  shows "urlParse (CHR ''/'' # path) = Some (CHR ''/'' # path)"
proof -
  have "CHR ''#'' \<notin> set (CHR ''/'' # path)" "CHR ''?'' \<notin> set (CHR ''/'' # path)"
    "CHR ''%'' \<notin> set (CHR ''/'' # path)" using assms by auto
  moreover have "\<not> list_ex (\<lambda>c. code c < 32 \<or> code c = 127) (CHR ''/'' # path)"
    using assms by (auto simp: list_ex_iff not_less code_def)
  ultimately show ?thesis
    by (simp add: urlParse_def parseAuthority_Nil unescape_clean)
qed

lemma plain_ok:
  "plainText s \<Longrightarrow> \<forall>c\<in>set s. c \<notin> set ''#?%'' \<and> 32 \<le> code c \<and> code c \<noteq> 127"
  using plain_code[of s] by (fastforce simp: code_def)

text \<open>The forms of an id: bare, with a zone as \<open>InstanceID\<close> gives it, and as a provider id.\<close>

definition idForms :: "string \<Rightarrow> string \<Rightarrow> string list" where
  "idForms zone i = [i, ''/'' @ zone @ ''/'' @ i, ''aws:///'' @ zone @ ''/'' @ i, ''aws:////'' @ i]"

lemma MapTo_path:
  assumes "urlParse rest = Some path" "Split (CHR ''/'') (Trim path ''/'') \<in> {[i], [zone, i]}" "awsInstanceRegMatch i"
    and "rest = (if HasPrefix name ''aws://'' then TrimPrefix name ''aws://'' else ''//'' @ name)"
  shows "MapToAWSInstanceID name = Ok i"
proof -
  have "i \<noteq> []" using assms(3) by (auto simp: awsInstanceRegMatch_def HasPrefix_def)
  then show ?thesis using assms by (auto simp: MapToAWSInstanceID_def Let_def)
qed


lemma plain_slash: "plainText s \<Longrightarrow> CHR ''/'' \<notin> set s"
  by (rule plain_notin) (simp_all add: code_def)

lemma Trim_slash_left: "Trim (CHR ''/'' # s) ''/'' = Trim s ''/''"
  by (simp add: Trim_def TrimBy_def)

lemma Trim_zone:
  assumes "plainText zone" "plainText i" "zone \<noteq> []" "i \<noteq> []"
  shows "Trim (zone @ CHR ''/'' # i) ''/'' = zone @ CHR ''/'' # i"
proof -
  have last: "last i \<noteq> CHR ''/''" "hd zone \<noteq> CHR ''/''"
    using assms plain_slash[of i] plain_slash[of zone] by (metis last_in_set, metis hd_in_set)
  have "dropWhile (\<lambda>c. c = CHR ''/'') (zone @ CHR ''/'' # i) = zone @ CHR ''/'' # i"
    using last(2) assms(3) by (cases zone) auto
  moreover have "dropWhile (\<lambda>c. c = CHR ''/'') (rev i @ CHR ''/'' # rev zone) = rev i @ CHR ''/'' # rev zone"
    using last(1) assms(4) by (cases i rule: rev_cases) auto
  ultimately show ?thesis by (simp add: Trim_def TrimBy_def)
qed

lemma MapTo_forms:
  assumes "plainText zone" "zone \<noteq> []" "plainText i" "HasPrefix i ''i-''"
  shows "list_all (\<lambda>name. MapToAWSInstanceID name = Ok i) (idForms zone i)"
proof -
  have ne: "i \<noteq> []" and noaws: "\<not> HasPrefix i ''aws://''" "\<not> HasPrefix (CHR ''/'' # s) ''aws://''" for s
    using assms(4) by (auto simp: HasPrefix_iff)
  have re: "awsInstanceRegMatch i" using assms(3,4) plain_slash by (simp add: awsInstanceRegMatch_def)
  have ti: "Split (CHR ''/'') (Trim i ''/'') = [i]"
    using plain_slash[OF assms(3)] by (simp add: Trim_slashes)
  have tz: "Split (CHR ''/'') (Trim (zone @ CHR ''/'' # i) ''/'') = [zone, i]"
    using plain_slash[OF assms(1)] plain_slash[OF assms(3)]
    by (simp add: Trim_zone[OF assms(1,3,2) ne] Split_append_sep)
  note oks = plain_ok[OF assms(1)] plain_ok[OF assms(3)]
  have u1: "urlParse (''//'' @ i) = Some (''//'' @ i)"
    using oks urlParse_clean[of "CHR ''/'' # i"] by (simp add: code_def)
  have u2: "urlParse (''///'' @ zone @ ''/'' @ i) = Some (''///'' @ zone @ ''/'' @ i)"
    using oks urlParse_clean[of "''//'' @ zone @ ''/'' @ i"] by (auto simp: code_def)
  have u3: "urlParse (''/'' @ zone @ ''/'' @ i) = Some (''/'' @ zone @ ''/'' @ i)"
    using oks urlParse_clean[of "zone @ ''/'' @ i"] by (auto simp: code_def)
  have trim: "TrimPrefix (''aws:///'' @ s) ''aws://'' = ''/'' @ s" "TrimPrefix (''aws:////'' @ s) ''aws://'' = ''//'' @ s"
    "HasPrefix (''aws:///'' @ s) ''aws://''" "HasPrefix (''aws:////'' @ s) ''aws://''" for s
    by (simp_all add: TrimPrefix_def HasPrefix_def)
  have "MapToAWSInstanceID i = Ok i"
    by (rule MapTo_path[OF u1 _ re]) (use noaws ti in \<open>simp_all add: Trim_slash_left\<close>)
  moreover have "MapToAWSInstanceID (''/'' @ zone @ ''/'' @ i) = Ok i"
    by (rule MapTo_path[OF u2 _ re]) (use noaws tz in \<open>simp_all add: Trim_slash_left\<close>)
  moreover have "MapToAWSInstanceID (''aws:///'' @ zone @ ''/'' @ i) = Ok i"
    by (rule MapTo_path[OF u3 _ re]) (use tz trim in \<open>simp_all add: Trim_slash_left\<close>)
  moreover have "MapToAWSInstanceID (''aws:////'' @ i) = Ok i"
    by (rule MapTo_path[OF u1 _ re]) (use ti trim in \<open>simp_all add: Trim_slash_left\<close>)
  ultimately show ?thesis by (simp add: idForms_def)
qed

text \<open>
  Every form in which the provider and Kubernetes write the id of an instance is mapped back to it:
  the bare id, the \<open>/zone/id\<close> form that \<open>InstanceID\<close> returns, and the two provider id forms.
\<close>

theorem MapToAWSInstanceID_roundtrip:
  assumes "plainText zone" "zone \<noteq> []" "plainText i" "HasPrefix i ''i-''"
  shows "list_all (\<lambda>name. MapToAWSInstanceID name = Ok i) (idForms zone i)"
  using assms by (rule MapTo_forms)

theorem MapToAWSInstanceID_roundtrip_witness:
  "list_all (\<lambda>name. MapToAWSInstanceID name = Ok ''i-0a1b'') (idForms ''eu-west-2a'' ''i-0a1b'')"
  by (rule MapToAWSInstanceID_roundtrip)
     (simp_all add: plainText_def isLower_def isUpper_def isDigit_def code_def HasPrefix_def)

text \<open>
  The strict and the tolerant translation of nodes to instance ids agree: the strict one succeeds
  exactly when every node has a provider id that maps to an instance, and then gives the ids the
  tolerant one gives.
\<close>

theorem mapToAWSInstanceIDs_strict_tolerant:
  "mapToAWSInstanceIDs nodes = Ok ids \<longleftrightarrow>
     list_all (\<lambda>n. node_ProviderID n \<noteq> [] \<and> (\<exists>i. MapToAWSInstanceID (node_ProviderID n) = Ok i)) nodes \<and>
     ids = mapToAWSInstanceIDsTolerant nodes"
proof -
  let ?f = "\<lambda>instanceIDs node.
     if node_ProviderID node = [] then Err (Errorf ''node %q did not have ProviderID set'' [])
     else (case MapToAWSInstanceID (node_ProviderID node) of
             Ok instanceID \<Rightarrow> Ok (instanceIDs @ [instanceID])
           | Err _ \<Rightarrow> Err (Errorf ''unable to parse ProviderID %q for node %q'' [])
           | Panic p \<Rightarrow> Panic p)"
  let ?g = "\<lambda>instanceIDs node.
     if node_ProviderID node = [] then instanceIDs
     else (case MapToAWSInstanceID (node_ProviderID node) of
             Ok instanceID \<Rightarrow> instanceIDs @ [instanceID]
           | _ \<Rightarrow> instanceIDs)"
  have "foldRes ?f acc nodes = Ok ids \<longleftrightarrow>
     list_all (\<lambda>n. node_ProviderID n \<noteq> [] \<and> (\<exists>i. MapToAWSInstanceID (node_ProviderID n) = Ok i)) nodes \<and>
     ids = foldl ?g acc nodes" for acc
  proof (induction nodes arbitrary: acc)
    case (Cons n nodes)
    show ?case
    proof (cases "node_ProviderID n \<noteq> [] \<and> (\<exists>i. MapToAWSInstanceID (node_ProviderID n) = Ok i)")
      case True
      then obtain i where "MapToAWSInstanceID (node_ProviderID n) = Ok i" by blast
      then show ?thesis using True Cons.IH[of "acc @ [i]"] by simp
    next
      case False
      then show ?thesis by (cases "MapToAWSInstanceID (node_ProviderID n)") auto
    qed
  qed auto
  then show ?thesis by (simp add: mapToAWSInstanceIDs_def mapToAWSInstanceIDsTolerant_def)
qed


section \<open>The cache answers with what the criteria ask for\<close>

lemma FindInstances_lookup:
  "map_of (FindInstances s ids) k = (if k \<in> set ids then map_of (snap_instances s) k else None)"
proof -
  have "map_of (foldl (\<lambda>m i. case map_of (snap_instances s) i of None \<Rightarrow> m | Some v \<Rightarrow> mput i v m) m ids) k =
    (if k \<in> set ids \<and> map_of (snap_instances s) k \<noteq> None then map_of (snap_instances s) k else map_of m k)" for m
  proof (induction ids arbitrary: m)
    case (Cons i ids)
    then show ?case by (cases "map_of (snap_instances s) i") (auto simp: map_of_mput)
  qed simp
  then show ?thesis by (auto simp: FindInstances_def)
qed

text \<open>
  C37. A successful \<open>describeAllInstancesCached\<close> answers either with the cached snapshot, which then
  holds every instance asked for and is not older than the maximum age, or with a snapshot stamped
  with the current time that holds the VMs of the cluster the API just listed.
\<close>

theorem describeAllInstancesCached_valid:
  assumes "describeAllInstancesCached c criteria w = (Ok s, w')"
  shows "(sys_snap w = Some s \<and> list_all (\<lambda>i. map_of (snap_instances s) i \<noteq> None) (HasInstances criteria) \<and>
            (if MaxAge criteria > 0 then \<exists>now. Now (c_clock c) w = (Ok now, w') \<and> now - snap_timestamp s \<le> MaxAge criteria
             else w' = w)) \<or>
         (\<exists>w1 w2 w3 instances. Now (c_clock c) w1 = (Ok (snap_timestamp s), w2) \<and>
            describeInstances c None w2 = (Ok instances, w3) \<and>
            snap_instances s = foldl (\<lambda>m i. mput (strval (vm_VmId i)) i m) [] instances)"
proof -
  let ?pick = "\<lambda>snap0. case snap0 of None \<Rightarrow> ok None
     | Some s \<Rightarrow> bnd (MeetsCriteria (c_clock c) s criteria) (\<lambda>meets. ok (if meets then Some s else None))"
  obtain snap w1 where pick: "?pick (sys_snap w) w = (Ok snap, w1)"
    and res: "(case snap of None \<Rightarrow> describeAllInstancesUncached c | Some s \<Rightarrow> ok s) w1 = (Ok s, w')"
    using assms by (auto simp: describeAllInstancesCached_def bnd_eq_Ok getSnapshot_def)
  show ?thesis
  proof (cases snap)
    case None
    then obtain now w2 instances w3 where "Now (c_clock c) w1 = (Ok now, w2)"
      "describeInstances c None w2 = (Ok instances, w3)"
      "s = \<lparr>snap_timestamp = now, snap_instances = foldl (\<lambda>m i. mput (strval (vm_VmId i)) i m) [] instances\<rparr>"
      using res by (auto simp: describeAllInstancesUncached_def bnd_eq_Ok Let_def storeSnapshot_def)
    then show ?thesis
      by (intro disjI2 exI[of _ w1] exI[of _ w2] exI[of _ w3] exI[of _ instances]) simp
  next
    case (Some s')
    then have "s' = s" "w1 = w'" using res by auto
    then show ?thesis using pick Some
      by (auto simp: MeetsCriteria_def bnd_eq_Ok Let_def split: option.splits if_splits)
  qed
qed

definition cachedCloud :: "unit sys Cloud" where
  "cachedCloud = (exCloud quietClient)\<lparr>c_clock := \<lparr>Now = ok 100, Sleep = (\<lambda>_. ok ())\<rparr>\<rparr>"

definition cachedSys :: "unit sys" where
  "cachedSys = \<lparr>sys_snap = Some \<lparr>snap_timestamp = 90, snap_instances = [(''i-1'', exVm ''i-1'' [])]\<rparr>, sys_rest = ()\<rparr>"

theorem describeAllInstancesCached_valid_witness:
  "\<exists>s w'. describeAllInstancesCached cachedCloud \<lparr>MaxAge = 60, HasInstances = [''i-1'']\<rparr> cachedSys = (Ok s, w') \<and>
     (sys_snap cachedSys = Some s \<and> map_of (snap_instances s) ''i-1'' \<noteq> None \<or> snap_instances s = [])"
proof -
  let ?s = "\<lparr>snap_timestamp = 90, snap_instances = [(''i-1'', exVm ''i-1'' [])]\<rparr>"
  have run: "describeAllInstancesCached cachedCloud \<lparr>MaxAge = 60, HasInstances = [''i-1'']\<rparr> cachedSys = (Ok ?s, cachedSys)"
    by code_simp
  have "describeInstances cachedCloud None w2 = (Ok instances, w3) \<Longrightarrow> instances = []" for w2 instances w3
    by (simp add: describeInstances_def cachedCloud_def exCloud_def quietClient_def)
  then show ?thesis
    using describeAllInstancesCached_valid[OF run] run by fastforce
qed

section \<open>Concurrent refreshes\<close>

text \<open>
  Several goroutines may refresh the cache at once.  Each takes the time, reads the instances and then
  stores its snapshot in the critical section.  The rest of the state is the clock, the snapshots
  read but not yet stored, and those stored so far.
\<close>

record refreshes =
  rf_clock :: int
  rf_pending :: "allInstancesSnapshot list"
  rf_stored :: "allInstancesSnapshot list"

inductive cache_step :: "refreshes sys \<Rightarrow> refreshes sys \<Rightarrow> bool" where
  tick: "0 \<le> d \<Longrightarrow>
    cache_step w (w\<lparr>sys_rest := (sys_rest w)\<lparr>rf_clock := rf_clock (sys_rest w) + d\<rparr>\<rparr>)"
| fetch: "cache_step w (w\<lparr>sys_rest := (sys_rest w)\<lparr>rf_pending :=
    \<lparr>snap_timestamp = rf_clock (sys_rest w), snap_instances = m\<rparr> # rf_pending (sys_rest w)\<rparr>\<rparr>)"
| store: "s \<in> set (rf_pending (sys_rest w)) \<Longrightarrow>
    cache_step w ((snd (storeSnapshot s w))\<lparr>sys_rest := (sys_rest w)\<lparr>
      rf_pending := remove1 s (rf_pending (sys_rest w)), rf_stored := s # rf_stored (sys_rest w)\<rparr>\<rparr>)"

inductive_cases cache_stepE: "cache_step w w'"

definition cache_init :: "refreshes sys \<Rightarrow> bool" where
  "cache_init w \<longleftrightarrow> sys_snap w = None \<and> rf_pending (sys_rest w) = [] \<and> rf_stored (sys_rest w) = []"

definition newest :: "allInstancesSnapshot option \<Rightarrow> allInstancesSnapshot list \<Rightarrow> bool" where
  "newest cached stored = (case cached of None \<Rightarrow> stored = []
     | Some s \<Rightarrow> s \<in> set stored \<and> list_all (\<lambda>t. snap_timestamp t \<le> snap_timestamp s) stored)"

lemma storeSnapshot_newest:
  "newest (sys_snap w) stored \<Longrightarrow> newest (sys_snap (snd (storeSnapshot s w))) (s # stored)"
  by (auto simp: newest_def storeSnapshot_def olderThan_def list_all_iff split: option.splits if_splits)

lemma newest_invariant:
  assumes "cache_step\<^sup>*\<^sup>* w w'" "newest (sys_snap w) (rf_stored (sys_rest w))"
  shows "newest (sys_snap w') (rf_stored (sys_rest w'))"
  using assms
proof (induction rule: rtranclp_induct)
  case (step y z)
  then show ?case by (auto elim!: cache_stepE simp: storeSnapshot_newest)
qed

text \<open>
  C13. However the refreshes of several goroutines interleave, the cached snapshot is always one of the
  stored ones with the latest time stamp: a slow refresh never replaces the result of a newer one.
\<close>

theorem cache_holds_newest:
  assumes "cache_init w" "cache_step\<^sup>*\<^sup>* w w'"
  shows "newest (sys_snap w') (rf_stored (sys_rest w'))"
  using assms(1) by (intro newest_invariant[OF assms(2)]) (simp add: cache_init_def newest_def)

definition exSnap :: "int \<Rightarrow> allInstancesSnapshot" where
  "exSnap t = \<lparr>snap_timestamp = t, snap_instances = []\<rparr>"

definition exSys :: "allInstancesSnapshot option \<Rightarrow> int \<Rightarrow> allInstancesSnapshot list \<Rightarrow> allInstancesSnapshot list \<Rightarrow> refreshes sys" where
  "exSys c t p st = \<lparr>sys_snap = c, sys_rest = \<lparr>rf_clock = t, rf_pending = p, rf_stored = st\<rparr>\<rparr>"

lemma exRun: "cache_step\<^sup>*\<^sup>* (exSys None 1 [] []) (exSys (Some (exSnap 2)) 2 [] [exSnap 1, exSnap 2])"
proof -
  have "cache_step (exSys None 1 [] []) (exSys None 1 [exSnap 1] [])"
    using cache_step.fetch[of "exSys None 1 [] []" "[]"] by (simp add: exSys_def exSnap_def)
  moreover have "cache_step (exSys None 1 [exSnap 1] []) (exSys None 2 [exSnap 1] [])"
    using cache_step.tick[of 1 "exSys None 1 [exSnap 1] []"] by (simp add: exSys_def)
  moreover have "cache_step (exSys None 2 [exSnap 1] []) (exSys None 2 [exSnap 2, exSnap 1] [])"
    using cache_step.fetch[of "exSys None 2 [exSnap 1] []" "[]"] by (simp add: exSys_def exSnap_def)
  moreover have "cache_step (exSys None 2 [exSnap 2, exSnap 1] []) (exSys (Some (exSnap 2)) 2 [exSnap 1] [exSnap 2])"
    using cache_step.store[of "exSnap 2" "exSys None 2 [exSnap 2, exSnap 1] []"] by (simp add: exSys_def storeSnapshot_def)
  moreover have "cache_step (exSys (Some (exSnap 2)) 2 [exSnap 1] [exSnap 2])
      (exSys (Some (exSnap 2)) 2 [] [exSnap 1, exSnap 2])"
    using cache_step.store[of "exSnap 1" "exSys (Some (exSnap 2)) 2 [exSnap 1] [exSnap 2]"]
    by (simp add: exSys_def storeSnapshot_def olderThan_def exSnap_def)
  ultimately show ?thesis by (meson converse_rtranclp_into_rtranclp rtranclp.rtrancl_refl)
qed

theorem cache_holds_newest_witness:
  "newest (sys_snap (exSys (Some (exSnap 2)) 2 [] [exSnap 1, exSnap 2]))
     (rf_stored (sys_rest (exSys (Some (exSnap 2)) 2 [] [exSnap 1, exSnap 2])))"
  by (rule cache_holds_newest[OF _ exRun]) (simp add: cache_init_def exSys_def)


end
