(* ===== verification/Reconcile.thy ===== *)
theory Reconcile
  imports Main
begin

text \<open>
  The contract of a reconciliation plan.  Several routines of the provider compare a desired with
  an actual collection and issue one request that adds and one that removes: the ingress rules of
  a security group, the listeners of a load balancer, the instances registered with it.  The
  locale fixes the inputs the routine is meant for, the two collections and the plan, and derives
  what makes such a routine correct; each component interprets it on its own definitions.
\<close>

locale reconcile_plan =
  fixes valid :: "'d \<Rightarrow> 'a \<Rightarrow> bool"
    and desired :: "'d \<Rightarrow> 'x set"
    and actual :: "'a \<Rightarrow> 'x set"
    and adds :: "'d \<Rightarrow> 'a \<Rightarrow> 'x set"
    and rems :: "'d \<Rightarrow> 'a \<Rightarrow> 'x set"
  assumes adds_eq: "valid d a \<Longrightarrow> adds d a = desired d - actual a"
    and rems_eq: "valid d a \<Longrightarrow> rems d a = actual a - desired d"
begin

text \<open>Adding first and removing second, or the other way round, reaches the desired collection.\<close>

lemma add_then_remove: "valid d a \<Longrightarrow> (actual a \<union> adds d a) - rems d a = desired d"
  by (auto simp: adds_eq rems_eq)

lemma remove_then_add: "valid d a \<Longrightarrow> (actual a - rems d a) \<union> adds d a = desired d"
  by (auto simp: adds_eq rems_eq)

lemma plan_disjoint: "valid d a \<Longrightarrow> adds d a \<inter> rems d a = {}"
  by (auto simp: adds_eq rems_eq)

text \<open>Nothing to do exactly when the collections agree, so a second run changes nothing.\<close>

lemma noop_iff: "valid d a \<Longrightarrow> adds d a = {} \<and> rems d a = {} \<longleftrightarrow> desired d = actual a"
  by (auto simp: adds_eq rems_eq)

text \<open>What is both desired and present is never touched, and the plan is the least one.\<close>

lemma keeps_common:
  "valid d a \<Longrightarrow> x \<in> desired d \<Longrightarrow> x \<in> actual a \<Longrightarrow> x \<notin> adds d a \<and> x \<notin> rems d a"
  by (simp add: adds_eq rems_eq)

lemma minimal: "valid d a \<Longrightarrow> (actual a - R) \<union> A = desired d \<Longrightarrow> adds d a \<subseteq> A \<and> rems d a \<subseteq> R"
  by (auto simp: adds_eq rems_eq)

end

end
