(* ===== verification/IP_Rules.thy ===== *)
theory IP_Rules
  imports Cloud_API Reconcile
begin

text \<open>
  \<open>sets_ippermissions.go\<close> and the rule comparisons of \<open>utils.go\<close>.  An \<open>IPRulesSet\<close> is a Go map from
  the JSON text of a rule to the rule.  The JSON encoder belongs to the SDK, so it is the argument
  \<open>json\<close>; what the set operations rely on is that it tells apart the rules at hand.
\<close>

section \<open>The model\<close>

type_synonym IPRulesSet = "(string, SecurityGroupRule) gomap"

definition keyForIPRules :: "(SecurityGroupRule \<Rightarrow> string) \<Rightarrow> SecurityGroupRule \<Rightarrow> string" where
  "keyForIPRules json p = json p"

definition InsertRules ::
  "(SecurityGroupRule \<Rightarrow> string) \<Rightarrow> IPRulesSet \<Rightarrow> SecurityGroupRule list \<Rightarrow> IPRulesSet" where
  "InsertRules json s items = foldl (\<lambda>s p. mput (keyForIPRules json p) p s) s items"

definition NewIPRulesSet :: "(SecurityGroupRule \<Rightarrow> string) \<Rightarrow> SecurityGroupRule list \<Rightarrow> IPRulesSet" where
  "NewIPRulesSet json items = InsertRules json [] items"

definition ListRules :: "IPRulesSet \<Rightarrow> SecurityGroupRule list" where
  "ListRules s = map snd s"

definition LenRules :: "IPRulesSet \<Rightarrow> nat" where
  "LenRules s = length s"

definition DifferenceRules :: "IPRulesSet \<Rightarrow> IPRulesSet \<Rightarrow> IPRulesSet" where
  "DifferenceRules s s2 =
     foldl (\<lambda>result (k, v). if map_of s2 k = None then mput k v result else result) [] s"

text \<open>The three passes of \<open>Ungroup\<close>: over the ranges, the member groups and the services.\<close>

definition ungroupIpRanges :: "SecurityGroupRule \<Rightarrow> SecurityGroupRule list" where
  "ungroupIpRanges p =
     (if length (listval (rule_IpRanges p)) \<le> 1 then [p]
      else map (\<lambda>ipRange. p\<lparr>rule_IpRanges := Some [ipRange]\<rparr>) (listval (rule_IpRanges p)))"

definition ungroupMembers :: "SecurityGroupRule \<Rightarrow> SecurityGroupRule list" where
  "ungroupMembers p =
     (if length (listval (rule_SecurityGroupsMembers p)) \<le> 1 then [p]
      else map (\<lambda>u. p\<lparr>rule_SecurityGroupsMembers := Some [u]\<rparr>) (listval (rule_SecurityGroupsMembers p)))"

definition ungroupServiceIds :: "SecurityGroupRule \<Rightarrow> SecurityGroupRule list" where
  "ungroupServiceIds p =
     (if length (listval (rule_ServiceIds p)) \<le> 1 then [p]
      else map (\<lambda>v. p\<lparr>rule_ServiceIds := Some [v]\<rparr>) (listval (rule_ServiceIds p)))"

definition UngroupRules :: "(SecurityGroupRule \<Rightarrow> string) \<Rightarrow> IPRulesSet \<Rightarrow> IPRulesSet" where
  "UngroupRules json s =
     (let l = concat (map ungroupIpRanges (ListRules s));
          l2 = concat (map ungroupMembers l);
          l3 = concat (map ungroupServiceIds l2)
      in NewIPRulesSet json l3)"

text \<open>The EC2 form of a permission, and its conversion (\<open>int32(*p)\<close> truncates).\<close>

record UserIdGroupPair =
  ug_UserId :: "string option"
  ug_GroupId :: "string option"
  ug_GroupName :: "string option"

record IpPermission =
  ip_FromPort :: "int option"
  ip_ToPort :: "int option"
  ip_IpProtocol :: "string option"
  ip_IpRanges :: "string option list"
  ip_UserIdGroupPairs :: "UserIdGroupPair list"

definition toInt32 :: "int \<Rightarrow> int" where
  "toInt32 i = (i + 2 ^ 31) mod 2 ^ 32 - 2 ^ 31"

definition ruleFromAWS :: "IpPermission \<Rightarrow> SecurityGroupRule res" where
  "ruleFromAWS permission =
     (if list_ex (\<lambda>r. r = None) (ip_IpRanges permission) then Panic ''nil pointer dereference''
      else
        (let ipRanges = map strval (ip_IpRanges permission);
             members = map (\<lambda>g. \<lparr>sgm_AccountId = ug_UserId g, sgm_SecurityGroupId = ug_GroupId g,
                                  sgm_SecurityGroupName = ug_GroupName g\<rparr>) (ip_UserIdGroupPairs permission)
         in Ok \<lparr>rule_FromPortRange = map_option toInt32 (ip_FromPort permission),
                rule_ToPortRange = map_option toInt32 (ip_ToPort permission),
                rule_IpProtocol = ip_IpProtocol permission,
                rule_IpRanges = (if ipRanges \<noteq> [] then Some ipRanges else None),
                rule_SecurityGroupsMembers = (if members \<noteq> [] then Some members else None),
                rule_ServiceIds = None\<rparr>))"

definition NewIPRulesSetFromAWS ::
  "(SecurityGroupRule \<Rightarrow> string) \<Rightarrow> IpPermission list \<Rightarrow> IPRulesSet res" where
  "NewIPRulesSetFromAWS json items =
     res_map (InsertRules json []) (foldRes (\<lambda>rules p. res_map (\<lambda>r. rules @ [r]) (ruleFromAWS p)) [] items)"

section \<open>Comparing rules\<close>

definition isEqualInt64Pointer :: "int option \<Rightarrow> int option \<Rightarrow> bool" where
  "isEqualInt64Pointer l r = (case l of
       None \<Rightarrow> r = None
     | Some x \<Rightarrow> (case r of None \<Rightarrow> False | Some y \<Rightarrow> x = y))"

definition isEqualStringPointer :: "string option \<Rightarrow> string option \<Rightarrow> bool" where
  "isEqualStringPointer l r = (case l of
       None \<Rightarrow> r = None
     | Some x \<Rightarrow> (case r of None \<Rightarrow> False | Some y \<Rightarrow> x = y))"

text \<open>The log statement of \<open>isEqualUserGroupPair\<close> dereferences both group ids.\<close>

definition isEqualUserGroupPair :: "UserIdGroupPair \<Rightarrow> UserIdGroupPair \<Rightarrow> bool \<Rightarrow> bool res" where
  "isEqualUserGroupPair l r compareGroupUserIDs =
     (if ug_GroupId l = None \<or> ug_GroupId r = None then Panic ''nil pointer dereference''
      else Ok (if isEqualStringPointer (ug_GroupId l) (ug_GroupId r)
               then (if compareGroupUserIDs then isEqualStringPointer (ug_UserId l) (ug_UserId r) else True)
               else False))"

definition isEqualSecurityGroupMember :: "SecurityGroupsMember \<Rightarrow> SecurityGroupsMember \<Rightarrow> bool \<Rightarrow> bool" where
  "isEqualSecurityGroupMember l r compareGroupUserIDs =
     (if strval (sgm_SecurityGroupId l) = strval (sgm_SecurityGroupId r)
      then (if compareGroupUserIDs then strval (sgm_AccountId l) = strval (sgm_AccountId r) else True)
      else False)"

text \<open>\<open>for ... { if eq { found = true; break } }\<close> with a comparison that may panic.\<close>

fun anyRes :: "('a \<Rightarrow> bool res) \<Rightarrow> 'a list \<Rightarrow> bool res" where
  "anyRes p [] = Ok False"
| "anyRes p (x # xs) = res_bind (p x) (\<lambda>b. if b then Ok True else anyRes p xs)"

fun allRes :: "('a \<Rightarrow> bool res) \<Rightarrow> 'a list \<Rightarrow> bool res" where
  "allRes p [] = Ok True"
| "allRes p (x # xs) = res_bind (p x) (\<lambda>b. if b then allRes p xs else Ok False)"

definition ipPermissionAWSExists :: "IpPermission \<Rightarrow> IpPermission \<Rightarrow> bool \<Rightarrow> bool res" where
  "ipPermissionAWSExists newPermission existing compareGroupUserIDs =
     (if \<not> isEqualInt64Pointer (ip_FromPort newPermission) (ip_FromPort existing) then Ok False
      else if \<not> isEqualInt64Pointer (ip_ToPort newPermission) (ip_ToPort existing) then Ok False
      else if \<not> isEqualStringPointer (ip_IpProtocol newPermission) (ip_IpProtocol existing) then Ok False
      else if length (ip_IpRanges newPermission) > length (ip_IpRanges existing) then Ok False
      else if \<not> list_all (\<lambda>j. list_ex (\<lambda>k. isEqualStringPointer j k) (ip_IpRanges existing))
                  (ip_IpRanges newPermission) then Ok False
      else allRes (\<lambda>leftPair. anyRes (\<lambda>rightPair. isEqualUserGroupPair leftPair rightPair compareGroupUserIDs)
                                (ip_UserIdGroupPairs existing)) (ip_UserIdGroupPairs newPermission))"

definition ruleExists :: "SecurityGroupRule \<Rightarrow> SecurityGroupRule \<Rightarrow> bool \<Rightarrow> bool" where
  "ruleExists newPermission existing compareGroupUserIDs =
     (if intval (rule_FromPortRange newPermission) \<noteq> intval (rule_FromPortRange existing) then False
      else if intval (rule_ToPortRange newPermission) \<noteq> intval (rule_ToPortRange existing) then False
      else if strval (rule_IpProtocol newPermission) \<noteq> strval (rule_IpProtocol existing) then False
      else if length (listval (rule_IpRanges newPermission)) > length (listval (rule_IpRanges existing)) then False
      else if \<not> list_all (\<lambda>j. list_ex (\<lambda>k. j = k) (listval (rule_IpRanges existing)))
                  (listval (rule_IpRanges newPermission)) then False
      else list_all (\<lambda>leftPair. list_ex (\<lambda>rightPair. isEqualSecurityGroupMember leftPair rightPair compareGroupUserIDs)
                                  (listval (rule_SecurityGroupsMembers existing)))
             (listval (rule_SecurityGroupsMembers newPermission)))"

section \<open>Well-formed rule sets\<close>

definition rulesOf :: "IPRulesSet \<Rightarrow> SecurityGroupRule set" where
  "rulesOf s = snd ` set s"

text \<open>Keys are distinct and every rule sits under its own key.\<close>

definition rules_wf :: "(SecurityGroupRule \<Rightarrow> string) \<Rightarrow> IPRulesSet \<Rightarrow> bool" where
  "rules_wf json s \<longleftrightarrow> mwf s \<and> (\<forall>(k, v)\<in>set s. k = json v)"

lemma rules_wf_Nil [simp]: "rules_wf json []"
  by (simp add: rules_wf_def)

lemma rules_wf_pairs: "rules_wf json s \<Longrightarrow> set s = (\<lambda>r. (json r, r)) ` rulesOf s"
  by (force simp: rules_wf_def rulesOf_def)

lemma rules_wf_keys: "rules_wf json s \<Longrightarrow> fst ` set s = json ` rulesOf s"
  using rules_wf_pairs [of json s] by (simp add: image_image)

lemma rules_wf_lookup: "rules_wf json s \<Longrightarrow> map_of s k = None \<longleftrightarrow> k \<notin> json ` rulesOf s"
  by (simp add: map_of_eq_None_iff rules_wf_keys)

lemma rules_wf_inj: "rules_wf json s \<Longrightarrow> inj_on json (rulesOf s)"
proof (rule inj_onI)
  fix x y assume wf: "rules_wf json s" and xy: "x \<in> rulesOf s" "y \<in> rulesOf s" "json x = json y"
  from xy have "(json x, x) \<in> set s" "(json y, y) \<in> set s" unfolding rules_wf_pairs [OF wf] by blast+
  then show "x = y" using wf xy(3) by (metis rules_wf_def mwf_def eq_key_imp_eq_value)
qed

lemma set_mput: "mwf m \<Longrightarrow> set (mput k v m) = insert (k, v) {p \<in> set m. fst p \<noteq> k}"
proof (induction k v m rule: mput.induct)
  case (2 k v a b m)
  then show ?case by (auto simp: mwf_def image_iff)
qed simp

lemma InsertRules_Cons [simp]:
  "InsertRules json s (p # ps) = InsertRules json (mput (json p) p s) ps"
  "InsertRules json s [] = s"
  by (simp_all add: InsertRules_def keyForIPRules_def)

lemma rules_wf_mput: "rules_wf json s \<Longrightarrow> rules_wf json (mput (json p) p s)"
  by (auto simp: rules_wf_def mwf_mput set_mput)

lemma rules_wf_Insert: "rules_wf json s \<Longrightarrow> rules_wf json (InsertRules json s items)"
  by (induction items arbitrary: s) (auto simp: rules_wf_mput)

lemma rulesOf_mput:
  "rules_wf json s \<Longrightarrow> rulesOf (mput (json p) p s) = insert p {r \<in> rulesOf s. json r \<noteq> json p}"
  by (force simp: rulesOf_def rules_wf_def set_mput)

lemma rulesOf_Insert:
  assumes "rules_wf json s" "inj_on json (rulesOf s \<union> set items)"
  shows "rulesOf (InsertRules json s items) = rulesOf s \<union> set items"
  using assms
proof (induction items arbitrary: s)
  case (Cons p items)
  have "r = p" if "r \<in> rulesOf s" "json r = json p" for r
    by (rule inj_onD [OF Cons.prems(2)]) (use that in auto)
  then have eq: "rulesOf (mput (json p) p s) = insert p (rulesOf s)"
    using Cons.prems(1) by (auto simp: rulesOf_mput)
  then have "inj_on json (rulesOf (mput (json p) p s) \<union> set items)" using Cons.prems(2) by simp
  then show ?case using Cons.IH [OF rules_wf_mput [OF Cons.prems(1)]] eq by simp
qed simp

lemma rulesOf_New: "inj_on json (set items) \<Longrightarrow> rulesOf (NewIPRulesSet json items) = set items"
  using rulesOf_Insert [of json "[]" items] by (simp add: NewIPRulesSet_def rulesOf_def)

lemma rules_wf_New: "rules_wf json (NewIPRulesSet json items)"
  by (simp add: NewIPRulesSet_def rules_wf_Insert)

lemma set_ListRules [simp]: "set (ListRules s) = rulesOf s"
  by (simp add: ListRules_def rulesOf_def)

lemma LenRules_0_iff: "LenRules s = 0 \<longleftrightarrow> rulesOf s = {}"
  by (simp add: LenRules_def rulesOf_def)

section \<open>Difference\<close>

lemma Difference_filter: "mwf s \<Longrightarrow> DifferenceRules s s2 = filter (\<lambda>p. map_of s2 (fst p) = None) s"
proof -
  have snoc: "k \<notin> fst ` set r \<Longrightarrow> mput k v r = r @ [(k, v)]" for k v and r :: IPRulesSet
    by (induction k v r rule: mput.induct) auto
  have "mwf (r @ s) \<Longrightarrow>
      foldl (\<lambda>result (k, v). if map_of s2 k = None then mput k v result else result) r s =
      r @ filter (\<lambda>p. map_of s2 (fst p) = None) s" for r
  proof (induction s arbitrary: r)
    case (Cons p s)
    obtain k v where p: "p = (k, v)" by (cases p)
    have "k \<notin> fst ` set r" using Cons.prems p by (force simp: mwf_def)
    then show ?case using Cons.IH [of "r @ [(k, v)]"] Cons.IH [of r] Cons.prems
      by (auto simp: p snoc mwf_def)
  qed simp
  from this [of "[]"] show "mwf s \<Longrightarrow> ?thesis" by (simp add: DifferenceRules_def)
qed

lemma rules_wf_Difference: "rules_wf json s \<Longrightarrow> rules_wf json (DifferenceRules s s2)"
  by (auto simp: rules_wf_def Difference_filter mwf_def distinct_map_filter)

lemma rulesOf_Difference:
  assumes "rules_wf json s" "rules_wf json s2" "inj_on json (rulesOf s \<union> rulesOf s2)"
  shows "rulesOf (DifferenceRules s s2) = rulesOf s - rulesOf s2"
proof -
  have "json r \<in> json ` rulesOf s2 \<longleftrightarrow> r \<in> rulesOf s2" if "r \<in> rulesOf s" for r
    by (rule inj_on_image_mem_iff [OF assms(3)]) (use that in auto)
  moreover have "rulesOf (DifferenceRules s s2) = {r \<in> rulesOf s. json r \<notin> json ` rulesOf s2}"
  proof -
    have "set (DifferenceRules s s2) = {p \<in> set s. fst p \<notin> json ` rulesOf s2}"
      using assms(1) by (simp add: Difference_filter rules_wf_def rules_wf_lookup [OF assms(2)])
    also have "\<dots> = (\<lambda>r. (json r, r)) ` {r \<in> rulesOf s. json r \<notin> json ` rulesOf s2}"
      unfolding rules_wf_pairs [OF assms(1)] by auto
    finally show ?thesis by (simp only: rulesOf_def [of "DifferenceRules s s2"]) (simp add: image_image)
  qed
  ultimately show ?thesis by auto
qed

section \<open>Ungrouping\<close>

text \<open>What a rule allows: a protocol, a port interval and a source.\<close>

datatype source = FromRange string | FromMember SecurityGroupsMember | FromService string

definition sourcesOf :: "SecurityGroupRule \<Rightarrow> source set" where
  "sourcesOf p = FromRange ` set (listval (rule_IpRanges p)) \<union>
     FromMember ` set (listval (rule_SecurityGroupsMembers p)) \<union>
     FromService ` set (listval (rule_ServiceIds p))"

type_synonym permit = "string option \<times> int option \<times> int option \<times> source"

definition permits :: "SecurityGroupRule \<Rightarrow> permit set" where
  "permits p = (\<lambda>s. (rule_IpProtocol p, rule_FromPortRange p, rule_ToPortRange p, s)) ` sourcesOf p"

definition single :: "SecurityGroupRule \<Rightarrow> bool" where
  "single p \<longleftrightarrow> length (listval (rule_IpRanges p)) \<le> 1 \<and>
     length (listval (rule_SecurityGroupsMembers p)) \<le> 1 \<and> length (listval (rule_ServiceIds p)) \<le> 1"

definition ungroupRule :: "SecurityGroupRule \<Rightarrow> SecurityGroupRule list" where
  "ungroupRule p = concat (map ungroupServiceIds (concat (map ungroupMembers (ungroupIpRanges p))))"

lemma concat_map_concat:
  "concat (map f (concat (map g xs))) = concat (map (\<lambda>x. concat (map f (g x))) xs)"
  by (induction xs) auto

lemma UngroupRules_eq: "UngroupRules json s = NewIPRulesSet json (concat (map ungroupRule (ListRules s)))"
  unfolding UngroupRules_def Let_def concat_map_concat ungroupRule_def by simp

lemma permits_ungroupIpRanges: "\<Union> (permits ` set (ungroupIpRanges p)) = permits p"
proof (cases "length (listval (rule_IpRanges p)) \<le> 1")
  case False
  then have "\<exists>x. x \<in> set (listval (rule_IpRanges p))" by (cases "listval (rule_IpRanges p)") auto
  then show ?thesis using False
    by (auto simp: ungroupIpRanges_def permits_def sourcesOf_def image_iff)
qed (simp add: ungroupIpRanges_def)

lemma permits_ungroupMembers: "\<Union> (permits ` set (ungroupMembers p)) = permits p"
proof (cases "length (listval (rule_SecurityGroupsMembers p)) \<le> 1")
  case False
  then have "\<exists>x. x \<in> set (listval (rule_SecurityGroupsMembers p))" by (cases "listval (rule_SecurityGroupsMembers p)") auto
  then show ?thesis using False
    by (auto simp: ungroupMembers_def permits_def sourcesOf_def image_iff)
qed (simp add: ungroupMembers_def)

lemma permits_ungroupServiceIds: "\<Union> (permits ` set (ungroupServiceIds p)) = permits p"
proof (cases "length (listval (rule_ServiceIds p)) \<le> 1")
  case False
  then have "\<exists>x. x \<in> set (listval (rule_ServiceIds p))" by (cases "listval (rule_ServiceIds p)") auto
  then show ?thesis using False
    by (auto simp: ungroupServiceIds_def permits_def sourcesOf_def image_iff)
qed (simp add: ungroupServiceIds_def)

lemma permits_ungroupRule: "\<Union> (permits ` set (ungroupRule p)) = permits p"
proof -
  have "\<Union> (permits ` set (ungroupRule p)) =
      (\<Union>q\<in>set (ungroupIpRanges p). \<Union>r\<in>set (ungroupMembers q). \<Union> (permits ` set (ungroupServiceIds r)))"
    by (auto simp: ungroupRule_def)
  also have "\<dots> = permits p"
    by (simp add: permits_ungroupServiceIds permits_ungroupMembers permits_ungroupIpRanges)
  finally show ?thesis .
qed

lemma single_ungroupRule: "q \<in> set (ungroupRule p) \<Longrightarrow> single q"
  by (auto simp: ungroupRule_def single_def ungroupIpRanges_def ungroupMembers_def ungroupServiceIds_def
      split: if_splits)

lemma ungroupRule_single: "single p \<Longrightarrow> ungroupRule p = [p]"
  by (simp add: ungroupRule_def single_def ungroupIpRanges_def ungroupMembers_def ungroupServiceIds_def)

lemma rules_wf_Ungroup: "rules_wf json (UngroupRules json s)"
  by (simp add: UngroupRules_eq rules_wf_New)

lemma rulesOf_Ungroup:
  "inj_on json (\<Union> (set ` ungroupRule ` rulesOf s)) \<Longrightarrow>
     rulesOf (UngroupRules json s) = \<Union> (set ` ungroupRule ` rulesOf s)"
  by (simp add: UngroupRules_eq rulesOf_New image_image)

text \<open>
  C19. \<open>Ungroup\<close> does not change what a rule set allows: the union of the (protocol, ports, source)
  triples is the same before and after, every resulting rule has at most one range, one member
  group and one service, and the result is again a well-formed set.
\<close>

theorem Ungroup_preserves_permits:
  assumes "inj_on json (\<Union> (set ` ungroupRule ` rulesOf s))"
  shows "\<Union> (permits ` rulesOf (UngroupRules json s)) = \<Union> (permits ` rulesOf s) \<and>
    (\<forall>r\<in>rulesOf (UngroupRules json s). single r) \<and> rules_wf json (UngroupRules json s)"
proof -
  have "\<Union> (permits ` rulesOf (UngroupRules json s)) = (\<Union>p\<in>rulesOf s. \<Union> (permits ` set (ungroupRule p)))"
    by (auto simp: rulesOf_Ungroup [OF assms])
  then show ?thesis
    by (auto simp: permits_ungroupRule rulesOf_Ungroup [OF assms] rules_wf_Ungroup dest: single_ungroupRule)
qed

definition exRule :: "int \<Rightarrow> string list \<Rightarrow> SecurityGroupRule" where
  "exRule port ranges = \<lparr>rule_FromPortRange = Some port, rule_ToPortRange = Some port, rule_IpProtocol = Some ''tcp'',
     rule_IpRanges = Some ranges, rule_SecurityGroupsMembers = None, rule_ServiceIds = None\<rparr>"

text \<open>A stand-in for the JSON text, enough to tell apart the rules of the examples.\<close>

definition exJson :: "SecurityGroupRule \<Rightarrow> string" where
  "exJson r = FormatInt (intval (rule_FromPortRange r)) @ '':'' @ concat (listval (rule_IpRanges r))"

theorem Ungroup_preserves_permits_witness:
  "\<Union> (permits ` rulesOf (UngroupRules exJson [(''k'', exRule 80 [''a'', ''b''])])) =
     permits (exRule 80 [''a'', ''b''])"
proof -
  have u: "ungroupRule (exRule 80 [''a'', ''b'']) = [exRule 80 [''a''], exRule 80 [''b'']]"
    by (simp add: ungroupRule_def exRule_def ungroupIpRanges_def ungroupMembers_def ungroupServiceIds_def)
  have "inj_on exJson (\<Union> (set ` ungroupRule ` rulesOf [(''k'', exRule 80 [''a'', ''b''])]))"
    by (simp add: rulesOf_def u) (simp add: exJson_def exRule_def)
  from Ungroup_preserves_permits [OF this] show ?thesis by (simp add: rulesOf_def)
qed

section \<open>The difference as a reconciliation plan\<close>

lemma keys_Difference: "fst ` set (DifferenceRules s s2) = fst ` set s - fst ` set s2"
proof -
  have "fst ` set (foldl (\<lambda>result (k, v). if map_of s2 k = None then mput k v result else result) r s) =
      fst ` set r \<union> (fst ` set s - fst ` set s2)" for r
  proof (induction s arbitrary: r)
    case (Cons p s)
    show ?case using Cons.IH
      by (cases p) (auto simp: keys_mput map_of_eq_None_iff case_prod_unfold)
  qed simp
  from this [of "[]"] show ?thesis by (simp add: DifferenceRules_def)
qed

interpretation ipdiff: reconcile_plan
  "\<lambda>_ _. True" "\<lambda>permissions. fst ` set permissions" "\<lambda>actual. fst ` set actual"
  "\<lambda>permissions actual. fst ` set (DifferenceRules permissions actual)"
  "\<lambda>permissions actual. fst ` set (DifferenceRules actual permissions)"
  by unfold_locales (simp_all add: keys_Difference)

section \<open>The two rule comparisons agree\<close>

text \<open>A permission whose pointers are set and whose ports fit an \<open>int32\<close>.\<close>

definition int32_ok :: "int \<Rightarrow> bool" where
  "int32_ok i \<longleftrightarrow> - (2 ^ 31) \<le> i \<and> i < 2 ^ 31"

definition aws_complete :: "IpPermission \<Rightarrow> bool" where
  "aws_complete p \<longleftrightarrow>
     (\<exists>a b. ip_FromPort p = Some a \<and> ip_ToPort p = Some b \<and> int32_ok a \<and> int32_ok b) \<and>
     ip_IpProtocol p \<noteq> None \<and> None \<notin> set (ip_IpRanges p) \<and>
     (\<forall>g\<in>set (ip_UserIdGroupPairs p). ug_GroupId g \<noteq> None \<and> ug_UserId g \<noteq> None)"

lemma toInt32_id: "int32_ok i \<Longrightarrow> toInt32 i = i"
  by (simp add: toInt32_def int32_ok_def)

lemma anyRes_Ok: "(\<And>x. x \<in> set xs \<Longrightarrow> p x = Ok (q x)) \<Longrightarrow> anyRes p xs = Ok (list_ex q xs)"
  by (induction xs) auto

lemma allRes_Ok: "(\<And>x. x \<in> set xs \<Longrightarrow> p x = Ok (q x)) \<Longrightarrow> allRes p xs = Ok (list_all q xs)"
  by (induction xs) auto

lemma isEqualStringPointer_eq [simp]: "isEqualStringPointer l r \<longleftrightarrow> l = r"
  and isEqualInt64Pointer_eq [simp]: "isEqualInt64Pointer l' r' \<longleftrightarrow> l' = r'"
  by (auto simp: isEqualStringPointer_def isEqualInt64Pointer_def split: option.splits)

definition memberFromAWS :: "UserIdGroupPair \<Rightarrow> SecurityGroupsMember" where
  "memberFromAWS g = \<lparr>sgm_AccountId = ug_UserId g, sgm_SecurityGroupId = ug_GroupId g, sgm_SecurityGroupName = ug_GroupName g\<rparr>"

lemma strval_eq_iff: "a \<noteq> None \<Longrightarrow> b \<noteq> None \<Longrightarrow> strval a = strval b \<longleftrightarrow> a = b"
  by auto

lemma pair_member_equal:
  assumes "ug_GroupId l \<noteq> None" "ug_UserId l \<noteq> None" "ug_GroupId r \<noteq> None" "ug_UserId r \<noteq> None"
  shows "isEqualUserGroupPair l r c = Ok (isEqualSecurityGroupMember (memberFromAWS l) (memberFromAWS r) c)"
  using assms by (auto simp: isEqualUserGroupPair_def isEqualSecurityGroupMember_def memberFromAWS_def)

lemma listval_nonempty: "listval (if xs \<noteq> [] then Some xs else None) = xs"
  by simp

lemma ruleFromAWS_complete:
  assumes "aws_complete p" "ruleFromAWS p = Ok r"
  shows "rule_FromPortRange r = ip_FromPort p" "rule_ToPortRange r = ip_ToPort p"
    "rule_IpProtocol r = ip_IpProtocol p" "listval (rule_IpRanges r) = map strval (ip_IpRanges p)"
    "listval (rule_SecurityGroupsMembers r) = map memberFromAWS (ip_UserIdGroupPairs p)"
  using assms
  by (auto simp: ruleFromAWS_def Let_def aws_complete_def toInt32_id memberFromAWS_def split: if_splits)

lemma ranges_subset:
  assumes "None \<notin> set xs" "None \<notin> set ys"
  shows "list_all (\<lambda>j. list_ex (\<lambda>k. j = k) (map strval ys)) (map strval xs) \<longleftrightarrow>
     list_all (\<lambda>j. list_ex (\<lambda>k. isEqualStringPointer j k) ys) xs"
proof -
  have "strval x \<in> strval ` set ys \<longleftrightarrow> x \<in> set ys" if "x \<in> set xs" for x
    using assms that by (auto simp: image_iff) (metis strval_eq_iff)
  then show ?thesis by (auto simp: list_all_iff list_ex_iff)
qed

text \<open>
  The comparison for Outscale rules that replaces the EC2 one decides the same: on complete
  permissions, \<open>ipPermissionAWSExists\<close> answers (without a panic) what \<open>ruleExists\<close> answers on the
  converted rules.
\<close>

theorem ipPermissionAWSExists_ruleExists:
  assumes "aws_complete a" "aws_complete b" "ruleFromAWS a = Ok ra" "ruleFromAWS b = Ok rb"
  shows "ipPermissionAWSExists a b c = Ok (ruleExists ra rb c)"
proof -
  note A = ruleFromAWS_complete [OF assms(1,3)] and B = ruleFromAWS_complete [OF assms(2,4)]
  have "allRes (\<lambda>l. anyRes (\<lambda>r. isEqualUserGroupPair l r c) (ip_UserIdGroupPairs b)) (ip_UserIdGroupPairs a) =
     Ok (list_all (\<lambda>l. list_ex (\<lambda>r. isEqualSecurityGroupMember (memberFromAWS l) (memberFromAWS r) c)
           (ip_UserIdGroupPairs b)) (ip_UserIdGroupPairs a))"
    using assms(1,2) by (intro allRes_Ok anyRes_Ok pair_member_equal) (auto simp: aws_complete_def)
  moreover have "intval (ip_FromPort a) = intval (ip_FromPort b) \<longleftrightarrow> ip_FromPort a = ip_FromPort b"
    "intval (ip_ToPort a) = intval (ip_ToPort b) \<longleftrightarrow> ip_ToPort a = ip_ToPort b"
    "strval (ip_IpProtocol a) = strval (ip_IpProtocol b) \<longleftrightarrow> ip_IpProtocol a = ip_IpProtocol b"
    using assms(1,2) by (auto simp: aws_complete_def)
  moreover note ranges_subset [of "ip_IpRanges a" "ip_IpRanges b"]
  ultimately show ?thesis using assms(1,2)
    by (simp add: ipPermissionAWSExists_def ruleExists_def A B aws_complete_def list_all_iff list_ex_iff)
qed

definition exPerm :: "int \<Rightarrow> string list \<Rightarrow> IpPermission" where
  "exPerm port ranges = \<lparr>ip_FromPort = Some port, ip_ToPort = Some port, ip_IpProtocol = Some ''tcp'',
     ip_IpRanges = map Some ranges,
     ip_UserIdGroupPairs = [\<lparr>ug_UserId = Some ''u'', ug_GroupId = Some ''sg-1'', ug_GroupName = None\<rparr>]\<rparr>"

theorem ipPermissionAWSExists_ruleExists_witness:
  "\<exists>ra rb. ruleFromAWS (exPerm 80 [''a'']) = Ok ra \<and> ruleFromAWS (exPerm 80 [''b'', ''a'']) = Ok rb \<and>
     ipPermissionAWSExists (exPerm 80 [''a'']) (exPerm 80 [''b'', ''a'']) True = Ok (ruleExists ra rb True) \<and>
     ruleExists ra rb True"
proof -
  have c: "aws_complete (exPerm 80 rs)" for rs
    by (auto simp: aws_complete_def exPerm_def int32_ok_def)
  obtain ra rb where r: "ruleFromAWS (exPerm 80 [''a'']) = Ok ra" "ruleFromAWS (exPerm 80 [''b'', ''a'']) = Ok rb"
    by (simp add: ruleFromAWS_def exPerm_def)
  note eq = ipPermissionAWSExists_ruleExists [OF c c r, of True]
  moreover have "ipPermissionAWSExists (exPerm 80 [''a'']) (exPerm 80 [''b'', ''a'']) True = Ok True"
    by (simp add: ipPermissionAWSExists_def exPerm_def isEqualUserGroupPair_def)
  ultimately show ?thesis using r by auto
qed

end
