(* ===== verification/Annotations.thy ===== *)
theory Annotations
  imports Cloud_API
begin

text \<open>
  What the provider reads from a Service and its annotations without calling an API: the name of
  the load balancer, its listeners, attributes and health check, and the additional tags
  (\<open>GetLoadBalancerName\<close> and the first part of \<open>EnsureLoadBalancer\<close> in \<open>ccm_cloud.go\<close>,
  \<open>buildListener\<close> and \<open>getPortSets\<close> in \<open>utils.go\<close>, \<open>getLoadBalancerAdditionalTags\<close> and
  \<open>getExpectedHealthCheck\<close> in \<open>osc_loadbalancer.go\<close>).
\<close>

section \<open>The load balancer name\<close>

text \<open>The regular expression \<open>^[a-zA-Z0-9-]+$\<close>.\<close>

definition lbNameChar :: "char \<Rightarrow> bool" where
  "lbNameChar c \<longleftrightarrow> isLower c \<or> isUpper c \<or> isDigit c \<or> c = CHR ''-''"

definition lbNameMatch :: "string \<Rightarrow> bool" where
  "lbNameMatch s \<longleftrightarrow> s \<noteq> [] \<and> list_all lbNameChar s"

text \<open>The slice expression \<open>s[:n]\<close>; out of bounds it panics.\<close>

definition sliceTo :: "string \<Rightarrow> int \<Rightarrow> string res" where
  "sliceTo s n = (if 0 \<le> n \<and> n \<le> int (length s) then Ok (take (nat n) s)
     else Panic ''slice bounds out of range'')"

definition GetLoadBalancerName :: "Service \<Rightarrow> string res" where
  "GetLoadBalancerName service =
     (let ret0 = RemoveAll (CHR ''-'') (svc_UID service);
          ret1 = (case svc_Annotations service ServiceAnnotationLoadBalancerName of
                    None \<Rightarrow> ret0
                  | Some s \<Rightarrow> (if length s \<le> 0 \<or> \<not> lbNameMatch s then ret0 else s));
          nameLength = (case svc_Annotations service ServiceAnnotationLoadBalancerNameLength of
                    None \<Rightarrow> LbNameMaxLength
                  | Some s \<Rightarrow> (case ParseInt s of
                        None \<Rightarrow> LbNameMaxLength
                      | Some n \<Rightarrow> (if n > LbNameMaxLength then LbNameMaxLength else n)))
      in res_map (\<lambda>ret. Trim ret ''-'')
           (if int (length ret1) > nameLength then sliceTo ret1 nameLength else Ok ret1))"

section \<open>Listeners\<close>

record portSets =
  ps_names :: "string set"
  ps_numbers :: "int set"

definition portSetsAdd :: "portSets \<Rightarrow> string \<Rightarrow> portSets" where
  "portSetsAdd ports item = (case ParseInt item of
       None \<Rightarrow> ports\<lparr>ps_names := insert item (ps_names ports)\<rparr>
     | Some port \<Rightarrow> ports\<lparr>ps_numbers := insert port (ps_numbers ports)\<rparr>)"

definition getPortSets :: "string \<Rightarrow> portSets option" where
  "getPortSets annotation =
     (if annotation \<noteq> [] \<and> annotation \<noteq> ''*''
      then Some (foldl portSetsAdd \<lparr>ps_names = {}, ps_numbers = {}\<rparr> (Split (CHR '','') annotation))
      else None)"

definition buildListener :: "ServicePort \<Rightarrow> (string \<rightharpoonup> string) \<Rightarrow> portSets option \<Rightarrow> Listener res" where
  "buildListener port annotations sslPorts =
     (let loadBalancerPort = sp_Port port;
          portName = ToLower (sp_Name port);
          instancePort = sp_NodePort port;
          protocol0 = ToLower (sp_Protocol port);
          certID = mstr annotations ServiceAnnotationLoadBalancerCertificate;
          beProtocol = mstr annotations ServiceAnnotationLoadBalancerBEProtocol;
          mk = (\<lambda>protocol instanceProtocol cert.
             \<lparr>li_InstancePort = Some instancePort, li_LoadBalancerPort = Some loadBalancerPort,
              li_Protocol = Some (ToUpper protocol), li_InstanceProtocol = Some (ToUpper instanceProtocol),
              li_SSLCertificateId = cert\<rparr>)
      in
      if certID \<noteq> [] \<and> (case sslPorts of None \<Rightarrow> True
             | Some ps \<Rightarrow> loadBalancerPort \<in> ps_numbers ps \<or> portName \<in> ps_names ps)
      then
        (if beProtocol = [] then Ok (mk ''ssl'' ''tcp'' (Some certID))
         else
           (let protocol = mstr backendProtocolMapping beProtocol in
            if protocol = [] then Err (Errorf ''Invalid backend protocol %s for %s in %s'' [])
            else Ok (mk protocol beProtocol (Some certID))))
      else if beProtocol = ''http'' then Ok (mk ''http'' beProtocol None)
      else Ok (mk protocol0 protocol0 None))"

text \<open>The loop over the ports of the Service in \<open>EnsureLoadBalancer\<close>.\<close>

definition buildListeners :: "Service \<Rightarrow> Listener list res" where
  "buildListeners apiService =
     (let annotations = svc_Annotations apiService;
          sslPorts = getPortSets (mstr annotations ServiceAnnotationLoadBalancerSSLPorts)
      in foldRes (\<lambda>listeners port.
           if sp_Protocol port \<noteq> ''TCP'' then Err (Errorf ''Only TCP LoadBalancer is supported for AWS ELB'' [])
           else if sp_NodePort port = 0 then Ok listeners
           else res_map (\<lambda>listener. listeners @ [listener]) (buildListener port annotations sslPorts))
         [] (svc_Ports apiService))"

section \<open>Scheme, proxy protocol and attributes\<close>

definition isInternalELB :: "(string \<rightharpoonup> string) \<Rightarrow> bool" where
  "isInternalELB annotations =
     (let internalAnnotation = mstr annotations ServiceAnnotationLoadBalancerInternal in
      if internalAnnotation = ''false'' then False else internalAnnotation \<noteq> [])"

definition wantsProxyProtocol :: "(string \<rightharpoonup> string) \<Rightarrow> bool res" where
  "wantsProxyProtocol annotations =
     (let a = mstr annotations ServiceAnnotationLoadBalancerProxyProtocol in
      if a \<noteq> [] then
        (if a \<noteq> ''*'' then Err (Errorf ''annotation %q=%q detected, but the only value supported currently is '' [])
         else Ok True)
      else Ok False)"

text \<open>\<open>if a != "" { v, err := parse(a); if err != nil { return err }; field = &v }\<close>\<close>

definition parseAnnotation ::
  "(string \<Rightarrow> 'a option) \<Rightarrow> (string \<rightharpoonup> string) \<Rightarrow> string \<Rightarrow> 'a option \<Rightarrow> 'a option res" where
  "parseAnnotation parse annotations key old =
     (let a = mstr annotations key in
      if a \<noteq> [] then
        (case parse a of None \<Rightarrow> Err (Errorf ''error parsing service annotation: %s=%s'' []) | Some v \<Rightarrow> Ok (Some v))
      else Ok old)"

definition accessLogAttributes :: "(string \<rightharpoonup> string) \<Rightarrow> AccessLog option res" where
  "accessLogAttributes annotations =
     (let name = mstr annotations ServiceAnnotationLoadBalancerAccessLogS3BucketName;
          pfx = mstr annotations ServiceAnnotationLoadBalancerAccessLogS3BucketPrefix
      in if name \<noteq> [] \<and> pfx \<noteq> [] then
           res_bind (parseAnnotation ParseBool annotations ServiceAnnotationLoadBalancerAccessLogEnabled (Some False))
             (\<lambda>enabled.
           res_bind (parseAnnotation ParseInt annotations ServiceAnnotationLoadBalancerAccessLogEmitInterval None)
             (\<lambda>emit.
           Ok (Some \<lparr>al_Enabled = enabled, al_EmitInterval = emit,
                     al_S3BucketName = Some name, al_S3BucketPrefix = Some pfx\<rparr>)))
         else Ok None)"

definition getLoadBalancerAttributes :: "(string \<rightharpoonup> string) \<Rightarrow> LoadBalancerAttributes res" where
  "getLoadBalancerAttributes annotations =
     res_bind (accessLogAttributes annotations) (\<lambda>accessLog.
     res_bind (parseAnnotation ParseBool annotations ServiceAnnotationLoadBalancerConnectionDrainingEnabled (Some False))
       (\<lambda>drainingEnabled.
     res_bind (parseAnnotation ParseInt annotations ServiceAnnotationLoadBalancerConnectionDrainingTimeout None)
       (\<lambda>drainingTimeout.
     res_bind (parseAnnotation ParseInt annotations ServiceAnnotationLoadBalancerConnectionIdleTimeout (Some 60))
       (\<lambda>idleTimeout.
     Ok \<lparr>la_AccessLog = accessLog, la_DrainingEnabled = drainingEnabled, la_DrainingTimeout = drainingTimeout,
         la_IdleTimeout = idleTimeout, la_CrossZoneLoadBalancing = None, la_AdditionalAttributes = []\<rparr>))))"

section \<open>Health check\<close>

definition getOrDefault :: "(string \<rightharpoonup> string) \<Rightarrow> string \<Rightarrow> int \<Rightarrow> int res" where
  "getOrDefault annotations annotation defaultValue = (case annotations annotation of
       None \<Rightarrow> Ok defaultValue
     | Some s \<Rightarrow> (case ParseInt s of
           None \<Rightarrow> Err (Errorf ''failed parsing health check annotation value: %v'' [])
         | Some i \<Rightarrow> Ok i))"

definition getExpectedHealthCheck :: "'w Libs \<Rightarrow> string \<Rightarrow> (string \<rightharpoonup> string) \<Rightarrow> HealthCheck res" where
  "getExpectedHealthCheck libs target annotations =
     res_bind (getOrDefault annotations ServiceAnnotationLoadBalancerHCHealthyThreshold defaultHCHealthyThreshold)
       (\<lambda>healthy.
     res_bind (getOrDefault annotations ServiceAnnotationLoadBalancerHCUnhealthyThreshold defaultHCUnhealthyThreshold)
       (\<lambda>unhealthy.
     res_bind (getOrDefault annotations ServiceAnnotationLoadBalancerHCTimeout defaultHCTimeout) (\<lambda>timeout.
     res_bind (getOrDefault annotations ServiceAnnotationLoadBalancerHCInterval defaultHCInterval) (\<lambda>interval.
       (let healthcheck = \<lparr>hc_Target = Some target, hc_HealthyThreshold = Some healthy,
              hc_UnhealthyThreshold = Some unhealthy, hc_Timeout = Some timeout, hc_Interval = Some interval\<rparr>
        in case HealthCheckValidate libs healthcheck of
             Some e \<Rightarrow> Err (Errorf ''some of the load balancer health check parameters are invalid: %v'' [e])
           | None \<Rightarrow> Ok healthcheck)))))"

section \<open>Additional tags\<close>

definition additionalTagsStep :: "(string, string) gomap \<Rightarrow> string \<Rightarrow> (string, string) gomap" where
  "additionalTagsStep additionalTags tagSet = (case Split (CHR ''='') (TrimSpace tagSet) of
       k # v # _ \<Rightarrow> (if length k \<noteq> 0 then mput k v additionalTags else additionalTags)
     | [k] \<Rightarrow> (if length k \<noteq> 0 then mput k [] additionalTags else additionalTags)
     | [] \<Rightarrow> additionalTags)"

definition getLoadBalancerAdditionalTags :: "(string \<rightharpoonup> string) \<Rightarrow> (string, string) gomap" where
  "getLoadBalancerAdditionalTags annotations =
     (case annotations ServiceAnnotationLoadBalancerAdditionalTags of
        None \<Rightarrow> []
      | Some additionalTagsList \<Rightarrow>
          foldl additionalTagsStep [] (Split (CHR '','') (TrimSpace additionalTagsList)))"

section \<open>Status\<close>

text \<open>The hostnames of \<open>status.Ingress\<close>.\<close>

definition toStatus :: "LoadBalancerDescription \<Rightarrow> string list" where
  "toStatus lb = (if strval (lb_DNSName lb) \<noteq> [] then [strval (lb_DNSName lb)] else [])"


section \<open>The name: when it exists, what it looks like, and that it is unique\<close>

definition nameLengthOf :: "Service \<Rightarrow> int" where
  "nameLengthOf service = (case svc_Annotations service ServiceAnnotationLoadBalancerNameLength of
       None \<Rightarrow> LbNameMaxLength
     | Some s \<Rightarrow> (case ParseInt s of None \<Rightarrow> LbNameMaxLength | Some n \<Rightarrow> min n LbNameMaxLength))"

definition baseName :: "Service \<Rightarrow> string" where
  "baseName service = (case svc_Annotations service ServiceAnnotationLoadBalancerName of
       None \<Rightarrow> RemoveAll (CHR ''-'') (svc_UID service)
     | Some s \<Rightarrow> (if lbNameMatch s then s else RemoveAll (CHR ''-'') (svc_UID service)))"

lemma GetLoadBalancerName_alt:
  "GetLoadBalancerName service =
     (if nameLengthOf service < 0 then Panic ''slice bounds out of range''
      else Ok (Trim (take (nat (nameLengthOf service)) (baseName service)) ''-''))"
proof -
  have cap: "(if n > LbNameMaxLength then LbNameMaxLength else n) = min n LbNameMaxLength" for n
    by auto
  have base: "(if length s \<le> 0 \<or> \<not> lbNameMatch s then r else s) = (if lbNameMatch s then s else r)" for s r
    by (auto simp: lbNameMatch_def)
  show ?thesis
    unfolding GetLoadBalancerName_def cap base Let_def
    by (simp add: nameLengthOf_def[symmetric] baseName_def[symmetric] sliceTo_def)
qed

lemma nameLengthOf_neg_iff:
  "nameLengthOf service < 0 \<longleftrightarrow>
     (case svc_Annotations service ServiceAnnotationLoadBalancerNameLength of
        None \<Rightarrow> False | Some s \<Rightarrow> (case ParseInt s of None \<Rightarrow> False | Some n \<Rightarrow> n < 0))"
  by (auto simp: nameLengthOf_def LbNameMaxLength_def split: option.splits)

text \<open>
  C32. \<open>GetLoadBalancerName\<close> crashes the controller exactly when the name-length annotation is a
  negative number: the value is only checked against the maximum before it bounds a slice.
\<close>

theorem GetLoadBalancerName_panics_iff:
  "(\<exists>p. GetLoadBalancerName service = Panic p) \<longleftrightarrow>
     (case svc_Annotations service ServiceAnnotationLoadBalancerNameLength of
        None \<Rightarrow> False | Some s \<Rightarrow> (case ParseInt s of None \<Rightarrow> False | Some n \<Rightarrow> n < 0))"
  unfolding nameLengthOf_neg_iff[symmetric] by (simp add: GetLoadBalancerName_alt)

lemma baseName_chars: "list_all lbNameChar (svc_UID service) \<Longrightarrow> list_all lbNameChar (baseName service)"
  by (auto simp: baseName_def lbNameMatch_def list_all_iff RemoveAll_def split: option.splits)

text \<open>
  C30. A name the provider gives to a load balancer has at most 32 characters, only characters the
  API accepts, and neither starts nor ends with a dash, whatever the annotations say (for a Service
  whose UID has such characters, as the UUIDs of the API server have).
\<close>

theorem GetLoadBalancerName_wellformed:
  assumes "list_all lbNameChar (svc_UID service)" and "GetLoadBalancerName service = Ok name"
  shows "int (length name) \<le> LbNameMaxLength \<and> list_all lbNameChar name \<and>
    (case name of [] \<Rightarrow> True | c # _ \<Rightarrow> c \<noteq> CHR ''-'' \<and> last name \<noteq> CHR ''-'')"
proof -
  let ?raw = "take (nat (nameLengthOf service)) (baseName service)"
  have name: "name = TrimBy (\<lambda>c. c \<in> set ''-'') ?raw"
    using assms(2) by (auto simp: GetLoadBalancerName_alt Trim_def split: if_splits)
  have "nameLengthOf service \<le> LbNameMaxLength" by (auto simp: nameLengthOf_def split: option.splits)
  then have "int (length ?raw) \<le> LbNameMaxLength" by (auto simp: LbNameMaxLength_def)
  then have len: "int (length name) \<le> LbNameMaxLength"
    using length_TrimBy[of "\<lambda>c. c \<in> set ''-''" ?raw] unfolding name by linarith
  have "list_all lbNameChar name"
    using baseName_chars[OF assms(1)] set_TrimBy[of "\<lambda>c. c \<in> set ''-''" ?raw] name
    by (auto simp: list_all_iff dest!: in_set_takeD subsetD)
  then show ?thesis
    using len hd_TrimBy[of "\<lambda>c. c \<in> set ''-''" ?raw] last_TrimBy[of "\<lambda>c. c \<in> set ''-''" ?raw] name
    by (auto split: list.splits)
qed

definition exService :: "string \<Rightarrow> (string \<rightharpoonup> string) \<Rightarrow> Service" where
  "exService uid annotations = \<lparr>svc_Namespace = ''default'', svc_Name = ''web'', svc_UID = uid,
     svc_Annotations = annotations, svc_SessionAffinity = ''None'', svc_Ports = [], svc_LoadBalancerIP = []\<rparr>"

theorem GetLoadBalancerName_wellformed_witness:
  "int (length ''ab'') \<le> LbNameMaxLength \<and> list_all lbNameChar ''ab'' \<and>
    (case ''ab'' of [] \<Rightarrow> True | c # _ \<Rightarrow> c \<noteq> CHR ''-'' \<and> last ''ab'' \<noteq> CHR ''-'')"
proof (rule GetLoadBalancerName_wellformed[where service = "exService ''0-1'' [ServiceAnnotationLoadBalancerName \<mapsto> ''-ab-cd'', ServiceAnnotationLoadBalancerNameLength \<mapsto> ''4'']"])
  show "list_all lbNameChar (svc_UID (exService ''0-1'' [ServiceAnnotationLoadBalancerName \<mapsto> ''-ab-cd'', ServiceAnnotationLoadBalancerNameLength \<mapsto> ''4'']))"
    by (simp add: exService_def lbNameChar_def isDigit_def code_def)
  show "GetLoadBalancerName (exService ''0-1'' [ServiceAnnotationLoadBalancerName \<mapsto> ''-ab-cd'', ServiceAnnotationLoadBalancerNameLength \<mapsto> ''4'']) = Ok ''ab''"
    by code_simp
qed

text \<open>The canonical form of a UUID: groups of 8, 4, 4, 4 and 12 hexadecimal digits.\<close>

definition hexChar :: "char \<Rightarrow> bool" where
  "hexChar c \<longleftrightarrow> isDigit c \<or> (97 \<le> code c \<and> code c \<le> 102)"

definition canonicalUUID :: "string \<Rightarrow> bool" where
  "canonicalUUID s \<longleftrightarrow> map length (Split (CHR ''-'') s) = [8, 4, 4, 4, 12] \<and>
     (\<forall>g \<in> set (Split (CHR ''-'') s). list_all hexChar g)"

lemma concat_lengths_inj:
  "map length xss = map length yss \<Longrightarrow> concat xss = concat yss \<Longrightarrow> xss = yss"
proof (induction xss arbitrary: yss)
  case (Cons xs xss)
  then show ?case by (cases yss) auto
qed auto


lemma default_name:
  assumes "canonicalUUID (svc_UID service)"
    and "svc_Annotations service ServiceAnnotationLoadBalancerName = None"
    and "svc_Annotations service ServiceAnnotationLoadBalancerNameLength = None"
  shows "GetLoadBalancerName service = Ok (RemoveAll (CHR ''-'') (svc_UID service))"
proof -
  let ?r = "RemoveAll (CHR ''-'') (svc_UID service)"
  have "length ?r = sum_list (map length (Split (CHR ''-'') (svc_UID service)))"
    by (simp add: concat_Split[symmetric] length_concat)
  then have "length ?r = 32" using assms(1) by (simp add: canonicalUUID_def)
  moreover have "Trim ?r ''-'' = ?r" unfolding Trim_def by (rule TrimBy_id) (auto simp: RemoveAll_def)
  ultimately show ?thesis
    using assms(2,3) by (simp add: GetLoadBalancerName_alt nameLengthOf_def baseName_def LbNameMaxLength_def)
qed

text \<open>
  C31. Without name annotations two Services get the same load balancer name only when they have the
  same UID, so distinct Services never share a load balancer.
\<close>

theorem default_names_distinct:
  assumes "canonicalUUID (svc_UID s1)" "canonicalUUID (svc_UID s2)"
    and "\<And>s. s \<in> {s1, s2} \<Longrightarrow> svc_Annotations s ServiceAnnotationLoadBalancerName = None"
    and "\<And>s. s \<in> {s1, s2} \<Longrightarrow> svc_Annotations s ServiceAnnotationLoadBalancerNameLength = None"
  shows "GetLoadBalancerName s1 = GetLoadBalancerName s2 \<longleftrightarrow> svc_UID s1 = svc_UID s2"
proof
  let ?c = "CHR ''-''"
  assume "GetLoadBalancerName s1 = GetLoadBalancerName s2"
  then have "concat (Split ?c (svc_UID s1)) = concat (Split ?c (svc_UID s2))"
    using assms by (simp add: default_name concat_Split)
  then have "Split ?c (svc_UID s1) = Split ?c (svc_UID s2)"
    using assms(1,2) by (intro concat_lengths_inj) (simp_all add: canonicalUUID_def)
  then show "svc_UID s1 = svc_UID s2" by (metis JoinStr_Split)
qed (use assms in \<open>simp add: default_name\<close>)

theorem default_names_distinct_witness:
  "GetLoadBalancerName (exService ''01234567-89ab-cdef-0123-456789abcdef'' Map.empty) =
     GetLoadBalancerName (exService ''01234567-89ab-cdef-0123-456789abcdee'' Map.empty) \<longleftrightarrow>
   svc_UID (exService ''01234567-89ab-cdef-0123-456789abcdef'' Map.empty) =
     svc_UID (exService ''01234567-89ab-cdef-0123-456789abcdee'' Map.empty)"
proof (rule default_names_distinct)
  show "canonicalUUID (svc_UID (exService ''01234567-89ab-cdef-0123-456789abcdef'' Map.empty))"
    and "canonicalUUID (svc_UID (exService ''01234567-89ab-cdef-0123-456789abcdee'' Map.empty))"
    by (code_simp, code_simp)
qed (auto simp: exService_def)


section \<open>Listeners: one per usable port, TLS exactly on the selected ports\<close>

lemma foldl_portSetsAdd:
  "ps_names (foldl portSetsAdd ps items) = ps_names ps \<union> {i \<in> set items. ParseInt i = None}"
  "ps_numbers (foldl portSetsAdd ps items) = ps_numbers ps \<union> {n. \<exists>i\<in>set items. ParseInt i = Some n}"
  by (induction items arbitrary: ps) (auto simp: portSetsAdd_def split: option.splits)

text \<open>Whether the ssl-ports annotation selects a port: no annotation and \<open>*\<close> select every port,
  otherwise the port's number or its lower-cased name is one of the comma-separated items.\<close>

definition sslSelected :: "(string \<rightharpoonup> string) \<Rightarrow> ServicePort \<Rightarrow> bool" where
  "sslSelected annotations port =
     (let a = mstr annotations ServiceAnnotationLoadBalancerSSLPorts; items = Split (CHR '','') a in
      a = [] \<or> a = ''*'' \<or> list_ex (\<lambda>i. ParseInt i = Some (sp_Port port)) items \<or>
      (ToLower (sp_Name port) \<in> set items \<and> ParseInt (ToLower (sp_Name port)) = None))"

lemma getPortSets_selected:
  "(case getPortSets (mstr annotations ServiceAnnotationLoadBalancerSSLPorts) of None \<Rightarrow> True
      | Some ps \<Rightarrow> sp_Port port \<in> ps_numbers ps \<or> ToLower (sp_Name port) \<in> ps_names ps)
   \<longleftrightarrow> sslSelected annotations port"
  by (auto simp: getPortSets_def sslSelected_def Let_def foldl_portSetsAdd list_ex_iff)

definition wantsTLS :: "(string \<rightharpoonup> string) \<Rightarrow> ServicePort \<Rightarrow> bool" where
  "wantsTLS annotations port \<longleftrightarrow>
     mstr annotations ServiceAnnotationLoadBalancerCertificate \<noteq> [] \<and> sslSelected annotations port"

lemma backendProtocolMapping_TLS:
  "mstr backendProtocolMapping p \<noteq> [] \<Longrightarrow> ToUpper (mstr backendProtocolMapping p) \<in> {''SSL'', ''HTTPS''}"
proof -
  have "ToUpper ''https'' = ''HTTPS''" "ToUpper ''ssl'' = ''SSL''" by code_simp+
  then show "mstr backendProtocolMapping p \<noteq> [] \<Longrightarrow> ToUpper (mstr backendProtocolMapping p) \<in> {''SSL'', ''HTTPS''}"
    by (auto simp: mstr_def backendProtocolMapping_def split: if_splits option.splits)
qed

lemma buildListener_Ok:
  assumes "buildListener port annotations (getPortSets (mstr annotations ServiceAnnotationLoadBalancerSSLPorts)) = Ok l"
    and "sp_Protocol port = ''TCP''"
  shows "li_LoadBalancerPort l = Some (sp_Port port) \<and> li_InstancePort l = Some (sp_NodePort port) \<and>
    (if wantsTLS annotations port
     then li_SSLCertificateId l = Some (mstr annotations ServiceAnnotationLoadBalancerCertificate) \<and>
          strval (li_Protocol l) \<in> {''SSL'', ''HTTPS''}
     else li_SSLCertificateId l = None \<and> strval (li_Protocol l) \<in> {''TCP'', ''HTTP''})"
proof -
  have up: "ToUpper ''ssl'' = ''SSL''" "ToUpper ''http'' = ''HTTP''" "ToUpper (ToLower ''TCP'') = ''TCP''"
    by code_simp+
  show ?thesis
    using assms backendProtocolMapping_TLS[of "mstr annotations ServiceAnnotationLoadBalancerBEProtocol"]
    by (auto simp: buildListener_def Let_def getPortSets_selected wantsTLS_def up split: if_splits)
qed

lemma foldRes_listeners:
  assumes "foldRes (\<lambda>listeners port.
             if sp_Protocol port \<noteq> ''TCP'' then Err e
             else if sp_NodePort port = 0 then Ok listeners
             else res_map (\<lambda>listener. listeners @ [listener]) (f port)) acc ports = Ok ls"
  shows "(\<forall>p\<in>set ports. sp_Protocol p = ''TCP'') \<and>
     (\<exists>new. ls = acc @ new \<and> list_all2 (\<lambda>p l. f p = Ok l) (filter (\<lambda>p. sp_NodePort p \<noteq> 0) ports) new)"
  using assms
proof (induction ports arbitrary: acc)
  case (Cons p ports)
  show ?case
  proof (cases "sp_NodePort p = 0")
    case True
    then show ?thesis using Cons by (auto split: if_splits)
  next
    case False
    then obtain l where l: "f p = Ok l" and tcp: "sp_Protocol p = ''TCP''"
      and tl: "foldRes (\<lambda>listeners port.
             if sp_Protocol port \<noteq> ''TCP'' then Err e
             else if sp_NodePort port = 0 then Ok listeners
             else res_map (\<lambda>listener. listeners @ [listener]) (f port)) (acc @ [l]) ports = Ok ls"
      using Cons.prems by (auto split: if_splits)
    then show ?thesis using Cons.IH[OF tl] False by auto
  qed
qed auto

text \<open>
  C33. When \<open>EnsureLoadBalancer\<close> accepts the ports of a Service, it builds one listener for every port
  with a node port, in order, forwarding the port to that node port.  A listener terminates TLS, with
  the certificate of the annotation, exactly when a certificate is given and the ssl-ports annotation
  selects the port; every other listener carries no certificate and is plain TCP or HTTP.
\<close>

theorem buildListeners_TLS:
  assumes "buildListeners service = Ok listeners"
  shows "list_all2 (\<lambda>port l.
       sp_Protocol port = ''TCP'' \<and>
       li_LoadBalancerPort l = Some (sp_Port port) \<and> li_InstancePort l = Some (sp_NodePort port) \<and>
       (if wantsTLS (svc_Annotations service) port
        then li_SSLCertificateId l = Some (mstr (svc_Annotations service) ServiceAnnotationLoadBalancerCertificate) \<and>
             strval (li_Protocol l) \<in> {''SSL'', ''HTTPS''}
        else li_SSLCertificateId l = None \<and> strval (li_Protocol l) \<in> {''TCP'', ''HTTP''}))
     (filter (\<lambda>p. sp_NodePort p \<noteq> 0) (svc_Ports service)) listeners"
proof -
  let ?f = "\<lambda>p. buildListener p (svc_Annotations service)
    (getPortSets (mstr (svc_Annotations service) ServiceAnnotationLoadBalancerSSLPorts))"
  have *: "\<forall>p\<in>set (svc_Ports service). sp_Protocol p = ''TCP''"
    and **: "list_all2 (\<lambda>p l. ?f p = Ok l) (filter (\<lambda>p. sp_NodePort p \<noteq> 0) (svc_Ports service)) listeners"
    using foldRes_listeners[OF assms[unfolded buildListeners_def Let_def]] by auto
  show ?thesis
    using **
  proof (rule list.rel_mono_strong)
    fix p l assume p: "p \<in> set (filter (\<lambda>p. sp_NodePort p \<noteq> 0) (svc_Ports service))" and l: "?f p = Ok l"
    then have tcp: "sp_Protocol p = ''TCP''" using * by simp
    show "sp_Protocol p = ''TCP'' \<and> li_LoadBalancerPort l = Some (sp_Port p) \<and>
       li_InstancePort l = Some (sp_NodePort p) \<and>
       (if wantsTLS (svc_Annotations service) p
        then li_SSLCertificateId l = Some (mstr (svc_Annotations service) ServiceAnnotationLoadBalancerCertificate) \<and>
             strval (li_Protocol l) \<in> {''SSL'', ''HTTPS''}
        else li_SSLCertificateId l = None \<and> strval (li_Protocol l) \<in> {''TCP'', ''HTTP''})"
      by (rule conjI[OF tcp buildListener_Ok[OF l tcp]])
  qed
qed

definition exTLSService :: Service where
  "exTLSService = (exService ''u1'' [ServiceAnnotationLoadBalancerCertificate \<mapsto> ''arn:c'',
       ServiceAnnotationLoadBalancerSSLPorts \<mapsto> ''443,admin''])
     \<lparr>svc_Ports := [\<lparr>sp_Name = ''web'', sp_Protocol = ''TCP'', sp_Port = 80, sp_NodePort = 30080\<rparr>,
                    \<lparr>sp_Name = ''Admin'', sp_Protocol = ''TCP'', sp_Port = 8443, sp_NodePort = 30443\<rparr>]\<rparr>"

theorem buildListeners_TLS_witness:
  "\<exists>l1 l2. buildListeners exTLSService = Ok [l1, l2] \<and>
     li_SSLCertificateId l1 = None \<and> li_SSLCertificateId l2 = Some ''arn:c'' \<and>
     strval (li_Protocol l1) \<in> {''TCP'', ''HTTP''} \<and> strval (li_Protocol l2) \<in> {''SSL'', ''HTTPS''}"
proof -
  define l1 :: Listener where "l1 = \<lparr>li_InstancePort = Some 30080, li_LoadBalancerPort = Some 80,
    li_Protocol = Some ''TCP'', li_InstanceProtocol = Some ''TCP'', li_SSLCertificateId = None\<rparr>"
  define l2 :: Listener where "l2 = \<lparr>li_InstancePort = Some 30443, li_LoadBalancerPort = Some 8443,
    li_Protocol = Some ''SSL'', li_InstanceProtocol = Some ''TCP'', li_SSLCertificateId = Some ''arn:c''\<rparr>"
  have ok: "buildListeners exTLSService = Ok [l1, l2]" unfolding l1_def l2_def by code_simp
  have "\<not> wantsTLS (svc_Annotations exTLSService) (svc_Ports exTLSService ! 0)"
    and "wantsTLS (svc_Annotations exTLSService) (svc_Ports exTLSService ! 1)"
    by (code_simp, code_simp)
  moreover have "filter (\<lambda>p. sp_NodePort p \<noteq> 0) (svc_Ports exTLSService) =
      [svc_Ports exTLSService ! 0, svc_Ports exTLSService ! 1]"
    by (simp add: exTLSService_def)
  moreover have "mstr (svc_Annotations exTLSService) ServiceAnnotationLoadBalancerCertificate = ''arn:c''"
    by code_simp
  ultimately show ?thesis using buildListeners_TLS[OF ok] ok by auto
qed

section \<open>Additional tags: parsing what was rendered\<close>

definition renderTags :: "(string, string) gomap \<Rightarrow> string" where
  "renderTags kvs = JoinStr (map (\<lambda>(k, v). k @ ''='' @ v) kvs) '',''"

definition tagText :: "string \<Rightarrow> bool" where
  "tagText s \<longleftrightarrow> list_all (\<lambda>c. c \<noteq> CHR '','' \<and> c \<noteq> CHR ''='' \<and> \<not> isSpace c) s"

lemma additionalTagsStep_pair:
  assumes "k \<noteq> []" "tagText k" "tagText v"
  shows "additionalTagsStep m (k @ ''='' @ v) = mput k v m"
proof -
  have "\<forall>c\<in>set (k @ ''='' @ v). \<not> isSpace c"
    using assms by (auto simp: tagText_def list_all_iff isSpace_def code_def)
  then have "TrimSpace (k @ ''='' @ v) = k @ ''='' @ v" unfolding TrimSpace_def by (rule TrimBy_id)
  moreover have "CHR ''='' \<notin> set k" "CHR ''='' \<notin> set v" using assms by (auto simp: tagText_def list_all_iff)
  ultimately show ?thesis using assms(1) by (simp add: additionalTagsStep_def Split_append_sep)
qed

lemma foldl_additionalTags:
  assumes "\<forall>(k, v) \<in> set kvs. k \<noteq> [] \<and> tagText k \<and> tagText v"
  shows "foldl additionalTagsStep m (map (\<lambda>(k, v). k @ ''='' @ v) kvs) = foldl (\<lambda>m (k, v). mput k v m) m kvs"
  using assms by (induction kvs arbitrary: m) (auto simp: additionalTagsStep_pair[simplified])

lemma set_JoinStr: "set (JoinStr xs sep) \<subseteq> \<Union> (set ` set xs) \<union> set sep"
proof (induction xs)
  case (Cons x xs)
  then show ?case by (cases xs) auto
qed simp

text \<open>
  Round trip: a set of tags with clean, non-empty keys and clean values, rendered as the
  comma-separated \<open>key=value\<close> list the annotation documents, is read back by
  \<open>getLoadBalancerAdditionalTags\<close> tag for tag.
\<close>

theorem additionalTags_roundtrip:
  assumes "kvs \<noteq> []" "mwf kvs" "\<forall>(k, v) \<in> set kvs. k \<noteq> [] \<and> tagText k \<and> tagText v"
  shows "map_of (getLoadBalancerAdditionalTags
    (annotations(ServiceAnnotationLoadBalancerAdditionalTags \<mapsto> renderTags kvs))) = map_of kvs"
proof -
  let ?items = "map (\<lambda>(k, v). k @ ''='' @ v) kvs"
  have item: "list_all (\<lambda>c. c \<noteq> CHR '','' \<and> \<not> isSpace c) x" if "x \<in> set ?items" for x
    using that assms(3) by (fastforce simp: tagText_def list_all_iff isSpace_def code_def)
  have "\<forall>c\<in>set (renderTags kvs). \<not> isSpace c"
  proof
    fix c assume "c \<in> set (renderTags kvs)"
    then consider x where "x \<in> set ?items" "c \<in> set x" | "c = CHR '',''"
      using set_JoinStr[of ?items "'',''"] unfolding renderTags_def
      by (metis (no_types, lifting) UN_E UnE empty_iff list.set(1) set_ConsD subsetD)
    then show "\<not> isSpace c"
    proof cases
      case 1
      then show ?thesis using item[of x] by (simp add: list_all_iff)
    qed (simp add: isSpace_def code_def)
  qed
  then have "TrimSpace (renderTags kvs) = renderTags kvs" unfolding TrimSpace_def by (rule TrimBy_id)
  moreover have "Split (CHR '','') (renderTags kvs) = ?items"
    unfolding renderTags_def using assms(1) item by (intro Split_JoinStr) (auto simp: list_all_iff)
  ultimately have "getLoadBalancerAdditionalTags (annotations(ServiceAnnotationLoadBalancerAdditionalTags \<mapsto> renderTags kvs))
      = foldl (\<lambda>m (k, v). mput k v m) [] kvs"
    by (simp add: getLoadBalancerAdditionalTags_def foldl_additionalTags[OF assms(3), simplified])
  then show ?thesis using assms(2) by (simp add: mwf_def gm.get_puts_distinct fun_eq_iff split: option.splits)
qed

theorem additionalTags_roundtrip_witness:
  "map_of (getLoadBalancerAdditionalTags
      (Map.empty(ServiceAnnotationLoadBalancerAdditionalTags \<mapsto> renderTags [(''env'', ''prod''), (''team'', ''net'')]))) =
     map_of [(''env'', ''prod''), (''team'', ''net'')]"
proof (rule additionalTags_roundtrip)
  show "\<forall>(k, v)\<in>set [(''env'', ''prod''), (''team'', ''net'')]. k \<noteq> [] \<and> tagText k \<and> tagText v"
    by (simp add: tagText_def isSpace_def code_def)
qed (simp_all add: mwf_def)

end
