(* ===== verification/Security_Groups.thy ===== *)
theory Security_Groups
  imports Cloud IP_Rules Annotations
begin

text \<open>
  Security groups (\<open>findSecurityGroup\<close>, \<open>setSecurityGroupIngress\<close>, \<open>addSecurityGroupRules\<close>,
  \<open>removeSecurityGroupRules\<close>, \<open>ensureSecurityGroup\<close>, \<open>buildELBSecurityGroupList\<close>,
  \<open>getTaggedSecurityGroups\<close>, \<open>updateInstanceSecurityGroupsForLoadBalancer\<close> of \<open>ccm_cloud.go\<close> and
  \<open>findSecurityGroupForInstance\<close> of \<open>utils.go\<close>).  The theorems show that the rules of a group become
  exactly the requested ones, that the shared group of the configuration is never changed, that the
  creation loop is bounded, and which groups are opened to and closed for a load balancer.
\<close>

section \<open>Rules of a group\<close>

definition findSecurityGroup :: "'w Cloud \<Rightarrow> string \<Rightarrow> ('w, SecurityGroup option) io" where
  "findSecurityGroup c securityGroupID =
     bnd (ReadSecurityGroups (c_compute c) (noSgFilter\<lparr>fsg_SecurityGroupIds := Some [securityGroupID]\<rparr>)) (\<lambda>groups.
       if length groups = 0 then ok None
       else if length groups \<noteq> 1 then raise (Errorf ''multiple security groups found with same id %q'' [])
       else ok (Some (hd groups)))"

text \<open>A request for inbound rules of a group.\<close>

definition inboundRules :: "string \<Rightarrow> SecurityGroupRule list \<Rightarrow> SecurityGroupRuleRequest" where
  "inboundRules securityGroupID rules = \<lparr>srr_Flow = ''Inbound'', srr_SecurityGroupId = securityGroupID,
     srr_Rules = Some rules, srr_SecurityGroupName = None, srr_SecurityGroupAccountId = None\<rparr>"

definition linkRequest :: "string \<Rightarrow> SecurityGroupRuleRequest" where
  "linkRequest securityGroupID = \<lparr>srr_Flow = ''Inbound'', srr_SecurityGroupId = securityGroupID,
     srr_Rules = None, srr_SecurityGroupName = Some DefaultSrcSgName, srr_SecurityGroupAccountId = Some DefaultSgOwnerID\<rparr>"

definition setSecurityGroupIngress :: "'w Cloud \<Rightarrow> string \<Rightarrow> IPRulesSet \<Rightarrow> ('w, bool) io" where
  "setSecurityGroupIngress c securityGroupID permissions0 =
     (if securityGroupID = ElbSecurityGroup (globalCfg c) then ok False
      else bnd (findSecurityGroup c securityGroupID) (\<lambda>group0. case group0 of
          None \<Rightarrow> raise (Errorf ''security group not found: %s'' [])
        | Some grp \<Rightarrow>
           (let json = jsonRule (c_libs c);
                actual0 = NewIPRulesSet json (listval (sg_InboundRules grp));
                permissions = UngroupRules json permissions0;
                actual = UngroupRules json actual0;
                remove = DifferenceRules actual permissions;
                add = DifferenceRules permissions actual
            in
            if LenRules add = 0 \<and> LenRules remove = 0 then ok False
            else bnd (if LenRules add \<noteq> 0
                      then attempt (CreateSecurityGroupRule (c_compute c) (inboundRules securityGroupID (ListRules add))) ok
                             (\<lambda>e. raise (Errorf ''error authorizing security group ingress: %q'' [e]))
                      else ok ()) (\<lambda>_.
                 bnd (if LenRules remove \<noteq> 0
                      then attempt (DeleteSecurityGroupRule (c_compute c) (inboundRules securityGroupID (ListRules remove))) ok
                             (\<lambda>e. raise (Errorf ''error revoking security group ingress: %q'' [e]))
                      else ok ()) (\<lambda>_. ok True)))))"

text \<open>The variable \<open>hasUserID\<close> of the two loops below.\<close>

definition hasUserID :: "SecurityGroupRule \<Rightarrow> bool" where
  "hasUserID rule = list_ex (\<lambda>member. sgm_AccountId member \<noteq> None) (listval (rule_SecurityGroupsMembers rule))"

definition ruleFound :: "SecurityGroup \<Rightarrow> SecurityGroupRule \<Rightarrow> bool" where
  "ruleFound grp rule =
     list_ex (\<lambda>groupPermission. ruleExists rule groupPermission (hasUserID rule)) (listval (sg_InboundRules grp))"

definition addSecurityGroupRules :: "'w Cloud \<Rightarrow> string \<Rightarrow> SecurityGroupRule list \<Rightarrow> bool \<Rightarrow> ('w, bool) io" where
  "addSecurityGroupRules c securityGroupID addPermissions isPublicCloud =
     (if securityGroupID = ElbSecurityGroup (globalCfg c) then ok False
      else bnd (findSecurityGroup c securityGroupID) (\<lambda>group0. case group0 of
          None \<Rightarrow> raise (Errorf ''security group not found: %s'' [])
        | Some grp \<Rightarrow>
           (let changes = filter (\<lambda>p. \<not> ruleFound grp p) addPermissions in
            if length changes = 0 \<and> \<not> isPublicCloud then ok False
            else
              (let request = (if \<not> isPublicCloud then inboundRules securityGroupID changes else linkRequest securityGroupID)
               in attempt (CreateSecurityGroupRule (c_compute c) request) (\<lambda>_. ok True) (\<lambda>e.
                    if isPublicCloud \<and> ContainsStr (errText e) ''Conflict'' then ok True
                    else raise (Errorf ''error authorizing security group ingress: %q'' [e]))))))"

definition removeSecurityGroupRules :: "'w Cloud \<Rightarrow> string \<Rightarrow> SecurityGroupRule list \<Rightarrow> bool \<Rightarrow> ('w, bool) io" where
  "removeSecurityGroupRules c securityGroupID removePermissions isPublicCloud =
     (if securityGroupID = ElbSecurityGroup (globalCfg c) then ok False
      else bnd (findSecurityGroup c securityGroupID) (\<lambda>group0. case group0 of
          None \<Rightarrow> ok False
        | Some grp \<Rightarrow>
           (let changes = filter (ruleFound grp) removePermissions in
            if length changes = 0 \<and> \<not> isPublicCloud then ok False
            else
              (let request = (if \<not> isPublicCloud then inboundRules securityGroupID changes else linkRequest securityGroupID)
               in bnd (DeleteSecurityGroupRule (c_compute c) request) (\<lambda>_. ok True)))))"

section \<open>Creating groups\<close>

text \<open>The loop of \<open>ensureSecurityGroup\<close>; \<open>n\<close> is the variable \<open>attempt\<close> after its increment.  \<open>Inl\<close> is a
  \<open>return\<close> of the existing group's id, \<open>Inr\<close> the \<open>break\<close> with the new group's id.\<close>

definition sgNameFilter :: "'w Cloud \<Rightarrow> string \<Rightarrow> FiltersSecurityGroup" where
  "sgNameFilter c name =
     (let f = noSgFilter\<lparr>fsg_SecurityGroupNames := Some [name]\<rparr> in
      if c_vpcID c \<noteq> [] then f\<lparr>fsg_NetIds := Some [c_vpcID c]\<rparr> else f)"

definition createSgRequest :: "'w Cloud \<Rightarrow> string \<Rightarrow> string \<Rightarrow> CreateSecurityGroupRequest" where
  "createSgRequest c name description =
     \<lparr>csg_NetId = (if c_vpcID c \<noteq> [] then Some (c_vpcID c) else None),
      csg_SecurityGroupName = name, csg_Description = description\<rparr>"

function ensureSgLoop :: "'w Cloud \<Rightarrow> string \<Rightarrow> string \<Rightarrow> nat \<Rightarrow> ('w, string + string) io" where
  "ensureSgLoop c name description n =
     bnd (ReadSecurityGroups (c_compute c) (sgNameFilter c name)) (\<lambda>securityGroups.
       case securityGroups of
         sg # _ \<Rightarrow>
           bnd (readRepairClusterTags (c_environ c) (c_libs c) (c_tagging c) (c_compute c)
                  (strval (sg_SecurityGroupId sg)) ResourceLifecycleOwned [] (sg_Tags sg)) (\<lambda>_.
           ok (Inl (strval (sg_SecurityGroupId sg))))
       | [] \<Rightarrow>
           attempt (CreateSecurityGroup (c_compute c) (createSgRequest c name description))
             (\<lambda>created. ok (Inr (case created of None \<Rightarrow> [] | Some sg \<Rightarrow> strval (sg_SecurityGroupId sg))))
             (\<lambda>e. if ContainsStr (errText e) ''Conflict'' \<and> n < MaxReadThenCreateRetries
                  then bnd (Sleep (c_clock c) 1) (\<lambda>_. ensureSgLoop c name description (Suc n))
                  else raise e))"
  by pat_completeness auto
termination
  by (relation "measure (\<lambda>(c, name, description, n). MaxReadThenCreateRetries - n)") auto

definition ensureSecurityGroup :: "'w Cloud \<Rightarrow> string \<Rightarrow> string \<Rightarrow> (string, string) gomap \<Rightarrow> ('w, string) io" where
  "ensureSecurityGroup c name description additionalTags =
     bnd (ensureSgLoop c name description 1) (\<lambda>r. case r of
         Inl groupID \<Rightarrow> ok groupID
       | Inr groupID \<Rightarrow>
          (if groupID = [] then raise (Errorf ''created security group, but id was not returned: %s'' [])
           else attempt (createTags (c_environ c) (c_libs c) (c_tagging c) (c_compute c) groupID ResourceLifecycleOwned additionalTags)
                  (\<lambda>_. ok groupID)
                  (\<lambda>e. raise (Errorf ''error tagging security group: %q'' [e]))))"

text \<open>The non-empty trimmed items of a comma-separated annotation.\<close>

definition extraSGs :: "string \<Rightarrow> string list" where
  "extraSGs annotation = filter (\<lambda>s. length s > 0) (map TrimSpace (Split (CHR '','') annotation))"

definition buildELBSecurityGroupList ::
  "'w Cloud \<Rightarrow> string \<Rightarrow> string \<Rightarrow> (string \<rightharpoonup> string) \<Rightarrow> ('w, string list) io" where
  "buildELBSecurityGroupList c serviceName loadBalancerName annotations =
     bnd (if ElbSecurityGroup (globalCfg c) \<noteq> [] then ok (ElbSecurityGroup (globalCfg c))
          else
            (let sgName = ''k8s-elb-'' @ loadBalancerName;
                 sgDescription = ''Security group for Kubernetes ELB '' @ loadBalancerName @ '' ('' @ serviceName @ '')''
             in ensureSecurityGroup c sgName sgDescription (getLoadBalancerAdditionalTags annotations)))
       (\<lambda>securityGroupID.
          (let sgList = extraSGs (mstr annotations ServiceAnnotationLoadBalancerSecurityGroups);
               sgList1 = (if length sgList = 0 then [securityGroupID] else sgList)
           in ok (sgList1 @ extraSGs (mstr annotations ServiceAnnotationLoadBalancerExtraSecurityGroups))))"

section \<open>Opening the instances' groups to a load balancer\<close>

definition taggedFilter :: "'w Cloud \<Rightarrow> FiltersSecurityGroup" where
  "taggedFilter c = noSgFilter\<lparr>fsg_TagKeys := Some [clusterTagKey (c_tagging c)],
     fsg_Tags := Some [TagNameMainSG @ ClusterID (c_tagging c) @ ''='' @ ''True'']\<rparr>"

definition getTaggedSecurityGroups :: "'w Cloud \<Rightarrow> ('w, (string, SecurityGroup) gomap) io" where
  "getTaggedSecurityGroups c =
     attempt (ReadSecurityGroups (c_compute c) (taggedFilter c))
       (\<lambda>groups. lift (foldRes (\<lambda>m grp. res_map (\<lambda>has.
            if \<not> has then m
            else if strval (sg_SecurityGroupId grp) = [] then m
            else mput (strval (sg_SecurityGroupId grp)) grp m)
          (hasClusterTag (c_tagging c) (sg_Tags grp))) [] groups))
       (\<lambda>e. raise (Errorf ''error querying security groups: %q'' [e]))"

definition lightGroups :: "Vm \<Rightarrow> SecurityGroupLight list" where
  "lightGroups instance =
     map (\<lambda>grp. \<lparr>sgl_SecurityGroupId = Some (strval (sgl_SecurityGroupId grp)),
                    sgl_SecurityGroupName = sgl_SecurityGroupName grp\<rparr>)
       (filter (\<lambda>grp. strval (sgl_SecurityGroupId grp) \<noteq> []) (listval (vm_SecurityGroups instance)))"

definition findSecurityGroupForInstance ::
  "Vm \<Rightarrow> (string, SecurityGroup) gomap \<Rightarrow> SecurityGroupLight option res" where
  "findSecurityGroupForInstance instance taggedSecurityGroups =
     (let isTagged = (\<lambda>g. map_of taggedSecurityGroups (strval (sgl_SecurityGroupId g)) \<noteq> None);
          tagged = filter isTagged (lightGroups instance);
          untagged = filter (\<lambda>g. \<not> isTagged g) (lightGroups instance)
      in
      if length tagged > 0 then
        (if length tagged \<noteq> 1
         then Err (Errorf ''Multiple tagged security groups found for instance %s; ensure only the k8s security group is tagged; the tagged groups were %v'' [])
         else Ok (Some (hd tagged)))
      else if length untagged > 0 then
        (if length untagged \<noteq> 1
         then Err (Errorf ''Multiple untagged security groups found for instance %s; ensure the k8s security group is tagged'' [])
         else Ok (Some (hd untagged)))
      else Ok None)"

text \<open>The last non-empty id of the balancer's groups, or of the given ones when it has none.\<close>

definition loadBalancerSecurityGroup :: "LoadBalancerDescription \<Rightarrow> string list \<Rightarrow> string" where
  "loadBalancerSecurityGroup lb securityGroupIDs =
     foldl (\<lambda>sg s. if s = [] then sg else s) []
       (if length (lb_SecurityGroups lb) > 0 then lb_SecurityGroups lb else securityGroupIDs)"

text \<open>The two loops that fill the map of changes: true to open, false to close.\<close>

definition scanInstance ::
  "(string, SecurityGroup) gomap \<Rightarrow> (string, bool) gomap \<Rightarrow> Vm \<Rightarrow> (string, bool) gomap res" where
  "scanInstance tagged m instance =
     res_map (\<lambda>sg. case sg of None \<Rightarrow> m
        | Some g \<Rightarrow> (if strval (sgl_SecurityGroupId g) = [] then m else mput (strval (sgl_SecurityGroupId g)) True m))
       (findSecurityGroupForInstance instance tagged)"

definition compareActual :: "(string, bool) gomap \<Rightarrow> SecurityGroup \<Rightarrow> (string, bool) gomap" where
  "compareActual m actualGroup =
     (let actualGroupID = strval (sg_SecurityGroupId actualGroup) in
      if actualGroupID = [] then m
      else if map_of m actualGroupID = Some True then mdel actualGroupID m
      else mput actualGroupID False m)"

definition ingressPermissions :: "string \<Rightarrow> SecurityGroupRule list" where
  "ingressPermissions loadBalancerSecurityGroupID =
     (if loadBalancerSecurityGroupID = DefaultSrcSgName then []
      else [\<lparr>rule_FromPortRange = Some (- 1), rule_ToPortRange = Some (- 1), rule_IpProtocol = Some ''-1'',
             rule_IpRanges = None,
             rule_SecurityGroupsMembers = Some [\<lparr>sgm_AccountId = None,
                sgm_SecurityGroupId = Some loadBalancerSecurityGroupID, sgm_SecurityGroupName = None\<rparr>],
             rule_ServiceIds = None\<rparr>])"

definition applyChange :: "'w Cloud \<Rightarrow> string \<Rightarrow> string \<times> bool \<Rightarrow> ('w, unit) io" where
  "applyChange c lbSg = (\<lambda>(instanceSecurityGroupID, add).
     (let isPublicCloud = (lbSg = DefaultSrcSgName); permissions = ingressPermissions lbSg in
      if add then bnd (addSecurityGroupRules c instanceSecurityGroupID permissions isPublicCloud) (\<lambda>_. ok ())
      else bnd (removeSecurityGroupRules c instanceSecurityGroupID permissions isPublicCloud) (\<lambda>_. ok ())))"

definition actualFilter :: "string \<Rightarrow> FiltersSecurityGroup" where
  "actualFilter lbSg =
     (if lbSg \<noteq> DefaultSrcSgName then noSgFilter\<lparr>fsg_InboundRuleSecurityGroupIds := Some [lbSg]\<rparr>
      else noSgFilter\<lparr>fsg_InboundRuleSecurityGroupNames := Some [lbSg]\<rparr>)"

definition updateInstanceSecurityGroupsForLoadBalancer ::
  "'w Cloud \<Rightarrow> LoadBalancerDescription \<Rightarrow> (string, Vm) gomap \<Rightarrow> string list \<Rightarrow> ('w, unit) io" where
  "updateInstanceSecurityGroupsForLoadBalancer c lb instances securityGroupIDs =
     (if DisableSecurityGroupIngress (globalCfg c) then ok ()
      else
        (let lbSg = loadBalancerSecurityGroup lb securityGroupIDs in
         if lbSg = [] then raise (Errorf ''could not determine security group for load balancer: %s'' [])
         else
           attempt (ReadSecurityGroups (c_compute c) (actualFilter lbSg)) (\<lambda>response.
             bnd (lift (filterRes (\<lambda>sg. hasClusterTag (c_tagging c) (sg_Tags sg)) response)) (\<lambda>actualGroups.
             attempt (getTaggedSecurityGroups c) (\<lambda>tagged.
               bnd (lift (foldRes (scanInstance tagged) [] (map snd instances))) (\<lambda>wanted.
               forEach (foldl compareActual wanted actualGroups) (applyChange c lbSg)))
             (\<lambda>e. raise (Errorf ''error querying for tagged security groups: %q'' [e]))))
           (\<lambda>e. raise (Errorf ''error querying security groups for ELB: %q'' [e]))))"


section \<open>The rules of a group become exactly the requested ones\<close>

text \<open>
  What the API documents about the rules of a group, relative to the set of JSON texts of the
  single rules of each group that a world holds: reading a group by its id shows its rules, creating
  single rules adds them, deleting single rules removes them, and neither touches another group.
\<close>

definition ruleKeys :: "(SecurityGroupRule \<Rightarrow> string) \<Rightarrow> SecurityGroupRule list \<Rightarrow> string set" where
  "ruleKeys json rules = fst ` set (UngroupRules json (NewIPRulesSet json rules))"

definition sgContract ::
  "'w Compute \<Rightarrow> (SecurityGroupRule \<Rightarrow> string) \<Rightarrow> ('w \<Rightarrow> string \<Rightarrow> string set) \<Rightarrow> bool" where
  "sgContract client json view \<longleftrightarrow>
     (\<forall>w i r w'. ReadSecurityGroups client (noSgFilter\<lparr>fsg_SecurityGroupIds := Some [i]\<rparr>) w = (r, w') \<longrightarrow>
        view w' = view w \<and>
        (\<forall>gs. r = Ok gs \<longrightarrow> (\<forall>g\<in>set gs. ruleKeys json (listval (sg_InboundRules g)) = view w i))) \<and>
     (\<forall>w i rs w'. list_all single rs \<longrightarrow> CreateSecurityGroupRule client (inboundRules i rs) w = (Ok (), w') \<longrightarrow>
        view w' = (view w)(i := view w i \<union> json ` set rs)) \<and>
     (\<forall>w i rs w'. list_all single rs \<longrightarrow> DeleteSecurityGroupRule client (inboundRules i rs) w = (Ok (), w') \<longrightarrow>
        view w' = (view w)(i := view w i - json ` set rs))"

lemma rulesOf_New_subset: "rulesOf (NewIPRulesSet json items) \<subseteq> set items"
proof -
  have "rulesOf (InsertRules json s items) \<subseteq> rulesOf s \<union> set items" if "rules_wf json s" for s
    using that
  proof (induction items arbitrary: s)
    case (Cons p items)
    then show ?case using Cons.IH[OF rules_wf_mput[OF Cons.prems]] by (auto simp: rulesOf_mput)
  qed simp
  from this[of "[]"] show ?thesis by (simp add: NewIPRulesSet_def rulesOf_def)
qed

lemma single_Ungroup: "r \<in> rulesOf (UngroupRules json s) \<Longrightarrow> single r"
  using rulesOf_New_subset[of json] by (fastforce simp: UngroupRules_eq dest: single_ungroupRule)

lemma rulesOf_Difference_subset: "rules_wf json s \<Longrightarrow> rulesOf (DifferenceRules s s2) \<subseteq> rulesOf s"
  by (auto simp: rules_wf_def Difference_filter rulesOf_def)

lemma Difference_single:
  "list_all single (ListRules (DifferenceRules (UngroupRules json s) s2))"
  using rulesOf_Difference_subset[OF rules_wf_Ungroup[of json s], of s2]
  by (auto simp: list_all_iff intro: single_Ungroup)

lemma json_ListRules: "rules_wf json s \<Longrightarrow> json ` set (ListRules s) = fst ` set s"
  by (simp add: rules_wf_keys)

lemma keys_empty_iff: "LenRules s = 0 \<longleftrightarrow> fst ` set s = {}"
  by (simp add: LenRules_def)

lemma findSecurityGroup_view:
  assumes "sgContract (c_compute c) json view" "findSecurityGroup c i w = (Ok r, w1)"
  shows "view w1 = view w \<and> (\<forall>g. r = Some g \<longrightarrow> ruleKeys json (listval (sg_InboundRules g)) = view w i)"
  using assms by (auto simp: findSecurityGroup_def bnd_eq_Ok sgContract_def split: if_splits)

lemma create_view:
  assumes "sgContract client json view" "rules_wf json (DifferenceRules (UngroupRules json s) s2)"
    and "CreateSecurityGroupRule client (inboundRules i (ListRules (DifferenceRules (UngroupRules json s) s2))) w = (Ok (), w')"
  shows "view w' = (view w)(i := view w i \<union> fst ` set (DifferenceRules (UngroupRules json s) s2))"
  using assms Difference_single[of json s s2] json_ListRules[OF assms(2)] unfolding sgContract_def by metis

lemma delete_view:
  assumes "sgContract client json view" "rules_wf json (DifferenceRules (UngroupRules json s) s2)"
    and "DeleteSecurityGroupRule client (inboundRules i (ListRules (DifferenceRules (UngroupRules json s) s2))) w = (Ok (), w')"
  shows "view w' = (view w)(i := view w i - fst ` set (DifferenceRules (UngroupRules json s) s2))"
  using assms Difference_single[of json s s2] json_ListRules[OF assms(2)] unfolding sgContract_def by metis

text \<open>
  C3. For every client whose rule calls behave as documented, a successful
  \<open>setSecurityGroupIngress\<close> leaves the group with exactly the requested rules (compared one source at
  a time), leaves every other group alone, and reports a change exactly when the rules differed.
\<close>

theorem setSecurityGroupIngress_exact:
  assumes "sgContract (c_compute c) (jsonRule (c_libs c)) view"
    and "i \<noteq> ElbSecurityGroup (globalCfg c)"
    and "setSecurityGroupIngress c i permissions w = (Ok changed, w')"
  shows "view w' = (view w)(i := fst ` set (UngroupRules (jsonRule (c_libs c)) permissions)) \<and>
    (changed \<longleftrightarrow> view w i \<noteq> fst ` set (UngroupRules (jsonRule (c_libs c)) permissions))"
proof -
  let ?json = "jsonRule (c_libs c)"
  obtain g w1 where find: "findSecurityGroup c i w = (Ok (Some g), w1)"
    using assms(2,3) by (auto simp: setSecurityGroupIngress_def bnd_eq_Ok split: option.splits)
  define desired where "desired = UngroupRules ?json permissions"
  define actual where "actual = UngroupRules ?json (NewIPRulesSet ?json (listval (sg_InboundRules g)))"
  let ?add = "DifferenceRules desired actual" and ?remove = "DifferenceRules actual desired"
  have v1: "view w1 = view w" and act: "fst ` set actual = view w i"
    using findSecurityGroup_view[OF assms(1) find] by (auto simp: actual_def ruleKeys_def)
  have wf: "rules_wf ?json ?add" "rules_wf ?json ?remove"
    by (simp_all add: desired_def actual_def rules_wf_Ungroup rules_wf_Difference)
  note noop = ipdiff.noop_iff[OF TrueI, of desired actual, folded keys_empty_iff]
  show ?thesis
  proof (cases "LenRules ?add = 0 \<and> LenRules ?remove = 0")
    case True
    then have "changed = False" "w' = w1"
      using assms(2,3) find by (simp_all add: setSecurityGroupIngress_def Let_def flip: desired_def actual_def)
    then show ?thesis using noop True v1 act by (simp add: fun_eq_iff flip: desired_def)
  next
    case False
    obtain w2 where
      add: "(if LenRules ?add \<noteq> 0 then CreateSecurityGroupRule (c_compute c) (inboundRules i (ListRules ?add)) else ok ()) w1 = (Ok (), w2)"
      and rem: "(if LenRules ?remove \<noteq> 0 then DeleteSecurityGroupRule (c_compute c) (inboundRules i (ListRules ?remove)) else ok ()) w2 = (Ok (), w')"
      and changed
      using assms(2,3) find False
      by (auto simp: setSecurityGroupIngress_def Let_def bnd_eq_Ok attempt_eq_Ok split: if_splits
          simp flip: desired_def actual_def)
    have "view w2 = (view w1)(i := view w1 i \<union> fst ` set ?add)"
      using add create_view[OF assms(1) wf(1)[unfolded desired_def], folded desired_def]
      by (auto simp: keys_empty_iff split: if_splits)
    moreover have "view w' = (view w2)(i := view w2 i - fst ` set ?remove)"
      using rem delete_view[OF assms(1) wf(2)[unfolded actual_def], folded actual_def]
      by (auto simp: keys_empty_iff split: if_splits)
    ultimately have "view w' = (view w)(i := fst ` set desired)"
      using ipdiff.add_then_remove[OF TrueI, of actual desired] act v1 by simp
    then show ?thesis using noop False act \<open>changed\<close> by (auto simp flip: desired_def)
  qed
qed


text \<open>A client that keeps the rules of each group in memory, one rule per source.\<close>

definition memSgClient :: "(string \<Rightarrow> SecurityGroupRule list) Compute" where
  "memSgClient = \<lparr>ReadVms = (\<lambda>_. ok []),
     ReadSecurityGroups = (\<lambda>f w. (Ok (map (\<lambda>i. \<lparr>sg_SecurityGroupId = Some i, sg_SecurityGroupName = None,
        sg_Tags = Some [], sg_InboundRules = Some (concat (map ungroupRule (w i)))\<rparr>) (listval (fsg_SecurityGroupIds f))), w)),
     CreateSecurityGroup = (\<lambda>_. ok None), DeleteSecurityGroup = (\<lambda>_. ok ()),
     CreateSecurityGroupRule = (\<lambda>r w. (Ok (),
        w(srr_SecurityGroupId r := w (srr_SecurityGroupId r) @ concat (map ungroupRule (listval (srr_Rules r)))))),
     DeleteSecurityGroupRule = (\<lambda>r w. (Ok (),
        w(srr_SecurityGroupId r := filter (\<lambda>x. exJson x \<notin> exJson ` set (listval (srr_Rules r)))
            (concat (map ungroupRule (w (srr_SecurityGroupId r))))))),
     DescribeSubnets = (\<lambda>_. ok []), CreateTags = (\<lambda>_. ok ()), ReadRouteTables = (\<lambda>_. ok []),
     api_CreateRoute = (\<lambda>_. ok ()), api_DeleteRoute = (\<lambda>_. ok ()), UpdateVM = (\<lambda>_. ok ())\<rparr>"


definition memView :: "(string \<Rightarrow> SecurityGroupRule list) \<Rightarrow> string \<Rightarrow> string set" where
  "memView w i = exJson ` set (concat (map ungroupRule (w i)))"

lemma keys_New: "fst ` set (NewIPRulesSet json items) = json ` set items"
proof -
  have "fst ` set (InsertRules json s items) = fst ` set s \<union> json ` set items" for s
    by (induction items arbitrary: s) (auto simp: keys_mput)
  then show ?thesis by (simp add: NewIPRulesSet_def)
qed

lemma ungroup_singles: "list_all single rs \<Longrightarrow> concat (map ungroupRule rs) = rs"
  by (induction rs) (auto simp: ungroupRule_single)

lemma ruleKeys_single:
  assumes "list_all single rs"
  shows "ruleKeys json rs = json ` set rs"
proof -
  have "list_all single (ListRules (NewIPRulesSet json rs))"
    using assms rulesOf_New_subset[of json rs] by (auto simp: list_all_iff)
  then have "fst ` set (UngroupRules json (NewIPRulesSet json rs)) = json ` rulesOf (NewIPRulesSet json rs)"
    by (simp add: UngroupRules_eq ungroup_singles keys_New)
  then show ?thesis by (simp add: ruleKeys_def rules_wf_keys[OF rules_wf_New, symmetric] keys_New)
qed

lemma singles_ungrouped: "list_all single (concat (map ungroupRule rs))"
  by (auto simp: list_all_iff intro: single_ungroupRule)

lemma memView_upd: "memView (w(i := rs)) = (memView w)(i := exJson ` set (concat (map ungroupRule rs)))"
  by (simp add: memView_def fun_eq_iff)

lemma ungroup_filter:
  "concat (map ungroupRule (filter P (concat (map ungroupRule rs)))) = filter P (concat (map ungroupRule rs))"
  using singles_ungrouped[of rs] by (intro ungroup_singles) (auto simp: list_all_iff)

lemma memSg_create:
  assumes "list_all single rs" "CreateSecurityGroupRule memSgClient (inboundRules i rs) w = (Ok (), w')"
  shows "memView w' = (memView w)(i := memView w i \<union> exJson ` set rs)"
proof -
  have "w' = w(i := w i @ rs)"
    using assms by (simp add: memSgClient_def inboundRules_def ungroup_singles)
  then show ?thesis
    by (simp add: memView_upd ungroup_singles[OF assms(1)] image_Un del: set_concat) (simp add: memView_def image_Un)
qed

lemma memSg_delete:
  assumes "list_all single rs" "DeleteSecurityGroupRule memSgClient (inboundRules i rs) w = (Ok (), w')"
  shows "memView w' = (memView w)(i := memView w i - exJson ` set rs)"
proof -
  have "w' = w(i := filter (\<lambda>x. exJson x \<notin> exJson ` set rs) (concat (map ungroupRule (w i))))"
    using assms by (simp add: memSgClient_def inboundRules_def)
  then have "memView w' = (memView w)(i := exJson `
      set (filter (\<lambda>x. exJson x \<notin> exJson ` set rs) (concat (map ungroupRule (w i)))))"
    by (simp only: memView_upd ungroup_filter)
  then show ?thesis by (auto simp: fun_eq_iff memView_def)
qed

lemma memSg_contract: "sgContract memSgClient exJson memView"
  unfolding sgContract_def
proof (intro conjI allI impI)
  fix w i r w'
  assume "ReadSecurityGroups memSgClient (noSgFilter\<lparr>fsg_SecurityGroupIds := Some [i]\<rparr>) w = (r, w')"
  then have *: "w' = w" "r = Ok [\<lparr>sg_SecurityGroupId = Some i, sg_SecurityGroupName = None,
        sg_Tags = Some [], sg_InboundRules = Some (concat (map ungroupRule (w i)))\<rparr>]"
    by (auto simp: memSgClient_def noSgFilter_def)
  then show "memView w' = memView w" by simp
  fix gs
  assume "r = Ok gs"
  then show "\<forall>g\<in>set gs. ruleKeys exJson (listval (sg_InboundRules g)) = memView w i"
    using * by (auto simp: memView_def ruleKeys_single[OF singles_ungrouped] simp del: set_concat)
qed (use memSg_create memSg_delete in blast)+

definition sgCloud :: "'w Compute \<Rightarrow> 'w Cloud" where
  "sgCloud client = (exCloud client)\<lparr>c_libs := plainLibs\<lparr>jsonRule := exJson\<rparr>\<rparr>"

theorem setSecurityGroupIngress_exact_witness:
  "\<exists>w'. setSecurityGroupIngress (sgCloud memSgClient) ''sg-1'' [(''k'', exRule 80 [''a'', ''b''])]
       (\<lambda>_. [exRule 80 [''a''], exRule 81 [''c'']]) = (Ok True, w') \<and>
     memView w' ''sg-1'' = {''80:a'', ''80:b''}"
proof -
  let ?w = "\<lambda>_ :: string. [exRule 80 [''a''], exRule 81 [''c'']]"
  have u: "UngroupRules exJson [(''k'', exRule 80 [''a'', ''b''])] = [(''80:a'', exRule 80 [''a'']), (''80:b'', exRule 80 [''b''])]"
    by code_simp
  have "fst (setSecurityGroupIngress (sgCloud memSgClient) ''sg-1'' [(''k'', exRule 80 [''a'', ''b''])] ?w) = Ok True"
    by code_simp
  then obtain w' where run:
    "setSecurityGroupIngress (sgCloud memSgClient) ''sg-1'' [(''k'', exRule 80 [''a'', ''b''])] ?w = (Ok True, w')"
    by (metis prod.collapse)
  have "memView w' = (memView ?w)(''sg-1'' := fst ` set (UngroupRules (jsonRule (c_libs (sgCloud memSgClient)))
      [(''k'', exRule 80 [''a'', ''b''])]))"
    using setSecurityGroupIngress_exact[OF _ _ run, of memView] memSg_contract
    by (simp add: sgCloud_def exCloud_def globalCfg_def)
  then show ?thesis using run u by (simp add: sgCloud_def exCloud_def)
qed


section \<open>The shared group of the configuration is never changed\<close>

lemma keeps_findSecurityGroup [keeps_rules]:
  "(\<And>f. keeps P (ReadSecurityGroups (c_compute c) f)) \<Longrightarrow> keeps P (findSecurityGroup c i)"
  unfolding findSecurityGroup_def by (intro keeps_rules)

lemma inboundRules_id [simp]: "srr_SecurityGroupId (inboundRules i rs) = i" "srr_SecurityGroupId (linkRequest i) = i"
  by (simp_all add: inboundRules_def linkRequest_def)

text \<open>The calls an operation on rules can make: reading groups, and changing rules of other groups.\<close>

definition ruleCallsKeep :: "('w \<Rightarrow> bool) \<Rightarrow> 'w Cloud \<Rightarrow> bool" where
  "ruleCallsKeep P c \<longleftrightarrow> (\<forall>f. keeps P (ReadSecurityGroups (c_compute c) f)) \<and>
     (\<forall>r. srr_SecurityGroupId r \<noteq> ElbSecurityGroup (globalCfg c) \<longrightarrow>
        keeps P (CreateSecurityGroupRule (c_compute c) r) \<and> keeps P (DeleteSecurityGroupRule (c_compute c) r))"

lemma ruleCallsKeepD:
  assumes "ruleCallsKeep P c"
  shows "keeps P (ReadSecurityGroups (c_compute c) f)"
    and "srr_SecurityGroupId r \<noteq> ElbSecurityGroup (globalCfg c) \<Longrightarrow> keeps P (CreateSecurityGroupRule (c_compute c) r)"
    and "srr_SecurityGroupId r \<noteq> ElbSecurityGroup (globalCfg c) \<Longrightarrow> keeps P (DeleteSecurityGroupRule (c_compute c) r)"
  using assms by (auto simp: ruleCallsKeep_def)

lemma keeps_setIngress: "ruleCallsKeep P c \<Longrightarrow> keeps P (setSecurityGroupIngress c i permissions)"
  unfolding setSecurityGroupIngress_def Let_def
  by (intro keeps_rules; assumption?; (rule ruleCallsKeepD, assumption)?; simp)

lemma keeps_addRules: "ruleCallsKeep P c \<Longrightarrow> keeps P (addSecurityGroupRules c i permissions b)"
  unfolding addSecurityGroupRules_def Let_def
  by (intro keeps_rules; assumption?; (rule ruleCallsKeepD, assumption)?; simp)

lemma keeps_removeRules: "ruleCallsKeep P c \<Longrightarrow> keeps P (removeSecurityGroupRules c i permissions b)"
  unfolding removeSecurityGroupRules_def Let_def
  by (intro keeps_rules; assumption?; (rule ruleCallsKeepD, assumption)?; simp)

lemma keeps_getTagged:
  "(\<And>f. keeps P (ReadSecurityGroups (c_compute c) f)) \<Longrightarrow> keeps P (getTaggedSecurityGroups c)"
  unfolding getTaggedSecurityGroups_def by (intro keeps_rules)

lemma keeps_applyChange: "ruleCallsKeep P c \<Longrightarrow> keeps P (applyChange c lbSg x)"
  unfolding applyChange_def Let_def by (intro keeps_rules keeps_addRules keeps_removeRules)

lemma keeps_updateInstanceSG:
  assumes "ruleCallsKeep P c"
  shows "keeps P (updateInstanceSecurityGroupsForLoadBalancer c lb instances sgs)"
  unfolding updateInstanceSecurityGroupsForLoadBalancer_def Let_def
  by (intro keeps_rules keeps_getTagged keeps_applyChange ruleCallsKeepD(1)[OF assms] assms)

text \<open>
  The security group the configuration names as shared by all load balancers is never modified:
  setting the rules of a load balancer's group and opening or closing the instances' groups send no
  rule request for it, for any client, any arguments and any answers of the API.
\<close>

theorem shared_group_untouched:
  assumes "ruleCallsKeep P c"
  shows "keeps P (setSecurityGroupIngress c i permissions) \<and>
    keeps P (updateInstanceSecurityGroupsForLoadBalancer c lb instances sgs)"
  using assms by (simp add: keeps_setIngress keeps_updateInstanceSG)

text \<open>A client that logs the groups whose rules it is asked to change.\<close>

definition logClient :: "string list Compute" where
  "logClient = \<lparr>ReadVms = (\<lambda>_. ok []),
     ReadSecurityGroups = (\<lambda>f. ok [\<lparr>sg_SecurityGroupId = Some ''sg-1'', sg_SecurityGroupName = None,
        sg_Tags = Some [\<lparr>tag_Key = ''OscK8sClusterID/c1'', tag_Value = ''owned''\<rparr>], sg_InboundRules = Some []\<rparr>]),
     CreateSecurityGroup = (\<lambda>_. ok None), DeleteSecurityGroup = (\<lambda>_. ok ()),
     CreateSecurityGroupRule = (\<lambda>r w. (Ok (), srr_SecurityGroupId r # w)),
     DeleteSecurityGroupRule = (\<lambda>r w. (Ok (), srr_SecurityGroupId r # w)),
     DescribeSubnets = (\<lambda>_. ok []), CreateTags = (\<lambda>_. ok ()), ReadRouteTables = (\<lambda>_. ok []),
     api_CreateRoute = (\<lambda>_. ok ()), api_DeleteRoute = (\<lambda>_. ok ()), UpdateVM = (\<lambda>_. ok ())\<rparr>"

theorem shared_group_untouched_witness:
  "keeps (\<lambda>log. ''sg-global'' \<notin> set log) (setSecurityGroupIngress (sgCloud logClient) ''sg-1'' [(''k'', exRule 80 [''a''])]) \<and>
   setSecurityGroupIngress (sgCloud logClient) ''sg-1'' [(''k'', exRule 80 [''a''])] [] = (Ok True, [''sg-1''])"
proof -
  have "ruleCallsKeep (\<lambda>log. ''sg-global'' \<notin> set log) (sgCloud logClient)"
    by (simp add: ruleCallsKeep_def sgCloud_def exCloud_def logClient_def globalCfg_def keeps_def)
  moreover have "setSecurityGroupIngress (sgCloud logClient) ''sg-1'' [(''k'', exRule 80 [''a''])] [] = (Ok True, [''sg-1''])"
    by code_simp
  ultimately show ?thesis using shared_group_untouched by blast
qed


section \<open>Creation is bounded\<close>

text \<open>The calls of the creation loop besides the creation itself do not count.\<close>

definition onlyCreateCounts :: "('w \<Rightarrow> nat) \<Rightarrow> 'w Cloud \<Rightarrow> bool" where
  "onlyCreateCounts cnt c \<longleftrightarrow>
     (\<forall>f k. keeps (\<lambda>w. cnt w \<le> k) (ReadSecurityGroups (c_compute c) f)) \<and>
     (\<forall>s k. keeps (\<lambda>w. cnt w \<le> k) (Sleep (c_clock c) s)) \<and>
     (\<forall>r k. keeps (\<lambda>w. cnt w \<le> k) (CreateTags (c_compute c) r)) \<and>
     (\<forall>r. grows cnt 1 (CreateSecurityGroup (c_compute c) r))"

lemma ensureSgLoop_bound:
  assumes cnt: "onlyCreateCounts cnt c" and lib: "ExponentialBackoff (c_libs c) = backoff_ref"
  shows "n \<le> MaxReadThenCreateRetries \<Longrightarrow>
    grows cnt (Suc (MaxReadThenCreateRetries - n)) (ensureSgLoop c name description n)"
proof (induction "MaxReadThenCreateRetries - n" arbitrary: n rule: less_induct)
  case less
  let ?l = "MaxReadThenCreateRetries - n"
  have reads: "\<And>f. grows cnt 0 (ReadSecurityGroups (c_compute c) f)"
    and sleeps: "\<And>s. grows cnt 0 (Sleep (c_clock c) s)"
    and creates: "\<And>r. grows cnt 1 (CreateSecurityGroup (c_compute c) r)"
    using cnt by (auto simp: onlyCreateCounts_def intro: grows_keeps)
  have repairs: "grows cnt 0 (readRepairClusterTags e (c_libs c) t (c_compute c) rid lc add obs)" for e t rid lc add obs
    using cnt by (intro grows_keeps keeps_readRepair lib) (simp add: onlyCreateCounts_def)
  have retry: "grows cnt ?l (if ContainsStr (errText e) ''Conflict'' \<and> n < MaxReadThenCreateRetries
      then bnd (Sleep (c_clock c) 1) (\<lambda>_. ensureSgLoop c name description (Suc n)) else raise e)" for e
  proof (cases "n < MaxReadThenCreateRetries")
    case True
    then have "grows cnt (Suc (MaxReadThenCreateRetries - Suc n)) (ensureSgLoop c name description (Suc n))"
      by (intro less.hyps) auto
    then show ?thesis using True grows_bnd[OF sleeps] by (fastforce simp: Suc_diff_Suc)
  qed simp
  have "grows cnt (0 + (1 + ?l)) (ensureSgLoop c name description n)"
    unfolding ensureSgLoop.simps[of c name description n]
    apply (rule grows_bnd[OF reads])
    subgoal for gs
      apply (cases gs)
       apply (simp only: list.case)
       apply (rule grows_attempt[OF creates])
        apply simp
       apply (rule retry)
      apply (simp only: list.case)
      apply (rule grows_mono[OF grows_bnd[OF repairs, where l = 0]])
       apply simp_all
      done
    done
  then show ?case by simp
qed

text \<open>
  C36. \<open>ensureSecurityGroup\<close> always returns, and asks the API to create the group at most 30 times,
  however often it answers that the name is taken.
\<close>

theorem ensureSecurityGroup_create_bound:
  assumes "onlyCreateCounts cnt c" "ExponentialBackoff (c_libs c) = backoff_ref"
  shows "cnt (snd (ensureSecurityGroup c name description additionalTags w)) \<le> cnt w + 30"
proof -
  have tags: "grows cnt 0 (createTags e (c_libs c) t (c_compute c) rid lc add)" for e t rid lc add
    using assms by (intro grows_keeps keeps_createTags) (auto simp: onlyCreateCounts_def)
  have loop: "grows cnt 30 (ensureSgLoop c name description 1)"
    using ensureSgLoop_bound[OF assms, of 1 name description] by (simp add: MaxReadThenCreateRetries_def)
  have "grows cnt (30 + 0) (ensureSecurityGroup c name description additionalTags)"
    unfolding ensureSecurityGroup_def
    apply (rule grows_bnd[OF loop])
    subgoal for r
      using grows_attempt[OF tags, of 0 ok raise]
      by (cases r) (auto intro!: grows_attempt[OF tags, where l = 0, simplified])
    done
  then show ?thesis by (simp add: grows_def)
qed

text \<open>A client that counts creations and always answers with a conflict.\<close>

definition conflictClient :: "nat Compute" where
  "conflictClient = flakyClient\<lparr>CreateTags := (\<lambda>_. ok ()),
     CreateSecurityGroup := (\<lambda>_ n. (Err (ApiErr None ''409 Conflict''), Suc n))\<rparr>"

theorem ensureSecurityGroup_create_bound_witness:
  "ensureSecurityGroup (sgCloud conflictClient) ''k8s-elb-a'' ''d'' [] 0 = (Err (ApiErr None ''409 Conflict''), 30) \<and>
   snd (ensureSecurityGroup (sgCloud conflictClient) ''k8s-elb-a'' ''d'' [] 0) \<le> 0 + 30"
proof
  show "ensureSecurityGroup (sgCloud conflictClient) ''k8s-elb-a'' ''d'' [] 0 = (Err (ApiErr None ''409 Conflict''), 30)"
    by code_simp
  have "onlyCreateCounts (\<lambda>n. n) (sgCloud conflictClient)"
    by (simp add: onlyCreateCounts_def sgCloud_def exCloud_def conflictClient_def flakyClient_def keeps_def grows_def)
  moreover have "ExponentialBackoff (c_libs (sgCloud conflictClient)) = backoff_ref"
    by (simp add: sgCloud_def exCloud_def plainLibs_def)
  ultimately show "snd (ensureSecurityGroup (sgCloud conflictClient) ''k8s-elb-a'' ''d'' [] 0) \<le> 0 + 30"
    by (rule ensureSecurityGroup_create_bound)
qed


section \<open>Which groups are opened and which are closed\<close>

text \<open>The id of the group of an instance that is opened to the load balancer.\<close>

definition wantedGroup :: "(string, SecurityGroup) gomap \<Rightarrow> Vm \<Rightarrow> string option" where
  "wantedGroup tagged vm =
     (let ids = filter (\<lambda>i. i \<noteq> []) (map (strval \<circ> sgl_SecurityGroupId) (listval (vm_SecurityGroups vm)));
          mine = filter (\<lambda>i. i \<in> fst ` set tagged) ids
      in if mine \<noteq> [] then Some (hd mine) else if ids \<noteq> [] then Some (hd ids) else None)"

lemma ids_lightGroups:
  "map (strval \<circ> sgl_SecurityGroupId) (lightGroups vm) =
     filter (\<lambda>i. i \<noteq> []) (map (strval \<circ> sgl_SecurityGroupId) (listval (vm_SecurityGroups vm)))"
  by (simp add: lightGroups_def filter_map comp_def)

lemma findSecurityGroupForInstance_Ok:
  assumes "findSecurityGroupForInstance vm tagged = Ok r"
  shows "map_option (strval \<circ> sgl_SecurityGroupId) r = wantedGroup tagged vm"
proof -
  let ?id = "strval \<circ> sgl_SecurityGroupId"
  let ?T = "\<lambda>g. map_of tagged (strval (sgl_SecurityGroupId g)) \<noteq> None"
  have T: "filter (\<lambda>i. i \<in> fst ` set tagged) (map ?id gs) = map ?id (filter ?T gs)" for gs
    by (simp add: filter_map comp_def map_of_eq_None_iff)
  have none: "filter ?T gs = [] \<Longrightarrow> filter (\<lambda>g. \<not> ?T g) gs = gs" for gs
    by (metis (mono_tags, lifting) filter_True filter_empty_conv)
  show ?thesis
    using assms none[of "lightGroups vm"]
    unfolding wantedGroup_def ids_lightGroups[symmetric] T Let_def findSecurityGroupForInstance_def
    by (auto simp: hd_map split: if_splits)
qed

lemma wantedGroup_nonempty:
  assumes "wantedGroup tagged vm = Some i"
  shows "i \<noteq> []"
proof -
  let ?ids = "filter (\<lambda>i. i \<noteq> []) (map (strval \<circ> sgl_SecurityGroupId) (listval (vm_SecurityGroups vm)))"
  let ?mine = "filter (\<lambda>i. i \<in> fst ` set tagged) ?ids"
  have "(?mine \<noteq> [] \<and> i = hd ?mine) \<or> (?ids \<noteq> [] \<and> i = hd ?ids)"
    using assms unfolding wantedGroup_def Let_def by (simp split: if_splits)
  then have "i \<in> set ?ids" using hd_in_set[of ?mine] hd_in_set[of ?ids] by auto
  then show ?thesis by simp
qed

lemma scanInstance_Ok:
  assumes "scanInstance tagged m vm = Ok m'"
  shows "m' = (case wantedGroup tagged vm of None \<Rightarrow> m | Some i \<Rightarrow> mput i True m)"
proof -
  obtain r where r: "findSecurityGroupForInstance vm tagged = Ok r"
    using assms by (auto simp: scanInstance_def)
  have "wantedGroup tagged vm = map_option (strval \<circ> sgl_SecurityGroupId) r"
    using findSecurityGroupForInstance_Ok[OF r] by simp
  then show ?thesis
    using assms r wantedGroup_nonempty[of tagged vm]
    by (auto simp: scanInstance_def split: option.splits if_splits)
qed

lemma foldRes_scan:
  assumes "foldRes (scanInstance tagged) m vms = Ok m'" "mwf m" "\<forall>(i, b) \<in> set m. b \<and> i \<noteq> []"
  shows "mwf m' \<and> set m' = set m \<union> {(i, True) |i. Some i \<in> wantedGroup tagged ` set vms}"
  using assms
proof (induction vms arbitrary: m)
  case (Cons vm vms)
  then obtain m1 where m1: "scanInstance tagged m vm = Ok m1" "foldRes (scanInstance tagged) m1 vms = Ok m'"
    by auto
  show ?case
  proof (cases "wantedGroup tagged vm")
    case None
    then show ?thesis using Cons m1 scanInstance_Ok[OF m1(1)] by auto
  next
    case (Some i)
    then have eq: "m1 = mput i True m" using scanInstance_Ok[OF m1(1)] by simp
    then have st: "set m1 = insert (i, True) (set m)" "mwf m1"
      using Cons.prems(2,3) by (auto simp: set_mput mwf_mput)
    then have "\<forall>(i, b) \<in> set m1. b \<and> i \<noteq> []" using Cons.prems(3) wantedGroup_nonempty[OF Some] by auto
    then show ?thesis using Cons.IH[OF m1(2) st(2)] st(1) Some by auto
  qed
qed simp

lemma compareActual_lookup:
  "map_of (compareActual m g) k =
     (let i = strval (sg_SecurityGroupId g) in
      if i = [] \<or> k \<noteq> i then map_of m k else if map_of m i = Some True then None else Some False)"
  by (simp add: compareActual_def Let_def map_of_mput map_of_mdel)

lemma foldl_compareActual:
  assumes "distinct (map (strval \<circ> sg_SecurityGroupId) gs)" "\<forall>g\<in>set gs. strval (sg_SecurityGroupId g) \<noteq> []"
  shows "map_of (foldl compareActual m gs) k =
    (if k \<in> set (map (strval \<circ> sg_SecurityGroupId) gs) then (if map_of m k = Some True then None else Some False) else map_of m k)"
  using assms
proof (induction gs arbitrary: m)
  case (Cons g gs)
  have IH: "map_of (foldl compareActual (compareActual m g) gs) k =
    (if k \<in> set (map (strval \<circ> sg_SecurityGroupId) gs)
     then (if map_of (compareActual m g) k = Some True then None else Some False) else map_of (compareActual m g) k)"
    using Cons.prems by (intro Cons.IH) simp_all
  have new: "strval (sg_SecurityGroupId g) \<notin> set (map (strval \<circ> sg_SecurityGroupId) gs)"
    and ne: "strval (sg_SecurityGroupId g) \<noteq> []"
    using Cons.prems by simp_all
  show ?case
  proof (cases "k = strval (sg_SecurityGroupId g)")
    case True
    show ?thesis unfolding foldl_Cons IH compareActual_lookup Let_def using True new ne by simp
  next
    case False
    then show ?thesis by (simp only: foldl_Cons IH compareActual_lookup Let_def) simp
  qed
qed simp

lemma mwf_foldl_compareActual: "mwf m \<Longrightarrow> mwf (foldl compareActual m gs)"
  by (induction gs arbitrary: m) (auto simp: compareActual_def Let_def mwf_mput mwf_mdel)

lemma plan_sets:
  assumes "\<And>i b. (i, b) \<in> S \<longleftrightarrow> (if i \<in> A then \<not> W i \<and> \<not> b else W i \<and> b)"
  shows "S = {(i, True) |i. W i \<and> i \<notin> A} \<union> {(i, False) |i. i \<in> A \<and> \<not> W i}"
proof -
  have "p \<in> S \<longleftrightarrow> p \<in> {(i, True) |i. W i \<and> i \<notin> A} \<union> {(i, False) |i. i \<in> A \<and> \<not> W i}" for p
    by (cases p) (auto simp: assms split: if_splits)
  then show ?thesis by blast
qed

text \<open>
  C14. The map of changes \<open>updateInstanceSecurityGroupsForLoadBalancer\<close> computes is the exact
  difference: it opens the groups of the given instances (the tagged group of an instance, or else its
  only group) that do not admit the load balancer yet, closes the cluster's groups that admit it and
  belong to no given instance, and leaves every other group alone.
\<close>

theorem ingress_plan_exact:
  assumes "foldRes (scanInstance tagged) [] vms = Ok wanted"
    and "distinct (map (strval \<circ> sg_SecurityGroupId) actual)" "\<forall>g\<in>set actual. strval (sg_SecurityGroupId g) \<noteq> []"
  shows "set (foldl compareActual wanted actual) =
    {(i, True) |i. Some i \<in> wantedGroup tagged ` set vms \<and> i \<notin> set (map (strval \<circ> sg_SecurityGroupId) actual)} \<union>
    {(i, False) |i. i \<in> set (map (strval \<circ> sg_SecurityGroupId) actual) \<and> Some i \<notin> wantedGroup tagged ` set vms}"
proof -
  have w: "mwf wanted" "set wanted = {(i, True) |i. Some i \<in> wantedGroup tagged ` set vms}"
    using foldRes_scan[OF assms(1)] by auto
  have lk: "map_of wanted i = (if Some i \<in> wantedGroup tagged ` set vms then Some True else None)" for i
  proof (cases "map_of wanted i")
    case None
    then have "(i, True) \<notin> set wanted" using map_of_iff_wf[OF w(1)] by (metis option.distinct(1))
    then show ?thesis using None unfolding w(2) by simp
  next
    case (Some b)
    then have "(i, b) \<in> set wanted" by (rule map_of_SomeD)
    then show ?thesis using Some w(2) by simp
  qed
  have wf: "mwf (foldl compareActual wanted actual)" by (rule mwf_foldl_compareActual[OF w(1)])
  have "(i, b) \<in> set (foldl compareActual wanted actual) \<longleftrightarrow>
    (if i \<in> set (map (strval \<circ> sg_SecurityGroupId) actual)
     then Some i \<notin> wantedGroup tagged ` set vms \<and> \<not> b
     else Some i \<in> wantedGroup tagged ` set vms \<and> b)" for i b
    unfolding map_of_iff_wf[OF wf, symmetric]
    by (simp only: foldl_compareActual[OF assms(2,3)] lk) simp
  then show ?thesis by (rule plan_sets)
qed

definition exSg :: "string \<Rightarrow> SecurityGroup" where
  "exSg i = \<lparr>sg_SecurityGroupId = Some i, sg_SecurityGroupName = None, sg_Tags = Some [], sg_InboundRules = Some []\<rparr>"

theorem ingress_plan_exact_witness:
  "set (foldl compareActual [(''a'', True), (''b'', True)] [exSg ''b'', exSg ''z'']) = {(''a'', True), (''z'', False)}"
proof -
  let ?vms = "[exVm ''i-1'' [''a'', ''x''], exVm ''i-2'' [''b'']]"
  have scan: "foldRes (scanInstance [(''a'', exSg ''a'')]) [] ?vms = Ok [(''a'', True), (''b'', True)]" by code_simp
  have want: "wantedGroup [(''a'', exSg ''a'')] ` set ?vms = {Some ''a'', Some ''b''}"
    by (simp add: wantedGroup_def exVm_def)
  show ?thesis
    using ingress_plan_exact[OF scan, of "[exSg ''b'', exSg ''z'']"] unfolding want by (auto simp: exSg_def)
qed

section \<open>A group of another cluster is taken over\<close>

text \<open>
  C24. \<open>ensureSecurityGroup\<close> takes over the group of another cluster: when the group found by name carries
  the ownership tag of another cluster only, the tag of the own cluster is added and the group is returned as if it
  were the cluster's own.  (The id of the cluster is part of the key of the tag, so the comparison of the values
  in \<open>readRepairClusterTags\<close> never sees the other cluster's tag.)
\<close>

theorem ensureSecurityGroup_adopts_foreign:
  assumes "ExponentialBackoff (c_libs c) = backoff_ref"
    and "ClusterID (c_tagging c) \<noteq> []" "\<not> usesLegacyTags (c_tagging c)"
    and "ReadSecurityGroups (c_compute c) (sgNameFilter c name) w = (Ok [g], w1)"
    and "sg_Tags g = Some [\<lparr>tag_Key = clusterTagKey other, tag_Value = ResourceLifecycleOwned\<rparr>]"
    and "ClusterID other \<noteq> ClusterID (c_tagging c)"
    and "CreateTags (c_compute c) \<lparr>ctr_ResourceIds = [strval (sg_SecurityGroupId g)],
           ctr_Tags = [\<lparr>tag_Key = clusterTagKey (c_tagging c), tag_Value = ResourceLifecycleOwned\<rparr>]\<rparr> w1 = (Ok (), w2)"
  shows "ensureSecurityGroup c name description tags w = (Ok (strval (sg_SecurityGroupId g)), w2)"
proof -
  have "createTags (c_environ c) (c_libs c) (c_tagging c) (c_compute c) (strval (sg_SecurityGroupId g)) ResourceLifecycleOwned
      [(clusterTagKey (c_tagging c), ResourceLifecycleOwned)] w1 = (Ok (), w2)"
    using assms(1-3,7) by (simp add: createTags_unfold buildTags_def tagList_def tagsOutcome_def createTagsCond_def createTagSteps_def
        eval_nat_numeral)
  then have "readRepairClusterTags (c_environ c) (c_libs c) (c_tagging c) (c_compute c) (strval (sg_SecurityGroupId g))
      ResourceLifecycleOwned [] (sg_Tags g) w1 = (Ok (), w2)"
    using assms(2,3,5,6) by (simp add: repair_missing clusterTagKey_def const_defs)
  then show ?thesis using assms(4) by (simp add: ensureSecurityGroup_def)
qed

definition foreignClient :: "CreateTagsRequest list Compute" where
  "foreignClient = quietClient\<lparr>
     ReadSecurityGroups := (\<lambda>_. ok [\<lparr>sg_SecurityGroupId = Some ''sg-1'', sg_SecurityGroupName = Some ''k8s-elb-web'',
        sg_Tags = Some [\<lparr>tag_Key = ''OscK8sClusterID/c2'', tag_Value = ''owned''\<rparr>], sg_InboundRules = None\<rparr>]),
     CreateTags := (\<lambda>q w. (Ok (), q # w))\<rparr>"

theorem ensureSecurityGroup_adopts_foreign_witness:
  "ensureSecurityGroup (exCloud foreignClient) ''k8s-elb-web'' [] [] [] = (Ok ''sg-1'',
     [\<lparr>ctr_ResourceIds = [''sg-1''], ctr_Tags = [\<lparr>tag_Key = ''OscK8sClusterID/c1'', tag_Value = ''owned''\<rparr>]\<rparr>])"
  using ensureSecurityGroup_adopts_foreign[of "exCloud foreignClient" "''k8s-elb-web''" "[]"
      "\<lparr>sg_SecurityGroupId = Some ''sg-1'', sg_SecurityGroupName = Some ''k8s-elb-web'',
        sg_Tags = Some [\<lparr>tag_Key = ''OscK8sClusterID/c2'', tag_Value = ''owned''\<rparr>], sg_InboundRules = None\<rparr>" "[]"
      "\<lparr>ClusterID = ''c2'', usesLegacyTags = False\<rparr>"]
  by (simp add: exCloud_def foreignClient_def plainLibs_def clusterTagKey_def const_defs)

end
