(* ===== verification/Subnets.thy ===== *)
theory Subnets
  imports Cloud "HOL-Library.Product_Lexorder"
begin

text \<open>
  Which subnet a load balancer is created in (\<open>findSubnets\<close>, \<open>findELBSubnets\<close> and the choice in
  \<open>EnsureLoadBalancer\<close> of \<open>ccm_cloud.go\<close>, \<open>isSubnetPublic\<close> and \<open>findTag\<close> of \<open>utils.go\<close>).  The loop
  over the subnets is shown to compute, per subregion, the least candidate of an explicit preference,
  so the result does not depend on the order of the API's answer.
\<close>

section \<open>Definitions\<close>

definition findTag :: "ResourceTag list option \<Rightarrow> string \<Rightarrow> string \<times> bool" where
  "findTag tags key = (case tags of None \<Rightarrow> ([], False)
     | Some ts \<Rightarrow> (case find (\<lambda>tag. tag_Key tag = key) ts of
         None \<Rightarrow> ([], False) | Some tag \<Rightarrow> (tag_Value tag, True)))"

text \<open>The inner \<open>break\<close> leaves only the loop over the links, so the last matching table is taken.\<close>

definition lastTable :: "(LinkRouteTable \<Rightarrow> bool) \<Rightarrow> RouteTable list \<Rightarrow> RouteTable option" where
  "lastTable p rt =
     foldl (\<lambda>found table. if list_ex p (listval (rtb_LinkRouteTables table)) then Some table else found) None rt"

definition isSubnetPublic :: "RouteTable list option \<Rightarrow> string \<Rightarrow> bool res" where
  "isSubnetPublic rt subnetID = (case rt of
       None \<Rightarrow> Err (Errorf ''RouteTable is nil'' [])
     | Some tables \<Rightarrow>
        (let subnetTable0 = lastTable (\<lambda>assoc. strval (lrt_SubnetId assoc) = subnetID) tables;
             subnetTable = (case subnetTable0 of
                 None \<Rightarrow> lastTable (\<lambda>assoc. boolval (lrt_Main assoc)) tables | Some t \<Rightarrow> Some t)
         in case subnetTable of
              None \<Rightarrow> Err (Errorf ''could not locate routing table for subnet %s'' [])
            | Some t \<Rightarrow> Ok (list_ex (\<lambda>route. HasPrefix (strval (rt_GatewayId route)) ''igw'') (listval (rtb_Routes t)))))"

definition findSubnets :: "'w Cloud \<Rightarrow> ('w, Subnet list) io" where
  "findSubnets c =
     (let describe = (\<lambda>f k. attempt (DescribeSubnets (c_compute c) f) k
             (\<lambda>e. raise (Errorf ''error describing subnets: %q'' [e])));
          fallback =
            bnd (selfInstance c) (\<lambda>self.
              if self_subnetID self \<noteq> []
              then describe (noSubnetFilter\<lparr>fsn_SubnetIds := Some [self_subnetID self]\<rparr>) ok
              else ok [])
      in
      if c_vpcID c \<noteq> [] then
        describe (noSubnetFilter\<lparr>fsn_NetIds := Some [c_vpcID c]\<rparr>) (\<lambda>subnets.
          bnd (lift (filterRes (\<lambda>subnet. hasClusterTag (c_tagging c) (sn_Tags subnet)) subnets)) (\<lambda>matches.
            if length matches \<noteq> 0 then ok matches else fallback))
      else fallback)"

text \<open>The body of the loop over the subnets.\<close>

definition elbSubnetStep ::
  "RouteTable list \<Rightarrow> bool \<Rightarrow> string \<Rightarrow> (string, Subnet) gomap \<Rightarrow> Subnet \<Rightarrow> (string, Subnet) gomap res" where
  "elbSubnetStep rt internalELB tagName subnetsByAZ subnet =
     (let az = strval (sn_SubregionName subnet); i = strval (sn_SubnetId subnet) in
      if az = [] \<or> i = [] then Ok subnetsByAZ
      else res_map (\<lambda>isPublic.
        if \<not> internalELB \<and> \<not> isPublic then subnetsByAZ
        else
          (let subnetHasTag = snd (findTag (sn_Tags subnet) tagName) in
           case map_of subnetsByAZ az of
             None \<Rightarrow> (if subnetHasTag then mput az subnet subnetsByAZ
                      else if isPublic \<and> \<not> internalELB then mput az subnet subnetsByAZ
                      else subnetsByAZ)
           | Some existing \<Rightarrow>
              (let existingHasTag = snd (findTag (sn_Tags existing) tagName) in
               if existingHasTag \<noteq> subnetHasTag
               then (if subnetHasTag then mput az subnet subnetsByAZ else subnetsByAZ)
               else if ComparePos (strval (sn_SubnetId existing)) (strval (sn_SubnetId subnet))
               then mput az subnet subnetsByAZ
               else subnetsByAZ)))
        (isSubnetPublic (Some rt) i))"

definition elbTagName :: "bool \<Rightarrow> string" where
  "elbTagName internalELB = (if internalELB then TagNameSubnetInternalELB else TagNameSubnetPublicELB)"

text \<open>The ids in the order of their subregions; \<open>None\<close> is the nil slice.\<close>

definition subnetIDsByAZ :: "(string, Subnet) gomap \<Rightarrow> string list option" where
  "subnetIDsByAZ subnetsByAZ =
     (case sortStrings (map fst subnetsByAZ) of [] \<Rightarrow> None
      | azNames \<Rightarrow> Some (map (\<lambda>key. case map_of subnetsByAZ key of
            None \<Rightarrow> [] | Some s \<Rightarrow> strval (sn_SubnetId s)) azNames))"

definition findELBSubnets :: "'w Cloud \<Rightarrow> bool \<Rightarrow> ('w, string list option) io" where
  "findELBSubnets c internalELB =
     bnd (findSubnets c) (\<lambda>subnets.
     bnd (if c_vpcID c \<noteq> []
          then attempt (ReadRouteTables (c_compute c) (noRtFilter\<lparr>frt_NetIds := Some [c_vpcID c]\<rparr>)) ok
                 (\<lambda>e. raise (Errorf ''error describe route table: %q'' [e]))
          else ok []) (\<lambda>rt.
     bnd (lift (foldRes (elbSubnetStep rt internalELB (elbTagName internalELB)) [] subnets)) (\<lambda>subnetsByAZ.
     ok (subnetIDsByAZ subnetsByAZ))))"

text \<open>The single subnet \<open>EnsureLoadBalancer\<close> goes on with.\<close>

definition chooseSubnet :: "(string \<rightharpoonup> string) \<Rightarrow> string list option \<Rightarrow> string list option res" where
  "chooseSubnet annotations subnetIDs =
     (let ids = listval subnetIDs; targetSubnet = mstr annotations ServiceAnnotationLoadBalancerSubnetID in
      if length ids > 0 \<and> targetSubnet \<noteq> [] then
        (if Contains ids targetSubnet then Ok (Some [targetSubnet])
         else Err (Errorf ''user subnet specified in the annotation %v=%v was not found (%v)'' []))
      else if length ids > 1 then
        Ok (Some [foldl (\<lambda>current subnet. if ComparePos current subnet then subnet else current) (hd ids) ids])
      else Ok subnetIDs)"

section \<open>The preference the loop computes\<close>

text \<open>A tagged subnet is preferred to an untagged one, then the smaller id.\<close>

definition subnetRank :: "string \<Rightarrow> Subnet \<Rightarrow> bool \<times> string" where
  "subnetRank tagName s = (\<not> snd (findTag (sn_Tags s) tagName), strval (sn_SubnetId s))"

text \<open>A subnet that can be chosen: an internal load balancer takes only tagged subnets, a public one only
  subnets with a route to an internet gateway.\<close>

definition elbCandidate :: "RouteTable list \<Rightarrow> bool \<Rightarrow> string \<Rightarrow> Subnet \<Rightarrow> bool" where
  "elbCandidate rt internalELB tagName s \<longleftrightarrow>
     strval (sn_SubregionName s) \<noteq> [] \<and> strval (sn_SubnetId s) \<noteq> [] \<and>
     (if internalELB then snd (findTag (sn_Tags s) tagName)
      else isSubnetPublic (Some rt) (strval (sn_SubnetId s)) = Ok True)"

text \<open>What the map holds for a subregion after the subnets \<open>seen\<close>: a candidate of least rank, if any.\<close>

definition bestAt ::
  "(Subnet \<Rightarrow> bool) \<Rightarrow> (Subnet \<Rightarrow> bool \<times> string) \<Rightarrow> Subnet list \<Rightarrow> string \<Rightarrow> Subnet option \<Rightarrow> bool" where
  "bestAt cand rank seen az r =
     (let cs = filter (\<lambda>s. cand s \<and> strval (sn_SubregionName s) = az) seen in
      case r of None \<Rightarrow> cs = [] | Some s \<Rightarrow> s \<in> set cs \<and> (\<forall>t\<in>set cs. rank s \<le> rank t))"

lemma bestAt_skip:
  "\<not> (cand s \<and> strval (sn_SubregionName s) = az) \<Longrightarrow> bestAt cand rank (seen @ [s]) az r = bestAt cand rank seen az r"
  by (auto simp: bestAt_def Let_def split: option.splits)

lemma bestAt_new:
  "cand s \<Longrightarrow> bestAt cand rank seen (strval (sn_SubregionName s)) None \<Longrightarrow>
     bestAt cand rank (seen @ [s]) (strval (sn_SubregionName s)) (Some s)"
  by (auto simp: bestAt_def Let_def)

lemma bestAt_old:
  "cand s \<Longrightarrow> bestAt cand rank seen (strval (sn_SubregionName s)) (Some e) \<Longrightarrow>
     bestAt cand rank (seen @ [s]) (strval (sn_SubregionName s)) (Some (if rank s < rank e then s else e))"
  by (auto simp: bestAt_def Let_def intro: order.strict_implies_order order.trans)

lemma bestAt_unique_rank:
  "bestAt cand rank xs az r \<Longrightarrow> bestAt cand rank ys az q \<Longrightarrow> set xs = set ys \<Longrightarrow> map_option rank r = map_option rank q"
  by (auto simp: bestAt_def Let_def filter_empty_conv split: option.splits intro: order.antisym)

lemma elbSubnetStep_alt:
  assumes "elbSubnetStep rt internalELB tagName m s = Ok m'"
    and "\<And>az e. map_of m az = Some e \<Longrightarrow> elbCandidate rt internalELB tagName e"
  shows "m' = (if elbCandidate rt internalELB tagName s then
      (case map_of m (strval (sn_SubregionName s)) of
         None \<Rightarrow> mput (strval (sn_SubregionName s)) s m
       | Some e \<Rightarrow> (if subnetRank tagName s < subnetRank tagName e then mput (strval (sn_SubregionName s)) s m else m))
     else m)"
  using assms(1) assms(2)[of "strval (sn_SubregionName s)"]
  by (auto simp: elbSubnetStep_def elbCandidate_def subnetRank_def ComparePos_def Let_def less_prod_def
      split: if_splits option.splits)

lemma elbSubnetStep_best:
  assumes step: "elbSubnetStep rt internalELB tagName m s = Ok m'" and "mwf m"
    and best: "\<And>az. bestAt (elbCandidate rt internalELB tagName) (subnetRank tagName) seen az (map_of m az)"
  shows "mwf m' \<and> bestAt (elbCandidate rt internalELB tagName) (subnetRank tagName) (seen @ [s]) az (map_of m' az)"
proof -
  let ?az = "strval (sn_SubregionName s)" and ?cand = "elbCandidate rt internalELB tagName"
  have cand: "map_of m az = Some e \<Longrightarrow> ?cand e" for az e
    using best[of az] by (auto simp: bestAt_def Let_def)
  note m' = elbSubnetStep_alt[OF step cand]
  have "mwf m'" using assms(2) by (simp add: m' mwf_mput split: option.split)
  moreover have "bestAt ?cand (subnetRank tagName) (seen @ [s]) az (map_of m' az)"
  proof (cases "?cand s \<and> ?az = az")
    case True
    then have az: "az = ?az" and c: "?cand s" by auto
    show ?thesis
    proof (cases "map_of m ?az")
      case None
      then have "map_of m' az = Some s" using c by (simp add: m' az map_of_mput)
      then show ?thesis using bestAt_new[of ?cand s, OF c] best[of ?az] None unfolding az by simp
    next
      case (Some e)
      then have "map_of m' az = Some (if subnetRank tagName s < subnetRank tagName e then s else e)"
        using c by (simp add: m' az map_of_mput)
      then show ?thesis using bestAt_old[of ?cand s, OF c] best[of ?az] Some unfolding az by simp
    qed
  next
    case False
    then have "map_of m' az = map_of m az"
      using assms(1) by (auto simp: m' map_of_mput split: option.splits)
    then show ?thesis using bestAt_skip[of ?cand s az, OF False] best[of az] by simp
  qed
  ultimately show ?thesis by blast
qed

lemma foldRes_elbSubnets:
  assumes "foldRes (elbSubnetStep rt internalELB tagName) m subnets = Ok m'" "mwf m"
    and "\<And>az. bestAt (elbCandidate rt internalELB tagName) (subnetRank tagName) seen az (map_of m az)"
  shows "mwf m' \<and> bestAt (elbCandidate rt internalELB tagName) (subnetRank tagName) (seen @ subnets) az (map_of m' az)"
  using assms
proof (induction subnets arbitrary: m seen)
  case (Cons s subnets)
  then obtain m1 where m1: "elbSubnetStep rt internalELB tagName m s = Ok m1"
    "foldRes (elbSubnetStep rt internalELB tagName) m1 subnets = Ok m'" by auto
  have "mwf m1 \<and> bestAt (elbCandidate rt internalELB tagName) (subnetRank tagName) (seen @ [s]) az (map_of m1 az)" for az
    by (rule elbSubnetStep_best[OF m1(1) Cons.prems(2,3)])
  then show ?case using Cons.IH[OF m1(2), of "seen @ [s]"] by simp
qed simp

lemma snd_subnetRank: "snd (subnetRank tagName s) = strval (sn_SubnetId s)"
  by (simp add: subnetRank_def)

lemma bestAt_Nil: "bestAt cand rank [] az None"
  by (simp add: bestAt_def)


text \<open>The ids the loop is meant to give: per subregion with a candidate, in order, the id of the least rank.\<close>

definition elbSubnetIDs :: "RouteTable list \<Rightarrow> bool \<Rightarrow> string \<Rightarrow> Subnet list \<Rightarrow> string list" where
  "elbSubnetIDs rt internalELB tagName subnets =
     (let cs = filter (elbCandidate rt internalELB tagName) subnets in
      map (\<lambda>az. snd (Min (subnetRank tagName ` set (filter (\<lambda>s. strval (sn_SubregionName s) = az) cs))))
        (sorted_list_of_set (set (map (strval \<circ> sn_SubregionName) cs))))"

lemma sortStrings_keys: "mwf m \<Longrightarrow> sortStrings (map fst m) = sorted_list_of_set (fst ` set m)"
  by (simp add: sortStrings_def mwf_def sorted_list_of_set_sort_remdups distinct_remdups_id flip: set_map)

lemma listval_subnetIDsByAZ:
  "listval (subnetIDsByAZ m) = map (\<lambda>key. case map_of m key of None \<Rightarrow> [] | Some s \<Rightarrow> strval (sn_SubnetId s))
     (sortStrings (map fst m))"
  by (cases "sortStrings (map fst m)") (simp_all add: subnetIDsByAZ_def)

lemma bestAt_Min:
  assumes "bestAt cand rank seen az (Some s)"
  shows "rank s = Min (rank ` set (filter (\<lambda>s. strval (sn_SubregionName s) = az) (filter cand seen)))"
  using assms unfolding bestAt_def Let_def
  by (intro Min_eqI[symmetric]) (auto simp: image_iff)

lemma elbSubnets_loop:
  assumes "foldRes (elbSubnetStep rt internalELB tagName) [] subnets = Ok m"
  shows "listval (subnetIDsByAZ m) = elbSubnetIDs rt internalELB tagName subnets"
proof -
  let ?cand = "elbCandidate rt internalELB tagName"
  have wf: "mwf m" and best: "\<And>az. bestAt ?cand (subnetRank tagName) subnets az (map_of m az)"
    using foldRes_elbSubnets[OF assms, of "[]"] by (simp_all add: bestAt_Nil)
  have keys: "fst ` set m = set (map (strval \<circ> sn_SubregionName) (filter ?cand subnets))"
  proof (rule set_eqI)
    fix az
    show "az \<in> fst ` set m \<longleftrightarrow> az \<in> set (map (strval \<circ> sn_SubregionName) (filter ?cand subnets))"
    proof (cases "map_of m az")
      case None
      then have "az \<notin> fst ` set m" by (simp add: map_of_eq_None_iff)
      moreover have "\<forall>s\<in>set subnets. \<not> (?cand s \<and> strval (sn_SubregionName s) = az)"
        using best[of az] None by (simp add: bestAt_def Let_def filter_empty_conv)
      ultimately show ?thesis by auto
    next
      case (Some s)
      then have "az \<in> fst ` set m" by (metis map_of_eq_None_iff option.distinct(1))
      moreover have "s \<in> set (filter ?cand subnets)" "az = (strval \<circ> sn_SubregionName) s"
        using best[of az] Some by (simp_all add: bestAt_def Let_def)
      then have "az \<in> set (map (strval \<circ> sn_SubregionName) (filter ?cand subnets))"
        unfolding set_map by (rule image_eqI[rotated])
      ultimately show ?thesis by simp
    qed
  qed
  have "(case map_of m az of None \<Rightarrow> [] | Some s \<Rightarrow> strval (sn_SubnetId s)) =
      snd (Min (subnetRank tagName ` set (filter (\<lambda>s. strval (sn_SubregionName s) = az) (filter ?cand subnets))))"
    if az: "az \<in> fst ` set m" for az
  proof -
    obtain s where s: "map_of m az = Some s" using map_of_key[OF az] by (rule exE)
    then have "subnetRank tagName s =
        Min (subnetRank tagName ` set (filter (\<lambda>s. strval (sn_SubregionName s) = az) (filter ?cand subnets)))"
      using best[of az] bestAt_Min by simp
    then have "snd (subnetRank tagName s) = snd (Min (subnetRank tagName `
        set (filter (\<lambda>s. strval (sn_SubregionName s) = az) (filter ?cand subnets))))" by (rule arg_cong)
    then show ?thesis unfolding s by (simp only: option.case snd_subnetRank)
  qed
  then show ?thesis
    unfolding listval_subnetIDsByAZ sortStrings_keys[OF wf] elbSubnetIDs_def Let_def keys
    by (intro map_cong refl) (simp add: keys)
qed

text \<open>
  C15. \<open>findELBSubnets\<close> returns, in the order of the subregions, one subnet for each subregion that has
  a candidate: the tagged one, or else the one with the smallest id.  Candidates of a public load
  balancer are the subnets with a route to an internet gateway, candidates of an internal one the
  subnets with the internal tag.  The result depends on the set of subnets only, not on the order in
  which the API lists them.
\<close>

theorem findELBSubnets_spec:
  assumes "findELBSubnets c internalELB w = (Ok r, w')"
  shows "\<exists>subnets rt w1. findSubnets c w = (Ok subnets, w1) \<and>
     (if c_vpcID c = [] then rt = [] \<and> w' = w1
      else ReadRouteTables (c_compute c) (noRtFilter\<lparr>frt_NetIds := Some [c_vpcID c]\<rparr>) w1 = (Ok rt, w')) \<and>
     listval r = elbSubnetIDs rt internalELB (elbTagName internalELB) subnets \<and>
     (\<forall>subnets'. set subnets' = set subnets \<longrightarrow>
        elbSubnetIDs rt internalELB (elbTagName internalELB) subnets' = listval r)"
proof -
  obtain subnets rt w1 m where "findSubnets c w = (Ok subnets, w1)"
    and rt: "(if c_vpcID c \<noteq> []
          then attempt (ReadRouteTables (c_compute c) (noRtFilter\<lparr>frt_NetIds := Some [c_vpcID c]\<rparr>)) ok
                 (\<lambda>e. raise (Errorf ''error describe route table: %q'' [e]))
          else ok []) w1 = (Ok rt, w')"
    and m: "foldRes (elbSubnetStep rt internalELB (elbTagName internalELB)) [] subnets = Ok m" "r = subnetIDsByAZ m"
    using assms by (auto simp: findELBSubnets_def bnd_eq_Ok)
  moreover have "if c_vpcID c = [] then rt = [] \<and> w' = w1
      else ReadRouteTables (c_compute c) (noRtFilter\<lparr>frt_NetIds := Some [c_vpcID c]\<rparr>) w1 = (Ok rt, w')"
    using rt by (auto simp: attempt_eq_Ok split: if_splits)
  moreover have "elbSubnetIDs rt internalELB (elbTagName internalELB) subnets' =
      elbSubnetIDs rt internalELB (elbTagName internalELB) subnets" if "set subnets' = set subnets" for subnets'
    using that by (simp add: elbSubnetIDs_def)
  ultimately show ?thesis using elbSubnets_loop[OF m(1)] by metis
qed

text \<open>
  The subnet \<open>EnsureLoadBalancer\<close> goes on with is one of the found ones, at most one, and it is the
  one the annotation asks for, or without annotation the smallest; an annotation that names no found
  subnet is an error.
\<close>

theorem chooseSubnet_spec:
  "chooseSubnet annotations subnetIDs =
     (let ids = listval subnetIDs; target = mstr annotations ServiceAnnotationLoadBalancerSubnetID in
      case ids of
        [] \<Rightarrow> Ok subnetIDs
      | _ \<Rightarrow> (if target \<in> set ids \<and> target \<noteq> [] then Ok (Some [target])
             else if target = [] then Ok (Some [Min (set ids)])
             else Err (Errorf ''user subnet specified in the annotation %v=%v was not found (%v)'' [])))"
proof -
  have "foldl (\<lambda>current subnet. if ComparePos current subnet then subnet else current) x xs = foldl min x xs" for x xs
    by (induction xs arbitrary: x) (auto simp: ComparePos_def min_def)
  moreover have "foldl min x xs = fold min xs x" for x :: string and xs
    by (induction xs arbitrary: x) (simp_all add: min.commute)
  ultimately have m: "foldl (\<lambda>current subnet. if ComparePos current subnet then subnet else current) x (x # xs) =
      Min (set (x # xs))" for x xs
    by (simp only: Min.set_eq_fold) simp
  show ?thesis
  proof (cases "listval subnetIDs")
    case Nil
    then show ?thesis by (simp add: chooseSubnet_def)
  next
    case (Cons x xs)
    moreover have "xs = [] \<Longrightarrow> subnetIDs = Some [x]" using Cons by (cases subnetIDs) auto
    ultimately show ?thesis using m[of x xs] by (cases xs) (auto simp: chooseSubnet_def Let_def)
  qed
qed


section \<open>A network with two subnets in a subregion\<close>

definition exSubnet :: "string \<Rightarrow> string \<Rightarrow> string list \<Rightarrow> Subnet" where
  "exSubnet i az keys = \<lparr>sn_SubnetId = Some i, sn_SubregionName = Some az, sn_NetId = Some ''vpc-1'',
     sn_Tags = Some (\<lparr>tag_Key = ''OscK8sClusterID/c1'', tag_Value = ''owned''\<rparr> #
       map (\<lambda>k. \<lparr>tag_Key = k, tag_Value = []\<rparr>) keys)\<rparr>"

definition netClient :: "unit Compute" where
  "netClient = \<lparr>ReadVms = (\<lambda>_. ok []), ReadSecurityGroups = (\<lambda>_. ok []), CreateSecurityGroup = (\<lambda>_. ok None),
     DeleteSecurityGroup = (\<lambda>_. ok ()), CreateSecurityGroupRule = (\<lambda>_. ok ()), DeleteSecurityGroupRule = (\<lambda>_. ok ()),
     DescribeSubnets = (\<lambda>_. ok [exSubnet ''subnet-b'' ''a'' [], exSubnet ''subnet-a'' ''a'' [],
        exSubnet ''subnet-c'' ''b'' [], exSubnet ''subnet-d'' ''b'' [TagNameSubnetPublicELB]]),
     CreateTags = (\<lambda>_. ok ()),
     ReadRouteTables = (\<lambda>_. ok [\<lparr>rtb_RouteTableId = Some ''rtb-1'',
        rtb_LinkRouteTables = Some [\<lparr>lrt_SubnetId = None, lrt_Main = Some True\<rparr>],
        rtb_Routes = Some [\<lparr>rt_DestinationIpRange = Some ''0.0.0.0/0'', rt_GatewayId = Some ''igw-1'',
           rt_State = None, rt_VmId = None\<rparr>], rtb_Tags = None\<rparr>]),
     api_CreateRoute = (\<lambda>_. ok ()), api_DeleteRoute = (\<lambda>_. ok ()), UpdateVM = (\<lambda>_. ok ())\<rparr>"


theorem findELBSubnets_spec_witness:
  "findELBSubnets (exCloud netClient) False () = (Ok (Some [''subnet-a'', ''subnet-d'']), ()) \<and>
   (\<exists>subnets rt. findSubnets (exCloud netClient) () = (Ok subnets, ()) \<and>
      elbSubnetIDs rt False (elbTagName False) (rev subnets) = [''subnet-a'', ''subnet-d''])"
proof -
  have run: "findELBSubnets (exCloud netClient) False () = (Ok (Some [''subnet-a'', ''subnet-d'']), ())"
    by code_simp
  from findELBSubnets_spec[OF run] obtain subnets rt where "findSubnets (exCloud netClient) () = (Ok subnets, ())"
    and all: "\<forall>subnets'. set subnets' = set subnets \<longrightarrow>
        elbSubnetIDs rt False (elbTagName False) subnets' = listval (Some [''subnet-a'', ''subnet-d''])"
    by auto
  moreover have "elbSubnetIDs rt False (elbTagName False) (rev subnets) = [''subnet-a'', ''subnet-d'']"
    using all[rule_format, of "rev subnets"] by simp
  ultimately show ?thesis using run by blast
qed

end
