(* ===== verification/Load_Balancers.thy ===== *)
theory Load_Balancers
  imports Instances Security_Groups Subnets
begin

text \<open>
  The load balancer itself (\<open>osc_loadbalancer.go\<close>, \<open>describeLoadBalancer\<close> and
  \<open>addLoadBalancerTags\<close> of \<open>ccm_cloud.go\<close>): creation, synchronisation of listeners, backend policies,
  tags and attributes, health check, registered instances and TLS policies.  A nil
  \<open>LoadBalancerDescription\<close> is \<open>None\<close>; reading a field of it panics.
\<close>

section \<open>Listeners\<close>

definition elbProtocolsAreEqual :: "string option \<Rightarrow> string option \<Rightarrow> bool" where
  "elbProtocolsAreEqual l r = (case l of None \<Rightarrow> r = None
     | Some a \<Rightarrow> (case r of None \<Rightarrow> False | Some b \<Rightarrow> EqualFold a b))"

definition awsArnEquals :: "string option \<Rightarrow> string option \<Rightarrow> bool" where
  "awsArnEquals l r = (case l of None \<Rightarrow> r = None
     | Some a \<Rightarrow> (case r of None \<Rightarrow> False | Some b \<Rightarrow> EqualFold a b))"

definition elbListenersAreEqual :: "Listener \<Rightarrow> Listener \<Rightarrow> bool" where
  "elbListenersAreEqual actual expected =
     (if \<not> elbProtocolsAreEqual (li_Protocol actual) (li_Protocol expected) then False
      else if \<not> elbProtocolsAreEqual (li_InstanceProtocol actual) (li_InstanceProtocol expected) then False
      else if intval (li_InstancePort actual) \<noteq> intval (li_InstancePort expected) then False
      else if intval (li_LoadBalancerPort actual) \<noteq> intval (li_LoadBalancerPort expected) then False
      else if \<not> awsArnEquals (li_SSLCertificateId actual) (li_SSLCertificateId expected) then False
      else True)"

text \<open>The index of the first desired listener that equals an actual one.\<close>

fun firstEqual :: "nat \<Rightarrow> Listener \<Rightarrow> Listener option list \<Rightarrow> nat option" where
  "firstEqual i actual [] = None"
| "firstEqual i actual (None # ls) = firstEqual (Suc i) actual ls"
| "firstEqual i actual (Some expected # ls) =
     (if elbListenersAreEqual actual expected then Some i else firstEqual (Suc i) actual ls)"

definition syncElbListeners ::
  "Listener option list \<Rightarrow> Listener option list \<Rightarrow>
     Listener option list \<times> int option list \<times> int option list" where
  "syncElbListeners listeners listenerDescriptions =
     (let step = (\<lambda>(foundSet, removals, removalsInstancePorts) description. case description of
            None \<Rightarrow> (foundSet, removals, removalsInstancePorts)
          | Some actual \<Rightarrow>
             (case firstEqual 0 actual listeners of
                Some i \<Rightarrow> (i # foundSet, removals, removalsInstancePorts)
              | None \<Rightarrow> (foundSet, removals @ [li_LoadBalancerPort actual],
                          removalsInstancePorts @ [li_InstancePort actual])));
          (foundSet, removals, removalsInstancePorts) = foldl step ([], [], []) listenerDescriptions;
          additions = map (\<lambda>i. listeners ! i) (filter (\<lambda>i. i \<notin> set foundSet) [0..<length listeners])
      in (additions, removals, removalsInstancePorts))"

section \<open>Calls on one load balancer\<close>

definition describeLoadBalancer :: "'w Cloud \<Rightarrow> string \<Rightarrow> ('w, LoadBalancerDescription option) io" where
  "describeLoadBalancer c name =
     attempt (DescribeLoadBalancers (c_loadBalancer c) name)
       (\<lambda>descriptions. ok (foldl (\<lambda>_ lb. Some lb) None descriptions))
       (\<lambda>e. if awsCode e = Some ''LoadBalancerNotFound'' then ok None else raise e)"

definition addLoadBalancerTags :: "'w Cloud \<Rightarrow> string \<Rightarrow> (string, string) gomap \<Rightarrow> ('w, unit) io" where
  "addLoadBalancerTags c loadBalancerName requested =
     attempt (AddTags (c_loadBalancer c) loadBalancerName requested) ok
       (\<lambda>e. raise (Errorf ''error adding tags to load balancer: %v'' [e]))"

definition setBackendPolicies :: "'w Cloud \<Rightarrow> string \<Rightarrow> int \<Rightarrow> string list \<Rightarrow> ('w, unit) io" where
  "setBackendPolicies c loadBalancerName instancePort policies =
     attempt (SetLoadBalancerPoliciesForBackendServer (c_loadBalancer c) loadBalancerName instancePort policies) ok
       (\<lambda>e. raise (Errorf ''error adjusting AWS loadbalancer backend policies: %q'' [e]))"

definition createProxyProtocolPolicy :: "'w Cloud \<Rightarrow> string \<Rightarrow> bool \<Rightarrow> ('w, unit) io" where
  "createProxyProtocolPolicy c loadBalancerName update =
     attempt (CreateLoadBalancerPolicy (c_loadBalancer c)
        \<lparr>clp_LoadBalancerName = Some loadBalancerName, clp_PolicyName = ProxyProtocolPolicyName,
         clp_PolicyTypeName = ''ProxyProtocolPolicyType'', clp_PolicyAttributes = [(''ProxyProtocol'', ''true'')]\<rparr>) ok
       (\<lambda>e. if update \<and> awsCode e = Some ''DuplicatePolicyName'' then ok ()
            else raise (Errorf ''error creating proxy protocol policy on load balancer: %q'' [e]))"

definition proxyProtocolEnabled :: "BackendServerDescription \<Rightarrow> bool" where
  "proxyProtocolEnabled backend = list_ex (\<lambda>policy. policy = ProxyProtocolPolicyName) (bs_PolicyNames backend)"

definition nilDeref :: "'a option \<Rightarrow> ('w, 'a) io" where
  "nilDeref p = (case p of Some x \<Rightarrow> ok x | None \<Rightarrow> panic ''invalid memory address or nil pointer dereference'')"

section \<open>Creating and synchronising a load balancer\<close>

definition createLbInput ::
  "'w Cloud \<Rightarrow> string \<Rightarrow> string \<Rightarrow> Listener list \<Rightarrow> string list option \<Rightarrow> string list option \<Rightarrow> bool \<Rightarrow>
     (string \<rightharpoonup> string) \<Rightarrow> ('w, CreateLoadBalancerInput) io" where
  "createLbInput c namespacedName loadBalancerName listeners subnetIDs securityGroupIDs internalELB annotations =
     bnd (case subnetIDs of None \<Rightarrow> bnd (selfInstance c) (\<lambda>self. ok [self_availabilityZone self]) | Some _ \<Rightarrow> ok [])
       (\<lambda>zones.
        (let tags0 = mput TagNameKubernetesService namespacedName (getLoadBalancerAdditionalTags annotations);
             tags = buildTags (c_environ c) (c_tagging c) ResourceLifecycleOwned tags0
         in ok \<lparr>clb_LoadBalancerName = loadBalancerName, clb_Listeners = listeners,
                clb_Scheme = (if internalELB then Some ''internal'' else None),
                clb_Subnets = subnetIDs, clb_AvailabilityZones = zones,
                clb_SecurityGroups = (if securityGroupIDs = None \<or> subnetIDs = None then None else securityGroupIDs),
                clb_Tags = tags\<rparr>))"

definition createElb ::
  "'w Cloud \<Rightarrow> string \<Rightarrow> string \<Rightarrow> Listener list \<Rightarrow> string list option \<Rightarrow> string list option \<Rightarrow> bool \<Rightarrow> bool \<Rightarrow>
     (string \<rightharpoonup> string) \<Rightarrow> ('w, unit) io" where
  "createElb c namespacedName loadBalancerName listeners subnetIDs securityGroupIDs internalELB proxyProtocol annotations =
     bnd (createLbInput c namespacedName loadBalancerName listeners subnetIDs securityGroupIDs internalELB annotations)
       (\<lambda>createRequest.
     bnd (CreateLoadBalancer (c_loadBalancer c) createRequest) (\<lambda>_.
       if proxyProtocol then
         bnd (createProxyProtocolPolicy c loadBalancerName False) (\<lambda>_.
         forEach listeners (\<lambda>listener.
           bnd (nilDeref (li_InstancePort listener)) (\<lambda>port.
           setBackendPolicies c loadBalancerName port [ProxyProtocolPolicyName])))
       else ok ()))"

text \<open>Whether the subnets differ, which only marks the balancer as changed.\<close>

definition subnetsDiffer :: "string list option \<Rightarrow> LoadBalancerDescription \<Rightarrow> bool" where
  "subnetsDiffer subnetIDs loadBalancer =
     (let expected = set (listval subnetIDs); actual = the (stringSetFromPointers (Some (map Some (lb_Subnets loadBalancer))))
      in actual - expected \<noteq> {} \<or> expected - actual \<noteq> {})"

definition syncListeners ::
  "'w Cloud \<Rightarrow> string \<Rightarrow> Listener list \<Rightarrow> bool \<Rightarrow> LoadBalancerDescription \<Rightarrow> ('w, bool) io" where
  "syncListeners c loadBalancerName listeners proxyProtocol loadBalancer =
     (let (additions, removals, removalsInstancePorts) =
            syncElbListeners (map Some listeners) (lb_ListenerDescriptions loadBalancer)
      in
      bnd (if length removals \<noteq> 0 then
             bnd (if proxyProtocol then
                    forEach (lb_BackendServerDescriptions loadBalancer) (\<lambda>backendListener.
                      if intval (bs_InstancePort backendListener) \<in> set (map intval removalsInstancePorts)
                      then setBackendPolicies c loadBalancerName (intval (bs_InstancePort backendListener)) []
                      else ok ())
                  else ok ()) (\<lambda>_.
             attempt (DeleteLoadBalancerListeners (c_loadBalancer c) loadBalancerName removals) ok
               (\<lambda>e. raise (Errorf ''error deleting OSC loadbalancer listeners: %q'' [e])))
           else ok ()) (\<lambda>_.
      bnd (if length additions \<noteq> 0 then
             attempt (CreateLoadBalancerListeners (c_loadBalancer c) loadBalancerName additions) ok
               (\<lambda>e. raise (Errorf ''error creating OSC loadbalancer listeners: %q'' [e]))
           else ok ()) (\<lambda>_.
      ok (length removals \<noteq> 0 \<or> length additions \<noteq> 0))))"

text \<open>The map from instance ports to whether the proxy protocol is on (\<open>foundBackends\<close> is only written).\<close>

definition proxyProtocolBackends :: "BackendServerDescription list \<Rightarrow> (int, bool) gomap res" where
  "proxyProtocolBackends backends = foldRes (\<lambda>m backendListener. case bs_InstancePort backendListener of
       None \<Rightarrow> Panic ''invalid memory address or nil pointer dereference''
     | Some port \<Rightarrow> Ok (mput port (proxyProtocolEnabled backendListener) m)) [] backends"

definition syncProxyProtocol ::
  "'w Cloud \<Rightarrow> string \<Rightarrow> Listener list \<Rightarrow> bool \<Rightarrow> LoadBalancerDescription \<Rightarrow> ('w, bool) io" where
  "syncProxyProtocol c loadBalancerName listeners proxyProtocol loadBalancer =
     bnd (if proxyProtocol then createProxyProtocolPolicy c loadBalancerName True else ok ()) (\<lambda>_.
       (let proxyPolicies = (if proxyProtocol then [ProxyProtocolPolicyName] else []) in
        bnd (lift (proxyProtocolBackends (lb_BackendServerDescriptions loadBalancer))) (\<lambda>backends.
        foldIO (\<lambda>dirty listener.
          bnd (nilDeref (li_InstancePort listener)) (\<lambda>instancePort.
            (let setPolicy = (case map_of backends instancePort of
                   None \<Rightarrow> proxyProtocol | Some currentState \<Rightarrow> currentState \<noteq> proxyProtocol)
             in if setPolicy
                then bnd (setBackendPolicies c loadBalancerName instancePort proxyPolicies) (\<lambda>_. ok True)
                else ok dirty))) False listeners)))"

definition syncTags :: "'w Cloud \<Rightarrow> string \<Rightarrow> (string \<rightharpoonup> string) \<Rightarrow> ('w, unit) io" where
  "syncTags c loadBalancerName annotations =
     (let tags = getLoadBalancerAdditionalTags annotations in
      if length tags > 0 then
        attempt (addLoadBalancerTags c loadBalancerName tags) ok
          (\<lambda>e. raise (Errorf ''unable to create additional load balancer tags: %v'' [e]))
      else ok ())"

definition syncAttributes :: "'w Cloud \<Rightarrow> string \<Rightarrow> LoadBalancerAttributes \<Rightarrow> ('w, bool) io" where
  "syncAttributes c loadBalancerName loadBalancerAttributes =
     bnd (DescribeLoadBalancerAttributes (c_loadBalancer c) loadBalancerName) (\<lambda>foundAttributes.
       if loadBalancerAttributes \<noteq> foundAttributes then
         attempt (ModifyLoadBalancerAttributes (c_loadBalancer c) loadBalancerName loadBalancerAttributes) (\<lambda>_. ok True)
           (\<lambda>e. raise (Errorf ''Unable to update load balancer attributes during attribute sync: %q'' [e]))
       else ok False)"

definition ensureLoadBalancer ::
  "'w Cloud \<Rightarrow> string \<Rightarrow> string \<Rightarrow> Listener list \<Rightarrow> string list option \<Rightarrow> string list option \<Rightarrow> bool \<Rightarrow> bool \<Rightarrow>
     LoadBalancerAttributes \<Rightarrow> (string \<rightharpoonup> string) \<Rightarrow> ('w, LoadBalancerDescription option) io" where
  "ensureLoadBalancer c namespacedName loadBalancerName listeners subnetIDs securityGroupIDs internalELB
       proxyProtocol loadBalancerAttributes annotations =
     bnd (describeLoadBalancer c loadBalancerName) (\<lambda>found.
     bnd (case found of
            None \<Rightarrow> bnd (createElb c namespacedName loadBalancerName listeners subnetIDs securityGroupIDs internalELB
                            proxyProtocol annotations) (\<lambda>_. ok True)
          | Some loadBalancer \<Rightarrow>
              bnd (syncListeners c loadBalancerName listeners proxyProtocol loadBalancer) (\<lambda>dirty1.
              bnd (syncProxyProtocol c loadBalancerName listeners proxyProtocol loadBalancer) (\<lambda>dirty2.
              bnd (syncTags c loadBalancerName annotations) (\<lambda>_.
              ok (subnetsDiffer subnetIDs loadBalancer \<or> dirty1 \<or> dirty2))))) (\<lambda>dirty.
     bnd (syncAttributes c loadBalancerName loadBalancerAttributes) (\<lambda>dirty3.
       if dirty \<or> dirty3 then describeLoadBalancer c loadBalancerName else ok found)))"

section \<open>Health check, instances and TLS policies\<close>

definition ensureLoadBalancerHealthCheck ::
  "'w Cloud \<Rightarrow> LoadBalancerDescription option \<Rightarrow> string \<Rightarrow> int \<Rightarrow> string \<Rightarrow> (string \<rightharpoonup> string) \<Rightarrow> ('w, unit) io" where
  "ensureLoadBalancerHealthCheck c lb protocol port path annotations =
     bnd (nilDeref lb) (\<lambda>loadBalancer.
       (let expectedTarget = protocol @ '':'' @ FormatInt port @ path in
        attempt (lift (getExpectedHealthCheck (c_libs c) expectedTarget annotations)) (\<lambda>expected.
          bnd (nilDeref (lb_HealthCheck loadBalancer)) (\<lambda>actual.
            if strval (hc_Target expected) = strval (hc_Target actual) \<and>
               intval (hc_HealthyThreshold expected) = intval (hc_HealthyThreshold actual) \<and>
               intval (hc_UnhealthyThreshold expected) = intval (hc_UnhealthyThreshold actual) \<and>
               intval (hc_Interval expected) = intval (hc_Interval actual) \<and>
               intval (hc_Timeout expected) = intval (hc_Timeout actual)
            then ok ()
            else attempt (ConfigureHealthCheck (c_loadBalancer c) (lb_LoadBalancerName loadBalancer) expected) ok
                   (\<lambda>e. raise (Errorf ''error configuring load balancer health check for %q: %q'' [e]))))
          (\<lambda>e. raise (Errorf ''cannot update health check for load balancer %q: %q'' [e]))))"

definition ensureLoadBalancerInstances ::
  "'w Cloud \<Rightarrow> string \<Rightarrow> string option list \<Rightarrow> (string, Vm) gomap \<Rightarrow> ('w, unit) io" where
  "ensureLoadBalancerInstances c loadBalancerName lbInstances instanceIDs =
     (let expected = set (map fst instanceIDs);
          actual = set (map strval lbInstances);
          addInstances = setList (expected - actual);
          removeInstances = setList (actual - expected)
      in
      bnd (if length addInstances > 0
           then RegisterInstancesWithLoadBalancer (c_loadBalancer c) loadBalancerName addInstances else ok ()) (\<lambda>_.
      if length removeInstances > 0
      then DeregisterInstancesFromLoadBalancer (c_loadBalancer c) loadBalancerName removeInstances else ok ()))"

definition getLoadBalancerTLSPorts :: "LoadBalancerDescription option \<Rightarrow> int list res" where
  "getLoadBalancerTLSPorts lb = (case lb of
       None \<Rightarrow> Panic ''invalid memory address or nil pointer dereference''
     | Some loadBalancer \<Rightarrow>
         foldRes (\<lambda>ports description. case description of
             None \<Rightarrow> Panic ''invalid memory address or nil pointer dereference''
           | Some listener \<Rightarrow>
              (let protocol = strval (li_Protocol listener) in
               Ok (if protocol = ''SSL'' \<or> protocol = ''HTTPS''
                   then ports @ [intval (li_LoadBalancerPort listener)] else ports)))
           [] (lb_ListenerDescriptions loadBalancer))"

definition ensureSSLNegotiationPolicy :: "'w Cloud \<Rightarrow> LoadBalancerDescription option \<Rightarrow> string \<Rightarrow> ('w, unit) io" where
  "ensureSSLNegotiationPolicy c lb policyName =
     bnd (nilDeref lb) (\<lambda>loadBalancer.
     bnd (DescribeLoadBalancerPolicies (c_loadBalancer c) (lb_LoadBalancerName loadBalancer)
            [SSLNegotiationPolicyName policyName]) (\<lambda>(result, err).
       (let fatal = (case err of None \<Rightarrow> None
              | Some e \<Rightarrow> (case awsCode e of None \<Rightarrow> None
                  | Some cd \<Rightarrow> (if cd = ''PolicyNotFound'' then None else Some e)))
        in case fatal of
             Some e \<Rightarrow> raise (Errorf ''error describing security policies on load balancer: %q'' [e])
           | None \<Rightarrow>
               bnd (nilDeref result) (\<lambda>policyDescriptions.
                 if length policyDescriptions > 0 then ok ()
                 else attempt (CreateLoadBalancerPolicy (c_loadBalancer c)
                        \<lparr>clp_LoadBalancerName = lb_LoadBalancerName loadBalancer,
                         clp_PolicyName = SSLNegotiationPolicyName policyName,
                         clp_PolicyTypeName = ''SSLNegotiationPolicyType'',
                         clp_PolicyAttributes = [(''Reference-Security-Policy'', policyName)]\<rparr>) ok
                        (\<lambda>e. raise (Errorf ''error creating security policy on load balancer: %q'' [e]))))))"

definition setSSLNegotiationPolicy :: "'w Cloud \<Rightarrow> string \<Rightarrow> string \<Rightarrow> int \<Rightarrow> ('w, unit) io" where
  "setSSLNegotiationPolicy c loadBalancerName sslPolicyName port =
     attempt (SetLoadBalancerPoliciesOfListener (c_loadBalancer c) loadBalancerName port
                [SSLNegotiationPolicyName sslPolicyName]) ok
       (\<lambda>e. raise (Errorf ''error setting SSL negotiation policy on load balancer: %q'' [e]))"

section \<open>Instances of a load balancer\<close>

text \<open>A node without a provider id gets the id of the instance found by its name; errors are ignored.  (The code writes the id into the
  node object of the caller; here the changed nodes are the value, and a later call is given its nodes anew.)\<close>

definition fillProviderIDs :: "'w Cloud \<Rightarrow> Node list \<Rightarrow> ('w, Node list) io" where
  "fillProviderIDs c nodes = foldIO (\<lambda>done node.
     if node_ProviderID node = [] then
       bnd (attempt (findInstanceByNodeName c (node_Name node)) ok (\<lambda>_. ok None)) (\<lambda>instance.
         ok (done @ [node\<lparr>node_ProviderID := (case instance of None \<Rightarrow> [] | Some i \<Rightarrow> strval (vm_VmId i))\<rparr>]))
     else ok (done @ [node])) [] nodes"

definition findInstancesForELB :: "'x sys Cloud \<Rightarrow> Node list \<Rightarrow> ('x sys, (string, Vm) gomap) io" where
  "findInstancesForELB c nodes =
     bnd (fillProviderIDs c nodes) (\<lambda>nodes'.
       (let instanceIDs = mapToAWSInstanceIDsTolerant nodes' in
        bnd (describeAllInstancesCached c \<lparr>MaxAge = 0, HasInstances = instanceIDs\<rparr>) (\<lambda>snap.
        ok (FindInstances snap instanceIDs))))"


section \<open>Registered instances\<close>

interpretation lbinst: reconcile_plan "\<lambda>_ _. True"
  "\<lambda>instanceIDs. set (map fst instanceIDs)" "\<lambda>lbInstances. set (map strval lbInstances)"
  "\<lambda>instanceIDs lbInstances. set (setList (set (map fst instanceIDs) - set (map strval lbInstances)))"
  "\<lambda>instanceIDs lbInstances. set (setList (set (map strval lbInstances) - set (map fst instanceIDs)))"
  by unfold_locales simp_all

text \<open>What the API documents: registering adds the given instances, deregistering removes them.\<close>

definition instanceContract :: "'w LoadBalancer \<Rightarrow> ('w \<Rightarrow> string \<Rightarrow> string set) \<Rightarrow> bool" where
  "instanceContract client registered \<longleftrightarrow>
     (\<forall>w n ids w'. RegisterInstancesWithLoadBalancer client n ids w = (Ok (), w') \<longrightarrow>
        registered w' = (registered w)(n := registered w n \<union> set ids)) \<and>
     (\<forall>w n ids w'. DeregisterInstancesFromLoadBalancer client n ids w = (Ok (), w') \<longrightarrow>
        registered w' = (registered w)(n := registered w n - set ids))"

lemma instances_view:
  assumes "instanceContract (c_loadBalancer c) registered"
    and "registered w name = set (map strval lbInstances)"
    and "ensureLoadBalancerInstances c name lbInstances instanceIDs w = (Ok (), w')"
  shows "registered w' = (registered w)(name := set (map fst instanceIDs))"
proof -
  let ?add = "setList (set (map fst instanceIDs) - set (map strval lbInstances))"
  let ?rem = "setList (set (map strval lbInstances) - set (map fst instanceIDs))"
  obtain w1 where
    add: "(if length ?add > 0 then RegisterInstancesWithLoadBalancer (c_loadBalancer c) name ?add else ok ()) w = (Ok (), w1)"
    and rem: "(if length ?rem > 0 then DeregisterInstancesFromLoadBalancer (c_loadBalancer c) name ?rem else ok ()) w1 = (Ok (), w')"
    using assms(3) unfolding ensureLoadBalancerInstances_def Let_def bnd_eq_Ok by auto
  have "registered w1 = (registered w)(name := registered w name \<union> set ?add)"
    using add assms(1) unfolding instanceContract_def by (cases "?add = []") simp_all
  moreover have "registered w' = (registered w1)(name := registered w1 name - set ?rem)"
    using rem assms(1) unfolding instanceContract_def by (cases "?rem = []") simp_all
  ultimately show ?thesis
    using lbinst.add_then_remove[OF TrueI, of lbInstances instanceIDs] assms(2) by simp
qed

text \<open>
  When the given list shows the registered instances, a successful \<open>ensureLoadBalancerInstances\<close>
  leaves exactly the requested instances registered with the load balancer, and no other load
  balancer is affected.
\<close>

theorem ensureLoadBalancerInstances_exact:
  assumes "instanceContract (c_loadBalancer c) registered"
    and "registered w name = set (map strval lbInstances)"
    and "ensureLoadBalancerInstances c name lbInstances instanceIDs w = (Ok (), w')"
  shows "registered w' = (registered w)(name := set (map fst instanceIDs))"
  using assms by (rule instances_view)

definition memLb :: "(string \<Rightarrow> string set) LoadBalancer" where
  "memLb = noElb\<lparr>
     RegisterInstancesWithLoadBalancer := (\<lambda>n ids w. (Ok (), w(n := w n \<union> set ids))),
     DeregisterInstancesFromLoadBalancer := (\<lambda>n ids w. (Ok (), w(n := w n - set ids)))\<rparr>"

theorem ensureLoadBalancerInstances_exact_witness:
  "\<exists>w'. ensureLoadBalancerInstances ((exCloud quietClient)\<lparr>c_loadBalancer := memLb\<rparr>) ''lb'' [Some ''i-1'', Some ''i-2'']
       [(''i-2'', exVm ''i-2'' []), (''i-3'', exVm ''i-3'' [])] (\<lambda>_. {''i-1'', ''i-2''}) = (Ok (), w') \<and>
     w' ''lb'' = {''i-2'', ''i-3''} \<and> w' ''other'' = {''i-1'', ''i-2''}"
proof -
  let ?c = "(exCloud quietClient)\<lparr>c_loadBalancer := memLb\<rparr>" and ?w = "\<lambda>_ :: string. {''i-1'', ''i-2''}"
  let ?new = "[(''i-2'', exVm ''i-2'' []), (''i-3'', exVm ''i-3'' [])]"
  have con: "instanceContract (c_loadBalancer ?c) (\<lambda>w. w)"
    by (auto simp: instanceContract_def memLb_def noElb_def)
  have "fst (ensureLoadBalancerInstances ?c ''lb'' [Some ''i-1'', Some ''i-2''] ?new ?w) = Ok ()"
    by (simp add: ensureLoadBalancerInstances_def Let_def memLb_def noElb_def bnd_def attempt_def)
  then obtain w' where run: "ensureLoadBalancerInstances ?c ''lb'' [Some ''i-1'', Some ''i-2''] ?new ?w = (Ok (), w')"
    by (metis prod.collapse)
  have "w' = ?w(''lb'' := set (map fst ?new))"
    by (rule ensureLoadBalancerInstances_exact[OF con _ run]) simp
  then show ?thesis using run by auto
qed


section \<open>The listener plan\<close>

type_synonym listenerKey = "string option \<times> string option \<times> int \<times> int \<times> string option"

definition listenerKey :: "Listener \<Rightarrow> listenerKey" where
  "listenerKey l = (map_option ToLower (li_Protocol l), map_option ToLower (li_InstanceProtocol l),
     intval (li_InstancePort l), intval (li_LoadBalancerPort l), map_option ToLower (li_SSLCertificateId l))"

lemma elbListenersAreEqual_key: "elbListenersAreEqual a e \<longleftrightarrow> listenerKey a = listenerKey e"
  by (auto simp: elbListenersAreEqual_def listenerKey_def elbProtocolsAreEqual_def awsArnEquals_def EqualFold_def
      split: option.splits)

lemma firstEqual_None_iff:
  "firstEqual i a (map Some ls) = None \<longleftrightarrow> listenerKey a \<notin> listenerKey ` set ls"
  by (induction ls arbitrary: i) (auto simp: elbListenersAreEqual_key)

lemma firstEqual_SomeD:
  "firstEqual i a (map Some ls) = Some j \<Longrightarrow>
     i \<le> j \<and> j < i + length ls \<and> listenerKey (ls ! (j - i)) = listenerKey a"
proof (induction ls arbitrary: i)
  case (Cons l ls)
  show ?case
  proof (cases "elbListenersAreEqual a l")
    case True
    then show ?thesis using Cons.prems by (auto simp: elbListenersAreEqual_key)
  next
    case False
    then have "firstEqual (Suc i) a (map Some ls) = Some j" using Cons.prems by simp
    then have "Suc i \<le> j \<and> j < Suc i + length ls \<and> listenerKey (ls ! (j - Suc i)) = listenerKey a"
      by (rule Cons.IH)
    then show ?thesis by (auto simp: nth_Cons' Suc_diff_Suc)
  qed
qed simp

text \<open>The actual listeners, and those of them that no desired listener equals.\<close>

definition somes :: "'a option list \<Rightarrow> 'a list" where
  "somes xs = map the (filter (\<lambda>x. x \<noteq> None) xs)"

lemma somes_simps [simp]: "somes [] = []" "somes (None # xs) = somes xs" "somes (Some x # xs) = x # somes xs"
  by (simp_all add: somes_def)

lemma somes_map_Some [simp]: "somes (map Some xs) = xs"
  by (induction xs) auto

definition unmatched :: "Listener list \<Rightarrow> Listener option list \<Rightarrow> Listener list" where
  "unmatched ls ds = filter (\<lambda>a. listenerKey a \<notin> listenerKey ` set ls) (somes ds)"

lemma syncElbListeners_alt:
  assumes "distinct (map listenerKey ls)"
  shows "syncElbListeners (map Some ls) ds =
    (map Some (filter (\<lambda>l. listenerKey l \<notin> listenerKey ` set (somes ds)) ls),
     map li_LoadBalancerPort (unmatched ls ds), map li_InstancePort (unmatched ls ds))"
proof -
  let ?step = "\<lambda>(foundSet, removals, removalsInstancePorts) description. case description of
            None \<Rightarrow> (foundSet, removals, removalsInstancePorts)
          | Some actual \<Rightarrow>
             (case firstEqual 0 actual (map Some ls) of
                Some i \<Rightarrow> (i # foundSet, removals, removalsInstancePorts)
              | None \<Rightarrow> (foundSet, removals @ [li_LoadBalancerPort actual],
                          removalsInstancePorts @ [li_InstancePort actual]))"
  have loop: "\<exists>fs'. foldl ?step (fs, rs, ps) ds =
      (fs', rs @ map li_LoadBalancerPort (unmatched ls ds), ps @ map li_InstancePort (unmatched ls ds)) \<and>
      set fs' = set fs \<union> {i. \<exists>a\<in>set (somes ds). firstEqual 0 a (map Some ls) = Some i}" for fs rs ps
  proof (induction ds arbitrary: fs rs ps)
    case (Cons d ds)
    show ?case
    proof (cases d)
      case (Some a)
      show ?thesis
      proof (cases "firstEqual 0 a (map Some ls)")
        case None
        then show ?thesis
          using Cons.IH[of fs "rs @ [li_LoadBalancerPort a]" "ps @ [li_InstancePort a]"] Some firstEqual_None_iff[of 0 a ls]
          by (simp add: unmatched_def)
      next
        case (Some i)
        then show ?thesis using Cons.IH[of "i # fs" rs ps] \<open>d = Some a\<close> firstEqual_None_iff[of 0 a ls]
          by (auto simp: unmatched_def)
      qed
    qed (use Cons.IH in \<open>simp add: unmatched_def\<close>)
  qed (auto simp: unmatched_def)
  obtain fs where fs: "foldl ?step ([], [], []) ds =
      (fs, map li_LoadBalancerPort (unmatched ls ds), map li_InstancePort (unmatched ls ds))"
    "set fs = {i. \<exists>a\<in>set (somes ds). firstEqual 0 a (map Some ls) = Some i}"
    using loop[of "[]" "[]" "[]"] by auto
  have found: "i \<in> set fs \<longleftrightarrow> listenerKey (ls ! i) \<in> listenerKey ` set (somes ds)" if "i < length ls" for i
  proof
    assume "i \<in> set fs"
    then show "listenerKey (ls ! i) \<in> listenerKey ` set (somes ds)"
      unfolding fs(2) using firstEqual_SomeD[of 0 _ ls i] by (force simp: image_iff)
  next
    assume "listenerKey (ls ! i) \<in> listenerKey ` set (somes ds)"
    then obtain a where a: "a \<in> set (somes ds)" "listenerKey (ls ! i) = listenerKey a" by auto
    then have "firstEqual 0 a (map Some ls) \<noteq> None"
      using that firstEqual_None_iff[of 0 a ls] by (metis image_eqI nth_mem)
    then obtain j where j: "firstEqual 0 a (map Some ls) = Some j" by auto
    then have "j < length ls" "listenerKey (ls ! j) = listenerKey a" using firstEqual_SomeD[OF j] by auto
    then have "j = i" using assms that a(2) by (metis distinct_conv_nth length_map nth_map)
    then show "i \<in> set fs" unfolding fs(2) using a(1) j by auto
  qed
  have "filter (\<lambda>l. listenerKey l \<notin> listenerKey ` set (somes ds)) ls =
      map (\<lambda>i. ls ! i) (filter (\<lambda>i. i \<notin> set fs) [0..<length ls])"
  proof -
    have "filter (\<lambda>l. listenerKey l \<notin> listenerKey ` set (somes ds)) (map (\<lambda>i. ls ! i) [0..<length ls]) =
      map (\<lambda>i. ls ! i) (filter (\<lambda>i. listenerKey (ls ! i) \<notin> listenerKey ` set (somes ds)) [0..<length ls])"
      by (simp add: filter_map comp_def)
    also have "filter (\<lambda>i. listenerKey (ls ! i) \<notin> listenerKey ` set (somes ds)) [0..<length ls] =
        filter (\<lambda>i. i \<notin> set fs) [0..<length ls]"
      by (rule filter_cong) (use found in auto)
    finally show ?thesis by (simp add: map_nth)
  qed
  then show ?thesis by (simp add: syncElbListeners_def fs(1) Let_def)
qed

lemma image_diff: "f ` {x \<in> A. f x \<notin> B} = f ` A - B"
  by auto

interpretation lblisten: reconcile_plan "\<lambda>ls ds. distinct (map listenerKey ls)"
  "\<lambda>ls. listenerKey ` set ls" "\<lambda>ds. listenerKey ` set (somes ds)"
  "\<lambda>ls ds. listenerKey ` set (somes (fst (syncElbListeners (map Some ls) ds)))"
  "\<lambda>ls ds. listenerKey ` set (unmatched ls ds)"
  by unfold_locales (simp_all add: syncElbListeners_alt unmatched_def image_diff)


section \<open>The listeners of the load balancer become the requested ones\<close>

definition listenerPort :: "Listener \<Rightarrow> int" where
  "listenerPort l = intval (li_LoadBalancerPort l)"

definition listenersMap :: "Listener list \<Rightarrow> int \<rightharpoonup> listenerKey" where
  "listenersMap ls = map_of (map (\<lambda>l. (listenerPort l, listenerKey l)) ls)"

text \<open>
  What the API documents about listeners, relative to the listeners of each load balancer that a world
  holds, by port: describing a load balancer shows them, one per port; creating it sets them; the two
  listener calls remove the given ports and add the given listeners; the other calls do not touch them.
\<close>

definition listenerContract :: "'w LoadBalancer \<Rightarrow> ('w \<Rightarrow> string \<Rightarrow> int \<rightharpoonup> listenerKey) \<Rightarrow> bool" where
  "listenerContract client view \<longleftrightarrow>
     (\<forall>w n r w'. DescribeLoadBalancers client n w = (r, w') \<longrightarrow> view w' = view w \<and>
        (\<forall>ds. r = Ok ds \<longrightarrow> (\<forall>lb\<in>set ds. distinct (map listenerPort (somes (lb_ListenerDescriptions lb))) \<and>
            view w n = listenersMap (somes (lb_ListenerDescriptions lb))))) \<and>
     (\<forall>w q w'. CreateLoadBalancer client q w = (Ok (), w') \<longrightarrow>
        view w' = (view w)(clb_LoadBalancerName q := listenersMap (clb_Listeners q))) \<and>
     (\<forall>w n ps w'. DeleteLoadBalancerListeners client n ps w = (Ok (), w') \<longrightarrow>
        view w' = (view w)(n := view w n |` (- set (map intval ps)))) \<and>
     (\<forall>w n ls w'. CreateLoadBalancerListeners client n (map Some ls) w = (Ok (), w') \<longrightarrow>
        view w' = (view w)(n := view w n ++ listenersMap ls)) \<and>
     (\<forall>v. (\<forall>q. keeps (\<lambda>w. view w = v) (CreateLoadBalancerPolicy client q)) \<and>
          (\<forall>n p ps. keeps (\<lambda>w. view w = v) (SetLoadBalancerPoliciesForBackendServer client n p ps)) \<and>
          (\<forall>n ts. keeps (\<lambda>w. view w = v) (AddTags client n ts)) \<and>
          (\<forall>n. keeps (\<lambda>w. view w = v) (DescribeLoadBalancerAttributes client n)) \<and>
          (\<forall>n a. keeps (\<lambda>w. view w = v) (ModifyLoadBalancerAttributes client n a)))"

lemma listenersMap_iff:
  "distinct (map listenerPort ls) \<Longrightarrow> listenersMap ls p = Some k \<longleftrightarrow> (\<exists>l\<in>set ls. listenerPort l = p \<and> listenerKey l = k)"
  unfolding listenersMap_def by (subst map_of_eq_Some_iff) (auto simp: comp_def image_iff)

lemma listenersMap_None_iff: "listenersMap ls p = None \<longleftrightarrow> p \<notin> listenerPort ` set ls"
  by (simp add: listenersMap_def map_of_eq_None_iff image_image)

lemma key_port: "listenerKey l = listenerKey m \<Longrightarrow> listenerPort l = listenerPort m"
  by (simp add: listenerKey_def listenerPort_def)

lemma distinct_ports_keys: "distinct (map listenerPort ls) \<Longrightarrow> distinct (map listenerKey ls)"
  by (auto simp: distinct_map inj_on_def dest: key_port)

lemma same_port: "distinct (map listenerPort ls) \<Longrightarrow> l \<in> set ls \<Longrightarrow> m \<in> set ls \<Longrightarrow> listenerPort l = listenerPort m \<Longrightarrow> l = m"
  by (auto simp: distinct_map inj_on_def)

text \<open>Removing the ports of the unmatched listeners and adding the missing ones gives the desired map.\<close>

lemma listener_plan_map:
  assumes D: "distinct (map listenerPort ls)" and A: "distinct (map listenerPort as)"
  shows "(listenersMap as |` (- listenerPort ` {a \<in> set as. listenerKey a \<notin> listenerKey ` set ls})) ++
      listenersMap (filter (\<lambda>l. listenerKey l \<notin> listenerKey ` set as) ls) = listenersMap ls" (is "?lhs = _")
proof (rule ext)
  fix p
  let ?new = "filter (\<lambda>l. listenerKey l \<notin> listenerKey ` set as) ls"
  have dn: "distinct (map listenerPort ?new)" using D by (simp add: distinct_map_filter)
  show "?lhs p = listenersMap ls p"
  proof (cases "listenersMap ls p")
    case None
    then have no: "l \<in> set ls \<Longrightarrow> listenerPort l \<noteq> p" for l
      by (auto simp: listenersMap_None_iff)
    then have n: "listenersMap ?new p = None" by (auto simp: listenersMap_None_iff)
    show ?thesis
    proof (cases "listenersMap as p")
      case None
      then show ?thesis using n \<open>listenersMap ls p = None\<close> by (simp add: map_add_def restrict_map_def)
    next
      case (Some k)
      then obtain a where a: "a \<in> set as" "listenerPort a = p" using listenersMap_iff[OF A, of p k] by auto
      then have "listenerKey a \<notin> listenerKey ` set ls" using no key_port by (metis imageE)
      then show ?thesis using a n \<open>listenersMap ls p = None\<close> by (auto simp: map_add_def restrict_map_def)
    qed
  next
    case (Some k)
    then obtain l where l: "l \<in> set ls" "listenerPort l = p" "listenerKey l = k"
      using listenersMap_iff[OF D, of p k] by auto
    show ?thesis
    proof (cases "k \<in> listenerKey ` set as")
      case True
      then obtain a where a: "a \<in> set as" "listenerKey a = k" by auto
      then have ap: "listenerPort a = p" using l key_port by metis
      have "listenersMap ?new p = None"
      proof (rule ccontr)
        assume "listenersMap ?new p \<noteq> None"
        then obtain m where m: "m \<in> set ?new" "listenerPort m = p" by (auto simp: listenersMap_None_iff)
        then have "l = m" using l by (intro same_port[OF D]) simp_all
        then show False using m(1) l(3) True by simp
      qed
      moreover have "p \<notin> listenerPort ` {a \<in> set as. listenerKey a \<notin> listenerKey ` set ls}"
      proof
        assume "p \<in> listenerPort ` {a \<in> set as. listenerKey a \<notin> listenerKey ` set ls}"
        then obtain b where b: "b \<in> set as" "listenerKey b \<notin> listenerKey ` set ls" "p = listenerPort b" by auto
        then have "a = b" using a ap by (intro same_port[OF A]) simp_all
        then show False using b(2) a(2) l(1,3) by (metis image_eqI)
      qed
      moreover have "listenersMap as p = Some k" using a ap listenersMap_iff[OF A] by blast
      ultimately show ?thesis using Some by (simp add: map_add_def restrict_map_def)
    next
      case False
      then have "l \<in> set ?new" using l by simp
      then have "listenersMap ?new p = Some k" using l listenersMap_iff[OF dn] by blast
      then show ?thesis using Some by (simp add: map_add_def)
    qed
  qed
qed

lemma contractD:
  assumes "listenerContract client view"
  shows "CreateLoadBalancer client q w = (Ok (), w') \<Longrightarrow>
      view w' = (view w)(clb_LoadBalancerName q := listenersMap (clb_Listeners q))"
    and "DescribeLoadBalancers client n w = (Ok ds, w') \<Longrightarrow> lb \<in> set ds \<Longrightarrow>
      distinct (map listenerPort (somes (lb_ListenerDescriptions lb))) \<and>
      view w n = listenersMap (somes (lb_ListenerDescriptions lb))"
  using assms[unfolded listenerContract_def] by simp_all

lemma contract_keeps:
  assumes "listenerContract (c_loadBalancer c) view"
  shows "keeps (\<lambda>w. view w = v) (setBackendPolicies c n p ps)" "keeps (\<lambda>w. view w = v) (createProxyProtocolPolicy c n u)"
    "keeps (\<lambda>w. view w = v) (syncTags c n an)" "keeps (\<lambda>w. view w = v) (syncAttributes c n at)"
    "keeps (\<lambda>w. view w = v) (describeLoadBalancer c n)" "keeps (\<lambda>w. view w = v) (nilDeref x)"
proof -
  note k = assms[unfolded listenerContract_def]
  show "keeps (\<lambda>w. view w = v) (setBackendPolicies c n p ps)"
    unfolding setBackendPolicies_def using k by (intro keeps_rules) auto
  show "keeps (\<lambda>w. view w = v) (createProxyProtocolPolicy c n u)"
    unfolding createProxyProtocolPolicy_def using k by (intro keeps_rules) auto
  show "keeps (\<lambda>w. view w = v) (syncTags c n an)"
    unfolding syncTags_def addLoadBalancerTags_def Let_def using k by (intro keeps_rules) auto
  show "keeps (\<lambda>w. view w = v) (syncAttributes c n at)"
    unfolding syncAttributes_def using k by (intro keeps_rules) auto
  have "keeps (\<lambda>w. view w = v) (DescribeLoadBalancers (c_loadBalancer c) n)"
    using k by (intro keepsI) (metis prod.collapse)
  then show "keeps (\<lambda>w. view w = v) (describeLoadBalancer c n)"
    unfolding describeLoadBalancer_def by (intro keeps_rules)
  show "keeps (\<lambda>w. view w = v) (nilDeref x)" unfolding nilDeref_def by (intro keeps_rules)
qed


lemma syncListeners_view:
  assumes con: "listenerContract (c_loadBalancer c) view" and D: "distinct (map listenerPort ls)"
    and A: "distinct (map listenerPort (somes (lb_ListenerDescriptions lb)))"
    and view: "view w n = listenersMap (somes (lb_ListenerDescriptions lb))"
    and run: "syncListeners c n ls proxy lb w = (Ok d, w')"
  shows "view w' = (view w)(n := listenersMap ls)"
proof -
  let ?as = "somes (lb_ListenerDescriptions lb)"
  let ?new = "filter (\<lambda>l. listenerKey l \<notin> listenerKey ` set ?as) ls" and ?old = "unmatched ls (lb_ListenerDescriptions lb)"
  let ?pre = "if proxy then forEach (lb_BackendServerDescriptions lb) (\<lambda>backendListener.
      if intval (bs_InstancePort backendListener) \<in> set (map intval (map li_InstancePort ?old))
      then setBackendPolicies c n (intval (bs_InstancePort backendListener)) [] else ok ()) else ok ()"
  have pre: "keeps (\<lambda>w. view w = v) ?pre" for v
    by (intro keeps_rules contract_keeps[OF con])
  obtain w1 where
    del: "(if ?old \<noteq> [] then bnd ?pre (\<lambda>_. attempt (DeleteLoadBalancerListeners (c_loadBalancer c) n (map li_LoadBalancerPort ?old)) ok
            (\<lambda>e. raise (Errorf ''error deleting OSC loadbalancer listeners: %q'' [e]))) else ok ()) w = (Ok (), w1)"
    and add: "(if ?new \<noteq> [] then attempt (CreateLoadBalancerListeners (c_loadBalancer c) n (map Some ?new)) ok
            (\<lambda>e. raise (Errorf ''error creating OSC loadbalancer listeners: %q'' [e])) else ok ()) w1 = (Ok (), w')"
    using run unfolding syncListeners_def syncElbListeners_alt[OF distinct_ports_keys[OF D]]
    by (auto simp: bnd_eq_Ok)
  have v1: "view w1 = (view w)(n := view w n |` (- set (map listenerPort ?old)))"
  proof (cases "?old = []")
    case True
    then show ?thesis using del by (simp add: restrict_map_def fun_eq_iff)
  next
    case False
    then obtain u where "?pre w = (Ok (), u)"
      and d: "DeleteLoadBalancerListeners (c_loadBalancer c) n (map li_LoadBalancerPort ?old) u = (Ok (), w1)"
      using del by (auto simp: bnd_eq_Ok attempt_eq_Ok)
    then have "view u = view w" using keepsD[OF pre[of "view w"]] by blast
    moreover have "view w1 = (view u)(n := view u n |` (- set (map intval (map li_LoadBalancerPort ?old))))"
      using con d unfolding listenerContract_def by blast
    ultimately show ?thesis by (simp add: listenerPort_def[abs_def] comp_def image_image)
  qed
  have v2: "view w' = (view w1)(n := view w1 n ++ listenersMap ?new)"
  proof (cases "?new = []")
    case True
    then have "w' = w1" using add by simp
    then show ?thesis unfolding True by (simp add: listenersMap_def)
  next
    case False
    then have "CreateLoadBalancerListeners (c_loadBalancer c) n (map Some ?new) w1 = (Ok (), w')"
      using add by (auto simp: attempt_eq_Ok)
    then show ?thesis using con unfolding listenerContract_def by blast
  qed
  have "set (map listenerPort ?old) = listenerPort ` {a \<in> set ?as. listenerKey a \<notin> listenerKey ` set ls}"
    by (simp add: unmatched_def)
  then show ?thesis using v1 v2 view listener_plan_map[OF D A] by simp
qed

lemma ensureLoadBalancer_view:
  assumes con: "listenerContract (c_loadBalancer c) view" and D: "distinct (map listenerPort listeners)"
    and run: "ensureLoadBalancer c ns name listeners subnets sgs internal proxy attrs annotations w = (Ok r, w')"
  shows "view w' = (view w)(name := listenersMap listeners)"
proof -
  note k = contract_keeps[OF con]
  obtain found w1 dirty w2 d3 w3 where desc: "describeLoadBalancer c name w = (Ok found, w1)"
    and mid: "(case found of
            None \<Rightarrow> bnd (createElb c ns name listeners subnets sgs internal proxy annotations) (\<lambda>_. ok True)
          | Some loadBalancer \<Rightarrow>
              bnd (syncListeners c name listeners proxy loadBalancer) (\<lambda>dirty1.
              bnd (syncProxyProtocol c name listeners proxy loadBalancer) (\<lambda>dirty2.
              bnd (syncTags c name annotations) (\<lambda>_.
              ok (subnetsDiffer subnets loadBalancer \<or> dirty1 \<or> dirty2))))) w1 = (Ok dirty, w2)"
    and attr: "syncAttributes c name attrs w2 = (Ok d3, w3)"
    and fin: "(if dirty \<or> d3 then describeLoadBalancer c name else ok found) w3 = (Ok r, w')"
    using run unfolding ensureLoadBalancer_def bnd_eq_Ok by auto
  have v1: "view w1 = view w" using keepsD[OF k(5)[where v = "view w"] refl desc] .
  have "view w' = view w3"
    using fin keepsD[OF k(5)[where v = "view w3"] refl, of name "Ok r" w'] by (auto split: if_splits)
  then have v3: "view w' = view w2" using keepsD[OF k(4)[where v = "view w2"] refl attr] by simp
  have "view w2 = (view w1)(name := listenersMap listeners)"
  proof (cases found)
    case None
    then obtain q u where q: "createLbInput c ns name listeners subnets sgs internal annotations w1 = (Ok q, u)"
      and rest: "bnd (CreateLoadBalancer (c_loadBalancer c) q) (\<lambda>_. if proxy then
         bnd (createProxyProtocolPolicy c name False) (\<lambda>_.
         forEach listeners (\<lambda>listener. bnd (nilDeref (li_InstancePort listener)) (\<lambda>port.
           setBackendPolicies c name port [ProxyProtocolPolicyName]))) else ok ()) u = (Ok (), w2)"
      using mid by (auto simp: createElb_def bnd_eq_Ok)
    have "clb_LoadBalancerName q = name" "clb_Listeners q = listeners" "u = w1"
      using q by (auto simp: createLbInput_def bnd_eq_Ok Let_def selfInstance_def split: option.splits)
    moreover obtain u1 where cr: "CreateLoadBalancer (c_loadBalancer c) q u = (Ok (), u1)"
      and after: "(if proxy then
         bnd (createProxyProtocolPolicy c name False) (\<lambda>_.
         forEach listeners (\<lambda>listener. bnd (nilDeref (li_InstancePort listener)) (\<lambda>port.
           setBackendPolicies c name port [ProxyProtocolPolicyName]))) else ok ()) u1 = (Ok (), w2)"
      using rest unfolding bnd_eq_Ok by auto
    moreover have "keeps (\<lambda>w. view w = view u1) (if proxy then
         bnd (createProxyProtocolPolicy c name False) (\<lambda>_.
         forEach listeners (\<lambda>listener. bnd (nilDeref (li_InstancePort listener)) (\<lambda>port.
           setBackendPolicies c name port [ProxyProtocolPolicyName]))) else ok ())"
      by (intro keeps_rules k)
    from keepsD[OF this refl after] have "view w2 = view u1" .
    moreover have "view u1 = (view u)(clb_LoadBalancerName q := listenersMap (clb_Listeners q))"
      by (rule contractD(1)[OF con cr])
    ultimately show ?thesis by simp
  next
    case (Some lb)
    then obtain d1 u1 d2 u2 where s: "syncListeners c name listeners proxy lb w1 = (Ok d1, u1)"
      and p: "syncProxyProtocol c name listeners proxy lb u1 = (Ok d2, u2)"
      and t: "syncTags c name annotations u2 = (Ok (), w2)"
      using mid by (auto simp: bnd_eq_Ok)
    obtain ds where ds: "DescribeLoadBalancers (c_loadBalancer c) name w = (Ok ds, w1)" "lb \<in> set ds"
    proof -
      have last: "foldl (\<lambda>_ l. Some l) None ds = Some lb \<Longrightarrow> lb \<in> set ds" for ds
        by (cases ds rule: rev_cases) auto
      show ?thesis using desc Some last that
        by (auto simp: describeLoadBalancer_def attempt_eq_Ok split: if_splits)
    qed
    then have "distinct (map listenerPort (somes (lb_ListenerDescriptions lb)))"
      "view w1 name = listenersMap (somes (lb_ListenerDescriptions lb))"
      using contractD(2)[OF con ds] v1 by simp_all
    then have "view u1 = (view w1)(name := listenersMap listeners)"
      by (rule syncListeners_view[OF con D _ _ s])
    moreover have "keeps (\<lambda>w. view w = view u1) (syncProxyProtocol c name listeners proxy lb)"
      unfolding syncProxyProtocol_def Let_def by (intro keeps_rules k)
    from keepsD[OF this refl p] have "view u2 = view u1" .
    moreover have "view w2 = view u2" using keepsD[OF k(3)[where v = "view u2"] refl t] .
    ultimately show ?thesis by simp
  qed
  then show ?thesis using v1 v3 by simp
qed


text \<open>
  C4. For every client whose listener calls behave as documented, a successful \<open>ensureLoadBalancer\<close>
  leaves the load balancer with exactly the requested listeners, port by port, whether it had to be
  created or already existed with any other listeners, and changes no other load balancer.
\<close>

theorem ensureLoadBalancer_listeners:
  assumes con: "listenerContract (c_loadBalancer c) view" and D: "distinct (map listenerPort listeners)"
    and run: "ensureLoadBalancer c ns name listeners subnets sgs internal proxy attrs annotations w = (Ok r, w')"
  shows "view w' = (view w)(name := listenersMap listeners)"
  using assms by (rule ensureLoadBalancer_view)

text \<open>A client that keeps the listeners of each load balancer in memory.\<close>

fun onePerPort :: "Listener list \<Rightarrow> Listener list" where
  "onePerPort [] = []"
| "onePerPort (l # ls) = l # filter (\<lambda>m. listenerPort m \<noteq> listenerPort l) (onePerPort ls)"

definition exLb :: "string \<Rightarrow> Listener list \<Rightarrow> LoadBalancerDescription" where
  "exLb n ls = \<lparr>lb_LoadBalancerName = Some n, lb_DNSName = Some ''lb.example'', lb_Subnets = [], lb_SecurityGroups = [],
     lb_Instances = [], lb_ListenerDescriptions = map Some ls, lb_BackendServerDescriptions = [], lb_HealthCheck = None\<rparr>"

definition exAttributes :: LoadBalancerAttributes where
  "exAttributes = \<lparr>la_AccessLog = None, la_DrainingEnabled = Some False, la_DrainingTimeout = None,
     la_IdleTimeout = Some 60, la_CrossZoneLoadBalancing = None, la_AdditionalAttributes = []\<rparr>"

definition memListeners :: "(string \<Rightarrow> Listener list option) LoadBalancer" where
  "memListeners = noElb\<lparr>
     DescribeLoadBalancers := (\<lambda>n w. (case w n of
         None \<Rightarrow> Err (ApiErr (Some ''LoadBalancerNotFound'') []) | Some ls \<Rightarrow> Ok [exLb n (onePerPort ls)], w)),
     CreateLoadBalancer := (\<lambda>q w. (Ok (), w(clb_LoadBalancerName q \<mapsto> clb_Listeners q))),
     DeleteLoadBalancerListeners := (\<lambda>n ps w. (Ok (),
        w(n := map_option (filter (\<lambda>l. listenerPort l \<notin> set (map intval ps))) (w n)))),
     CreateLoadBalancerListeners := (\<lambda>n ls w. (Ok (), w(n \<mapsto> somes ls @ listval (w n)))),
     DescribeLoadBalancerAttributes := (\<lambda>_. ok exAttributes)\<rparr>"

definition memListenerView :: "(string \<Rightarrow> Listener list option) \<Rightarrow> string \<Rightarrow> int \<rightharpoonup> listenerKey" where
  "memListenerView w n = listenersMap (listval (w n))"

lemma onePerPort_distinct: "distinct (map listenerPort (onePerPort ls))"
  by (induction ls) (auto simp: distinct_map_filter)

lemma listenersMap_filter:
  "listenersMap (filter (\<lambda>l. listenerPort l \<notin> P) ls) = listenersMap ls |` (- P)"
  by (induction ls) (auto simp: listenersMap_def restrict_map_def fun_eq_iff)

lemma listenersMap_onePerPort: "listenersMap (onePerPort ls) = listenersMap ls"
proof (induction ls)
  case (Cons l ls)
  have "listenersMap (filter (\<lambda>m. listenerPort m \<noteq> listenerPort l) (onePerPort ls)) =
      listenersMap ls |` (- {listenerPort l})"
    using listenersMap_filter[of "{listenerPort l}" "onePerPort ls"] Cons.IH by simp
  then show ?case by (auto simp: listenersMap_def restrict_map_def fun_eq_iff)
qed simp

lemma memListeners_contract: "listenerContract memListeners memListenerView"
proof -
  have upd: "memListenerView (w(n := x)) = (memListenerView w)(n := listenersMap (listval x))" for w n x
    by (simp add: memListenerView_def fun_eq_iff)
  have f: "listenersMap (listval (map_option (filter (\<lambda>l. listenerPort l \<notin> P)) x)) = listenersMap (listval x) |` (- P)" for P x
    by (cases x) (simp_all add: listenersMap_filter, simp add: listenersMap_def)
  have a: "listenersMap (ls @ ms) = listenersMap ms ++ listenersMap ls" for ls ms
    by (simp add: listenersMap_def)
  have "DescribeLoadBalancers memListeners n w = (r, w') \<Longrightarrow> memListenerView w' = memListenerView w \<and>
        (\<forall>ds. r = Ok ds \<longrightarrow> (\<forall>lb\<in>set ds. distinct (map listenerPort (somes (lb_ListenerDescriptions lb))) \<and>
            memListenerView w n = listenersMap (somes (lb_ListenerDescriptions lb))))" for n w r w'
    by (auto simp: memListeners_def noElb_def exLb_def memListenerView_def onePerPort_distinct
        listenersMap_onePerPort split: option.splits)
  moreover have "CreateLoadBalancer memListeners q w = (Ok (), w') \<Longrightarrow>
        memListenerView w' = (memListenerView w)(clb_LoadBalancerName q := listenersMap (clb_Listeners q))" for q w w'
    by (auto simp: memListeners_def noElb_def upd)
  moreover have "DeleteLoadBalancerListeners memListeners n ps w = (Ok (), w') \<Longrightarrow>
        memListenerView w' = (memListenerView w)(n := memListenerView w n |` (- set (map intval ps)))" for n ps w w'
    by (auto simp: memListeners_def noElb_def upd f simp del: set_map) (simp add: memListenerView_def)
  moreover have "CreateLoadBalancerListeners memListeners n (map Some ls) w = (Ok (), w') \<Longrightarrow>
        memListenerView w' = (memListenerView w)(n := memListenerView w n ++ listenersMap ls)" for n ls w w'
    by (auto simp: memListeners_def noElb_def upd a) (simp add: memListenerView_def)
  moreover have "keeps P (CreateLoadBalancerPolicy memListeners q)"
    "keeps P (SetLoadBalancerPoliciesForBackendServer memListeners n p ps)" "keeps P (AddTags memListeners n ts)"
    "keeps P (DescribeLoadBalancerAttributes memListeners n)" "keeps P (ModifyLoadBalancerAttributes memListeners n at)"
    for P q n p ps ts at
    by (simp_all add: memListeners_def noElb_def)
  ultimately show ?thesis unfolding listenerContract_def by (intro conjI allI impI) simp_all
qed

definition exListener :: "int \<Rightarrow> string \<Rightarrow> Listener" where
  "exListener port proto = \<lparr>li_InstancePort = Some (30000 + port), li_LoadBalancerPort = Some port,
     li_Protocol = Some proto, li_InstanceProtocol = Some ''TCP'', li_SSLCertificateId = None\<rparr>"

theorem ensureLoadBalancer_listeners_witness:
  "\<exists>r w'. ensureLoadBalancer ((exCloud quietClient)\<lparr>c_loadBalancer := memListeners\<rparr>) ''ns/web'' ''lb''
       [exListener 80 ''TCP'', exListener 443 ''TCP''] (Some [''subnet-1'']) (Some [''sg-1'']) False False exAttributes Map.empty
       [''lb'' \<mapsto> [exListener 80 ''tcp'', exListener 443 ''HTTP'', exListener 22 ''TCP'']] = (Ok r, w') \<and>
     memListenerView w' ''lb'' = listenersMap [exListener 80 ''TCP'', exListener 443 ''TCP'']"
proof -
  let ?c = "(exCloud quietClient)\<lparr>c_loadBalancer := memListeners\<rparr>"
  let ?ls = "[exListener 80 ''TCP'', exListener 443 ''TCP'']"
  let ?w = "[''lb'' \<mapsto> [exListener 80 ''tcp'', exListener 443 ''HTTP'', exListener 22 ''TCP'']]"
  let ?run = "ensureLoadBalancer ?c ''ns/web'' ''lb'' ?ls (Some [''subnet-1'']) (Some [''sg-1'']) False False exAttributes Map.empty ?w"
  have "isOk (fst ?run)" by code_simp
  then obtain r w' where run: "?run = (Ok r, w')" using isOk_run by blast
  have "memListenerView w' = (memListenerView ?w)(''lb'' := listenersMap ?ls)"
    by (rule ensureLoadBalancer_listeners[OF _ _ run])
      (simp_all add: memListeners_contract listenerPort_def exListener_def)
  then show ?thesis using run by simp
qed

end
