(* ===== verification/Service_Controller.thy ===== *)
theory Service_Controller
  imports Load_Balancers
begin

text \<open>
  The operations the service controller of Kubernetes calls (\<open>EnsureLoadBalancer\<close>,
  \<open>GetLoadBalancer\<close>, \<open>UpdateLoadBalancer\<close> and \<open>EnsureLoadBalancerDeleted\<close> of \<open>ccm_cloud.go\<close>),
  composed of the operations of the other theories in the order of the code.  The loop that waits for
  the security groups of a deleted load balancer runs against the clock; it has fuel, and \<open>None\<close> is
  the result of a loop that is still running.
\<close>

section \<open>Ensure\<close>

definition servicePermissions :: "(SecurityGroupRule \<Rightarrow> string) \<Rightarrow> string list \<Rightarrow> ServicePort list \<Rightarrow> IPRulesSet" where
  "servicePermissions json ranges ports =
     (let portRule = (\<lambda>port. \<lparr>rule_FromPortRange = Some (sp_Port port), rule_ToPortRange = Some (sp_Port port),
             rule_IpProtocol = Some (ToLower (sp_Protocol port)), rule_IpRanges = Some ranges,
             rule_SecurityGroupsMembers = None, rule_ServiceIds = None\<rparr>);
          icmp = \<lparr>rule_FromPortRange = Some 3, rule_ToPortRange = Some 4, rule_IpProtocol = Some ''icmp'',
             rule_IpRanges = Some ranges, rule_SecurityGroupsMembers = None, rule_ServiceIds = None\<rparr>;
          permissions = foldl (\<lambda>s port. InsertRules json s [portRule port]) (NewIPRulesSet json []) ports
      in InsertRules json permissions [icmp])"

definition applySSLPolicy ::
  "'w Cloud \<Rightarrow> (string \<rightharpoonup> string) \<Rightarrow> string \<Rightarrow> LoadBalancerDescription option \<Rightarrow> ('w, unit) io" where
  "applySSLPolicy c annotations loadBalancerName lb =
     (case annotations ServiceAnnotationLoadBalancerSSLNegotiationPolicy of
        None \<Rightarrow> ok ()
      | Some sslPolicyName \<Rightarrow>
          bnd (ensureSSLNegotiationPolicy c lb sslPolicyName) (\<lambda>_.
          bnd (lift (getLoadBalancerTLSPorts lb)) (\<lambda>ports.
          forEach ports (\<lambda>port. setSSLNegotiationPolicy c loadBalancerName sslPolicyName port))))"

definition ensureServiceHealthCheck ::
  "'w Cloud \<Rightarrow> Service \<Rightarrow> Listener list \<Rightarrow> LoadBalancerDescription option \<Rightarrow> ('w, unit) io" where
  "ensureServiceHealthCheck c apiService listeners lb =
     (let annotations = svc_Annotations apiService;
          (path, healthCheckNodePort) = GetServiceHealthCheckPathPort (c_libs c) apiService
      in
      if path \<noteq> [] then
        attempt (ensureLoadBalancerHealthCheck c lb ''HTTP'' healthCheckNodePort path annotations) ok
          (\<lambda>e. raise (Errorf ''Failed to ensure health check for localized service %v on node port %v: %q'' [e]))
      else
        (let tcpHealthCheckPort = (case find (\<lambda>l. li_InstancePort l \<noteq> None) listeners of
               None \<Rightarrow> 0 | Some l \<Rightarrow> toInt32 (intval (li_InstancePort l)));
             annotationProtocol = ToLower (mstr annotations ServiceAnnotationLoadBalancerBEProtocol);
             hcProtocol = (if annotationProtocol = ''https'' \<or> annotationProtocol = ''ssl'' then ''SSL'' else ''TCP'')
         in ensureLoadBalancerHealthCheck c lb hcProtocol tcpHealthCheckPort [] annotations))"

definition EnsureLoadBalancer :: "'x sys Cloud \<Rightarrow> Service \<Rightarrow> Node list \<Rightarrow> ('x sys, string list) io" where
  "EnsureLoadBalancer c apiService nodes =
     (let annotations = svc_Annotations apiService in
      if svc_SessionAffinity apiService \<noteq> ''None'' then
        raise (Errorf ''unsupported load balancer affinity: %v'' [])
      else if length (svc_Ports apiService) = 0 then
        raise (Errorf ''requested load balancer with no ports'' [])
      else
        bnd (lift (buildListeners apiService)) (\<lambda>listeners.
        if svc_LoadBalancerIP apiService \<noteq> [] then
          raise (Errorf ''LoadBalancerIP cannot be specified for AWS ELB'' [])
        else
        bnd (findInstancesForELB c nodes) (\<lambda>instances.
        bnd (lift (GetLoadBalancerSourceRanges (c_libs c) apiService)) (\<lambda>sourceRanges.
        bnd (lift (wantsProxyProtocol annotations)) (\<lambda>proxyProtocol.
        bnd (lift (getLoadBalancerAttributes annotations)) (\<lambda>loadBalancerAttributes.
        (let internalELB = isInternalELB annotations in
        bnd (findELBSubnets c internalELB) (\<lambda>found.
        bnd (lift (chooseSubnet annotations found)) (\<lambda>subnetIDs.
        bnd (lift (GetLoadBalancerName apiService)) (\<lambda>loadBalancerName.
        (let serviceName = svc_Namespace apiService @ ''/'' @ svc_Name apiService;
             inVpc = (length (listval subnetIDs) > 0 \<and> c_vpcID c \<noteq> []) in
        bnd (if \<not> inVpc then ok [DefaultSrcSgName]
             else buildELBSecurityGroupList c serviceName loadBalancerName annotations) (\<lambda>securityGroupIDs.
        if length securityGroupIDs = 0 then
          raise (Errorf (''[BUG] ELB can'' @ [CHR 0x27] @ ''t have empty list of Security Groups to be assigned, this is a Kubernetes bug, please report'') [])
        else
        bnd (if inVpc
             then bnd (setSecurityGroupIngress c (hd securityGroupIDs)
                         (servicePermissions (jsonRule (c_libs c)) sourceRanges (svc_Ports apiService))) (\<lambda>_. ok ())
             else ok ()) (\<lambda>_.
        bnd (ensureLoadBalancer c serviceName loadBalancerName listeners subnetIDs (Some securityGroupIDs)
               internalELB proxyProtocol loadBalancerAttributes annotations) (\<lambda>lb.
        bnd (applySSLPolicy c annotations loadBalancerName lb) (\<lambda>_.
        bnd (ensureServiceHealthCheck c apiService listeners lb) (\<lambda>_.
        bnd (nilDeref lb) (\<lambda>loadBalancer.
        bnd (updateInstanceSecurityGroupsForLoadBalancer c loadBalancer instances securityGroupIDs) (\<lambda>_.
        bnd (ensureLoadBalancerInstances c (strval (lb_LoadBalancerName loadBalancer)) (lb_Instances loadBalancer) instances) (\<lambda>_.
        ok (toStatus loadBalancer))))))))))))))))))))"

definition GetLoadBalancer :: "'w Cloud \<Rightarrow> Service \<Rightarrow> ('w, string list option) io" where
  "GetLoadBalancer c service =
     bnd (lift (GetLoadBalancerName service)) (\<lambda>loadBalancerName.
     bnd (describeLoadBalancer c loadBalancerName) (\<lambda>lb.
     ok (map_option toStatus lb)))"

section \<open>Update\<close>

definition UpdateLoadBalancer :: "'x sys Cloud \<Rightarrow> Service \<Rightarrow> Node list \<Rightarrow> ('x sys, unit) io" where
  "UpdateLoadBalancer c service nodes =
     bnd (findInstancesForELB c nodes) (\<lambda>instances.
     bnd (lift (GetLoadBalancerName service)) (\<lambda>loadBalancerName.
     bnd (describeLoadBalancer c loadBalancerName) (\<lambda>found. case found of
         None \<Rightarrow> raise (Errorf ''Load balancer not found'' [])
       | Some lb \<Rightarrow>
          bnd (applySSLPolicy c (svc_Annotations service) loadBalancerName (Some lb)) (\<lambda>_.
          attempt (ensureLoadBalancerInstances c (strval (lb_LoadBalancerName lb)) (lb_Instances lb) instances)
            (\<lambda>_. updateInstanceSecurityGroupsForLoadBalancer c lb instances
                   (if length (lb_SecurityGroups lb) = 0 \<and> c_vpcID c = [] then [DefaultSrcSgName] else []))
            (\<lambda>_. ok ())))))"

section \<open>Delete\<close>

text \<open>The ids of the groups to delete, a map with empty values.\<close>

definition collectSG ::
  "'w Cloud \<Rightarrow> (string, unit) gomap \<Rightarrow> SecurityGroup \<Rightarrow> (string, unit) gomap res" where
  "collectSG c m sg =
     (let sgID = strval (sg_SecurityGroupId sg) in
      if sgID = ElbSecurityGroup (globalCfg c) then Ok m
      else if sgID = [] then Ok m
      else res_map (\<lambda>has. if \<not> has then m else mput sgID () m) (hasClusterTag (c_tagging c) (sg_Tags sg)))"

text \<open>One pass of the inner loop: the ids that are left.\<close>

definition deletePass :: "'w Cloud \<Rightarrow> string list \<Rightarrow> ('w, string list) io" where
  "deletePass c securityGroupIDs = foldIO (\<lambda>left securityGroupID.
     attempt (DeleteSecurityGroup (c_compute c) securityGroupID)
       (\<lambda>_. ok (filter (\<lambda>i. i \<noteq> securityGroupID) left))
       (\<lambda>e. if ContainsStr (errText e) ''Conflict'' then ok left
            else raise (Errorf ''error while deleting load balancer security group (%s): %q'' [e])))
     securityGroupIDs securityGroupIDs"

fun deleteSgLoop :: "nat \<Rightarrow> 'w Cloud \<Rightarrow> int \<Rightarrow> string list \<Rightarrow> ('w, unit option) io" where
  "deleteSgLoop 0 c timeoutAt securityGroupIDs = ok None"
| "deleteSgLoop (Suc fuel) c timeoutAt securityGroupIDs =
     bnd (deletePass c securityGroupIDs) (\<lambda>left.
       if length left = 0 then ok (Some ())
       else bnd (Now (c_clock c)) (\<lambda>now.
         if now > timeoutAt
         then raise (Errorf ''timed out deleting ELB: %s. Could not delete security groups %v'' [])
         else bnd (Sleep (c_clock c) 10) (\<lambda>_. deleteSgLoop fuel c timeoutAt left)))"

definition deleteSecurityGroups :: "nat \<Rightarrow> 'w Cloud \<Rightarrow> string list \<Rightarrow> ('w, unit option) io" where
  "deleteSecurityGroups fuel c loadBalancerSGs =
     attempt (ReadSecurityGroups (c_compute c) (noSgFilter\<lparr>fsg_SecurityGroupIds := Some loadBalancerSGs\<rparr>)) (\<lambda>response.
       bnd (lift (foldRes (collectSG c) [] response)) (\<lambda>securityGroupIDs.
       bnd (Now (c_clock c)) (\<lambda>now.
       deleteSgLoop fuel c (now + 600 * 1000000000) (map fst securityGroupIDs))))
     (\<lambda>e. raise (Errorf ''error querying security groups for ELB: %q'' [e]))"

definition EnsureLoadBalancerDeleted :: "nat \<Rightarrow> 'w Cloud \<Rightarrow> Service \<Rightarrow> ('w, unit option) io" where
  "EnsureLoadBalancerDeleted fuel c service =
     bnd (lift (GetLoadBalancerName service)) (\<lambda>loadBalancerName.
     bnd (describeLoadBalancer c loadBalancerName) (\<lambda>found. case found of
         None \<Rightarrow> ok (Some ())
       | Some lb \<Rightarrow>
          (let loadBalancerSGs = (if length (lb_SecurityGroups lb) = 0 \<and> c_vpcID c = [] then [DefaultSrcSgName]
                 else lb_SecurityGroups lb)
           in
           bnd (attempt (ensureLoadBalancerInstances c (strval (lb_LoadBalancerName lb)) (lb_Instances lb) []) ok
                  (\<lambda>_. ok ())) (\<lambda>_.
           bnd (if c_vpcID c \<noteq> [] then updateInstanceSecurityGroupsForLoadBalancer c lb [] loadBalancerSGs else ok ()) (\<lambda>_.
           bnd (DeleteLoadBalancer (c_loadBalancer c) (lb_LoadBalancerName lb)) (\<lambda>_.
           deleteSecurityGroups fuel c loadBalancerSGs))))))"


section \<open>Services that cannot be served are refused before any call\<close>

lemma buildListener_no_panic: "buildListener port annotations sslPorts \<noteq> Panic p"
  by (auto simp: buildListener_def Let_def)

lemma buildListeners_loop_Err:
  assumes "\<exists>p\<in>set ports. sp_Protocol p \<noteq> ''TCP''" "\<And>p m. f p \<noteq> Panic m"
  shows "\<exists>e'. foldRes (\<lambda>listeners port.
           if sp_Protocol port \<noteq> ''TCP'' then Err e
           else if sp_NodePort port = 0 then Ok listeners
           else res_map (\<lambda>listener. listeners @ [listener]) (f port)) acc ports = Err e'"
  using assms(1)
proof (induction ports arbitrary: acc)
  case (Cons q ports)
  show ?case
  proof (cases "sp_Protocol q = ''TCP''")
    case True
    then show ?thesis using Cons assms(2)[of q] by (cases "f q") auto
  qed simp
qed simp

lemma buildListeners_no_panic: "buildListeners service \<noteq> Panic m"
proof -
  have loop: "foldRes (\<lambda>listeners port.
           if sp_Protocol port \<noteq> ''TCP'' then Err e
           else if sp_NodePort port = 0 then Ok listeners
           else res_map (\<lambda>listener. listeners @ [listener]) (f port)) acc ports \<noteq> Panic m"
    if "\<And>p m. f p \<noteq> Panic m" for f e acc ports
  proof (induction ports arbitrary: acc)
    case (Cons q ports)
    then show ?case using that[of q m] by (cases "f q") auto
  qed simp
  show ?thesis unfolding buildListeners_def Let_def by (rule loop) (rule buildListener_no_panic)
qed

text \<open>
  A Service the provider cannot serve (session affinity, no ports, a port that is not TCP, or a
  requested load balancer IP) is refused with an error before any call: nothing in the world changes.
\<close>

theorem EnsureLoadBalancer_refuses:
  assumes "svc_SessionAffinity service \<noteq> ''None'' \<or> svc_Ports service = [] \<or>
     (\<exists>p\<in>set (svc_Ports service). sp_Protocol p \<noteq> ''TCP'') \<or> svc_LoadBalancerIP service \<noteq> []"
  shows "\<exists>e. EnsureLoadBalancer c service nodes w = (Err e, w)"
proof (cases "svc_SessionAffinity service \<noteq> ''None'' \<or> svc_Ports service = []")
  case True
  then show ?thesis by (auto simp: EnsureLoadBalancer_def Let_def)
next
  case False
  show ?thesis
  proof (cases "buildListeners service")
    case (Ok ls)
    have "\<not> (\<exists>p\<in>set (svc_Ports service). sp_Protocol p \<noteq> ''TCP'')"
    proof
      assume "\<exists>p\<in>set (svc_Ports service). sp_Protocol p \<noteq> ''TCP''"
      then have "\<exists>e. buildListeners service = Err e"
        unfolding buildListeners_def Let_def by (rule buildListeners_loop_Err) (rule buildListener_no_panic)
      then show False using Ok by simp
    qed
    then have "svc_LoadBalancerIP service \<noteq> []" using assms False by blast
    then show ?thesis using False Ok by (simp add: EnsureLoadBalancer_def Let_def)
  next
    case (Err e)
    then show ?thesis using False by (simp add: EnsureLoadBalancer_def Let_def bnd_def attempt_def)
  next
    case (Panic m)
    then show ?thesis using buildListeners_no_panic by blast
  qed
qed

definition udpService :: Service where
  "udpService = (exService ''u'' Map.empty)\<lparr>svc_Ports :=
     [\<lparr>sp_Name = ''dns'', sp_Protocol = ''UDP'', sp_Port = 53, sp_NodePort = 30053\<rparr>]\<rparr>"

theorem EnsureLoadBalancer_refuses_witness:
  "\<exists>e. EnsureLoadBalancer cachedCloud udpService [] cachedSys = (Err e, cachedSys)"
  by (rule EnsureLoadBalancer_refuses) (simp add: udpService_def)

section \<open>Update hides a failed registration\<close>

text \<open>
  C38. When registering or deregistering instances fails, \<open>UpdateLoadBalancer\<close> reports success to
  Kubernetes, and the security groups of the instances are not updated: the error is returned as nil.
\<close>

theorem UpdateLoadBalancer_hides_error:
  assumes "findInstancesForELB c nodes w = (Ok instances, w1)" "GetLoadBalancerName service = Ok name"
    and "describeLoadBalancer c name w1 = (Ok (Some lb), w2)"
    and "svc_Annotations service ServiceAnnotationLoadBalancerSSLNegotiationPolicy = None"
    and "ensureLoadBalancerInstances c (strval (lb_LoadBalancerName lb)) (lb_Instances lb) instances w2 = (Err e, w3)"
  shows "UpdateLoadBalancer c service nodes w = (Ok (), w3)"
  using assms by (simp add: UpdateLoadBalancer_def applySSLPolicy_def)

definition brokenLb :: "unit sys LoadBalancer" where
  "brokenLb = noElb\<lparr>DescribeLoadBalancers := (\<lambda>n. ok [(exLb n [])\<lparr>lb_Instances := [Some ''i-9'']\<rparr>])\<rparr>"

theorem UpdateLoadBalancer_hides_error_witness:
  "UpdateLoadBalancer (cachedCloud\<lparr>c_loadBalancer := brokenLb\<rparr>) (exService ''u1'' Map.empty) [] cachedSys = (Ok (), cachedSys)"
proof (rule UpdateLoadBalancer_hides_error)
  let ?c = "cachedCloud\<lparr>c_loadBalancer := brokenLb\<rparr>"
  show "findInstancesForELB ?c [] cachedSys = (Ok [], cachedSys)" by code_simp
  show "GetLoadBalancerName (exService ''u1'' Map.empty) = Ok ''u1''" by code_simp
  show "describeLoadBalancer ?c ''u1'' cachedSys = (Ok (Some ((exLb ''u1'' [])\<lparr>lb_Instances := [Some ''i-9'']\<rparr>)), cachedSys)"
    by (simp add: describeLoadBalancer_def brokenLb_def)
  show "ensureLoadBalancerInstances ?c (strval (lb_LoadBalancerName ((exLb ''u1'' [])\<lparr>lb_Instances := [Some ''i-9'']\<rparr>)))
     (lb_Instances ((exLb ''u1'' [])\<lparr>lb_Instances := [Some ''i-9'']\<rparr>)) [] cachedSys = (Err NotImplemented, cachedSys)"
    by (simp add: ensureLoadBalancerInstances_def brokenLb_def noElb_def Let_def setList_def)
qed (simp add: exService_def)


section \<open>Deletion ends\<close>

text \<open>What the deletion relies on of time: \<open>time.Now\<close> reads it, \<open>time.Sleep\<close> lets at least the given seconds
  pass, and no call turns it back.\<close>

definition clockContract :: "'w Cloud \<Rightarrow> ('w \<Rightarrow> int) \<Rightarrow> bool" where
  "clockContract c time \<longleftrightarrow> (\<forall>w. Now (c_clock c) w = (Ok (time w), w)) \<and>
     (\<forall>s w. \<exists>w'. Sleep (c_clock c) s w = (Ok (), w') \<and> time w + s * 1000000000 \<le> time w') \<and>
     (\<forall>i t. keeps (\<lambda>w. t \<le> time w) (DeleteSecurityGroup (c_compute c) i))"

lemma keeps_deletePass:
  "(\<And>i. i \<in> set ids \<Longrightarrow> keeps P (DeleteSecurityGroup (c_compute c) i)) \<Longrightarrow> keeps P (deletePass c ids)"
  unfolding deletePass_def by (intro keeps_rules)

lemma deleteSgLoop_ends:
  assumes "clockContract c time" "timeoutAt - time w < int k * 10000000000"
  shows "fst (deleteSgLoop (Suc k) c timeoutAt ids w) \<noteq> Ok None"
  using assms(2)
proof (induction k arbitrary: w ids)
  case (0 w ids)
  obtain r w1 where p: "deletePass c ids w = (r, w1)" by (cases "deletePass c ids w")
  have "keeps (\<lambda>u. time w \<le> time u) (deletePass c ids)"
    using assms(1) by (intro keeps_deletePass) (simp add: clockContract_def)
  from keepsD[OF this _ p] have "time w \<le> time w1" by simp
  then have "timeoutAt < time w1" using 0 by simp
  moreover have "Now (c_clock c) w1 = (Ok (time w1), w1)" using assms(1) by (simp add: clockContract_def)
  ultimately show ?case using p by (cases r) (auto simp: bnd_def attempt_def)
next
  case (Suc k w ids)
  obtain r w1 where p: "deletePass c ids w = (r, w1)" by (cases "deletePass c ids w")
  have "keeps (\<lambda>u. time w \<le> time u) (deletePass c ids)"
    using assms(1) by (intro keeps_deletePass) (simp add: clockContract_def)
  from keepsD[OF this _ p] have le: "time w \<le> time w1" by simp
  obtain w2 where sl: "Sleep (c_clock c) 10 w1 = (Ok (), w2)" "time w1 + 10 * 1000000000 \<le> time w2"
    using assms(1) unfolding clockContract_def by blast
  have "timeoutAt - time w2 < int k * 10000000000" using Suc.prems sl(2) le by (simp add: algebra_simps)
  then have IH: "fst (deleteSgLoop (Suc k) c timeoutAt left w2) \<noteq> Ok None" for left by (rule Suc.IH)
  have now: "Now (c_clock c) w1 = (Ok (time w1), w1)" using assms(1) by (simp add: clockContract_def)
  show ?case
  proof (cases r)
    case (Ok left)
    then show ?thesis
      unfolding deleteSgLoop.simps(2)[of "Suc k"] using p now sl(1) IH[of left]
      by (simp add: bnd_def attempt_def del: deleteSgLoop.simps)
  qed (use p in \<open>simp_all add: bnd_def attempt_def\<close>)
qed

lemma bnd_not_running: "(\<And>a w. fst (f a w) \<noteq> Ok None) \<Longrightarrow> fst (bnd m f w) \<noteq> Ok None"
  by (auto simp: bnd_def attempt_def split: res.splits prod.splits)

text \<open>
  C10. \<open>EnsureLoadBalancerDeleted\<close> returns: its loop over the security groups, which the API may refuse
  to delete for as long as it likes, gives up after at most 62 passes.
\<close>

theorem EnsureLoadBalancerDeleted_ends:
  assumes "clockContract c time"
  shows "fst (EnsureLoadBalancerDeleted 62 c service w) \<noteq> Ok None"
proof -
  have now: "Now (c_clock c) w = (Ok (time w), w)" for w using assms by (simp add: clockContract_def)
  have loop: "fst (deleteSgLoop 62 c (time w + 600 * 1000000000) ids w) \<noteq> Ok None" for ids w
    using deleteSgLoop_ends[OF assms, of "time w + 600 * 1000000000" w 61 ids] by (simp del: deleteSgLoop.simps)
  have tail: "fst (bnd (Now (c_clock c)) (\<lambda>now. deleteSgLoop 62 c (now + 600 * 1000000000) ids) w) \<noteq> Ok None" for ids w
    using loop[of w ids] by (simp only: bnd_Ok[OF now] not_False_eq_True)
  have del: "fst (deleteSecurityGroups 62 c sgs w) \<noteq> Ok None" for sgs w
  proof -
    obtain r w1 where "ReadSecurityGroups (c_compute c) (noSgFilter\<lparr>fsg_SecurityGroupIds := Some sgs\<rparr>) w = (r, w1)"
      by (cases "ReadSecurityGroups (c_compute c) (noSgFilter\<lparr>fsg_SecurityGroupIds := Some sgs\<rparr>) w")
    note read = this
    show ?thesis
    proof (cases r)
      case (Ok gs)
      show ?thesis
        unfolding deleteSecurityGroups_def attempt_Ok[of "ReadSecurityGroups (c_compute c) (noSgFilter\<lparr>fsg_SecurityGroupIds := Some sgs\<rparr>)" w, OF read[unfolded Ok]]
        by (intro bnd_not_running tail)
    qed (use read in \<open>simp_all add: deleteSecurityGroups_def\<close>)
  qed
  have "fst ((case found of None \<Rightarrow> ok (Some ()) | Some lb \<Rightarrow> g lb) u) \<noteq> Ok None"
    if "\<And>lb u. fst (g lb u) \<noteq> Ok None" for found u and g :: "LoadBalancerDescription \<Rightarrow> ('a, unit option) io"
    using that by (cases found) auto
  note case_ends = this
  show ?thesis
    unfolding EnsureLoadBalancerDeleted_def Let_def
    by (intro bnd_not_running case_ends del)
qed


text \<open>A world that is a clock, whose security groups are never released.\<close>

definition stuckClient :: "int Compute" where
  "stuckClient = quietClient\<lparr>
     ReadSecurityGroups := (\<lambda>_. ok [\<lparr>sg_SecurityGroupId = Some ''sg-lb'', sg_SecurityGroupName = None,
        sg_Tags = Some [\<lparr>tag_Key = ''OscK8sClusterID/c1'', tag_Value = ''owned''\<rparr>], sg_InboundRules = None\<rparr>]),
     DeleteSecurityGroup := (\<lambda>_. raise (ApiErr None ''409 Conflict''))\<rparr>"

definition stuckCloud :: "int Cloud" where
  "stuckCloud = (exCloud stuckClient)\<lparr>
     c_loadBalancer := noElb\<lparr>DescribeLoadBalancers := (\<lambda>n. ok [(exLb n [])\<lparr>lb_SecurityGroups := [''sg-lb'']\<rparr>]),
        DeleteLoadBalancer := (\<lambda>_. ok ())\<rparr>,
     c_clock := \<lparr>Now = (\<lambda>t. (Ok t, t)), Sleep = (\<lambda>s t. (Ok (), t + s * 1000000000))\<rparr>\<rparr>"

theorem EnsureLoadBalancerDeleted_ends_witness:
  "fst (EnsureLoadBalancerDeleted 62 stuckCloud (exService ''u1'' Map.empty) 0) \<noteq> Ok None"
  by (rule EnsureLoadBalancerDeleted_ends[where time = "\<lambda>t. t"])
    (simp add: clockContract_def stuckCloud_def stuckClient_def exCloud_def)

section \<open>Deletion touches only the cluster's own groups\<close>

lemma collectSG_spec:
  assumes "foldRes (collectSG c) m gs = Ok m'"
  shows "fst ` set m' = fst ` set m \<union> {i. i \<noteq> [] \<and> i \<noteq> ElbSecurityGroup (globalCfg c) \<and>
    (\<exists>g\<in>set gs. strval (sg_SecurityGroupId g) = i \<and> hasClusterTag (c_tagging c) (sg_Tags g) = Ok True)}"
  using assms
proof (induction gs arbitrary: m)
  case (Cons g gs)
  then obtain m1 where m1: "collectSG c m g = Ok m1" "foldRes (collectSG c) m1 gs = Ok m'" by auto
  have "fst ` set m1 = fst ` set m \<union> {i. i \<noteq> [] \<and> i \<noteq> ElbSecurityGroup (globalCfg c) \<and>
      strval (sg_SecurityGroupId g) = i \<and> hasClusterTag (c_tagging c) (sg_Tags g) = Ok True}"
  proof (cases "strval (sg_SecurityGroupId g) = ElbSecurityGroup (globalCfg c) \<or> strval (sg_SecurityGroupId g) = []")
    case True
    then show ?thesis using m1(1) by (auto simp: collectSG_def Let_def split: if_splits)
  next
    case False
    then obtain b where b: "hasClusterTag (c_tagging c) (sg_Tags g) = Ok b"
      "m1 = (if b then mput (strval (sg_SecurityGroupId g)) () m else m)"
      using m1(1) by (auto simp: collectSG_def Let_def)
    then have "fst ` set m1 = (if b then insert (strval (sg_SecurityGroupId g)) (fst ` set m) else fst ` set m)"
      by (simp only: keys_mput split: if_split) simp
    then show ?thesis using False b(1) by auto
  qed
  then show ?case using Cons.IH[OF m1(2)] by auto
qed simp

lemma deletePass_subset:
  assumes "deletePass c ids w = (Ok left, w')"
  shows "set left \<subseteq> set ids"
  using assms unfolding deletePass_def
  by (rule foldIO_inv) (auto simp: attempt_eq_Ok split: if_splits)

lemma keeps_deleteSgLoop:
  assumes "\<And>i. i \<in> set ids \<Longrightarrow> keeps P (DeleteSecurityGroup (c_compute c) i)"
    and "keeps P (Now (c_clock c))" "\<And>s. keeps P (Sleep (c_clock c) s)"
  shows "keeps P (deleteSgLoop n c t ids)"
  using assms(1)
proof (induction n arbitrary: ids)
  case (Suc n)
  show ?case unfolding deleteSgLoop.simps
  proof (rule keeps_bnd_val)
    show "keeps P (deletePass c ids)" by (rule keeps_deletePass) (rule Suc.prems)
    fix w left w' assume "deletePass c ids w = (Ok left, w')"
    note sub = deletePass_subset[OF this]
    have "i \<in> set left \<Longrightarrow> keeps P (DeleteSecurityGroup (c_compute c) i)" for i
      by (rule Suc.prems) (rule subsetD[OF sub])
    then show "keeps P (if length left = 0 then ok (Some ())
       else bnd (Now (c_clock c)) (\<lambda>now.
         if now > t then raise (Errorf ''timed out deleting ELB: %s. Could not delete security groups %v'' [])
         else bnd (Sleep (c_clock c) 10) (\<lambda>_. deleteSgLoop n c t left)))"
      by (intro keeps_rules assms(2,3) Suc.IH)
  qed
qed simp

text \<open>The calls of a deletion, with the groups it may delete: those with the cluster's tag, the shared one
  excepted.  \<open>own\<close> is the set of the ids that carry the tag in the answers of the API.\<close>

definition deletionCalls :: "('w \<Rightarrow> bool) \<Rightarrow> 'w Cloud \<Rightarrow> string set \<Rightarrow> bool" where
  "deletionCalls P c own \<longleftrightarrow> ruleCallsKeep P c \<and>
     (\<forall>f w gs w'. ReadSecurityGroups (c_compute c) f w = (Ok gs, w') \<longrightarrow>
        (\<forall>g\<in>set gs. hasClusterTag (c_tagging c) (sg_Tags g) = Ok True \<longrightarrow> strval (sg_SecurityGroupId g) \<in> own)) \<and>
     (\<forall>i\<in>own. i \<noteq> ElbSecurityGroup (globalCfg c) \<longrightarrow> keeps P (DeleteSecurityGroup (c_compute c) i)) \<and>
     (\<forall>n. keeps P (DescribeLoadBalancers (c_loadBalancer c) n)) \<and>
     (\<forall>n is. keeps P (RegisterInstancesWithLoadBalancer (c_loadBalancer c) n is)) \<and>
     (\<forall>n is. keeps P (DeregisterInstancesFromLoadBalancer (c_loadBalancer c) n is)) \<and>
     (\<forall>n. keeps P (DeleteLoadBalancer (c_loadBalancer c) n)) \<and>
     keeps P (Now (c_clock c)) \<and> (\<forall>s. keeps P (Sleep (c_clock c) s))"

lemma keeps_deleteSecurityGroups:
  assumes "deletionCalls P c own"
  shows "keeps P (deleteSecurityGroups n c sgs)"
proof -
  note d = assms[unfolded deletionCalls_def]
  have read: "keeps P (ReadSecurityGroups (c_compute c) f)" for f using d by (simp add: ruleCallsKeep_def)
  have "keeps P (bnd (lift (foldRes (collectSG c) [] gs)) (\<lambda>m. bnd (Now (c_clock c)) (\<lambda>now.
      deleteSgLoop n c (now + 600 * 1000000000) (map fst m))))"
    if gs: "\<forall>g\<in>set gs. hasClusterTag (c_tagging c) (sg_Tags g) = Ok True \<longrightarrow> strval (sg_SecurityGroupId g) \<in> own" for gs
  proof (rule keeps_bnd_lift, rule keeps_bnd)
    fix m now assume m: "foldRes (collectSG c) [] gs = Ok m"
    have "keeps P (DeleteSecurityGroup (c_compute c) i)" if "i \<in> set (map fst m)" for i
      using that collectSG_spec[OF m] gs d by auto
    then show "keeps P (deleteSgLoop n c (now + 600 * 1000000000) (map fst m))"
      using d by (intro keeps_deleteSgLoop) auto
  qed (use d in blast)
  note tail = this
  show ?thesis
  proof (rule keepsI)
    fix w assume "P w"
    obtain r w1 where rd: "ReadSecurityGroups (c_compute c) (noSgFilter\<lparr>fsg_SecurityGroupIds := Some sgs\<rparr>) w = (r, w1)"
      by (cases "ReadSecurityGroups (c_compute c) (noSgFilter\<lparr>fsg_SecurityGroupIds := Some sgs\<rparr>) w")
    then have "P w1" using keepsD[OF read \<open>P w\<close>] by blast
    show "P (snd (deleteSecurityGroups n c sgs w))"
    proof (cases r)
      case (Ok gs)
      then have "\<forall>g\<in>set gs. hasClusterTag (c_tagging c) (sg_Tags g) = Ok True \<longrightarrow> strval (sg_SecurityGroupId g) \<in> own"
        using d rd by blast
      from tail[OF this] show ?thesis
        unfolding deleteSecurityGroups_def attempt_Ok[of "ReadSecurityGroups (c_compute c) (noSgFilter\<lparr>fsg_SecurityGroupIds := Some sgs\<rparr>)" w, OF rd[unfolded Ok]] using \<open>P w1\<close> by (simp add: keeps_def)
    qed (use rd \<open>P w1\<close> in \<open>simp_all add: deleteSecurityGroups_def\<close>)
  qed
qed

text \<open>
  \<open>EnsureLoadBalancerDeleted\<close> deletes no security group but those that carry the tag of its own
  cluster, and never the shared group of the configuration, and changes no rule of the shared group,
  for any client and any answers of the API.
\<close>

theorem EnsureLoadBalancerDeleted_own_groups:
  assumes "deletionCalls P c own"
  shows "keeps P (EnsureLoadBalancerDeleted n c service)"
proof -
  note d = assms[unfolded deletionCalls_def]
  have desc: "keeps P (describeLoadBalancer c name)" for name
    unfolding describeLoadBalancer_def using d by (intro keeps_rules) auto
  have inst: "keeps P (ensureLoadBalancerInstances c name xs ys)" for name xs ys
    unfolding ensureLoadBalancerInstances_def Let_def using d by (intro keeps_rules) auto
  show ?thesis
    unfolding EnsureLoadBalancerDeleted_def Let_def using d
    by (intro keeps_rules desc inst keeps_updateInstanceSG keeps_deleteSecurityGroups[OF assms]) auto
qed

definition logDeletes :: "string list Cloud" where
  "logDeletes = (exCloud (logClient\<lparr>DeleteSecurityGroup := (\<lambda>i w. (Ok (), i # w))\<rparr>))\<lparr>
     c_loadBalancer := noElb\<lparr>DescribeLoadBalancers := (\<lambda>n. ok [(exLb n [])\<lparr>lb_SecurityGroups := [''sg-1'']\<rparr>]),
        DeleteLoadBalancer := (\<lambda>_. ok ())\<rparr>\<rparr>"

theorem EnsureLoadBalancerDeleted_own_groups_witness:
  "keeps (\<lambda>log. ''sg-global'' \<notin> set log) (EnsureLoadBalancerDeleted 62 logDeletes (exService ''u1'' Map.empty)) \<and>
   EnsureLoadBalancerDeleted 62 logDeletes (exService ''u1'' Map.empty) [] = (Ok (Some ()), [''sg-1''])"
proof
  have "deletionCalls (\<lambda>log. ''sg-global'' \<notin> set log) logDeletes {''sg-1''}"
    by (auto simp: deletionCalls_def ruleCallsKeep_def logDeletes_def logClient_def exCloud_def noElb_def globalCfg_def
        keeps_def)
  then show "keeps (\<lambda>log. ''sg-global'' \<notin> set log) (EnsureLoadBalancerDeleted 62 logDeletes (exService ''u1'' Map.empty))"
    by (rule EnsureLoadBalancerDeleted_own_groups)
  show "EnsureLoadBalancerDeleted 62 logDeletes (exService ''u1'' Map.empty) [] = (Ok (Some ()), [''sg-1''])"
    by code_simp
qed

end
