(* ===== verification/Nodes.thy ===== *)
theory Nodes
  imports Instances
begin

text \<open>
  The node side of the provider: the methods of \<open>Cloud\<close> that implement the interfaces \<open>Instances\<close> and
  \<open>Zones\<close> of the framework (\<open>ccm_cloud.go\<close>), with the helpers of \<open>utils.go\<close> they use, and the
  description of the machine the provider itself runs on (\<open>oapi_vm.go\<close>).
\<close>

abbreviation nilPointer :: string where
  "nilPointer \<equiv> ''invalid memory address or nil pointer dereference''"

section \<open>Node addresses\<close>

datatype NodeAddressType = NodeHostName | NodeInternalIP | NodeExternalIP | NodeInternalDNS | NodeExternalDNS

record NodeAddress =
  na_Type :: NodeAddressType
  na_Address :: string

definition addr :: "NodeAddressType \<Rightarrow> string \<Rightarrow> NodeAddress" where
  "addr t a = \<lparr>na_Type = t, na_Address = a\<rparr>"

text \<open>The body of the loop over the addresses of an interface, and the one over the interfaces.\<close>

definition addPrivateIp :: "NodeAddress list \<Rightarrow> string option \<Rightarrow> NodeAddress list res" where
  "addPrivateIp addresses internalIP =
     (let ipAddress = strval internalIP in
      if ipAddress \<noteq> [] then
        (case ParseIP ipAddress of
           None \<Rightarrow> Err (Errorf ''OSC instance had invalid private address: %s (%q)'' [])
         | Some ip \<Rightarrow> Ok (addresses @ [addr NodeInternalIP (IPString ip)]))
      else Ok addresses)"

definition addNic :: "NodeAddress list \<Rightarrow> NicLight \<Rightarrow> NodeAddress list res" where
  "addNic addresses networkInterface = (case nic_State networkInterface of
       None \<Rightarrow> Panic nilPointer
     | Some state \<Rightarrow>
        (if state \<noteq> ''in-use'' then Ok addresses
         else foldRes addPrivateIp addresses (listval (nic_PrivateIps networkInterface))))"

definition extractNodeAddresses :: "Vm option \<Rightarrow> NodeAddress list res" where
  "extractNodeAddresses vm = (case vm of
       None \<Rightarrow> Err (Errorf ''nil instance passed to extractNodeAddresses'' [])
     | Some i \<Rightarrow>
        res_bind
          (if length (listval (vm_Nics i)) > 0 then foldRes addNic [] (listval (vm_Nics i))
           else if strval (vm_PrivateIp i) \<noteq> [] then
             (case ParseIP (strval (vm_PrivateIp i)) of
                None \<Rightarrow> Err (Errorf ''OSC instance had invalid private address: %s (%s)'' [])
              | Some ip \<Rightarrow> Ok [addr NodeInternalIP (IPString ip)])
           else Ok []) (\<lambda>a1.
        res_bind
          (if strval (vm_PublicIp i) \<noteq> [] then
             (case ParseIP (strval (vm_PublicIp i)) of
                None \<Rightarrow> Err (Errorf ''OSC instance had invalid public address: %s (%s)'' [])
              | Some ip \<Rightarrow> Ok (a1 @ [addr NodeExternalIP (IPString ip)]))
           else Ok a1) (\<lambda>a2.
        (let a3 = (if strval (vm_PrivateDnsName i) \<noteq> []
                   then a2 @ [addr NodeInternalDNS (strval (vm_PrivateDnsName i)),
                              addr NodeHostName (strval (vm_PrivateDnsName i))] else a2);
             a4 = (if strval (vm_PublicDnsName i) \<noteq> []
                   then a3 @ [addr NodeExternalDNS (strval (vm_PublicDnsName i))] else a3)
         in Ok a4))))"

text \<open>The hostname and the internal DNS names; the index of an empty slice panics.\<close>

definition parseMetadataLocalHostname :: "string \<Rightarrow> (string \<times> string list) res" where
  "parseMetadataLocalHostname metadata = (case Fields metadata of
       [] \<Rightarrow> Panic ''index out of range [0] with length 0''
     | hostname # rest \<Rightarrow>
        (let privateAddress = hd (Split (CHR ''.'') hostname) in
         Ok (hostname, hostname # map (\<lambda>h. privateAddress @ ''.'' @ h) rest)))"

text \<open>The loop over the interfaces the metadata service lists.\<close>

definition addMac :: "'w Cloud \<Rightarrow> NodeAddress list \<Rightarrow> string \<Rightarrow> ('w, NodeAddress list) io" where
  "addMac c addresses macID =
     (if macID = [] then ok addresses
      else
        (let macPath = pathJoin [''network/interfaces/macs/'', macID, ''local-ipv4s''] in
         attempt (GetMetadata (c_metadata c) macPath)
           (\<lambda>internalIPs. ok (addresses @ map (addr NodeInternalIP)
               (filter (\<lambda>internalIP. internalIP \<noteq> []) (Split (CHR ''\<newline>'') internalIPs))))
           (\<lambda>e. raise (Errorf ''error querying AWS metadata for %q: %q'' [e]))))"

definition NodeAddresses :: "'w Cloud \<Rightarrow> string \<Rightarrow> ('w, NodeAddress list) io" where
  "NodeAddresses c name =
     bnd (selfInstance c) (\<lambda>self.
     if self_nodeName self = name \<or> length name = 0 then
       attempt (GetMetadata (c_metadata c) ''network/interfaces/macs/'') (\<lambda>macs.
         bnd (foldIO (addMac c) [] (Split (CHR ''\<newline>'') macs)) (\<lambda>a1.
         bnd (attempt (GetMetadata (c_metadata c) ''public-ipv4'')
                (\<lambda>externalIP. ok (a1 @ [addr NodeExternalIP externalIP])) (\<lambda>_. ok a1)) (\<lambda>a2.
         bnd (attempt (GetMetadata (c_metadata c) ''local-hostname'')
                (\<lambda>localHostname.
                   if length localHostname = 0 then ok a2
                   else bnd (lift (parseMetadataLocalHostname localHostname)) (\<lambda>(hostname, internalDNS).
                     ok (a2 @ addr NodeHostName hostname # map (addr NodeInternalDNS) internalDNS)))
                (\<lambda>_. ok a2)) (\<lambda>a3.
         attempt (GetMetadata (c_metadata c) ''public-hostname'')
           (\<lambda>externalDNS. ok (if length externalDNS = 0 then a3 else a3 @ [addr NodeExternalDNS externalDNS]))
           (\<lambda>_. ok a3)))))
         (\<lambda>e. raise (Errorf ''error querying AWS metadata for %q: %q'' [e]))
     else
       attempt (getInstanceByNodeName c name)
         (\<lambda>instance. lift (extractNodeAddresses (Some instance)))
         (\<lambda>e. raise (Errorf ''getInstanceByNodeName failed for %q with %q'' [e])))"

definition NodeAddressesByProviderID :: "'w Cloud \<Rightarrow> string \<Rightarrow> ('w, NodeAddress list) io" where
  "NodeAddressesByProviderID c providerID =
     bnd (lift (MapToAWSInstanceID providerID)) (\<lambda>instanceID.
     bnd (describeInstance (c_compute c) instanceID) (\<lambda>instance.
     lift (extractNodeAddresses (Some instance))))"

section \<open>Existence, shutdown, identity and type\<close>

definition InstanceExistsByProviderID :: "'w Cloud \<Rightarrow> string \<Rightarrow> ('w, bool) io" where
  "InstanceExistsByProviderID c providerID =
     bnd (lift (MapToAWSInstanceID providerID)) (\<lambda>instanceID.
     bnd (ReadVms (c_compute c) (vmIdFilter [instanceID])) (\<lambda>instances.
       if length instances = 0 then ok False
       else if length instances > 1 then raise (Errorf ''multiple instances found for instance: %s'' [])
       else (case vm_State (hd instances) of
               None \<Rightarrow> panic nilPointer
             | Some state \<Rightarrow> ok (state \<noteq> ''terminated''))))"

definition InstanceShutdownByProviderID :: "'w Cloud \<Rightarrow> string \<Rightarrow> ('w, bool) io" where
  "InstanceShutdownByProviderID c providerID =
     bnd (lift (MapToAWSInstanceID providerID)) (\<lambda>instanceID.
     bnd (ReadVms (c_compute c) (vmIdFilter [instanceID])) (\<lambda>instances.
       if length instances = 0 then ok False
       else if length instances > 1 then raise (Errorf ''multiple instances found for instance: %s'' [])
       else ok (vm_State (hd instances) = Some ''stopped'')))"

definition InstanceID :: "'w Cloud \<Rightarrow> string \<Rightarrow> ('w, string) io" where
  "InstanceID c nodeName =
     bnd (selfInstance c) (\<lambda>self.
     if self_nodeName self = nodeName
     then ok (''/'' @ self_availabilityZone self @ ''/'' @ self_vmID self)
     else attempt (getInstanceByNodeName c nodeName)
            (\<lambda>inst. ok (''/'' @ GetSubregionName inst @ ''/'' @ strval (vm_VmId inst)))
            (\<lambda>e. if e = InstanceNotFound then raise e
                  else raise (Errorf ''getInstanceByNodeName failed for %q with %q'' [e])))"

definition InstanceTypeByProviderID :: "'w Cloud \<Rightarrow> string \<Rightarrow> ('w, string) io" where
  "InstanceTypeByProviderID c providerID =
     bnd (lift (MapToAWSInstanceID providerID)) (\<lambda>instanceID.
     bnd (describeInstance (c_compute c) instanceID) (\<lambda>instance.
     ok (strval (vm_VmType instance))))"

definition InstanceType :: "'w Cloud \<Rightarrow> string \<Rightarrow> ('w, string) io" where
  "InstanceType c nodeName =
     bnd (selfInstance c) (\<lambda>self.
     if self_nodeName self = nodeName then ok (self_instanceType self)
     else attempt (getInstanceByNodeName c nodeName)
            (\<lambda>inst. ok (strval (vm_VmType inst)))
            (\<lambda>e. raise (Errorf ''getInstanceByNodeName failed for %q with %q'' [e])))"

section \<open>Zones\<close>

record Zone =
  FailureDomain :: string
  ZoneRegion :: string

definition azToRegion :: "string \<Rightarrow> string res" where
  "azToRegion az = (if length az < 1 then Err (Errorf ''invalid (empty) AZ'' [])
     else Ok (take (length az - 1) az))"

definition GetZone :: "'w Cloud \<Rightarrow> ('w, Zone) io" where
  "GetZone c = bnd (selfInstance c) (\<lambda>self.
     ok \<lparr>FailureDomain = self_availabilityZone self, ZoneRegion = c_region c\<rparr>)"

text \<open>\<open>getInstanceByID\<close> gives a nil pointer when the API answered with another instance; its field panics.\<close>

definition GetZoneByProviderID :: "'w Cloud \<Rightarrow> string \<Rightarrow> ('w, Zone) io" where
  "GetZoneByProviderID c providerID =
     bnd (lift (MapToAWSInstanceID providerID)) (\<lambda>instanceID.
     bnd (getInstanceByID c instanceID) (\<lambda>found. case found of
         None \<Rightarrow> panic nilPointer
       | Some instance \<Rightarrow> ok \<lparr>FailureDomain = GetSubregionName instance, ZoneRegion = c_region c\<rparr>))"

definition GetZoneByNodeName :: "'w Cloud \<Rightarrow> string \<Rightarrow> ('w, Zone) io" where
  "GetZoneByNodeName c nodeName =
     bnd (getInstanceByNodeName c nodeName) (\<lambda>instance.
     ok \<lparr>FailureDomain = GetSubregionName instance, ZoneRegion = c_region c\<rparr>)"

section \<open>The machine of the provider\<close>

definition newAWSInstance :: "'w Compute \<Rightarrow> Vm \<Rightarrow> 'w VM" where
  "newAWSInstance ec2Service instance =
     \<lparr>self_compute = Some ec2Service, self_vmID = strval (vm_VmId instance),
      self_nodeName = mapInstanceToNodeName instance, self_availabilityZone = GetSubregionName instance,
      self_vpcID = strval (vm_NetId instance), self_subnetID = strval (vm_SubnetId instance),
      self_instanceType = strval (vm_VmType instance)\<rparr>"

definition buildSelfAWSInstance :: "'w Cloud \<Rightarrow> ('w, 'w VM) io" where
  "buildSelfAWSInstance c =
     (if c_selfAWSInstance c \<noteq> None then panic ''do not call buildSelfAWSInstance directly''
      else attempt (GetMetadata (c_metadata c) ''instance-id'') (\<lambda>instanceID.
             attempt (getInstanceByID c instanceID) (\<lambda>found. case found of
                 None \<Rightarrow> panic nilPointer
               | Some instance \<Rightarrow> ok (newAWSInstance (c_compute c) instance))
               (\<lambda>e. raise (Errorf ''error finding instance %s: %q'' [e])))
             (\<lambda>e. raise (Errorf ''error fetching instance-id from ec2 metadata service: %q'' [e])))"

definition VM_describeInstance :: "'w VM \<Rightarrow> ('w, Vm) io" where
  "VM_describeInstance i = (case self_compute i of
       None \<Rightarrow> panic nilPointer
     | Some client \<Rightarrow> describeInstance client (self_vmID i))"

text \<open>The first interface whose VPC id the metadata service knows wins.\<close>

fun firstVpc :: "'w Cloud \<Rightarrow> string list \<Rightarrow> ('w, string) io" where
  "firstVpc c [] = raise (Errorf ''could not find VPC ID in instance metadata'' [])"
| "firstVpc c (macPath # macs) =
     (if length macPath = 0 then firstVpc c macs
      else attempt (GetMetadata (c_metadata c) (''network/interfaces/macs/'' @ macPath @ ''vpc-id''))
             ok (\<lambda>_. firstVpc c macs))"

definition findVPCID :: "'w Cloud \<Rightarrow> ('w, string) io" where
  "findVPCID c =
     attempt (GetMetadata (c_metadata c) ''network/interfaces/macs/'')
       (\<lambda>macs. firstVpc c (Split (CHR ''\<newline>'') macs))
       (\<lambda>e. raise (Errorf ''could not list interfaces of the instance: %q'' [e]))"

section \<open>What the cloud object offers to the framework\<close>

definition AddSSHKeyToAllInstances :: "'w Cloud \<Rightarrow> string \<Rightarrow> string \<Rightarrow> ('w, unit) io" where
  "AddSSHKeyToAllInstances c user keyData = raise NotImplemented"

definition CurrentNodeName :: "'w Cloud \<Rightarrow> string \<Rightarrow> ('w, string) io" where
  "CurrentNodeName c hostname = bnd (selfInstance c) (\<lambda>self. ok (self_nodeName self))"

definition HasClusterID :: "'w Cloud \<Rightarrow> bool" where
  "HasClusterID c \<longleftrightarrow> length (ClusterID (c_tagging c)) > 0"

section \<open>The addresses of an instance\<close>

text \<open>Reference: the private addresses the instance reports, and the canonical form of an address.\<close>

definition privateIps :: "Vm \<Rightarrow> string list" where
  "privateIps i = filter (\<lambda>s. s \<noteq> [])
     (if listval (vm_Nics i) = [] then [strval (vm_PrivateIp i)]
      else concat (map (\<lambda>n. map strval (listval (nic_PrivateIps n)))
             (filter (\<lambda>n. nic_State n = Some ''in-use'') (listval (vm_Nics i)))))"

definition nonempty :: "string \<Rightarrow> string list" where
  "nonempty s = (if s = [] then [] else [s])"

definition validIp :: "string \<Rightarrow> bool" where
  "validIp s \<longleftrightarrow> ParseIP s \<noteq> None"

definition canonicalIp :: "string \<Rightarrow> string" where
  "canonicalIp s = IPString (the (ParseIP s))"

lemma foldRes_addPrivateIp:
  "foldRes addPrivateIp acc ips = Ok r \<longleftrightarrow>
     list_all validIp (filter (\<lambda>s. s \<noteq> []) (map strval ips)) \<and>
     r = acc @ map (addr NodeInternalIP \<circ> canonicalIp) (filter (\<lambda>s. s \<noteq> []) (map strval ips))"
  by (induction ips arbitrary: acc)
     (auto simp: addPrivateIp_def Let_def validIp_def canonicalIp_def split: option.splits)

lemma foldRes_addNic:
  "foldRes addNic acc nics = Ok r \<longleftrightarrow>
     list_all (\<lambda>n. nic_State n \<noteq> None) nics \<and>
     (let ips = filter (\<lambda>s. s \<noteq> []) (concat (map (\<lambda>n. map strval (listval (nic_PrivateIps n)))
                  (filter (\<lambda>n. nic_State n = Some ''in-use'') nics)))
      in list_all validIp ips \<and> r = acc @ map (addr NodeInternalIP \<circ> canonicalIp) ips)"
proof (induction nics arbitrary: acc)
  case (Cons n nics)
  show ?case
    by (cases "nic_State n") (auto simp: addNic_def[of acc n] Let_def foldRes_addPrivateIp Cons.IH)
qed auto

lemma optional_ip:
  "(if s \<noteq> [] then case ParseIP s of None \<Rightarrow> Err e | Some ip \<Rightarrow> Ok (acc @ [addr t (IPString ip)]) else Ok acc) = Ok r
     \<longleftrightarrow> list_all validIp (nonempty s) \<and> r = acc @ map (addr t \<circ> canonicalIp) (nonempty s)"
  by (auto simp: nonempty_def validIp_def canonicalIp_def split: option.splits)

lemma private_part:
  "(if length (listval (vm_Nics i)) > 0 then foldRes addNic [] (listval (vm_Nics i))
    else if strval (vm_PrivateIp i) \<noteq> [] then
      (case ParseIP (strval (vm_PrivateIp i)) of None \<Rightarrow> Err e | Some ip \<Rightarrow> Ok [addr NodeInternalIP (IPString ip)])
    else Ok []) = Ok r \<longleftrightarrow>
   list_all (\<lambda>n. nic_State n \<noteq> None) (listval (vm_Nics i)) \<and> list_all validIp (privateIps i) \<and>
   r = map (addr NodeInternalIP \<circ> canonicalIp) (privateIps i)"
proof (cases "listval (vm_Nics i)")
  case Nil
  then show ?thesis
    by (auto simp: privateIps_def validIp_def canonicalIp_def split: option.splits)
next
  case (Cons n nics)
  then show ?thesis using foldRes_addNic[of "[]" "n # nics" r] by (simp add: privateIps_def Let_def)
qed

text \<open>
  C34. \<open>extractNodeAddresses\<close> succeeds exactly when every interface has a state and every address it
  reports is an IP address, and then lists the canonical form of the addresses of the interfaces in use
  (or of the one private address when no interface is listed), the public address, and the DNS names.
\<close>

theorem extractNodeAddresses_spec:
  "extractNodeAddresses (Some i) = Ok addresses \<longleftrightarrow>
     list_all (\<lambda>n. nic_State n \<noteq> None) (listval (vm_Nics i)) \<and>
     list_all validIp (privateIps i @ nonempty (strval (vm_PublicIp i))) \<and>
     addresses = map (addr NodeInternalIP \<circ> canonicalIp) (privateIps i) @
       map (addr NodeExternalIP \<circ> canonicalIp) (nonempty (strval (vm_PublicIp i))) @
       concat (map (\<lambda>d. [addr NodeInternalDNS d, addr NodeHostName d]) (nonempty (strval (vm_PrivateDnsName i)))) @
       map (addr NodeExternalDNS) (nonempty (strval (vm_PublicDnsName i)))"
  unfolding extractNodeAddresses_def option.case res_bind_eq_Ok private_part optional_ip
  by (auto simp: Let_def nonempty_def)

section \<open>Blank host names\<close>

lemma fieldsFrom_Nil: "fieldsFrom acc s = [] \<longleftrightarrow> acc = [] \<and> list_all isSpace s"
  by (induction acc s rule: fieldsFrom.induct) auto

lemma Fields_Nil: "Fields s = [] \<longleftrightarrow> list_all isSpace s"
  by (simp add: Fields_def fieldsFrom_Nil)

lemma parseMetadataLocalHostname_Panic:
  "(\<exists>p. parseMetadataLocalHostname s = Panic p) \<longleftrightarrow> list_all isSpace s"
  unfolding Fields_Nil[symmetric] parseMetadataLocalHostname_def by (simp add: Let_def split: list.split)

text \<open>A metadata service that answers without a panic and without changing the world.\<close>

definition answersWith :: "'w EC2Metadata \<Rightarrow> (string \<Rightarrow> string res) \<Rightarrow> bool" where
  "answersWith md answer \<longleftrightarrow> (\<forall>k w. GetMetadata md k w = (answer k, w)) \<and> (\<forall>k p. answer k \<noteq> Panic p)"

lemma answersD: "answersWith md answer \<Longrightarrow> GetMetadata md k w = (answer k, w)"
  by (simp add: answersWith_def)

definition macAnswered :: "(string \<Rightarrow> string res) \<Rightarrow> string \<Rightarrow> bool" where
  "macAnswered answer m \<longleftrightarrow>
     m = [] \<or> isOk (answer (pathJoin [''network/interfaces/macs/'', m, ''local-ipv4s'']))"

lemma foldIO_addMac:
  assumes "answersWith (c_metadata c) answer"
  shows "list_all (macAnswered answer) ms \<Longrightarrow> \<exists>r. foldIO (addMac c) acc ms w = (Ok r, w)"
    and "\<not> list_all (macAnswered answer) ms \<Longrightarrow> \<exists>e. foldIO (addMac c) acc ms w = (Err e, w)"
proof -
  have step: "if macAnswered answer m then \<exists>r. addMac c a m w = (Ok r, w) else \<exists>e. addMac c a m w = (Err e, w)" for a m
    using assms by (cases "answer (pathJoin [''network/interfaces/macs/'', m, ''local-ipv4s''])")
      (auto simp: addMac_def Let_def answersWith_def macAnswered_def isOk_def attempt_def)
  show "list_all (macAnswered answer) ms \<Longrightarrow> \<exists>r. foldIO (addMac c) acc ms w = (Ok r, w)"
  proof (induction ms arbitrary: acc)
    case (Cons m ms)
    then obtain r where "addMac c acc m w = (Ok r, w)" using step[of m acc] by auto
    then show ?case using Cons by simp
  qed simp
  show "\<not> list_all (macAnswered answer) ms \<Longrightarrow> \<exists>e. foldIO (addMac c) acc ms w = (Err e, w)"
  proof (induction ms arbitrary: acc)
    case (Cons m ms)
    then show ?case using step[of m acc] by (cases "macAnswered answer m") auto
  qed simp
qed


lemma NodeAddresses_self:
  assumes "answersWith (c_metadata c) answer" "c_selfAWSInstance c = Some self" "self_nodeName self = name"
    and "answer ''network/interfaces/macs/'' = Ok macs"
    and "list_all (macAnswered answer) (Split (CHR ''\<newline>'') macs)"
  shows "(\<exists>p. fst (NodeAddresses c name w) = Panic p) \<longleftrightarrow>
     (\<exists>s. answer ''local-hostname'' = Ok s \<and> s \<noteq> [] \<and> list_all isSpace s)"
proof -
  note md = answersD[OF assms(1)]
  have nopanic: "answer k \<noteq> Panic p" for k p using assms(1) by (simp add: answersWith_def)
  obtain r where r: "foldIO (addMac c) [] (Split (CHR ''\<newline>'') macs) w = (Ok r, w)"
    using foldIO_addMac(1)[OF assms(1,5)] by blast
  obtain a2 where a2: "attempt (GetMetadata (c_metadata c) ''public-ipv4'')
      (\<lambda>externalIP. ok (r @ [addr NodeExternalIP externalIP])) (\<lambda>_. ok r) w = (Ok a2, w)"
    by (cases "answer ''public-ipv4''") (auto simp: attempt_def md nopanic)
  let ?host = "attempt (GetMetadata (c_metadata c) ''local-hostname'')
      (\<lambda>localHostname. if length localHostname = 0 then ok a2
         else bnd (lift (parseMetadataLocalHostname localHostname)) (\<lambda>(hostname, internalDNS).
           ok (a2 @ addr NodeHostName hostname # map (addr NodeInternalDNS) internalDNS))) (\<lambda>_. ok a2)"
  let ?rest = "\<lambda>a3. attempt (GetMetadata (c_metadata c) ''public-hostname'')
      (\<lambda>externalDNS. ok (if length externalDNS = 0 then a3 else a3 @ [addr NodeExternalDNS externalDNS]))
      (\<lambda>_. ok a3)"
  have run: "NodeAddresses c name w = bnd ?host ?rest w"
    unfolding NodeAddresses_def selfInstance_def
    by (simp add: assms(2,3,4) md r a2)
  have "(\<exists>p. fst (bnd ?host ?rest w) = Panic p) \<longleftrightarrow> (\<exists>p. fst (?host w) = Panic p)"
    by (rule bnd_panics) (auto simp: attempt_def md nopanic split: res.split)
  also have "\<dots> \<longleftrightarrow> (\<exists>s. answer ''local-hostname'' = Ok s \<and> s \<noteq> [] \<and> list_all isSpace s)"
  proof (cases "answer ''local-hostname''")
    case (Ok s)
    show ?thesis
    proof (cases "parseMetadataLocalHostname s")
      case (Ok hd)
      then have "\<not> list_all isSpace s" using parseMetadataLocalHostname_Panic[of s] by auto
      then show ?thesis using Ok \<open>answer _ = Ok s\<close> by (cases hd) (auto simp: md)
    next
      case (Err e)
      then show ?thesis by (auto simp: parseMetadataLocalHostname_def Let_def split: list.splits)
    next
      case (Panic p)
      then have "list_all isSpace s" using parseMetadataLocalHostname_Panic[of s] by auto
      then show ?thesis using Panic \<open>answer _ = Ok s\<close> by (auto simp: md bnd_def attempt_def)
    qed
  qed (auto simp: md nopanic)
  finally show ?thesis by (simp only: run)
qed

text \<open>
  C35. On its own node \<open>NodeAddresses\<close> panics exactly when the metadata service lists the interfaces and
  their addresses and gives a host name that is not empty but blank: only the empty name is guarded
  against before \<open>parseMetadataLocalHostname\<close> takes the first field.
\<close>

theorem NodeAddresses_panics_iff:
  assumes "answersWith (c_metadata c) answer" "c_selfAWSInstance c = Some self" "self_nodeName self = name"
  shows "(\<exists>p. fst (NodeAddresses c name w) = Panic p) \<longleftrightarrow>
     (\<exists>macs. answer ''network/interfaces/macs/'' = Ok macs \<and>
        list_all (macAnswered answer) (Split (CHR ''\<newline>'') macs)) \<and>
     (\<exists>s. answer ''local-hostname'' = Ok s \<and> s \<noteq> [] \<and> list_all isSpace s)"
proof (cases "answer ''network/interfaces/macs/''")
  case (Ok macs)
  show ?thesis
  proof (cases "list_all (macAnswered answer) (Split (CHR ''\<newline>'') macs)")
    case True
    then show ?thesis using NodeAddresses_self[OF assms Ok True] Ok by simp
  next
    case False
    then obtain e where "foldIO (addMac c) [] (Split (CHR ''\<newline>'') macs) w = (Err e, w)"
      using foldIO_addMac(2)[OF assms(1)] by blast
    then show ?thesis
      using False Ok assms by (simp add: NodeAddresses_def selfInstance_def answersD[OF assms(1)])
  qed
next
  case (Err e)
  then show ?thesis
    using assms by (simp add: NodeAddresses_def selfInstance_def answersD[OF assms(1)])
next
  case (Panic p)
  then show ?thesis using assms(1) by (simp add: answersWith_def)
qed

definition blankHost :: "string \<Rightarrow> string res" where
  "blankHost k = (if k = ''local-hostname'' then Ok '' '' else Ok [])"

definition nodeCloud :: "unit Cloud" where
  "nodeCloud = (exCloud quietClient)\<lparr>c_metadata := \<lparr>md_Available = ok True, GetMetadata = (\<lambda>k. lift (blankHost k))\<rparr>,
     c_selfAWSInstance := Some (newAWSInstance quietClient (exVm ''i-1'' []))\<rparr>"

theorem NodeAddresses_panics_iff_witness:
  "\<exists>p. fst (NodeAddresses nodeCloud [] ()) = Panic p"
proof -
  have 1: "answersWith (c_metadata nodeCloud) blankHost"
    by (simp add: answersWith_def nodeCloud_def blankHost_def lift_def)
  have 2: "c_selfAWSInstance nodeCloud = Some (newAWSInstance quietClient (exVm ''i-1'' []))"
    by (simp add: nodeCloud_def)
  have 3: "self_nodeName (newAWSInstance quietClient (exVm ''i-1'' []) :: unit VM) = []"
    by (simp add: newAWSInstance_def mapInstanceToNodeName_def exVm_def)
  show ?thesis
    unfolding NodeAddresses_panics_iff[OF 1 2 3]
    by (simp add: blankHost_def macAnswered_def isSpace_def code_def)
qed

end
