(* ===== verification/Vm_Directory.thy ===== *)
theory Vm_Directory
  imports Nodes
begin

text \<open>
  The interface between the node handlers and the compute client: a client whose \<open>ReadVms\<close>, asked for one
  instance id, answers with the instances of that id of a directory.  What the handlers that take a provider
  id answer follows from that law alone; the SDK client and the test double are instances of it.
\<close>

text \<open>\<open>dir w\<close> is the directory in the world \<open>w\<close>, \<open>inv w\<close> what is known of the world.\<close>

locale vm_directory =
  fixes client :: "'w Compute" and dir :: "'w \<Rightarrow> Vm list" and inv :: "'w \<Rightarrow> bool"
  assumes by_id: "inv w \<Longrightarrow> fst (ReadVms client (vmIdFilter [i]) w) = Ok (filter (\<lambda>v. strval (vm_VmId v) = i) (dir w))"
    and distinct_ids: "inv w \<Longrightarrow> distinct (map (\<lambda>v. strval (vm_VmId v)) (dir w))"
begin

lemma read_found:
  assumes "inv w" "v \<in> set (dir w)" "strval (vm_VmId v) = i"
  obtains w' where "ReadVms client (vmIdFilter [i]) w = (Ok [v], w')"
proof -
  have "filter (\<lambda>v. strval (vm_VmId v) = i) (dir w) = [v]"
    using filter_unique[OF distinct_ids[OF assms(1)] assms(2), of "\<lambda>_. True"] assms(3) by simp
  then show ?thesis using by_id[OF assms(1), of i] that by (cases "ReadVms client (vmIdFilter [i]) w") simp
qed

lemma read_missing:
  assumes "inv w" "\<forall>v\<in>set (dir w). strval (vm_VmId v) \<noteq> i"
  obtains w' where "ReadVms client (vmIdFilter [i]) w = (Ok [], w')"
proof -
  have "filter (\<lambda>v. strval (vm_VmId v) = i) (dir w) = []" using assms(2) by (simp add: filter_empty_conv)
  then show ?thesis using by_id[OF assms(1), of i] that by (cases "ReadVms client (vmIdFilter [i]) w") simp
qed

lemma describeInstance_found:
  assumes "inv w" "v \<in> set (dir w)" "strval (vm_VmId v) = i"
  shows "fst (describeInstance client i w) = Ok v"
  by (rule read_found[OF assms]) (simp add: describeInstance_def)

lemma getInstanceByID_found:
  assumes "inv w" "v \<in> set (dir w)" "strval (vm_VmId v) = i" "i \<noteq> []" "c_compute c = client"
  shows "fst (getInstanceByID c i w) = Ok (Some v)"
  by (rule read_found[OF assms(1-3)]) (use assms(3-5) in \<open>simp add: getInstanceByID_def getInstancesByIDs_def\<close>)

lemma getInstanceByID_missing:
  assumes "inv w" "\<forall>v\<in>set (dir w). strval (vm_VmId v) \<noteq> i" "c_compute c = client"
  shows "fst (getInstanceByID c i w) = Err InstanceNotFound"
  by (rule read_missing[OF assms(1,2)]) (use assms(3) in \<open>simp add: getInstanceByID_def getInstancesByIDs_def\<close>)

text \<open>The handlers that take a provider id, for an instance of the directory and for one that is gone.\<close>

lemma handlers_found:
  assumes "inv w" "v \<in> set (dir w)" "strval (vm_VmId v) = i" "i \<noteq> []"
    "c_compute c = client" "MapToAWSInstanceID pid = Ok i"
  shows "fst (NodeAddressesByProviderID c pid w) = extractNodeAddresses (Some v)"
    "fst (InstanceTypeByProviderID c pid w) = Ok (strval (vm_VmType v))"
    "fst (GetZoneByProviderID c pid w) = Ok \<lparr>FailureDomain = GetSubregionName v, ZoneRegion = c_region c\<rparr>"
    "fst (InstanceExistsByProviderID c pid w) =
       (case vm_State v of None \<Rightarrow> Panic nilPointer | Some state \<Rightarrow> Ok (state \<noteq> ''terminated''))"
    "fst (InstanceShutdownByProviderID c pid w) = Ok (vm_State v = Some ''stopped'')"
proof -
  obtain w' where r: "ReadVms client (vmIdFilter [i]) w = (Ok [v], w')" by (rule read_found[OF assms(1-3)])
  obtain w1 where d: "describeInstance client i w = (Ok v, w1)"
    using describeInstance_found[OF assms(1-3)] by (cases "describeInstance client i w") simp
  obtain w2 where g: "getInstanceByID c i w = (Ok (Some v), w2)"
    using getInstanceByID_found[OF assms(1-5)] by (cases "getInstanceByID c i w") simp
  note m = assms(5,6)
  show "fst (NodeAddressesByProviderID c pid w) = extractNodeAddresses (Some v)"
    by (simp add: NodeAddressesByProviderID_def m d)
  show "fst (InstanceTypeByProviderID c pid w) = Ok (strval (vm_VmType v))"
    by (simp add: InstanceTypeByProviderID_def m d)
  show "fst (GetZoneByProviderID c pid w) = Ok \<lparr>FailureDomain = GetSubregionName v, ZoneRegion = c_region c\<rparr>"
    by (simp add: GetZoneByProviderID_def m g)
  show "fst (InstanceExistsByProviderID c pid w) =
       (case vm_State v of None \<Rightarrow> Panic nilPointer | Some state \<Rightarrow> Ok (state \<noteq> ''terminated''))"
    by (simp add: InstanceExistsByProviderID_def m r split: option.split)
  show "fst (InstanceShutdownByProviderID c pid w) = Ok (vm_State v = Some ''stopped'')"
    by (simp add: InstanceShutdownByProviderID_def m r)
qed

lemma handlers_missing:
  assumes "inv w" "\<forall>v\<in>set (dir w). strval (vm_VmId v) \<noteq> i" "c_compute c = client" "MapToAWSInstanceID pid = Ok i"
  shows "\<exists>e. fst (NodeAddressesByProviderID c pid w) = Err e" "\<exists>e. fst (InstanceTypeByProviderID c pid w) = Err e"
    "fst (GetZoneByProviderID c pid w) = Err InstanceNotFound"
    "fst (InstanceExistsByProviderID c pid w) = Ok False" "fst (InstanceShutdownByProviderID c pid w) = Ok False"
proof -
  obtain w' where r: "ReadVms client (vmIdFilter [i]) w = (Ok [], w')" by (rule read_missing[OF assms(1,2)])
  obtain w2 where g: "getInstanceByID c i w = (Err InstanceNotFound, w2)"
    using getInstanceByID_missing[OF assms(1-3)] by (cases "getInstanceByID c i w") simp
  note m = assms(3,4)
  show "\<exists>e. fst (NodeAddressesByProviderID c pid w) = Err e"
    by (simp add: NodeAddressesByProviderID_def describeInstance_def m r)
  show "\<exists>e. fst (InstanceTypeByProviderID c pid w) = Err e"
    by (simp add: InstanceTypeByProviderID_def describeInstance_def m r)
  show "fst (GetZoneByProviderID c pid w) = Err InstanceNotFound" by (simp add: GetZoneByProviderID_def m g)
  show "fst (InstanceExistsByProviderID c pid w) = Ok False" by (simp add: InstanceExistsByProviderID_def m r)
  show "fst (InstanceShutdownByProviderID c pid w) = Ok False" by (simp add: InstanceShutdownByProviderID_def m r)
qed

end

text \<open>A client that leaves the world as it is when it reads.\<close>

locale still_directory = vm_directory +
  assumes still: "snd (ReadVms client f w) = w"
begin

lemma describeInstance_still:
  assumes "inv w" "v \<in> set (dir w)" "strval (vm_VmId v) = i"
  shows "describeInstance client i w = (Ok v, w)"
proof (rule read_found[OF assms])
  fix w'
  assume r: "ReadVms client (vmIdFilter [i]) w = (Ok [v], w')"
  then have "w' = w" using still[of "vmIdFilter [i]" w] by simp
  then show ?thesis using r by (simp add: describeInstance_def)
qed

lemma getInstanceByID_still:
  assumes "inv w" "v \<in> set (dir w)" "strval (vm_VmId v) = i" "i \<noteq> []" "c_compute c = client"
  shows "getInstanceByID c i w = (Ok (Some v), w)"
proof (rule read_found[OF assms(1-3)])
  fix w'
  assume r: "ReadVms client (vmIdFilter [i]) w = (Ok [v], w')"
  then have "w' = w" using still[of "vmIdFilter [i]" w] by simp
  then show ?thesis using r assms(3-5) by (simp add: getInstanceByID_def getInstancesByIDs_def)
qed

end

end
