(* ===== verification/Api_Sdk.thy ===== *)
theory Api_Sdk
  imports Cloud_API
begin

text \<open>
  The implementation of the interface \<open>Compute\<close> on the Outscale SDK (\<open>oapi_sdk.go\<close>) and the metrics it
  feeds (\<open>osc_metrics.go\<close>).  The SDK client and the metrics library are parameters: records of
  operations on the world.  A latency is given in nanoseconds.
\<close>

section \<open>Metrics\<close>

text \<open>A vector of \<open>component-base/metrics\<close>: its options and the names of its labels.\<close>

datatype MetricKind = HistogramVec | CounterVec

datatype StabilityLevel = ALPHA | STABLE

record MetricVec =
  mv_Kind :: MetricKind
  mv_Name :: string
  mv_Help :: string
  mv_StabilityLevel :: StabilityLevel
  mv_Labels :: "string list"

definition awsAPIMetric :: MetricVec where
  "awsAPIMetric = \<lparr>mv_Kind = HistogramVec, mv_Name = ''cloudprovider_aws_api_request_duration_seconds'',
     mv_Help = ''Latency of AWS API calls'', mv_StabilityLevel = ALPHA, mv_Labels = [''request'']\<rparr>"

definition awsAPIErrorMetric :: MetricVec where
  "awsAPIErrorMetric = \<lparr>mv_Kind = CounterVec, mv_Name = ''cloudprovider_aws_api_request_errors'',
     mv_Help = ''AWS API errors'', mv_StabilityLevel = ALPHA, mv_Labels = [''request'']\<rparr>"

definition awsAPIThrottlesMetric :: MetricVec where
  "awsAPIThrottlesMetric = \<lparr>mv_Kind = CounterVec, mv_Name = ''cloudprovider_aws_api_throttled_requests_total'',
     mv_Help = ''AWS API throttled requests'', mv_StabilityLevel = ALPHA, mv_Labels = [''operation_name'']\<rparr>"

text \<open>The library behind the vectors: \<open>vec.With(labels).Observe(x)\<close>, \<open>vec.With(labels).Inc()\<close> and \<open>legacyregistry.MustRegister\<close>.\<close>

record 'w Metrics =
  met_Observe :: "MetricVec \<Rightarrow> (string \<times> string) list \<Rightarrow> int \<Rightarrow> ('w, unit) io"
  met_Inc :: "MetricVec \<Rightarrow> (string \<times> string) list \<Rightarrow> ('w, unit) io"
  met_MustRegister :: "MetricVec \<Rightarrow> ('w, unit) io"

definition recordAWSMetric :: "'w Metrics \<Rightarrow> string \<Rightarrow> int \<Rightarrow> go_error option \<Rightarrow> ('w, unit) io" where
  "recordAWSMetric m actionName timeTaken err =
     (if err \<noteq> None then met_Inc m awsAPIErrorMetric [(''request'', actionName)]
      else met_Observe m awsAPIMetric [(''request'', actionName)] timeTaken)"

definition recordAWSThrottlesMetric :: "'w Metrics \<Rightarrow> string \<Rightarrow> ('w, unit) io" where
  "recordAWSThrottlesMetric m operation = met_Inc m awsAPIThrottlesMetric [(''operation_name'', operation)]"

text \<open>\<open>sync.Once\<close>: the flag is process memory, and it is set even when the function panics.\<close>

definition onceDo :: "('w, unit) io \<Rightarrow> (bool \<times> 'w, unit) io" where
  "onceDo f = (\<lambda>(done, w). if done then (Ok (), (True, w)) else (case f w of (r, w') \<Rightarrow> (r, (True, w'))))"

definition registerMetrics :: "'w Metrics \<Rightarrow> (bool \<times> 'w, unit) io" where
  "registerMetrics m = onceDo (
     bnd (met_MustRegister m awsAPIMetric) (\<lambda>_.
     bnd (met_MustRegister m awsAPIErrorMetric) (\<lambda>_.
     met_MustRegister m awsAPIThrottlesMetric)))"

text \<open>The documented laws of the library, for a view of what is registered: a vector is registered under a name that is not taken,
  and registering a taken name panics; \<open>With\<close> panics on labels that are not the ones of the vector.\<close>

definition metricsLibrary :: "'w Metrics \<Rightarrow> ('w \<Rightarrow> MetricVec list) \<Rightarrow> bool" where
  "metricsLibrary m registered \<longleftrightarrow>
     (\<forall>v w. if mv_Name v \<in> mv_Name ` set (registered w) then \<exists>p. met_MustRegister m v w = (Panic p, w)
            else \<exists>w'. met_MustRegister m v w = (Ok (), w') \<and> registered w' = v # registered w) \<and>
     (\<forall>v ls w. if map fst ls = mv_Labels v then \<exists>w'. met_Inc m v ls w = (Ok (), w') \<and> registered w' = registered w
            else \<exists>p. met_Inc m v ls w = (Panic p, w)) \<and>
     (\<forall>v ls x w. if map fst ls = mv_Labels v then \<exists>w'. met_Observe m v ls x w = (Ok (), w') \<and> registered w' = registered w
            else \<exists>p. met_Observe m v ls x w = (Panic p, w))"

lemmas metric_vecs = awsAPIMetric_def awsAPIErrorMetric_def awsAPIThrottlesMetric_def

text \<open>The three vectors have different names and are used with their own labels, so with such a library nothing panics: the
  first registration of a process registers them all, a later one does nothing, and neither kind of recording fails.\<close>

lemma registerMetrics_once:
  assumes "metricsLibrary m registered" "registered w = []"
  obtains w' where "registerMetrics m (False, w) = (Ok (), (True, w'))"
    "registered w' = [awsAPIThrottlesMetric, awsAPIErrorMetric, awsAPIMetric]"
    "registerMetrics m (True, w') = (Ok (), (True, w'))"
proof -
  have reg: "mv_Name v \<notin> mv_Name ` set (registered w) \<Longrightarrow>
      \<exists>w'. met_MustRegister m v w = (Ok (), w') \<and> registered w' = v # registered w" for v w
    using assms(1) unfolding metricsLibrary_def by presburger
  obtain w1 where w1: "met_MustRegister m awsAPIMetric w = (Ok (), w1)" "registered w1 = [awsAPIMetric]"
    using reg[of awsAPIMetric w] assms(2) by auto
  obtain w2 where w2: "met_MustRegister m awsAPIErrorMetric w1 = (Ok (), w2)" "registered w2 = [awsAPIErrorMetric, awsAPIMetric]"
    using reg[of awsAPIErrorMetric w1] w1(2) by (auto simp: metric_vecs)
  obtain w3 where w3: "met_MustRegister m awsAPIThrottlesMetric w2 = (Ok (), w3)"
      "registered w3 = [awsAPIThrottlesMetric, awsAPIErrorMetric, awsAPIMetric]"
    using reg[of awsAPIThrottlesMetric w2] w2(2) by (auto simp: metric_vecs)
  show ?thesis
    by (rule that[OF _ w3(2)]) (simp_all add: registerMetrics_def onceDo_def w1(1) w2(1) w3(1))
qed

lemma recording_never_fails:
  assumes "metricsLibrary m registered"
  shows "\<exists>w'. recordAWSMetric m a t err w = (Ok (), w') \<and> registered w' = registered w"
    "\<exists>w'. recordAWSThrottlesMetric m a w = (Ok (), w') \<and> registered w' = registered w"
proof -
  have inc: "map fst ls = mv_Labels v \<Longrightarrow> \<exists>w'. met_Inc m v ls w = (Ok (), w') \<and> registered w' = registered w"
    and obs: "map fst ls = mv_Labels v \<Longrightarrow> \<exists>w'. met_Observe m v ls x w = (Ok (), w') \<and> registered w' = registered w" for v ls x w
    using assms unfolding metricsLibrary_def by presburger+
  show "\<exists>w'. recordAWSMetric m a t err w = (Ok (), w') \<and> registered w' = registered w"
    using inc[of "[(''request'', a)]" awsAPIErrorMetric] obs[of "[(''request'', a)]" awsAPIMetric]
    by (simp add: recordAWSMetric_def metric_vecs)
  show "\<exists>w'. recordAWSThrottlesMetric m a w = (Ok (), w') \<and> registered w' = registered w"
    using inc[of "[(''operation_name'', a)]" awsAPIThrottlesMetric]
    by (simp add: recordAWSThrottlesMetric_def metric_vecs)
qed

section \<open>The wrappers\<close>

record 'w oscSdkCompute =
  osc_client :: "'w APIClient"
  osc_clock :: "'w Clock"
  osc_metrics :: "'w Metrics"

text \<open>The tail \<open>timeTaken := time.Since(requestTime); recordAWSMetric(name, timeTaken, err)\<close>.\<close>

definition sinceMetric :: "'w oscSdkCompute \<Rightarrow> string \<Rightarrow> int \<Rightarrow> go_error option \<Rightarrow> ('w, unit) io" where
  "sinceMetric s name requestTime err =
     bnd (Now (osc_clock s)) (\<lambda>now. recordAWSMetric (osc_metrics s) name (now - requestTime) err)"

definition osc_ReadVms :: "'w oscSdkCompute \<Rightarrow> FiltersVm option \<Rightarrow> ('w, Vm list) io" where
  "osc_ReadVms s request =
     bnd (Now (osc_clock s)) (\<lambda>requestTime.
     bnd (sdk_ReadVms (osc_client s) request) (\<lambda>(response, httpRes, err). case err of
         Some e \<Rightarrow> bnd (recordAWSMetric (osc_metrics s) ''describe_instance'' 0 err) (\<lambda>_.
            case httpRes of
              Some _ \<Rightarrow> raise (Errorf ''error listing instances: %q (Status:%v)'' [e])
            | None \<Rightarrow> raise (Errorf ''error listing instances: %q'' [e]))
       | None \<Rightarrow> (case response of
            None \<Rightarrow> raise (Errorf ''error listing instances: Vm has not been set'' [])
          | Some results \<Rightarrow> bnd (sinceMetric s ''describe_instance'' requestTime None) (\<lambda>_. ok results))))"

definition osc_ReadSecurityGroups :: "'w oscSdkCompute \<Rightarrow> FiltersSecurityGroup \<Rightarrow> ('w, SecurityGroup list) io" where
  "osc_ReadSecurityGroups s request =
     bnd (Now (osc_clock s)) (\<lambda>requestTime.
     bnd (sdk_ReadSecurityGroups (osc_client s) request) (\<lambda>(response, httpRes, err). case err of
         Some e \<Rightarrow> bnd (recordAWSMetric (osc_metrics s) ''describe_security_groups'' 0 err) (\<lambda>_.
            case httpRes of
              Some _ \<Rightarrow> raise (Errorf ''error listing security groups: %q (Status:%v)'' [e])
            | None \<Rightarrow> raise (Errorf ''error listing security groups: %q'' [e]))
       | None \<Rightarrow> (case response of
            None \<Rightarrow> raise (Errorf ''error listing security groups: SecurityGroups not set'' [])
          | Some results \<Rightarrow> bnd (sinceMetric s ''describe_security_groups'' requestTime None) (\<lambda>_. ok results))))"

definition osc_DescribeSubnets :: "'w oscSdkCompute \<Rightarrow> FiltersSubnet \<Rightarrow> ('w, Subnet list) io" where
  "osc_DescribeSubnets s request =
     bnd (sdk_ReadSubnets (osc_client s) request) (\<lambda>(response, httpRes, err). case err of
         Some e \<Rightarrow> raise (Errorf ''error listing subnets: %q'' [e])
       | None \<Rightarrow> (case response of
            None \<Rightarrow> raise (Errorf ''error listing subnets: Got no subnets'' [])
          | Some results \<Rightarrow> ok results))"

definition osc_ReadRouteTables :: "'w oscSdkCompute \<Rightarrow> FiltersRouteTable \<Rightarrow> ('w, RouteTable list) io" where
  "osc_ReadRouteTables s request =
     bnd (Now (osc_clock s)) (\<lambda>requestTime.
     bnd (sdk_ReadRouteTables (osc_client s) request) (\<lambda>(response, httpRes, err). case err of
         Some e \<Rightarrow> bnd (recordAWSMetric (osc_metrics s) ''describe_route_tables'' 0 err) (\<lambda>_.
            raise (Errorf ''error listing route tables: %q'' [e]))
       | None \<Rightarrow> (case response of
            None \<Rightarrow> raise (Errorf ''error listing route tables: RouteTable not set'' [])
          | Some results \<Rightarrow> bnd (sinceMetric s ''describe_route_tables'' requestTime None) (\<lambda>_. ok results))))"

text \<open>The calls that hand response and error on (\<open>return &response, err\<close>): the callers look at the
  response only when the error is nil.\<close>

definition handOn :: "'r option \<times> string option \<times> go_error option \<Rightarrow> ('w, 'r option) io" where
  "handOn = (\<lambda>(response, httpRes, err). case err of Some e \<Rightarrow> raise e | None \<Rightarrow> ok response)"

definition osc_CreateSecurityGroup ::
  "'w oscSdkCompute \<Rightarrow> CreateSecurityGroupRequest \<Rightarrow> ('w, SecurityGroup option) io" where
  "osc_CreateSecurityGroup s request = bnd (sdk_CreateSecurityGroup (osc_client s) request) handOn"

definition osc_DeleteSecurityGroup :: "'w oscSdkCompute \<Rightarrow> string \<Rightarrow> ('w, unit) io" where
  "osc_DeleteSecurityGroup s request =
     bnd (bnd (sdk_DeleteSecurityGroup (osc_client s) request) handOn) (\<lambda>_. ok ())"

definition osc_CreateSecurityGroupRule :: "'w oscSdkCompute \<Rightarrow> SecurityGroupRuleRequest \<Rightarrow> ('w, unit) io" where
  "osc_CreateSecurityGroupRule s request =
     bnd (bnd (sdk_CreateSecurityGroupRule (osc_client s) request) handOn) (\<lambda>_. ok ())"

definition osc_DeleteSecurityGroupRule :: "'w oscSdkCompute \<Rightarrow> SecurityGroupRuleRequest \<Rightarrow> ('w, unit) io" where
  "osc_DeleteSecurityGroupRule s request =
     bnd (bnd (sdk_DeleteSecurityGroupRule (osc_client s) request) handOn) (\<lambda>_. ok ())"

definition osc_CreateTags :: "'w oscSdkCompute \<Rightarrow> CreateTagsRequest \<Rightarrow> ('w, unit) io" where
  "osc_CreateTags s request =
     bnd (Now (osc_clock s)) (\<lambda>requestTime.
     bnd (sdk_CreateTags (osc_client s) request) (\<lambda>(response, httpRes, err).
     bnd (sinceMetric s ''create_tags'' requestTime err) (\<lambda>_.
     bnd (handOn (response, httpRes, err)) (\<lambda>_. ok ()))))"

definition osc_CreateRoute :: "'w oscSdkCompute \<Rightarrow> CreateRouteRequest \<Rightarrow> ('w, unit) io" where
  "osc_CreateRoute s request = bnd (bnd (sdk_CreateRoute (osc_client s) request) handOn) (\<lambda>_. ok ())"

definition osc_DeleteRoute :: "'w oscSdkCompute \<Rightarrow> DeleteRouteRequest \<Rightarrow> ('w, unit) io" where
  "osc_DeleteRoute s request = bnd (bnd (sdk_DeleteRoute (osc_client s) request) handOn) (\<lambda>_. ok ())"

definition osc_UpdateVM :: "'w oscSdkCompute \<Rightarrow> UpdateVmRequest \<Rightarrow> ('w, unit) io" where
  "osc_UpdateVM s request = bnd (bnd (sdk_UpdateVm (osc_client s) request) handOn) (\<lambda>_. ok ())"

text \<open>The value of the interface type.\<close>

definition asCompute :: "'w oscSdkCompute \<Rightarrow> 'w Compute" where
  "asCompute s = \<lparr>ReadVms = osc_ReadVms s, ReadSecurityGroups = osc_ReadSecurityGroups s,
     CreateSecurityGroup = osc_CreateSecurityGroup s, DeleteSecurityGroup = osc_DeleteSecurityGroup s,
     CreateSecurityGroupRule = osc_CreateSecurityGroupRule s,
     DeleteSecurityGroupRule = osc_DeleteSecurityGroupRule s, DescribeSubnets = osc_DescribeSubnets s,
     CreateTags = osc_CreateTags s, ReadRouteTables = osc_ReadRouteTables s,
     api_CreateRoute = osc_CreateRoute s, api_DeleteRoute = osc_DeleteRoute s, UpdateVM = osc_UpdateVM s\<rparr>"

end
