(* ===== verification/Instances_V2.thy ===== *)
theory Instances_V2
  imports Vm_Directory Api_Sdk
begin

text \<open>
  The v2 instance interface (\<open>instances_v2.go\<close>), which the node controllers of the framework use: whether
  a node still exists, whether its instance is shut down, and its metadata.
\<close>

section \<open>Provider ids\<close>

definition getInstanceProviderIDV2 :: "Vm \<Rightarrow> string res" where
  "getInstanceProviderIDV2 instance =
     (if GetSubregionName instance = [] then Err (Errorf ''instance availability zone was not set'' [])
      else if strval (vm_VmId instance) = [] then Err (Errorf ''instance ID was not set'' [])
      else Ok (''aws:///'' @ GetSubregionName instance @ ''/'' @ strval (vm_VmId instance)))"

definition parseInstanceIDFromProviderIDV2 :: "string \<Rightarrow> string res" where
  "parseInstanceIDFromProviderIDV2 providerID =
     (let metadata = Split (CHR ''/'') (TrimPrefix providerID ''aws://'') in
      Ok (if length metadata = 1 then metadata ! 0
          else if length metadata = 2 then metadata ! 1
          else if length metadata = 3 then metadata ! 2
          else []))"

section \<open>The handlers\<close>

text \<open>The request: by id when the node has a provider id, and always restricted to the cluster tag.\<close>

definition getInstanceRequest :: "'w instancesV2 \<Rightarrow> Node \<Rightarrow> FiltersVm res" where
  "getInstanceRequest i node =
     res_map (\<lambda>filters. filters\<lparr>fv_TagKeys := Some [clusterTagKey (v2_tags i)]\<rparr>)
       (if node_ProviderID node = [] then Ok noVmFilter
        else res_map (\<lambda>instanceID. noVmFilter\<lparr>fv_VmIds := Some [instanceID]\<rparr>)
               (parseInstanceIDFromProviderIDV2 (node_ProviderID node)))"

text \<open>The instances of the answer that match: by private DNS name, failing that once per node name tag.\<close>

definition matchByName :: "string \<Rightarrow> Vm list \<Rightarrow> Vm list" where
  "matchByName name vms =
     (let byDns = filter (\<lambda>instance. strval (vm_PrivateDnsName instance) = name) vms in
      if length byDns = 0
      then concat (map (\<lambda>instance. case vm_Tags instance of
              None \<Rightarrow> []
            | Some tags \<Rightarrow> map (\<lambda>_. instance)
                (filter (\<lambda>tag. tag_Key tag = TagNameClusterNode \<and> tag_Value tag = name) tags)) vms)
      else byDns)"

definition getInstance :: "'w instancesV2 \<Rightarrow> Node \<Rightarrow> ('w, Vm) io" where
  "getInstance i node =
     bnd (lift (getInstanceRequest i node)) (\<lambda>filters.
     bnd (sdk_ReadVms (v2_client i) (Some filters)) (\<lambda>(response, httpRes, err).
     case err of
       Some e \<Rightarrow> (case httpRes of
           Some _ \<Rightarrow> raise (Errorf ''error describing ec2 instances: %v (Status:%v)'' [e])
         | None \<Rightarrow> raise (Errorf ''error describing ec2 instances: %v'' [e]))
     | None \<Rightarrow> (case response of
         None \<Rightarrow> raise (Errorf ''error describing ec2 instances: %v'' [])
       | Some vms \<Rightarrow>
          (let instances = (if node_ProviderID node = [] then matchByName (node_Name node) vms else vms) in
           if length instances = 0 then raise InstanceNotFound
           else if length instances > 1 then raise (Errorf ''getInstance: multiple instances found'' [])
           else (case vm_State (hd instances) of
                   None \<Rightarrow> panic nilPointer
                 | Some state \<Rightarrow> if state = ''terminated'' then raise InstanceNotFound else ok (hd instances))))))"

definition InstanceExists :: "'w instancesV2 \<Rightarrow> Node \<Rightarrow> ('w, bool) io" where
  "InstanceExists i node =
     attempt (getInstance i node) (\<lambda>_. ok True)
       (\<lambda>e. if e = InstanceNotFound then ok False else raise e)"

definition InstanceShutdown :: "'w instancesV2 \<Rightarrow> Node \<Rightarrow> ('w, bool) io" where
  "InstanceShutdown i node =
     bnd (getInstance i node) (\<lambda>ec2Instance. ok (vm_State ec2Instance = Some ''stopped''))"

record instanceMetadata =
  im_ProviderID :: string
  im_InstanceType :: string
  im_NodeAddresses :: "NodeAddress list"
  im_Zone :: string
  im_Region :: string

definition metadataOf :: "Vm \<Rightarrow> instanceMetadata res" where
  "metadataOf oscInstance =
     res_bind (extractNodeAddresses (Some oscInstance)) (\<lambda>nodeAddresses.
     res_bind (getInstanceProviderIDV2 oscInstance) (\<lambda>providerID.
     res_bind (azToRegion (GetSubregionName oscInstance)) (\<lambda>region.
     Ok \<lparr>im_ProviderID = providerID, im_InstanceType = strval (vm_VmType oscInstance),
         im_NodeAddresses = nodeAddresses, im_Zone = GetSubregionName oscInstance, im_Region = region\<rparr>)))"

definition InstanceMetadata :: "'w instancesV2 \<Rightarrow> Node \<Rightarrow> ('w, instanceMetadata) io" where
  "InstanceMetadata i node = bnd (getInstance i node) (\<lambda>oscInstance. lift (metadataOf oscInstance))"

section \<open>Provider ids: the two parsers agree\<close>

lemma parseV2_forms:
  assumes "CHR ''/'' \<notin> set zone" "CHR ''/'' \<notin> set i" "\<not> HasPrefix i ''aws://''"
  shows "list_all (\<lambda>name. parseInstanceIDFromProviderIDV2 name = Ok i) (idForms zone i)"
proof -
  have trim: "TrimPrefix (''aws:///'' @ s) ''aws://'' = ''/'' @ s" "TrimPrefix (''aws:////'' @ s) ''aws://'' = ''//'' @ s"
    "TrimPrefix i ''aws://'' = i" "TrimPrefix (''/'' @ s) ''aws://'' = ''/'' @ s" for s
    using assms(3) by (simp_all add: TrimPrefix_def HasPrefix_def)
  have "Split (CHR ''/'') (''/'' @ zone @ ''/'' @ i) = [[], zone, i]" "Split (CHR ''/'') (''//'' @ i) = [[], [], i]"
    "Split (CHR ''/'') i = [i]"
    using assms by (simp_all add: Split_append_sep)
  then show ?thesis unfolding idForms_def parseInstanceIDFromProviderIDV2_def Let_def
    by (simp add: trim[simplified])
qed

text \<open>The ids and zones of the cloud: plain text, an id with its prefix.\<close>

definition wfVm :: "Vm \<Rightarrow> bool" where
  "wfVm v \<longleftrightarrow> plainText (GetSubregionName v) \<and> plainText (strval (vm_VmId v)) \<and> HasPrefix (strval (vm_VmId v)) ''i-''"

lemma parseV2_plain:
  assumes "plainText zone" "plainText i" "HasPrefix i ''i-''"
  shows "list_all (\<lambda>name. parseInstanceIDFromProviderIDV2 name = Ok i) (idForms zone i)"
  using assms plain_slash by (intro parseV2_forms) (auto simp: HasPrefix_iff)

lemma providerID_parsed:
  assumes "getInstanceProviderIDV2 v = Ok pid" "wfVm v"
  shows "parseInstanceIDFromProviderIDV2 pid = Ok (strval (vm_VmId v))"
proof -
  have "pid \<in> set (idForms (GetSubregionName v) (strval (vm_VmId v)))"
    using assms(1) by (auto simp: getInstanceProviderIDV2_def idForms_def split: if_splits)
  then show ?thesis
    using parseV2_plain[of "GetSubregionName v" "strval (vm_VmId v)"] assms(2)
    by (auto simp: wfVm_def list_all_iff)
qed

section \<open>A directory of instances\<close>

text \<open>The documented filters of the call: the ids, and the presence of a tag with one of the keys.\<close>

definition hasTagKey :: "string list \<Rightarrow> Vm \<Rightarrow> bool" where
  "hasTagKey ks v \<longleftrightarrow> list_ex (\<lambda>t. tag_Key t \<in> set ks) (listval (vm_Tags v))"

definition vmMatches :: "FiltersVm option \<Rightarrow> Vm \<Rightarrow> bool" where
  "vmMatches filters v = (case filters of
       None \<Rightarrow> True
     | Some f \<Rightarrow> (case fv_VmIds f of None \<Rightarrow> True | Some ids \<Rightarrow> strval (vm_VmId v) \<in> set ids) \<and>
                 (case fv_TagKeys f of None \<Rightarrow> True | Some ks \<Rightarrow> hasTagKey ks v))"

text \<open>The client lists the matching instances of a fixed directory.\<close>

definition servesVms :: "'w APIClient \<Rightarrow> Vm list \<Rightarrow> bool" where
  "servesVms client vms \<longleftrightarrow>
     (\<forall>f w. \<exists>h w'. sdk_ReadVms client f w = (Ok (Some (filter (vmMatches f) vms), h, None), w'))"

text \<open>What \<open>getInstance\<close> makes of the instances that match a node.\<close>

definition pickInstance :: "Vm list \<Rightarrow> Vm res" where
  "pickInstance vms =
     (if length vms = 0 then Err InstanceNotFound
      else if length vms > 1 then Err (Errorf ''getInstance: multiple instances found'' [])
      else (case vm_State (hd vms) of
              None \<Rightarrow> Panic nilPointer
            | Some state \<Rightarrow> if state = ''terminated'' then Err InstanceNotFound else Ok (hd vms)))"

definition inCluster :: "'w instancesV2 \<Rightarrow> Vm \<Rightarrow> bool" where
  "inCluster i v \<longleftrightarrow> hasTagKey [clusterTagKey (v2_tags i)] v"

lemma getInstance_directory:
  assumes "servesVms (v2_client i) vms" "getInstanceRequest i node = Ok filters"
  shows "fst (getInstance i node w) = pickInstance
     (if node_ProviderID node = [] then matchByName (node_Name node) (filter (vmMatches (Some filters)) vms)
      else filter (vmMatches (Some filters)) vms)"
proof -
  obtain h w' where r: "sdk_ReadVms (v2_client i) (Some filters) w =
      (Ok (Some (filter (vmMatches (Some filters)) vms), h, None), w')"
    using assms(1) unfolding servesVms_def by blast
  show ?thesis
    by (simp add: getInstance_def assms(2) r Let_def pickInstance_def split: option.split)
qed

lemma getInstance_byName:
  assumes "servesVms (v2_client i) vms" "node_ProviderID node = []"
  shows "fst (getInstance i node w) = pickInstance (matchByName (node_Name node) (filter (inCluster i) vms))"
proof -
  have "getInstanceRequest i node = Ok (noVmFilter\<lparr>fv_TagKeys := Some [clusterTagKey (v2_tags i)]\<rparr>)"
    by (simp add: getInstanceRequest_def assms(2))
  from getInstance_directory[OF assms(1) this] show ?thesis
    by (simp add: assms(2) vmMatches_def[abs_def] noVmFilter_def inCluster_def[abs_def])
qed

lemma getInstance_byID:
  assumes "servesVms (v2_client i) vms" "node_ProviderID node \<noteq> []"
    and "parseInstanceIDFromProviderIDV2 (node_ProviderID node) = Ok k"
  shows "fst (getInstance i node w) = pickInstance (filter (\<lambda>v. strval (vm_VmId v) = k \<and> inCluster i v) vms)"
proof -
  have "getInstanceRequest i node =
     Ok (noVmFilter\<lparr>fv_VmIds := Some [k], fv_TagKeys := Some [clusterTagKey (v2_tags i)]\<rparr>)"
    by (simp add: getInstanceRequest_def assms(2,3))
  from getInstance_directory[OF assms(1) this] show ?thesis
    by (simp add: assms(2) vmMatches_def[abs_def] noVmFilter_def inCluster_def)
qed

section \<open>A node keeps its metadata once its provider id is stored\<close>

lemma pickInstance_Ok:
  "pickInstance vms = Ok v \<longleftrightarrow> vms = [v] \<and> (\<exists>s. vm_State v = Some s \<and> s \<noteq> ''terminated'')"
  by (cases vms; cases "tl vms") (auto simp: pickInstance_def split: option.splits)

lemma matchByName_subset: "set (matchByName name vms) \<subseteq> set vms"
  by (auto simp: matchByName_def Let_def split: option.splits)

text \<open>
  C12. The metadata of a node is stable: when \<open>InstanceMetadata\<close> finds the instance of a node that has no
  provider id yet, the node that carries the provider id it reported is resolved to the same instance,
  with the same metadata, by the lookup by id.
\<close>

theorem InstanceMetadata_stable:
  assumes "servesVms (v2_client i) vms" "distinct (map (\<lambda>v. strval (vm_VmId v)) vms)" "list_all wfVm vms"
    and "node_ProviderID node = []" "fst (InstanceMetadata i node w) = Ok md"
  shows "fst (InstanceMetadata i (node\<lparr>node_ProviderID := im_ProviderID md\<rparr>) w') = Ok md"
proof -
  let ?node = "node\<lparr>node_ProviderID := im_ProviderID md\<rparr>"
  obtain v where v: "fst (getInstance i node w) = Ok v" and md: "metadataOf v = Ok md"
    using assms(5) by (cases "getInstance i node w"; cases "fst (getInstance i node w)")
      (auto simp: InstanceMetadata_def bnd_def attempt_def)
  have pick: "matchByName (node_Name node) (filter (inCluster i) vms) = [v]" "\<exists>s. vm_State v = Some s \<and> s \<noteq> ''terminated''"
    using v unfolding getInstance_byName[OF assms(1,4)] pickInstance_Ok by auto
  then have "v \<in> set (filter (inCluster i) vms)"
    using matchByName_subset[of "node_Name node" "filter (inCluster i) vms"] by simp
  then have mem: "v \<in> set vms" "inCluster i v" by simp_all
  have pid: "getInstanceProviderIDV2 v = Ok (im_ProviderID md)"
    using md by (auto simp: metadataOf_def)
  then have ne: "im_ProviderID md \<noteq> []"
    by (auto simp: getInstanceProviderIDV2_def split: if_splits)
  have "wfVm v" using assms(3) mem(1) by (simp add: list_all_iff)
  from providerID_parsed[OF pid this]
  have "fst (getInstance i ?node w') = pickInstance (filter (\<lambda>u. strval (vm_VmId u) = strval (vm_VmId v) \<and> inCluster i u) vms)"
    using ne by (intro getInstance_byID[OF assms(1)]) simp_all
  also have "\<dots> = Ok v"
    using pick(2) filter_unique[OF assms(2) mem(1), of "inCluster i", OF mem(2)] by (simp add: pickInstance_Ok)
  finally have "fst (getInstance i ?node w') = Ok v" .
  then show ?thesis
    using md by (cases "getInstance i ?node w'") (simp add: InstanceMetadata_def)
qed

definition directoryClient :: "Vm list \<Rightarrow> 'w APIClient" where
  "directoryClient vms = \<lparr>sdk_ReadVms = (\<lambda>f. ok (Some (filter (vmMatches f) vms), None, None)),
     sdk_ReadSecurityGroups = (\<lambda>_. ok (None, None, None)), sdk_ReadSubnets = (\<lambda>_. ok (None, None, None)),
     sdk_ReadRouteTables = (\<lambda>_. ok (None, None, None)), sdk_CreateSecurityGroup = (\<lambda>_. ok (None, None, None)),
     sdk_DeleteSecurityGroup = (\<lambda>_. ok (None, None, None)), sdk_CreateSecurityGroupRule = (\<lambda>_. ok (None, None, None)),
     sdk_DeleteSecurityGroupRule = (\<lambda>_. ok (None, None, None)), sdk_CreateTags = (\<lambda>_. ok (None, None, None)),
     sdk_CreateRoute = (\<lambda>_. ok (None, None, None)), sdk_DeleteRoute = (\<lambda>_. ok (None, None, None)),
     sdk_UpdateVm = (\<lambda>_. ok (None, None, None))\<rparr>"

lemma servesVms_directory: "servesVms (directoryClient vms) vms"
  by (simp add: servesVms_def directoryClient_def)

definition exTagging :: resourceTagging where
  "exTagging = \<lparr>ClusterID = ''c1'', usesLegacyTags = False\<rparr>"

definition exNodeVm :: "string \<Rightarrow> string \<Rightarrow> Vm" where
  "exNodeVm i name = (exVm i [])\<lparr>vm_Placement := Some \<lparr>pl_SubregionName = Some ''eu-west-2a''\<rparr>,
     vm_VmType := Some ''tinav5'',
     vm_Tags := Some [\<lparr>tag_Key = clusterTagKey exTagging, tag_Value = ''owned''\<rparr>,
       \<lparr>tag_Key = TagNameClusterNode, tag_Value = name\<rparr>]\<rparr>"

definition exV2 :: "'w instancesV2" where
  "exV2 = \<lparr>v2_availabilityZone = ''eu-west-2a'', v2_client = directoryClient [exNodeVm ''i-1'' ''n1'', exNodeVm ''i-2'' ''n2''],
     v2_region = ''eu-west-2'', v2_tags = exTagging\<rparr>"

theorem InstanceMetadata_stable_witness:
  "\<exists>md. fst (InstanceMetadata exV2 \<lparr>node_Name = ''n2'', node_ProviderID = []\<rparr> ()) = Ok md \<and>
     fst (InstanceMetadata exV2 \<lparr>node_Name = ''n2'', node_ProviderID = im_ProviderID md\<rparr> ()) = Ok md"
proof -
  let ?n = "\<lparr>node_Name = ''n2'', node_ProviderID = []\<rparr>"
  let ?vms = "[exNodeVm ''i-1'' ''n1'', exNodeVm ''i-2'' ''n2'']"
  have "isOk (fst (InstanceMetadata exV2 ?n ()))" by code_simp
  then obtain md where md: "fst (InstanceMetadata exV2 ?n ()) = Ok md"
    by (auto simp: isOk_def split: res.splits)
  have s: "servesVms (v2_client (exV2 :: unit instancesV2)) ?vms"
    by (simp add: exV2_def servesVms_directory)
  have d: "distinct (map (\<lambda>v. strval (vm_VmId v)) ?vms)" by code_simp
  have wf: "list_all wfVm ?vms" by code_simp
  show ?thesis using md InstanceMetadata_stable[OF s d wf _ md, of "()"] by auto
qed

section \<open>Both instance interfaces agree on existence\<close>

text \<open>Clock and metrics work, whatever the world.\<close>

definition quietSdk :: "'w oscSdkCompute \<Rightarrow> bool" where
  "quietSdk s \<longleftrightarrow> (\<forall>w. \<exists>t w'. Now (osc_clock s) w = (Ok t, w')) \<and>
     (\<forall>n d w. \<exists>w'. met_Observe (osc_metrics s) awsAPIMetric [(''request'', n)] d w = (Ok (), w'))"

lemma sinceMetric_quiet: "quietSdk s \<Longrightarrow> \<exists>w'. sinceMetric s name t None w = (Ok (), w')"
  unfolding quietSdk_def sinceMetric_def recordAWSMetric_def by (fastforce simp: bnd_eq_Ok)

lemma osc_ReadVms_directory:
  assumes "servesVms (osc_client s) vms" "quietSdk s"
  shows "fst (osc_ReadVms s f w) = Ok (filter (vmMatches f) vms)"
proof -
  obtain t w1 where n: "Now (osc_clock s) w = (Ok t, w1)"
    using assms(2) unfolding quietSdk_def by blast
  obtain h w2 where r: "sdk_ReadVms (osc_client s) f w1 = (Ok (Some (filter (vmMatches f) vms), h, None), w2)"
    using assms(1) unfolding servesVms_def by blast
  obtain w3 where m: "sinceMetric s ''describe_instance'' t None w2 = (Ok (), w3)"
    using sinceMetric_quiet[OF assms(2)] by blast
  show ?thesis by (simp add: osc_ReadVms_def n r m)
qed

lemma filter_id_cases:
  assumes "distinct (map f xs)"
  shows "filter (\<lambda>x. f x = k) xs = [] \<or> (\<exists>x\<in>set xs. f x = k \<and> filter (\<lambda>x. f x = k) xs = [x])"
proof (cases "\<exists>x\<in>set xs. f x = k")
  case True
  then obtain x where "x \<in> set xs" "f x = k" by blast
  then show ?thesis using filter_unique[OF assms, of x "\<lambda>_. True"] by auto
qed (auto simp: filter_empty_conv)

lemma InstanceExists_pick:
  "fst (InstanceExists i node w) = (case fst (getInstance i node w) of
      Ok _ \<Rightarrow> Ok True | Err e \<Rightarrow> (if e = InstanceNotFound then Ok False else Err e) | Panic p \<Rightarrow> Panic p)"
  by (simp add: InstanceExists_def attempt_def split: prod.split res.split)

lemma InstanceExistsByProviderID_directory:
  assumes "servesVms (osc_client s) vms" "quietSdk s" "c_compute c = asCompute s" "MapToAWSInstanceID pid = Ok k"
    and "filter (\<lambda>v. strval (vm_VmId v) = k) vms = found" "length found \<le> 1"
  shows "fst (InstanceExistsByProviderID c pid w) =
     (case found of [] \<Rightarrow> Ok False | v # _ \<Rightarrow> (case vm_State v of
        None \<Rightarrow> Panic nilPointer | Some state \<Rightarrow> Ok (state \<noteq> ''terminated'')))"
proof -
  have "filter (vmMatches (vmIdFilter [k])) vms = found"
    using assms(5) by (simp add: vmMatches_def[abs_def] vmIdFilter_def noVmFilter_def)
  then obtain w' where r: "osc_ReadVms s (vmIdFilter [k]) w = (Ok found, w')"
    using osc_ReadVms_directory[OF assms(1,2), of "vmIdFilter [k]" w] by (metis prod.collapse)
  show ?thesis
    using assms(6) by (cases found) (auto simp: InstanceExistsByProviderID_def assms(3,4) asCompute_def r split: option.split)
qed

text \<open>
  C11. On the provider ids the provider writes, the v2 interface and the v1 interface give the same answer to
  whether an instance exists, with one exception: an instance that exists but does not carry the tag of
  the cluster is gone for the v2 interface, on whose answer the framework deletes the node.
\<close>

theorem InstanceExists_v1_v2:
  assumes "servesVms (v2_client i) vms" "distinct (map (\<lambda>v. strval (vm_VmId v)) vms)"
    and "osc_client s = v2_client i" "quietSdk s" "c_compute c = asCompute s"
    and "plainText zone" "zone \<noteq> []" "plainText k" "HasPrefix k ''i-''"
    and "node_ProviderID node \<in> set (idForms zone k)"
  shows "fst (InstanceExists i node w) =
     (if list_ex (\<lambda>v. strval (vm_VmId v) = k \<and> \<not> inCluster i v) vms then Ok False
      else fst (InstanceExistsByProviderID c (node_ProviderID node) w'))"
proof -
  let ?pid = "node_ProviderID node" and ?found = "filter (\<lambda>v. strval (vm_VmId v) = k) vms"
  have parse: "parseInstanceIDFromProviderIDV2 ?pid = Ok k" "MapToAWSInstanceID ?pid = Ok k"
    using parseV2_plain[OF assms(6,8,9)] MapTo_forms[OF assms(6-9)] assms(10) by (simp_all add: list_all_iff)
  have ne: "?pid \<noteq> []" using assms(9,10) by (auto simp: idForms_def HasPrefix_def)
  have split: "filter (\<lambda>v. strval (vm_VmId v) = k \<and> inCluster i v) vms = filter (inCluster i) ?found"
    by (simp add: conj_commute)
  note v2 = InstanceExists_pick[of i node w, unfolded getInstance_byID[OF assms(1) ne parse(1)] split]
  from filter_id_cases[OF assms(2), of k] show ?thesis
  proof (elim disjE bexE conjE)
    assume none: "?found = []"
    then have "\<not> list_ex (\<lambda>v. strval (vm_VmId v) = k \<and> \<not> inCluster i v) vms"
      by (auto simp: list_ex_iff filter_empty_conv)
    then show ?thesis
      using InstanceExistsByProviderID_directory[OF _ assms(4,5) parse(2) none] assms(1,3)
      by (simp add: v2 none pickInstance_def)
  next
    fix v assume v: "v \<in> set vms" "strval (vm_VmId v) = k" "?found = [v]"
    then have ex: "list_ex (\<lambda>v. strval (vm_VmId v) = k \<and> \<not> inCluster i v) vms \<longleftrightarrow> \<not> inCluster i v"
    proof -
      have "u = v" if "u \<in> set vms" "strval (vm_VmId u) = k" for u
      proof -
        have "u \<in> set ?found" using that by simp
        then show ?thesis unfolding v(3) by simp
      qed
      then show ?thesis unfolding list_ex_iff using v(1,2) by blast
    qed
    show ?thesis
      using InstanceExistsByProviderID_directory[OF _ assms(4,5) parse(2) v(3)] assms(1,3)
      by (cases "vm_State v") (auto simp: v2 v(3) ex pickInstance_def)
  qed
qed

definition exSdk :: "Vm list \<Rightarrow> 'w oscSdkCompute" where
  "exSdk vms = \<lparr>osc_client = directoryClient vms, osc_clock = \<lparr>Now = ok 0, Sleep = (\<lambda>_. ok ())\<rparr>,
     osc_metrics = \<lparr>met_Observe = (\<lambda>_ _ _. ok ()), met_Inc = (\<lambda>_ _. ok ()), met_MustRegister = (\<lambda>_. ok ())\<rparr>\<rparr>"

theorem InstanceExists_v1_v2_witness:
  "fst (InstanceExists exV2 \<lparr>node_Name = ''n2'', node_ProviderID = ''aws:///eu-west-2a/i-2''\<rparr> ()) =
   fst (InstanceExistsByProviderID
     (exCloud (asCompute (exSdk [exNodeVm ''i-1'' ''n1'', exNodeVm ''i-2'' ''n2'']))) ''aws:///eu-west-2a/i-2'' ())"
proof -
  let ?vms = "[exNodeVm ''i-1'' ''n1'', exNodeVm ''i-2'' ''n2'']"
  let ?node = "\<lparr>node_Name = ''n2'', node_ProviderID = ''aws:///eu-west-2a/i-2''\<rparr>"
  have plain: "plainText ''eu-west-2a''" "plainText ''i-2''" "HasPrefix ''i-2'' ''i-''" by code_simp+
  have noex: "\<not> list_ex (\<lambda>v. strval (vm_VmId v) = ''i-2'' \<and> \<not> inCluster (exV2 :: unit instancesV2) v) ?vms" by code_simp
  have "fst (InstanceExists exV2 ?node ()) =
     (if list_ex (\<lambda>v. strval (vm_VmId v) = ''i-2'' \<and> \<not> inCluster (exV2 :: unit instancesV2) v) ?vms then Ok False
      else fst (InstanceExistsByProviderID (exCloud (asCompute (exSdk ?vms))) (node_ProviderID ?node) ()))"
  proof (rule InstanceExists_v1_v2)
    show "servesVms (v2_client exV2) ?vms" by (simp add: exV2_def servesVms_directory)
    show "distinct (map (\<lambda>v. strval (vm_VmId v)) ?vms)" by code_simp
    show "osc_client (exSdk ?vms) = v2_client exV2" by (simp add: exSdk_def exV2_def)
    show "quietSdk (exSdk ?vms)" by (simp add: quietSdk_def exSdk_def)
    show "c_compute (exCloud (asCompute (exSdk ?vms))) = asCompute (exSdk ?vms)" by (simp add: exCloud_def)
    show "node_ProviderID ?node \<in> set (idForms ''eu-west-2a'' ''i-2'')" by (simp add: idForms_def)
  qed (use plain in simp_all)
  then show ?thesis unfolding if_not_P[OF noex] by simp
qed

section \<open>The handlers that take a provider id\<close>

lemma sdk_vm_directory:
  assumes "servesVms (osc_client s) vms" "quietSdk s"
  shows "vm_directory (asCompute s) (\<lambda>_. vms) (\<lambda>_. distinct (map (\<lambda>v. strval (vm_VmId v)) vms))"
proof
  fix w i
  show "fst (ReadVms (asCompute s) (vmIdFilter [i]) w) = Ok (filter (\<lambda>v. strval (vm_VmId v) = i) vms)"
    using osc_ReadVms_directory[OF assms, of "vmIdFilter [i]" w]
    by (simp add: asCompute_def vmMatches_def[abs_def] vmIdFilter_def noVmFilter_def)
qed

lemma exSdk_serves: "servesVms (osc_client (exSdk vms)) vms" "quietSdk (exSdk vms)"
  by (simp_all add: exSdk_def servesVms_directory quietSdk_def)

interpretation sdkdir: vm_directory "asCompute (exSdk vms)" "\<lambda>_. vms" "\<lambda>_. distinct (map (\<lambda>v. strval (vm_VmId v)) vms)" for vms
  by (rule sdk_vm_directory[OF exSdk_serves])

text \<open>
  C17. On the SDK client, the five handlers that take a provider id agree on the instance: for an instance that the API lists they all
  answer from its description, for one that is gone the addresses, the type and the zone are errors, and the instance
  neither exists nor is shut down.
\<close>

theorem provider_id_handlers:
  assumes "servesVms (osc_client s) vms" "quietSdk s" "distinct (map (\<lambda>v. strval (vm_VmId v)) vms)"
    "c_compute c = asCompute s" "MapToAWSInstanceID pid = Ok i" "i \<noteq> []"
  shows "case find (\<lambda>v. strval (vm_VmId v) = i) vms of
      Some v \<Rightarrow> fst (NodeAddressesByProviderID c pid w) = extractNodeAddresses (Some v) \<and>
        fst (InstanceTypeByProviderID c pid w) = Ok (strval (vm_VmType v)) \<and>
        fst (GetZoneByProviderID c pid w) = Ok \<lparr>FailureDomain = GetSubregionName v, ZoneRegion = c_region c\<rparr> \<and>
        fst (InstanceExistsByProviderID c pid w) =
          (case vm_State v of None \<Rightarrow> Panic nilPointer | Some state \<Rightarrow> Ok (state \<noteq> ''terminated'')) \<and>
        fst (InstanceShutdownByProviderID c pid w) = Ok (vm_State v = Some ''stopped'')
    | None \<Rightarrow> (\<exists>e. fst (NodeAddressesByProviderID c pid w) = Err e) \<and>
        (\<exists>e. fst (InstanceTypeByProviderID c pid w) = Err e) \<and> fst (GetZoneByProviderID c pid w) = Err InstanceNotFound \<and>
        fst (InstanceExistsByProviderID c pid w) = Ok False \<and> fst (InstanceShutdownByProviderID c pid w) = Ok False"
proof -
  note d = sdk_vm_directory[OF assms(1,2)]
  show ?thesis
  proof (cases "find (\<lambda>v. strval (vm_VmId v) = i) vms")
    case None
    then have "\<forall>v\<in>set vms. strval (vm_VmId v) \<noteq> i" by (simp add: find_None_iff)
    from vm_directory.handlers_missing[OF d assms(3) this assms(4,5), of w] show ?thesis by (simp add: None)
  next
    case (Some v)
    then have v: "v \<in> set vms" "strval (vm_VmId v) = i" by (auto simp: find_Some_iff)
    from vm_directory.handlers_found[OF d assms(3) v assms(6,4,5), of w] show ?thesis by (simp add: Some)
  qed
qed

theorem provider_id_handlers_witness:
  "fst (InstanceTypeByProviderID (exCloud (asCompute (exSdk [exNodeVm ''i-1'' ''n1'', exNodeVm ''i-2'' ''n2'']))) ''aws:///eu-west-2a/i-2'' ()) =
     Ok ''tinav5'' \<and>
   fst (InstanceExistsByProviderID (exCloud (asCompute (exSdk [exNodeVm ''i-1'' ''n1'', exNodeVm ''i-2'' ''n2'']))) ''aws:///eu-west-2a/i-3'' ()) =
     Ok False"
proof -
  let ?vms = "[exNodeVm ''i-1'' ''n1'', exNodeVm ''i-2'' ''n2'']"
  have d: "distinct (map (\<lambda>v. strval (vm_VmId v)) ?vms)" by code_simp
  have m: "MapToAWSInstanceID ''aws:///eu-west-2a/i-2'' = Ok ''i-2''" "MapToAWSInstanceID ''aws:///eu-west-2a/i-3'' = Ok ''i-3''"
    by code_simp+
  have c: "c_compute (exCloud (asCompute (exSdk ?vms))) = asCompute (exSdk ?vms)" by (simp add: exCloud_def)
  have f: "find (\<lambda>v. strval (vm_VmId v) = ''i-2'') ?vms = Some (exNodeVm ''i-2'' ''n2'')" "find (\<lambda>v. strval (vm_VmId v) = ''i-3'') ?vms = None"
    by (simp_all add: exNodeVm_def exVm_def)
  have t: "vm_VmType (exNodeVm ''i-2'' ''n2'') = Some ''tinav5''" by (simp add: exNodeVm_def)
  have ne: "''i-2'' \<noteq> []" "''i-3'' \<noteq> []" by simp_all
  show ?thesis
    using provider_id_handlers[OF exSdk_serves d c m(1) ne(1), of "()", unfolded f(1) option.case]
      provider_id_handlers[OF exSdk_serves d c m(2) ne(2), of "()", unfolded f(2) option.case]
    by (simp only: t ptr_simps)
qed

end
