(* ===== verification/Routes.thy ===== *)
theory Routes
  imports Nodes
begin

text \<open>
  The route handlers of \<open>osc_routes.go\<close>.  The route table is looked up for every request; \<open>clusterName\<close>
  only appears in names and messages.
\<close>

section \<open>The handlers\<close>

record cpRoute =
  r_Name :: string
  r_TargetNode :: string
  r_DestinationCIDR :: string
  r_Blackhole :: bool

definition findRouteTable :: "'w Cloud \<Rightarrow> ('w, RouteTable) io" where
  "findRouteTable c =
     bnd (if RouteTableID (globalCfg c) \<noteq> []
          then ReadRouteTables (c_compute c) (noRtFilter\<lparr>frt_RouteTableIds := Some [RouteTableID (globalCfg c)]\<rparr>)
          else bnd (ReadRouteTables (c_compute c) noRtFilter) (\<lambda>response.
                 lift (filterRes (\<lambda>table. hasClusterTag (c_tagging c) (rtb_Tags table)) response))) (\<lambda>tables.
       if length tables = 0 then raise (Errorf ''unable to find route table for AWS cluster: %s'' [])
       else if length tables \<noteq> 1 then raise (Errorf ''found multiple matching AWS route tables for AWS cluster: %s'' [])
       else ok (hd tables))"

text \<open>The route the framework sees, if any, for a route of the table.\<close>

definition listRoute :: "string \<Rightarrow> (string, Vm) gomap \<Rightarrow> Route \<Rightarrow> cpRoute option" where
  "listRoute clusterName instances r =
     (let destinationCIDR = strval (rt_DestinationIpRange r);
          route = \<lparr>r_Name = clusterName @ ''-'' @ destinationCIDR, r_TargetNode = [],
                   r_DestinationCIDR = destinationCIDR, r_Blackhole = False\<rparr>;
          instanceID = strval (rt_VmId r)
      in
      if destinationCIDR = [] then None
      else if strval (rt_State r) = ''blackhole'' then Some (route\<lparr>r_Blackhole := True\<rparr>)
      else if instanceID \<noteq> [] then
        map_option (\<lambda>instance. route\<lparr>r_TargetNode := mapInstanceToNodeName instance\<rparr>) (map_of instances instanceID)
      else None)"

definition ListRoutes :: "'w Cloud \<Rightarrow> string \<Rightarrow> ('w, cpRoute list) io" where
  "ListRoutes c clusterName =
     bnd (findRouteTable c) (\<lambda>table.
       (let instanceIDs = filter (\<lambda>i. i \<noteq> []) (map (\<lambda>r. strval (rt_VmId r)) (listval (rtb_Routes table))) in
        bnd (getInstancesByIDs c (Some instanceIDs)) (\<lambda>instances.
        ok (List.map_filter (listRoute clusterName instances) (listval (rtb_Routes table))))))"

definition configureInstanceSourceDestCheck :: "'w Cloud \<Rightarrow> string \<Rightarrow> bool \<Rightarrow> ('w, unit) io" where
  "configureInstanceSourceDestCheck c instanceID sourceDestCheck =
     attempt (UpdateVM (c_compute c) \<lparr>uvr_VmId = instanceID, uvr_IsSourceDestChecked = Some sourceDestCheck\<rparr>) ok
       (\<lambda>e. raise (Errorf ''error configuring source-dest-check on instance %s: %q'' [e]))"

text \<open>The last black-holed route of the table to the destination.\<close>

definition blackholeTo :: "string \<Rightarrow> Route list \<Rightarrow> Route option" where
  "blackholeTo cidr routes = foldl (\<lambda>found r.
     if strval (rt_DestinationIpRange r) \<noteq> cidr then found
     else if strval (rt_State r) = ''blackhole'' then Some r else found) None routes"

definition CreateRoute :: "'w Cloud \<Rightarrow> cpRoute \<Rightarrow> ('w, unit) io" where
  "CreateRoute c route =
     bnd (getInstanceByNodeName c (r_TargetNode route)) (\<lambda>instance.
     bnd (configureInstanceSourceDestCheck c (strval (vm_VmId instance)) False) (\<lambda>_.
     bnd (findRouteTable c) (\<lambda>table.
     bnd (case blackholeTo (r_DestinationCIDR route) (listval (rtb_Routes table)) of
            None \<Rightarrow> ok ()
          | Some r \<Rightarrow>
             attempt (api_DeleteRoute (c_compute c) \<lparr>drr_DestinationIpRange = strval (rt_DestinationIpRange r),
                        drr_RouteTableId = strval (rtb_RouteTableId table)\<rparr>) ok
               (\<lambda>e. raise (Errorf ''error deleting blackholed AWS route (%s): %q'' [e]))) (\<lambda>_.
     attempt (api_CreateRoute (c_compute c) \<lparr>crr_DestinationIpRange = r_DestinationCIDR route,
                crr_VmId = vm_VmId instance, crr_RouteTableId = strval (rtb_RouteTableId table)\<rparr>) ok
       (\<lambda>e. raise (Errorf ''error creating AWS route (%s): %q'' [e]))))))"

definition DeleteRoute :: "'w Cloud \<Rightarrow> cpRoute \<Rightarrow> ('w, unit) io" where
  "DeleteRoute c route =
     bnd (findRouteTable c) (\<lambda>table.
     attempt (api_DeleteRoute (c_compute c) \<lparr>drr_DestinationIpRange = r_DestinationCIDR route,
                drr_RouteTableId = strval (rtb_RouteTableId table)\<rparr>) ok
       (\<lambda>e. raise (Errorf ''error deleting AWS route (%s): %q'' [e])))"

section \<open>The service behind the handlers\<close>

text \<open>
  The documented effect of the calls on the route tables of the account, which \<open>tables\<close> reads off the
  world: deletion removes the routes to the destination from the table, creation appends an active route
  to the VM, every other call leaves the tables alone; reading by id or without a filter lists the tables.
\<close>

definition onTable :: "string \<Rightarrow> (Route list \<Rightarrow> Route list) \<Rightarrow> RouteTable \<Rightarrow> RouteTable" where
  "onTable i f t = (if strval (rtb_RouteTableId t) = i then t\<lparr>rtb_Routes := Some (f (listval (rtb_Routes t)))\<rparr> else t)"

definition withoutDest :: "string \<Rightarrow> Route list \<Rightarrow> Route list" where
  "withoutDest cidr = filter (\<lambda>r. strval (rt_DestinationIpRange r) \<noteq> cidr)"

definition activeRoute :: "string \<Rightarrow> string option \<Rightarrow> Route" where
  "activeRoute cidr vm = \<lparr>rt_DestinationIpRange = Some cidr, rt_GatewayId = None, rt_State = Some ''active'', rt_VmId = vm\<rparr>"

definition tableListed :: "FiltersRouteTable \<Rightarrow> RouteTable \<Rightarrow> bool" where
  "tableListed f t = (case frt_RouteTableIds f of None \<Rightarrow> True | Some ids \<Rightarrow> strval (rtb_RouteTableId t) \<in> set ids)"

definition keepsTables :: "('w \<Rightarrow> RouteTable list) \<Rightarrow> ('w, 'a) io \<Rightarrow> bool" where
  "keepsTables tables m \<longleftrightarrow> (\<forall>w. tables (snd (m w)) = tables w)"

definition routeService :: "'w Cloud \<Rightarrow> ('w \<Rightarrow> RouteTable list) \<Rightarrow> Vm list \<Rightarrow> bool" where
  "routeService c tables vms \<longleftrightarrow>
     (\<forall>f w r w'. ReadRouteTables (c_compute c) f w = (Ok r, w') \<longrightarrow> r = filter (tableListed f) (tables w)) \<and>
     (\<forall>f. keepsTables tables (ReadRouteTables (c_compute c) f)) \<and>
     (\<forall>d w w'. api_DeleteRoute (c_compute c) d w = (Ok (), w') \<longrightarrow>
        tables w' = map (onTable (drr_RouteTableId d) (withoutDest (drr_DestinationIpRange d))) (tables w)) \<and>
     (\<forall>q w w'. api_CreateRoute (c_compute c) q w = (Ok (), w') \<longrightarrow>
        tables w' = map (onTable (crr_RouteTableId q)
          (\<lambda>rs. rs @ [activeRoute (crr_DestinationIpRange q) (crr_VmId q)])) (tables w)) \<and>
     (\<forall>u. keepsTables tables (UpdateVM (c_compute c) u)) \<and>
     (\<forall>f. keepsTables tables (ReadVms (c_compute c) f)) \<and>
     (\<forall>n. keepsTables tables (c_nodeLister c n)) \<and>
     (\<forall>s. c_nodeInformerHasSynced c = Some s \<longrightarrow> keepsTables tables s) \<and>
     (\<forall>ids w r w'. ReadVms (c_compute c) (vmIdFilter ids) w = (Ok r, w') \<longrightarrow>
        r = filter (\<lambda>v. strval (vm_VmId v) \<in> set ids) vms) \<and>
     (\<forall>f w r w'. ReadVms (c_compute c) f w = (Ok r, w') \<longrightarrow> set r \<subseteq> set vms)"

lemma keepsTables_keeps: "keepsTables tables m \<longleftrightarrow> (\<forall>ts. keeps (\<lambda>w. tables w = ts) m)"
  by (auto simp: keepsTables_def keeps_def)

lemma keepsTablesD: "keepsTables tables m \<Longrightarrow> m w = (r, w') \<Longrightarrow> tables w' = tables w"
  by (metis keepsTables_def snd_conv)

lemma routeService_list:
  "routeService c tables vms \<Longrightarrow> ReadRouteTables (c_compute c) f w = (Ok r, w') \<Longrightarrow> r = filter (tableListed f) (tables w)"
  unfolding routeService_def by metis

lemma routeService_delete:
  "routeService c tables vms \<Longrightarrow> api_DeleteRoute (c_compute c) d w = (Ok (), w') \<Longrightarrow>
     tables w' = map (onTable (drr_RouteTableId d) (withoutDest (drr_DestinationIpRange d))) (tables w)"
  unfolding routeService_def by blast

lemma routeService_create:
  "routeService c tables vms \<Longrightarrow> api_CreateRoute (c_compute c) q w = (Ok (), w') \<Longrightarrow>
     tables w' = map (onTable (crr_RouteTableId q)
       (\<lambda>rs. rs @ [activeRoute (crr_DestinationIpRange q) (crr_VmId q)])) (tables w)"
  unfolding routeService_def by blast

lemma routeService_vms:
  "routeService c tables vms \<Longrightarrow> ReadVms (c_compute c) (vmIdFilter ids) w = (Ok r, w') \<Longrightarrow>
     r = filter (\<lambda>v. strval (vm_VmId v) \<in> set ids) vms"
  and routeService_vms_subset:
  "routeService c tables vms \<Longrightarrow> ReadVms (c_compute c) f w = (Ok r, w') \<Longrightarrow> set r \<subseteq> set vms"
  unfolding routeService_def by blast+

lemma routeService_keeps:
  assumes "routeService c tables vms"
  shows "keeps (\<lambda>w. tables w = ts) (ReadRouteTables (c_compute c) f)"
    and "keeps (\<lambda>w. tables w = ts) (ReadVms (c_compute c) g)"
    and "keeps (\<lambda>w. tables w = ts) (c_nodeLister c n)"
    and "keeps (\<lambda>w. tables w = ts) (UpdateVM (c_compute c) u)"
    and "c_nodeInformerHasSynced c = Some sync \<Longrightarrow> keeps (\<lambda>w. tables w = ts) sync"
  using assms by (simp_all add: routeService_def keepsTables_keeps)

text \<open>The lookups of a run leave the tables alone.\<close>

lemma keepsTables_lookups:
  assumes "routeService c tables vms"
  shows "keepsTables tables (findRouteTable c)" "keepsTables tables (getInstancesByIDs c ids)"
    "keepsTables tables (getInstanceByNodeName c n)"
    "keepsTables tables (configureInstanceSourceDestCheck c i b)"
proof -
  note read = routeService_keeps[OF assms]
  show "keepsTables tables (findRouteTable c)"
    unfolding keepsTables_keeps findRouteTable_def by (intro allI keeps_rules read)
  have ids: "keeps (\<lambda>w. tables w = ts) (getInstancesByIDs c k)" for ts k
    unfolding getInstancesByIDs_def by (intro keeps_rules read)
  then show "keepsTables tables (getInstancesByIDs c ids)" by (simp add: keepsTables_keeps)
  show "keepsTables tables (configureInstanceSourceDestCheck c i b)"
    unfolding keepsTables_keeps configureInstanceSourceDestCheck_def by (intro allI keeps_rules read)
  have "keeps (\<lambda>w. tables w = ts) (nodeNameToProviderID c m)" for ts m
    unfolding nodeNameToProviderID_def by (intro keeps_rules read) auto
  moreover have "keeps (\<lambda>w. tables w = ts) (findInstanceByNodeName c m)" for ts m
    unfolding findInstanceByNodeName_def describeInstances_def by (intro keeps_rules read)
  moreover have "keeps (\<lambda>w. tables w = ts) (getInstanceByID c m)" for ts m
    unfolding getInstanceByID_def by (intro keeps_rules ids)
  ultimately show "keepsTables tables (getInstanceByNodeName c n)"
    unfolding keepsTables_keeps getInstanceByNodeName_def by (intro allI keeps_rules)
qed

section \<open>Reference: what the routes of a cluster are\<close>

text \<open>The tables the configuration selects, and the routes of a table as the framework sees them.\<close>

definition chosenTables :: "'w Cloud \<Rightarrow> RouteTable list \<Rightarrow> RouteTable list" where
  "chosenTables c ts =
     (if RouteTableID (globalCfg c) \<noteq> [] then filter (\<lambda>t. strval (rtb_RouteTableId t) = RouteTableID (globalCfg c)) ts
      else filter (\<lambda>t. hasClusterTag (c_tagging c) (rtb_Tags t) = Ok True) ts)"

definition vmById :: "Vm list \<Rightarrow> string \<Rightarrow> Vm option" where
  "vmById vms k = find (\<lambda>v. strval (vm_VmId v) = k) vms"

definition routeSeen :: "string \<Rightarrow> Vm list \<Rightarrow> Route \<Rightarrow> cpRoute option" where
  "routeSeen clusterName vms r =
     (let cidr = strval (rt_DestinationIpRange r); k = strval (rt_VmId r) in
      if cidr = [] then None
      else if strval (rt_State r) = ''blackhole'' then
        Some \<lparr>r_Name = clusterName @ ''-'' @ cidr, r_TargetNode = [], r_DestinationCIDR = cidr, r_Blackhole = True\<rparr>
      else if k = [] then None
      else map_option (\<lambda>v. \<lparr>r_Name = clusterName @ ''-'' @ cidr, r_TargetNode = mapInstanceToNodeName v,
             r_DestinationCIDR = cidr, r_Blackhole = False\<rparr>) (vmById vms k))"

definition routesOf :: "string \<Rightarrow> Vm list \<Rightarrow> Route list \<Rightarrow> cpRoute list" where
  "routesOf clusterName vms routes = List.map_filter (routeSeen clusterName vms) routes"

lemma routeSeen_Some:
  "routeSeen clusterName vms r = Some x \<Longrightarrow> r_DestinationCIDR x = strval (rt_DestinationIpRange r) \<and>
     (r_Blackhole x \<longleftrightarrow> strval (rt_State r) = ''blackhole'')"
  by (auto simp: routeSeen_def Let_def split: if_splits)

lemma findRouteTable_chosen:
  assumes "routeService c tables vms" "findRouteTable c w = (Ok t, w')"
  shows "chosenTables c (tables w) = [t] \<and> tables w' = tables w"
proof -
  have "chosenTables c (tables w) = [t]"
  proof (cases "RouteTableID (globalCfg c) = []")
    case False
    then obtain ts w1 where "ReadRouteTables (c_compute c)
        (noRtFilter\<lparr>frt_RouteTableIds := Some [RouteTableID (globalCfg c)]\<rparr>) w = (Ok ts, w1)" and "ts = [t]"
      using assms(2) by (auto simp: findRouteTable_def bnd_eq_Ok sole_run)
    with routeService_list[OF assms(1)] have "[t] = filter
      (tableListed (noRtFilter\<lparr>frt_RouteTableIds := Some [RouteTableID (globalCfg c)]\<rparr>)) (tables w)" by metis
    then show ?thesis using False by (simp add: chosenTables_def tableListed_def[abs_def] noRtFilter_def)
  next
    case True
    then obtain ts w1 ys where r: "ReadRouteTables (c_compute c) noRtFilter w = (Ok ts, w1)"
        and f: "filterRes (\<lambda>table. hasClusterTag (c_tagging c) (rtb_Tags table)) ts = Ok ys" and "ys = [t]"
      using assms(2) by (auto simp: findRouteTable_def bnd_eq_Ok sole_run)
    have "ts = tables w" using routeService_list[OF assms(1) r] by (simp add: tableListed_def[abs_def] noRtFilter_def)
    then show ?thesis using filterRes_Ok[OF f] True \<open>ys = [t]\<close> by (simp add: chosenTables_def)
  qed
  then show ?thesis using keepsTablesD[OF keepsTables_lookups(1)[OF assms(1)] assms(2)] by simp
qed

text \<open>Editing the routes of one table does not change which tables are chosen.\<close>

lemma onTable_fields [simp]:
  "rtb_RouteTableId (onTable i f t) = rtb_RouteTableId t" "rtb_Tags (onTable i f t) = rtb_Tags t"
  by (simp_all add: onTable_def)

lemma chosenTables_onTable: "chosenTables c (map (onTable i f) ts) = map (onTable i f) (chosenTables c ts)"
  by (simp add: chosenTables_def filter_map comp_def)

lemma onTable_same: "onTable i g (onTable i f t) = onTable i (\<lambda>rs. g (f rs)) t"
  by (simp add: onTable_def)

lemma foldl_byID:
  "distinct (map (\<lambda>v. strval (vm_VmId v)) vms) \<Longrightarrow> k \<noteq> [] \<Longrightarrow>
     map_of (foldl (\<lambda>m v. if strval (vm_VmId v) = [] then m else mput (strval (vm_VmId v)) v m) acc vms) k =
     (case vmById vms k of Some v \<Rightarrow> Some v | None \<Rightarrow> map_of acc k)"
proof (induction vms arbitrary: acc)
  case (Cons v vms)
  have "vmById vms k = None" if "strval (vm_VmId v) = k"
  proof -
    have "k \<notin> (\<lambda>v. strval (vm_VmId v)) ` set vms" using Cons.prems(1) that by simp
    then show ?thesis by (auto simp: vmById_def find_None_iff)
  qed
  then show ?case using Cons by (auto simp: vmById_def map_of_mput split: option.split)
qed (simp add: vmById_def)

lemma vmById_filter: "k \<in> set ids \<Longrightarrow> vmById (filter (\<lambda>v. strval (vm_VmId v) \<in> set ids) vms) k = vmById vms k"
  by (induction vms) (auto simp: vmById_def)

lemma getInstancesByIDs_byId:
  assumes "routeService c tables vms" "distinct (map (\<lambda>v. strval (vm_VmId v)) vms)"
    and "getInstancesByIDs c (Some ids) w = (Ok m, w')" "k \<in> set ids" "k \<noteq> []"
  shows "map_of m k = vmById vms k"
proof -
  obtain r where r: "ReadVms (c_compute c) (vmIdFilter ids) w = (Ok r, w')"
    and m: "m = foldl (\<lambda>m i. if strval (vm_VmId i) = [] then m else mput (strval (vm_VmId i)) i m) [] r"
    using assms(3,4) by (auto simp: getInstancesByIDs_def bnd_eq_Ok split: if_splits)
  note rs = routeService_vms[OF assms(1) r]
  have "distinct (map (\<lambda>v. strval (vm_VmId v)) r)" unfolding rs by (rule distinct_map_filter[OF assms(2)])
  from foldl_byID[OF this assms(5), of "[]"] show ?thesis
    unfolding m rs vmById_filter[OF assms(4)] by (simp split: option.splits)
qed

lemma map_filter_cong: "(\<And>x. x \<in> set xs \<Longrightarrow> f x = g x) \<Longrightarrow> List.map_filter f xs = List.map_filter g xs"
  by (simp add: List.map_filter_def cong: filter_cong map_cong)

lemma ListRoutes_routesOf:
  assumes "routeService c tables vms" "distinct (map (\<lambda>v. strval (vm_VmId v)) vms)"
    and "ListRoutes c clusterName w = (Ok rs, w')"
  shows "\<exists>t. chosenTables c (tables w) = [t] \<and> rs = routesOf clusterName vms (listval (rtb_Routes t))"
proof -
  obtain t w1 m where t: "findRouteTable c w = (Ok t, w1)"
    and m: "getInstancesByIDs c (Some (filter (\<lambda>i. i \<noteq> []) (map (\<lambda>r. strval (rt_VmId r)) (listval (rtb_Routes t))))) w1 = (Ok m, w')"
    and rs: "rs = List.map_filter (listRoute clusterName m) (listval (rtb_Routes t))"
    using assms(3) by (auto simp: ListRoutes_def bnd_eq_Ok)
  have "rs = routesOf clusterName vms (listval (rtb_Routes t))"
    unfolding rs routesOf_def
  proof (rule map_filter_cong)
    fix r assume r: "r \<in> set (listval (rtb_Routes t))"
    show "listRoute clusterName m r = routeSeen clusterName vms r"
    proof (cases "strval (rt_VmId r) = []")
      case False
      then have "map_of m (strval (rt_VmId r)) = vmById vms (strval (rt_VmId r))"
        using r by (intro getInstancesByIDs_byId[OF assms(1,2) m]) auto
      then show ?thesis using False by (simp add: listRoute_def routeSeen_def Let_def)
    qed (simp add: listRoute_def routeSeen_def Let_def)
  qed
  then show ?thesis using findRouteTable_chosen[OF assms(1) t] by auto
qed

section \<open>The effect of creating and deleting a route\<close>

lemma foldl_mput_values:
  "\<exists>v. map_of (foldl (\<lambda>m v. if strval (vm_VmId v) = [] then m else mput (strval (vm_VmId v)) v m) acc vms) k = Some v \<Longrightarrow>
   map_of (foldl (\<lambda>m v. if strval (vm_VmId v) = [] then m else mput (strval (vm_VmId v)) v m) acc vms) k = Some u \<Longrightarrow>
   u \<in> set vms \<or> map_of acc k = Some u"
proof (induction vms arbitrary: acc)
  case (Cons v vms)
  show ?case
    using Cons.IH[of "if strval (vm_VmId v) = [] then acc else mput (strval (vm_VmId v)) v acc"] Cons.prems
    by (auto simp: map_of_mput split: if_splits)
qed simp

lemma getInstanceByNodeName_mem:
  assumes "routeService c tables vms" "getInstanceByNodeName c n w = (Ok v, w')"
  shows "v \<in> set vms"
proof -
  have byID: "u \<in> set vms" if run: "getInstanceByID c k w1 = (Ok (Some u), w2)" for k w1 u w2
  proof -
    obtain m where m: "getInstancesByIDs c (Some [k]) w1 = (Ok m, w2)" "map_of m k = Some u"
      using run by (auto simp: getInstanceByID_def bnd_eq_Ok split: if_splits)
    then obtain r where r: "ReadVms (c_compute c) (vmIdFilter [k]) w1 = (Ok r, w2)"
      and m': "m = foldl (\<lambda>m i. if strval (vm_VmId i) = [] then m else mput (strval (vm_VmId i)) i m) [] r"
      by (auto simp: getInstancesByIDs_def bnd_eq_Ok)
    have "u \<in> set r" using foldl_mput_values[of "[]" r k u] m(2) unfolding m' by simp
    then show ?thesis using routeService_vms_subset[OF assms(1) r] by blast
  qed
  have byName: "u \<in> set vms" if run: "findInstanceByNodeName c k w1 = (Ok (Some u), w2)" for k w1 u w2
  proof -
    obtain f r w3 ys where r: "ReadVms (c_compute c) f w1 = (Ok r, w3)"
      and ys: "filterRes (\<lambda>i. hasClusterTag (c_tagging c) (vm_Tags i)) r = Ok ys" and "u = hd ys" "ys \<noteq> []"
      using run by (auto simp: findInstanceByNodeName_def describeInstances_def bnd_eq_Ok Let_def
          split: if_splits option.splits)
    then have "u \<in> set r" using filterRes_Ok[OF ys] hd_in_set[of ys] by auto
    then show ?thesis using routeService_vms_subset[OF assms(1) r] by blast
  qed
  from assms(2) show ?thesis
    unfolding getInstanceByNodeName_def bnd_eq_Ok attempt_eq_Ok
    by (auto split: option.splits intro: byID byName)
qed

text \<open>The edit \<open>CreateRoute\<close> makes to the routes of the chosen table.\<close>

definition replaceRoute :: "string \<Rightarrow> string option \<Rightarrow> Route list \<Rightarrow> Route list" where
  "replaceRoute cidr vm rs = (if blackholeTo cidr rs = None then rs else withoutDest cidr rs) @ [activeRoute cidr vm]"

lemma blackholeTo_Some: "blackholeTo cidr rs = Some r \<Longrightarrow> strval (rt_DestinationIpRange r) = cidr"
proof -
  have "foldl (\<lambda>found r. if strval (rt_DestinationIpRange r) \<noteq> cidr then found
     else if strval (rt_State r) = ''blackhole'' then Some r else found) acc rs = Some r \<Longrightarrow>
     (\<forall>x. acc = Some x \<longrightarrow> strval (rt_DestinationIpRange x) = cidr) \<Longrightarrow> strval (rt_DestinationIpRange r) = cidr" for acc
    by (induction rs arbitrary: acc) (auto split: if_splits)
  from this[of None] show "blackholeTo cidr rs = Some r \<Longrightarrow> ?thesis" by (simp add: blackholeTo_def)
qed

lemma blackholeTo_None:
  "blackholeTo cidr rs = None \<longleftrightarrow> list_all (\<lambda>r. strval (rt_DestinationIpRange r) = cidr \<longrightarrow> strval (rt_State r) \<noteq> ''blackhole'') rs"
proof -
  have "foldl (\<lambda>found r. if strval (rt_DestinationIpRange r) \<noteq> cidr then found
     else if strval (rt_State r) = ''blackhole'' then Some r else found) acc rs = None \<longleftrightarrow>
     acc = None \<and> list_all (\<lambda>r. strval (rt_DestinationIpRange r) = cidr \<longrightarrow> strval (rt_State r) \<noteq> ''blackhole'') rs" for acc
    by (induction rs arbitrary: acc) auto
  then show ?thesis by (simp add: blackholeTo_def)
qed

lemma CreateRoute_tables:
  assumes "routeService c tables vms" "CreateRoute c route w = (Ok (), w')"
  shows "\<exists>t v. chosenTables c (tables w) = [t] \<and> v \<in> set vms \<and>
     (\<exists>w1. getInstanceByNodeName c (r_TargetNode route) w = (Ok v, w1)) \<and>
     chosenTables c (tables w') =
       [onTable (strval (rtb_RouteTableId t)) (replaceRoute (r_DestinationCIDR route) (vm_VmId v)) t]"
proof -
  let ?cidr = "r_DestinationCIDR route"
  obtain v w1 w2 t w3 w4 where v: "getInstanceByNodeName c (r_TargetNode route) w = (Ok v, w1)"
    and u: "configureInstanceSourceDestCheck c (strval (vm_VmId v)) False w1 = (Ok (), w2)"
    and t: "findRouteTable c w2 = (Ok t, w3)"
    and d: "(case blackholeTo ?cidr (listval (rtb_Routes t)) of None \<Rightarrow> ok ()
        | Some r \<Rightarrow> attempt (api_DeleteRoute (c_compute c) \<lparr>drr_DestinationIpRange = strval (rt_DestinationIpRange r),
            drr_RouteTableId = strval (rtb_RouteTableId t)\<rparr>) ok
          (\<lambda>e. raise (Errorf ''error deleting blackholed AWS route (%s): %q'' [e]))) w3 = (Ok (), w4)"
    and k: "api_CreateRoute (c_compute c) \<lparr>crr_DestinationIpRange = ?cidr, crr_VmId = vm_VmId v,
        crr_RouteTableId = strval (rtb_RouteTableId t)\<rparr> w4 = (Ok (), w')"
    using assms(2) by (auto simp: CreateRoute_def bnd_eq_Ok attempt_eq_Ok)
  note kt = keepsTables_lookups[OF assms(1)]
  have w2: "tables w2 = tables w" using keepsTablesD[OF kt(3) v] keepsTablesD[OF kt(4) u] by simp
  have ch: "chosenTables c (tables w) = [t]" "tables w3 = tables w"
    using findRouteTable_chosen[OF assms(1) t] w2 by auto
  let ?i = "strval (rtb_RouteTableId t)"
  have w4: "tables w4 = (if blackholeTo ?cidr (listval (rtb_Routes t)) = None then tables w
      else map (onTable ?i (withoutDest ?cidr)) (tables w))"
  proof (cases "blackholeTo ?cidr (listval (rtb_Routes t))")
    case None
    then show ?thesis using d ch(2) by simp
  next
    case (Some r)
    then have "api_DeleteRoute (c_compute c) \<lparr>drr_DestinationIpRange = ?cidr, drr_RouteTableId = ?i\<rparr> w3 = (Ok (), w4)"
      using d blackholeTo_Some[OF Some] by (auto simp: attempt_eq_Ok)
    from routeService_delete[OF assms(1) this] show ?thesis using Some ch(2) by simp
  qed
  have w': "tables w' = map (onTable ?i (\<lambda>rs. rs @ [activeRoute ?cidr (vm_VmId v)])) (tables w4)"
    using routeService_create[OF assms(1) k] by simp
  have "chosenTables c (tables w') = [onTable ?i (replaceRoute ?cidr (vm_VmId v)) t]"
    unfolding w' w4 by (simp add: chosenTables_onTable ch(1) onTable_def replaceRoute_def)
  then show ?thesis using ch(1) getInstanceByNodeName_mem[OF assms(1) v] v by blast
qed

lemma routesOf_simps [simp]:
  "routesOf name vms [] = []"
  "routesOf name vms (r # rs) = (case routeSeen name vms r of None \<Rightarrow> [] | Some x \<Rightarrow> [x]) @ routesOf name vms rs"
  "routesOf name vms (rs @ rs') = routesOf name vms rs @ routesOf name vms rs'"
  by (simp_all add: routesOf_def List.map_filter_def split: option.split)

lemma routesOf_dest:
  "routesOf name vms (withoutDest cidr rs) = filter (\<lambda>r. r_DestinationCIDR r \<noteq> cidr) (routesOf name vms rs)"
proof (induction rs)
  case (Cons r rs)
  then show ?case
    by (cases "routeSeen name vms r") (auto simp: withoutDest_def dest: routeSeen_Some)
qed (simp add: withoutDest_def)

lemma routesOf_blackhole:
  assumes "list_all (\<lambda>r. strval (rt_DestinationIpRange r) = cidr \<longrightarrow> strval (rt_State r) \<noteq> ''blackhole'') rs"
  shows "list_all (\<lambda>r. r_DestinationCIDR r = cidr \<longrightarrow> \<not> r_Blackhole r) (routesOf name vms rs)"
  using assms
proof (induction rs)
  case (Cons r rs)
  then show ?case using routeSeen_Some[of name vms r] by (cases "routeSeen name vms r") auto
qed simp

lemma vmById_mem:
  "distinct (map (\<lambda>v. strval (vm_VmId v)) vms) \<Longrightarrow> v \<in> set vms \<Longrightarrow> vmById vms (strval (vm_VmId v)) = Some v"
proof (induction vms)
  case (Cons u vms)
  show ?case
  proof (cases "u = v")
    case False
    then have "strval (vm_VmId v) \<in> (\<lambda>v. strval (vm_VmId v)) ` set vms" using Cons.prems(2) by auto
    then have "strval (vm_VmId u) \<noteq> strval (vm_VmId v)" using Cons.prems(1) by auto
    then show ?thesis using Cons False by (simp add: vmById_def)
  qed (simp add: vmById_def)
qed simp

text \<open>
  C9. A route that \<open>CreateRoute\<close> created is listed: the next \<open>ListRoutes\<close> gives the routes there were,
  without the black-holed route to the destination if there was one, and the route to the instance that the
  lookup of the target node finds; no route to the destination is a black hole any more.
\<close>

theorem CreateRoute_listed:
  assumes "routeService c tables vms" "distinct (map (\<lambda>v. strval (vm_VmId v)) vms)" "list_all (\<lambda>v. strval (vm_VmId v) \<noteq> []) vms"
    and "r_DestinationCIDR route \<noteq> []"
    and "CreateRoute c route w = (Ok (), w')" "ListRoutes c clusterName w' = (Ok rs, w'')"
  shows "\<exists>t v. chosenTables c (tables w) = [t] \<and> v \<in> set vms \<and>
     (\<exists>w1. getInstanceByNodeName c (r_TargetNode route) w = (Ok v, w1)) \<and>
     rs = (let old = routesOf clusterName vms (listval (rtb_Routes t)) in
           if blackholeTo (r_DestinationCIDR route) (listval (rtb_Routes t)) = None then old
           else filter (\<lambda>r. r_DestinationCIDR r \<noteq> r_DestinationCIDR route) old) @
          [\<lparr>r_Name = clusterName @ ''-'' @ r_DestinationCIDR route, r_TargetNode = mapInstanceToNodeName v,
            r_DestinationCIDR = r_DestinationCIDR route, r_Blackhole = False\<rparr>] \<and>
     list_all (\<lambda>r. r_DestinationCIDR r = r_DestinationCIDR route \<longrightarrow> \<not> r_Blackhole r) rs"
proof -
  let ?cidr = "r_DestinationCIDR route"
  obtain t v where t: "chosenTables c (tables w) = [t]" "v \<in> set vms"
      "\<exists>w1. getInstanceByNodeName c (r_TargetNode route) w = (Ok v, w1)"
    and t': "chosenTables c (tables w') = [onTable (strval (rtb_RouteTableId t)) (replaceRoute ?cidr (vm_VmId v)) t]"
    using CreateRoute_tables[OF assms(1,5)] by blast
  let ?old = "listval (rtb_Routes t)"
  have vid: "strval (vm_VmId v) \<noteq> []" using assms(3) t(2) by (simp add: list_all_iff)
  have new: "routesOf clusterName vms [activeRoute ?cidr (vm_VmId v)] =
      [\<lparr>r_Name = clusterName @ ''-'' @ ?cidr, r_TargetNode = mapInstanceToNodeName v,
        r_DestinationCIDR = ?cidr, r_Blackhole = False\<rparr>]"
    using vid assms(4) vmById_mem[OF assms(2) t(2)]
    by (simp add: routeSeen_def activeRoute_def Let_def)
  have rs: "rs = routesOf clusterName vms (replaceRoute ?cidr (vm_VmId v) ?old)"
    using ListRoutes_routesOf[OF assms(1,2,6)] t' by (auto simp: onTable_def)
  have "list_all (\<lambda>r. strval (rt_DestinationIpRange r) = ?cidr \<longrightarrow> strval (rt_State r) \<noteq> ''blackhole'')
      (replaceRoute ?cidr (vm_VmId v) ?old)"
    using blackholeTo_None[of ?cidr ?old]
    by (auto simp: replaceRoute_def activeRoute_def withoutDest_def list_all_iff)
  then have "list_all (\<lambda>r. r_DestinationCIDR r = ?cidr \<longrightarrow> \<not> r_Blackhole r) rs"
    unfolding rs by (rule routesOf_blackhole)
  moreover have "rs = (let old = routesOf clusterName vms ?old in
      if blackholeTo ?cidr ?old = None then old else filter (\<lambda>r. r_DestinationCIDR r \<noteq> ?cidr) old) @
      [\<lparr>r_Name = clusterName @ ''-'' @ ?cidr, r_TargetNode = mapInstanceToNodeName v,
        r_DestinationCIDR = ?cidr, r_Blackhole = False\<rparr>]"
    unfolding rs replaceRoute_def routesOf_simps(3) new by (simp add: routesOf_dest Let_def)
  ultimately show ?thesis using t by blast
qed

text \<open>
  C21. After \<open>DeleteRoute\<close> the next \<open>ListRoutes\<close> gives the routes there were, less those to the destination.
\<close>

theorem DeleteRoute_unlisted:
  assumes "routeService c tables vms" "distinct (map (\<lambda>v. strval (vm_VmId v)) vms)"
    and "DeleteRoute c route w = (Ok (), w')" "ListRoutes c clusterName w' = (Ok rs, w'')"
  shows "\<exists>t. chosenTables c (tables w) = [t] \<and>
     rs = filter (\<lambda>r. r_DestinationCIDR r \<noteq> r_DestinationCIDR route) (routesOf clusterName vms (listval (rtb_Routes t)))"
proof -
  let ?cidr = "r_DestinationCIDR route"
  obtain t w1 where t: "findRouteTable c w = (Ok t, w1)"
    and d: "api_DeleteRoute (c_compute c)
      \<lparr>drr_DestinationIpRange = ?cidr, drr_RouteTableId = strval (rtb_RouteTableId t)\<rparr> w1 = (Ok (), w')"
    using assms(3) by (auto simp: DeleteRoute_def bnd_eq_Ok attempt_eq_Ok)
  have ch: "chosenTables c (tables w) = [t]" "tables w1 = tables w" using findRouteTable_chosen[OF assms(1) t] by auto
  have "chosenTables c (tables w') = [onTable (strval (rtb_RouteTableId t)) (withoutDest ?cidr) t]"
    using routeService_delete[OF assms(1) d] ch by (simp add: chosenTables_onTable)
  then have "rs = routesOf clusterName vms (withoutDest ?cidr (listval (rtb_Routes t)))"
    using ListRoutes_routesOf[OF assms(1,2,4)] by (auto simp: onTable_def)
  then show ?thesis using ch(1) by (simp add: routesOf_dest)
qed

definition routeVm :: Vm where
  "routeVm = (exVm ''i-1'' [])\<lparr>vm_PrivateDnsName := Some ''n1'', vm_Tags := Some [\<lparr>tag_Key = ''OscK8sClusterID/c1'', tag_Value = ''owned''\<rparr>]\<rparr>"

definition memRoutes :: "RouteTable list Compute" where
  "memRoutes = quietClient\<lparr>
     ReadVms := (\<lambda>f. ok (filter (\<lambda>v. case f of None \<Rightarrow> True | Some g \<Rightarrow> (case fv_VmIds g of None \<Rightarrow> True
        | Some ids \<Rightarrow> strval (vm_VmId v) \<in> set ids)) [routeVm])),
     ReadRouteTables := (\<lambda>f ts. (Ok (filter (tableListed f) ts), ts)),
     api_DeleteRoute := (\<lambda>d ts. (Ok (), map (onTable (drr_RouteTableId d) (withoutDest (drr_DestinationIpRange d))) ts)),
     api_CreateRoute := (\<lambda>q ts. (Ok (), map (onTable (crr_RouteTableId q)
        (\<lambda>rs. rs @ [activeRoute (crr_DestinationIpRange q) (crr_VmId q)])) ts))\<rparr>"

definition routeTable :: RouteTable where
  "routeTable = \<lparr>rtb_RouteTableId = Some ''rtb-1'', rtb_LinkRouteTables = None,
     rtb_Routes = Some [(activeRoute ''10.1.0.0/24'' None)\<lparr>rt_State := Some ''blackhole''\<rparr>, activeRoute ''10.2.0.0/24'' (Some ''i-1'')],
     rtb_Tags = Some [\<lparr>tag_Key = ''OscK8sClusterID/c1'', tag_Value = ''owned''\<rparr>]\<rparr>"

lemma routeService_mem: "routeService (exCloud memRoutes) (\<lambda>w. w) [routeVm]"
  by (auto simp: routeService_def exCloud_def memRoutes_def quietClient_def keepsTables_def vmIdFilter_def noVmFilter_def)

definition exRoute :: cpRoute where
  "exRoute = \<lparr>r_Name = [], r_TargetNode = ''n1'', r_DestinationCIDR = ''10.1.0.0/24'', r_Blackhole = False\<rparr>"

theorem CreateRoute_listed_witness:
  "\<exists>w' rs w''. CreateRoute (exCloud memRoutes) exRoute [routeTable] = (Ok (), w') \<and>
     ListRoutes (exCloud memRoutes) ''k'' w' = (Ok rs, w'') \<and>
     list_all (\<lambda>r. r_DestinationCIDR r = ''10.1.0.0/24'' \<longrightarrow> \<not> r_Blackhole r) rs"
proof -
  have "isOk (fst (CreateRoute (exCloud memRoutes) exRoute [routeTable]))" by code_simp
  then obtain w' where run: "CreateRoute (exCloud memRoutes) exRoute [routeTable] = (Ok (), w')"
    using isOk_run by fastforce
  have "isOk (fst (ListRoutes (exCloud memRoutes) ''k'' (snd (CreateRoute (exCloud memRoutes) exRoute [routeTable]))))"
    by code_simp
  then obtain rs w'' where ls: "ListRoutes (exCloud memRoutes) ''k'' w' = (Ok rs, w'')"
    using isOk_run run by (metis snd_conv)
  have "r_DestinationCIDR exRoute = ''10.1.0.0/24''" by (simp add: exRoute_def)
  then have "list_all (\<lambda>r. r_DestinationCIDR r = ''10.1.0.0/24'' \<longrightarrow> \<not> r_Blackhole r) rs"
    using CreateRoute_listed[OF routeService_mem _ _ _ run ls] by (auto simp: routeVm_def exVm_def)
  then show ?thesis using run ls by blast
qed

theorem DeleteRoute_unlisted_witness:
  "\<exists>w' rs w''. DeleteRoute (exCloud memRoutes) exRoute [routeTable] = (Ok (), w') \<and>
     ListRoutes (exCloud memRoutes) ''k'' w' = (Ok rs, w'') \<and>
     list_all (\<lambda>r. r_DestinationCIDR r \<noteq> ''10.1.0.0/24'') rs"
proof -
  have "isOk (fst (DeleteRoute (exCloud memRoutes) exRoute [routeTable]))" by code_simp
  then obtain w' where run: "DeleteRoute (exCloud memRoutes) exRoute [routeTable] = (Ok (), w')"
    using isOk_run by fastforce
  have "isOk (fst (ListRoutes (exCloud memRoutes) ''k'' (snd (DeleteRoute (exCloud memRoutes) exRoute [routeTable]))))"
    by code_simp
  then obtain rs w'' where ls: "ListRoutes (exCloud memRoutes) ''k'' w' = (Ok rs, w'')"
    using isOk_run run by (metis snd_conv)
  have "r_DestinationCIDR exRoute = ''10.1.0.0/24''" by (simp add: exRoute_def)
  then have "list_all (\<lambda>r. r_DestinationCIDR r \<noteq> ''10.1.0.0/24'') rs"
    using DeleteRoute_unlisted[OF routeService_mem _ run ls] by (auto simp: list_all_iff)
  then show ?thesis using run ls by blast
qed

end
