(* ===== verification/Readers.thy ===== *)
theory Readers
  imports Service_Controller Instances_V2 Routes
begin

text \<open>
  What only reads.  The locale \<open>reading_cloud\<close> is a predicate on worlds that the reading calls of the APIs cannot make
  false; under it, every operation of the provider that is made of such calls keeps the predicate:
  the lookups of instances, groups, subnets and route tables, and all handlers of the interfaces \<open>Instances\<close>,
  \<open>Zones\<close> and \<open>InstancesV2\<close>.
\<close>

named_theorems read_rules \<open>operations that only read\<close>

definition readsKeep :: "('x sys \<Rightarrow> bool) \<Rightarrow> 'x sys Cloud \<Rightarrow> bool" where
  "readsKeep P c \<longleftrightarrow>
     (\<forall>f. keeps P (ReadVms (c_compute c) f)) \<and>
     (\<forall>f. keeps P (ReadSecurityGroups (c_compute c) f)) \<and>
     (\<forall>f. keeps P (DescribeSubnets (c_compute c) f)) \<and>
     (\<forall>f. keeps P (ReadRouteTables (c_compute c) f)) \<and>
     (\<forall>n. keeps P (DescribeLoadBalancers (c_loadBalancer c) n)) \<and>
     (\<forall>n l. keeps P (DescribeLoadBalancerPolicies (c_loadBalancer c) n l)) \<and>
     (\<forall>n. keeps P (DescribeLoadBalancerAttributes (c_loadBalancer c) n)) \<and>
     (\<forall>k. keeps P (GetMetadata (c_metadata c) k)) \<and>
     (\<forall>n. keeps P (c_nodeLister c n)) \<and>
     (\<forall>s. c_nodeInformerHasSynced c = Some s \<longrightarrow> keeps P s) \<and>
     keeps P (Now (c_clock c)) \<and>
     (\<forall>s. keeps P (Sleep (c_clock c) s)) \<and>
     (\<forall>i f. c_instances c = Some i \<longrightarrow> keeps P (sdk_ReadVms (v2_client i) f)) \<and>
     (\<forall>w s. P w \<longrightarrow> P (w\<lparr>sys_snap := s\<rparr>))"

locale reading_cloud =
  fixes c :: "'x sys Cloud"
    and P :: "'x sys \<Rightarrow> bool"
  assumes reading: "readsKeep P c"
begin

lemma api_reads [read_rules]:
  "keeps P (ReadVms (c_compute c) f1)"
  "keeps P (ReadSecurityGroups (c_compute c) f2)"
  "keeps P (DescribeSubnets (c_compute c) f3)"
  "keeps P (ReadRouteTables (c_compute c) f4)"
  "keeps P (DescribeLoadBalancers (c_loadBalancer c) n)"
  "keeps P (DescribeLoadBalancerPolicies (c_loadBalancer c) n1 l)"
  "keeps P (DescribeLoadBalancerAttributes (c_loadBalancer c) n)"
  "keeps P (GetMetadata (c_metadata c) k)"
  "keeps P (c_nodeLister c n)"
  "keeps P (Now (c_clock c))"
  "keeps P (Sleep (c_clock c) s)"
  "c_instances c = Some i \<Longrightarrow> keeps P (sdk_ReadVms (v2_client i) f1)"
  using reading by (simp_all add: readsKeep_def)

lemma informer_reads: "c_nodeInformerHasSynced c = Some synced \<Longrightarrow> keeps P synced"
  using reading by (simp add: readsKeep_def)

lemma cache_writes [read_rules]: "keeps P (storeSnapshot snap)" "keeps P getSnapshot"
  using reading by (auto simp: readsKeep_def keeps_def storeSnapshot_def getSnapshot_def split: option.splits)

lemma selfs [read_rules]: "keeps P (selfInstance c)" "keeps P (nilDeref p)"
  unfolding selfInstance_def nilDeref_def by (intro keeps_rules)+

lemma queries [read_rules]:
  "keeps P (describeInstance (c_compute c) i)"
  "keeps P (describeInstances c f)"
  "keeps P (getInstancesByIDs c ids)"
  unfolding describeInstance_def describeInstances_def getInstancesByIDs_def by (intro keeps_rules read_rules)+

lemma lookups [read_rules]:
  "keeps P (getInstanceByID c i)"
  "keeps P (findInstanceByNodeName c n)"
  "keeps P (nodeNameToProviderID c n)"
  unfolding getInstanceByID_def findInstanceByNodeName_def nodeNameToProviderID_def Let_def
  by (intro keeps_rules read_rules informer_reads; simp)+

lemma by_name [read_rules]: "keeps P (getInstanceByNodeName c n)"
  unfolding getInstanceByNodeName_def by (intro keeps_rules read_rules)

text \<open>The node handlers, the zones and the v2 interface only read.\<close>

lemma keeps_addMac [read_rules]: "keeps P (addMac c a m)"
  unfolding addMac_def Let_def by (intro keeps_rules read_rules)

lemma node_reads [read_rules]:
  "keeps P (NodeAddresses c n)"
  "keeps P (NodeAddressesByProviderID c i)"
  "keeps P (InstanceExistsByProviderID c i)"
  "keeps P (InstanceShutdownByProviderID c i)"
  "keeps P (InstanceID c n)"
  "keeps P (InstanceTypeByProviderID c i)"
  "keeps P (InstanceType c n)"
  "keeps P (GetZone c)"
  "keeps P (GetZoneByProviderID c i)"
  "keeps P (GetZoneByNodeName c n)"
  "keeps P (AddSSHKeyToAllInstances c n k)"
  "keeps P (CurrentNodeName c n)"
  unfolding NodeAddresses_def NodeAddressesByProviderID_def InstanceExistsByProviderID_def
    InstanceShutdownByProviderID_def InstanceID_def InstanceTypeByProviderID_def InstanceType_def
    GetZone_def GetZoneByProviderID_def GetZoneByNodeName_def AddSSHKeyToAllInstances_def CurrentNodeName_def
  by (intro keeps_rules read_rules)+

lemma v2_reads [read_rules]:
  assumes "c_instances c = Some i"
  shows "keeps P (InstanceExists i n)" "keeps P (InstanceShutdown i n)"
    "keeps P (InstanceMetadata i n)"
proof -
  have "keeps P (getInstance i n)"
    unfolding getInstance_def Let_def by (intro keeps_rules api_reads(12)[OF assms])
  then show "keeps P (InstanceExists i n)" "keeps P (InstanceShutdown i n)"
    "keeps P (InstanceMetadata i n)"
    unfolding InstanceExists_def InstanceShutdown_def InstanceMetadata_def by (intro keeps_rules; simp)+
qed

lemma route_reads [read_rules]: "keeps P (findRouteTable c)" "keeps P (ListRoutes c n)"
proof -
  show "keeps P (findRouteTable c)"
    unfolding findRouteTable_def by (intro keeps_rules read_rules)
  then show "keeps P (ListRoutes c n)"
    unfolding ListRoutes_def Let_def by (intro keeps_rules read_rules)
qed

lemma subnet_reads [read_rules]: "keeps P (findELBSubnets c b)"
  unfolding findELBSubnets_def findSubnets_def Let_def by (intro keeps_rules read_rules)

lemma instance_reads [read_rules]: "keeps P (findInstancesForELB c ns)"
  unfolding findInstancesForELB_def fillProviderIDs_def describeAllInstancesCached_def describeAllInstancesUncached_def
    MeetsCriteria_def Let_def
  by (intro keeps_rules read_rules)

lemma describe_reads [read_rules]: "keeps P (describeLoadBalancer c n)"
  unfolding describeLoadBalancer_def by (intro keeps_rules read_rules)

lemma keeps_get [read_rules]: "keeps P (GetLoadBalancer c s)"
  unfolding GetLoadBalancer_def by (intro keeps_rules read_rules)

end

end
