(* ===== verification/Audit_Trail.thy ===== *)
theory Audit_Trail
  imports Readers
begin

text \<open>
  The provider as a whole: every handler of the interfaces \<open>LoadBalancer\<close>, \<open>Instances\<close>, \<open>Zones\<close>,
  \<open>InstancesV2\<close> and \<open>Routes\<close> of the framework is one call, and a run of the controller manager is a
  sequence of calls between which the outside may change.  The calls on the APIs leave an audit trail, and the theory
  shows which entries a handler can leave: a policy that names, for every kind of request, the handlers that may
  send it and what they must have read before.

  The interface of the argument is the locale \<open>audited_cloud\<close>: clients whose calls extend the trail by
  their own entry.  It is interpreted for \<open>recordingCloud\<close>, which puts a recorder in front of arbitrary
  clients, so the resulting theorems hold for every cloud.
\<close>

section \<open>The calls of the framework\<close>

datatype handlerCall =
    Call_EnsureLoadBalancer Service "Node list"
  | Call_UpdateLoadBalancer Service "Node list"
  | Call_EnsureLoadBalancerDeleted Service
  | Call_GetLoadBalancer Service
  | Call_NodeAddresses string
  | Call_NodeAddressesByProviderID string
  | Call_InstanceID string
  | Call_InstanceType string
  | Call_InstanceTypeByProviderID string
  | Call_AddSSHKeyToAllInstances string string
  | Call_CurrentNodeName string
  | Call_InstanceExistsByProviderID string
  | Call_InstanceShutdownByProviderID string
  | Call_GetZone
  | Call_GetZoneByProviderID string
  | Call_GetZoneByNodeName string
  | Call_InstanceExists Node
  | Call_InstanceShutdown Node
  | Call_InstanceMetadata Node
  | Call_ListRoutes string
  | Call_CreateRoute cpRoute
  | Call_DeleteRoute cpRoute

definition forget :: "('w, 'a) io \<Rightarrow> ('w, unit) io" where
  "forget m = bnd m (\<lambda>_. ok ())"

text \<open>A method of the v2 interface is called on \<open>c.instances\<close>.\<close>

definition onV2 :: "'w Cloud \<Rightarrow> ('w instancesV2 \<Rightarrow> ('w, 'a) io) \<Rightarrow> ('w, unit) io" where
  "onV2 c f = (case c_instances c of None \<Rightarrow> panic nilPointer | Some i \<Rightarrow> forget (f i))"

fun serve :: "'x sys Cloud \<Rightarrow> handlerCall \<Rightarrow> ('x sys, unit) io" where
  "serve c (Call_EnsureLoadBalancer s ns) = forget (EnsureLoadBalancer c s ns)"
| "serve c (Call_UpdateLoadBalancer s ns) = UpdateLoadBalancer c s ns"
| "serve c (Call_EnsureLoadBalancerDeleted s) = forget (EnsureLoadBalancerDeleted 62 c s)"
| "serve c (Call_GetLoadBalancer s) = forget (GetLoadBalancer c s)"
| "serve c (Call_NodeAddresses n) = forget (NodeAddresses c n)"
| "serve c (Call_NodeAddressesByProviderID i) = forget (NodeAddressesByProviderID c i)"
| "serve c (Call_InstanceID n) = forget (InstanceID c n)"
| "serve c (Call_InstanceType n) = forget (InstanceType c n)"
| "serve c (Call_InstanceTypeByProviderID i) = forget (InstanceTypeByProviderID c i)"
| "serve c (Call_AddSSHKeyToAllInstances u k) = AddSSHKeyToAllInstances c u k"
| "serve c (Call_CurrentNodeName h) = forget (CurrentNodeName c h)"
| "serve c (Call_InstanceExistsByProviderID i) = forget (InstanceExistsByProviderID c i)"
| "serve c (Call_InstanceShutdownByProviderID i) = forget (InstanceShutdownByProviderID c i)"
| "serve c Call_GetZone = forget (GetZone c)"
| "serve c (Call_GetZoneByProviderID i) = forget (GetZoneByProviderID c i)"
| "serve c (Call_GetZoneByNodeName n) = forget (GetZoneByNodeName c n)"
| "serve c (Call_InstanceExists n) = onV2 c (\<lambda>i. InstanceExists i n)"
| "serve c (Call_InstanceShutdown n) = onV2 c (\<lambda>i. InstanceShutdown i n)"
| "serve c (Call_InstanceMetadata n) = onV2 c (\<lambda>i. InstanceMetadata i n)"
| "serve c (Call_ListRoutes cl) = forget (ListRoutes c cl)"
| "serve c (Call_CreateRoute r) = CreateRoute c r"
| "serve c (Call_DeleteRoute r) = DeleteRoute c r"

section \<open>The audit trail\<close>

text \<open>The entries: what the APIs answered about groups and load balancers, and every request that changes
  something.  A load balancer is asked for by name, so the entry of an answer has that name too.\<close>

datatype elbOp = CreateLb | DeleteLb | ChangeLb

datatype entry =
    SawGroup SecurityGroup
  | SawLoadBalancer string LoadBalancerDescription
  | MadeGroup string string
  | DroppedGroup string
  | ChangedRules string
  | Tagged "string list"
  | OnLoadBalancer elbOp string
  | OnRoutes
  | OnVm string

fun changes :: "entry \<Rightarrow> bool" where
  "changes (SawGroup _) = False"
| "changes (SawLoadBalancer _ _) = False"
| "changes _ = True"

text \<open>The policy, for the trail before the entry (newest entry first).\<close>

fun ensures :: "handlerCall \<Rightarrow> Service option" where
  "ensures (Call_EnsureLoadBalancer s _) = Some s"
| "ensures _ = None"

fun deletes :: "handlerCall \<Rightarrow> Service option" where
  "deletes (Call_EnsureLoadBalancerDeleted s) = Some s"
| "deletes _ = None"

fun changesService :: "handlerCall \<Rightarrow> Service option" where
  "changesService (Call_EnsureLoadBalancer s _) = Some s"
| "changesService (Call_UpdateLoadBalancer s _) = Some s"
| "changesService (Call_EnsureLoadBalancerDeleted s) = Some s"
| "changesService _ = None"

fun changesRoutes :: "handlerCall \<Rightarrow> bool" where
  "changesRoutes (Call_CreateRoute _) = True"
| "changesRoutes (Call_DeleteRoute _) = True"
| "changesRoutes _ = False"

text \<open>\<open>n\<close> is the load balancer of the service: the name computed from the service, or the name in a description
  that was the answer to a query for that name.\<close>

definition itsLoadBalancer :: "entry list \<Rightarrow> Service \<Rightarrow> string \<Rightarrow> bool" where
  "itsLoadBalancer past s n \<longleftrightarrow> GetLoadBalancerName s = Ok n \<or>
     list_ex (\<lambda>e. case e of SawLoadBalancer m lb \<Rightarrow> GetLoadBalancerName s = Ok m \<and> strval (lb_LoadBalancerName lb) = n
        | _ \<Rightarrow> False) past"

definition sawOwnGroup :: "'w Cloud \<Rightarrow> entry list \<Rightarrow> string \<Rightarrow> bool" where
  "sawOwnGroup c past i = list_ex (\<lambda>e. case e of
       SawGroup g \<Rightarrow> strval (sg_SecurityGroupId g) = i \<and> hasClusterTag (c_tagging c) (sg_Tags g) = Ok True
     | _ \<Rightarrow> False) past"

definition foundOrMade :: "entry list \<Rightarrow> string \<Rightarrow> bool" where
  "foundOrMade past i = list_ex (\<lambda>e. case e of
       SawGroup g \<Rightarrow> strval (sg_SecurityGroupId g) = i
     | MadeGroup _ j \<Rightarrow> j = i
     | _ \<Rightarrow> False) past"

definition forService :: "Service option \<Rightarrow> (Service \<Rightarrow> bool) \<Rightarrow> bool" where
  "forService s p = (case s of None \<Rightarrow> False | Some x \<Rightarrow> p x)"

text \<open>An answer in the trail is one the client can give.\<close>

definition answersGroup :: "'w Cloud \<Rightarrow> SecurityGroup \<Rightarrow> bool" where
  "answersGroup c g \<longleftrightarrow> (\<exists>f w gs w'. ReadSecurityGroups (c_compute c) f w = (Ok gs, w') \<and> g \<in> set gs)"

definition answersLoadBalancer :: "'w Cloud \<Rightarrow> string \<Rightarrow> LoadBalancerDescription \<Rightarrow> bool" where
  "answersLoadBalancer c n lb \<longleftrightarrow> (\<exists>w lbs w'. DescribeLoadBalancers (c_loadBalancer c) n w = (Ok lbs, w') \<and> lb \<in> set lbs)"

fun permitted :: "'w Cloud \<Rightarrow> handlerCall \<Rightarrow> entry list \<Rightarrow> entry \<Rightarrow> bool" where
  "permitted c h past (SawGroup g) = answersGroup c g"
| "permitted c h past (SawLoadBalancer n lb) = answersLoadBalancer c n lb"
| "permitted c h past (MadeGroup name _) =
     forService (ensures h) (\<lambda>s. ElbSecurityGroup (globalCfg c) = [] \<and>
       (case GetLoadBalancerName s of Ok n \<Rightarrow> name = ''k8s-elb-'' @ n | _ \<Rightarrow> False))"
| "permitted c h past (DroppedGroup i) =
     (deletes h \<noteq> None \<and> i \<noteq> ElbSecurityGroup (globalCfg c) \<and> sawOwnGroup c past i)"
| "permitted c h past (ChangedRules i) = (changesService h \<noteq> None \<and> i \<noteq> ElbSecurityGroup (globalCfg c))"
| "permitted c h past (Tagged ids) = (ensures h \<noteq> None \<and> list_all (foundOrMade past) ids)"
| "permitted c h past (OnLoadBalancer CreateLb n) = forService (ensures h) (\<lambda>s. GetLoadBalancerName s = Ok n)"
| "permitted c h past (OnLoadBalancer DeleteLb n) = forService (deletes h) (\<lambda>s. itsLoadBalancer past s n)"
| "permitted c h past (OnLoadBalancer ChangeLb n) = forService (changesService h) (\<lambda>s. itsLoadBalancer past s n)"
| "permitted c h past OnRoutes = changesRoutes h"
| "permitted c h past (OnVm _) = changesRoutes h"

text \<open>The entries \<open>new\<close> of one call, on top of the trail before the call.\<close>

fun obeys :: "'w Cloud \<Rightarrow> handlerCall \<Rightarrow> entry list \<Rightarrow> entry list \<Rightarrow> bool" where
  "obeys c h past [] = True"
| "obeys c h past (e # new) = (obeys c h past new \<and> permitted c h (new @ past) e)"

section \<open>Clients that leave a trail\<close>

named_theorems audit_rules \<open>calls that keep to the policy\<close>

definition emits :: "('w \<Rightarrow> entry list) \<Rightarrow> ('a res \<Rightarrow> entry list) \<Rightarrow> ('w, 'a) io \<Rightarrow> bool" where
  "emits trail es m \<longleftrightarrow> (\<forall>w. trail (snd (m w)) = es (fst (m w)) @ trail w)"

abbreviation nothing :: "'a res \<Rightarrow> entry list" where
  "nothing \<equiv> (\<lambda>_. [])"

abbreviation request :: "entry \<Rightarrow> 'a res \<Rightarrow> entry list" where
  "request e \<equiv> (\<lambda>_. [e])"

definition sawGroups :: "SecurityGroup list res \<Rightarrow> entry list" where
  "sawGroups r = (case r of Ok gs \<Rightarrow> map SawGroup gs | _ \<Rightarrow> [])"

definition sawLoadBalancers :: "string \<Rightarrow> LoadBalancerDescription list res \<Rightarrow> entry list" where
  "sawLoadBalancers n r = (case r of Ok lbs \<Rightarrow> map (SawLoadBalancer n) lbs | _ \<Rightarrow> [])"

definition madeGroup :: "string \<Rightarrow> SecurityGroup option res \<Rightarrow> entry list" where
  "madeGroup n r = [MadeGroup n (case r of Ok (Some g) \<Rightarrow> strval (sg_SecurityGroupId g) | _ \<Rightarrow> [])]"

definition auditedCompute :: "('w \<Rightarrow> entry list) \<Rightarrow> 'w Compute \<Rightarrow> bool" where
  "auditedCompute trail client \<longleftrightarrow>
     (\<forall>f. emits trail nothing (ReadVms client f)) \<and>
     (\<forall>f. emits trail sawGroups (ReadSecurityGroups client f)) \<and>
     (\<forall>q. emits trail (madeGroup (csg_SecurityGroupName q)) (CreateSecurityGroup client q)) \<and>
     (\<forall>i. emits trail (request (DroppedGroup i)) (DeleteSecurityGroup client i)) \<and>
     (\<forall>q. emits trail (request (ChangedRules (srr_SecurityGroupId q))) (CreateSecurityGroupRule client q)) \<and>
     (\<forall>q. emits trail (request (ChangedRules (srr_SecurityGroupId q))) (DeleteSecurityGroupRule client q)) \<and>
     (\<forall>f. emits trail nothing (DescribeSubnets client f)) \<and>
     (\<forall>q. emits trail (request (Tagged (ctr_ResourceIds q))) (CreateTags client q)) \<and>
     (\<forall>f. emits trail nothing (ReadRouteTables client f)) \<and>
     (\<forall>q. emits trail (request OnRoutes) (api_CreateRoute client q)) \<and>
     (\<forall>q. emits trail (request OnRoutes) (api_DeleteRoute client q)) \<and>
     (\<forall>q. emits trail (request (OnVm (uvr_VmId q))) (UpdateVM client q))"

definition auditedElb :: "('w \<Rightarrow> entry list) \<Rightarrow> 'w LoadBalancer \<Rightarrow> bool" where
  "auditedElb trail client \<longleftrightarrow>
     (\<forall>q. emits trail (request (OnLoadBalancer CreateLb (clb_LoadBalancerName q))) (CreateLoadBalancer client q)) \<and>
     (\<forall>n. emits trail (request (OnLoadBalancer DeleteLb (strval n))) (DeleteLoadBalancer client n)) \<and>
     (\<forall>n. emits trail (sawLoadBalancers n) (DescribeLoadBalancers client n)) \<and>
     (\<forall>n t. emits trail (request (OnLoadBalancer ChangeLb n)) (AddTags client n t)) \<and>
     (\<forall>n i. emits trail (request (OnLoadBalancer ChangeLb n)) (RegisterInstancesWithLoadBalancer client n i)) \<and>
     (\<forall>n i. emits trail (request (OnLoadBalancer ChangeLb n)) (DeregisterInstancesFromLoadBalancer client n i)) \<and>
     (\<forall>q. emits trail (request (OnLoadBalancer ChangeLb (strval (clp_LoadBalancerName q)))) (CreateLoadBalancerPolicy client q)) \<and>
     (\<forall>n p l. emits trail (request (OnLoadBalancer ChangeLb n)) (SetLoadBalancerPoliciesForBackendServer client n p l)) \<and>
     (\<forall>n p l. emits trail (request (OnLoadBalancer ChangeLb n)) (SetLoadBalancerPoliciesOfListener client n p l)) \<and>
     (\<forall>n l. emits trail nothing (DescribeLoadBalancerPolicies client n l)) \<and>
     (\<forall>n l. emits trail (request (OnLoadBalancer ChangeLb n)) (DetachLoadBalancerFromSubnets client n l)) \<and>
     (\<forall>n l. emits trail (request (OnLoadBalancer ChangeLb n)) (AttachLoadBalancerToSubnets client n l)) \<and>
     (\<forall>n l. emits trail (request (OnLoadBalancer ChangeLb n)) (CreateLoadBalancerListeners client n l)) \<and>
     (\<forall>n l. emits trail (request (OnLoadBalancer ChangeLb n)) (DeleteLoadBalancerListeners client n l)) \<and>
     (\<forall>n l. emits trail (request (OnLoadBalancer ChangeLb n)) (ApplySecurityGroupsToLoadBalancer client n l)) \<and>
     (\<forall>n q. emits trail (request (OnLoadBalancer ChangeLb (strval n))) (ConfigureHealthCheck client n q)) \<and>
     (\<forall>n. emits trail nothing (DescribeLoadBalancerAttributes client n)) \<and>
     (\<forall>n a. emits trail (request (OnLoadBalancer ChangeLb n)) (ModifyLoadBalancerAttributes client n a))"

text \<open>The metadata service, the node informer, the clock and the client of the v2 interface change nothing.\<close>

definition auditedOutside :: "('w \<Rightarrow> entry list) \<Rightarrow> 'w Cloud \<Rightarrow> bool" where
  "auditedOutside trail c \<longleftrightarrow>
     (\<forall>k. emits trail nothing (GetMetadata (c_metadata c) k)) \<and>
     (\<forall>n. emits trail nothing (c_nodeLister c n)) \<and>
     (\<forall>s. c_nodeInformerHasSynced c = Some s \<longrightarrow> emits trail nothing s) \<and>
     emits trail nothing (Now (c_clock c)) \<and>
     (\<forall>s. emits trail nothing (Sleep (c_clock c) s)) \<and>
     (\<forall>i f. c_instances c = Some i \<longrightarrow> emits trail nothing (sdk_ReadVms (v2_client i) f))"

text \<open>The state of the argument: the entries since \<open>past\<close> obey the policy, and the entries \<open>known\<close> are in
  the trail.\<close>

definition lawful ::
  "('w \<Rightarrow> entry list) \<Rightarrow> 'w Cloud \<Rightarrow> handlerCall \<Rightarrow> entry list \<Rightarrow> entry set \<Rightarrow> 'w \<Rightarrow> bool" where
  "lawful trail c h past known w \<longleftrightarrow>
     (\<exists>new. trail w = new @ past \<and> obeys c h past new) \<and> known \<subseteq> set (trail w)"

definition learns ::
  "('w \<Rightarrow> entry list) \<Rightarrow> 'w Cloud \<Rightarrow> handlerCall \<Rightarrow> entry list \<Rightarrow> entry set \<Rightarrow> ('a \<Rightarrow> entry set) \<Rightarrow> ('w, 'a) io \<Rightarrow> bool" where
  "learns trail c h past known X m \<longleftrightarrow> keeps (lawful trail c h past known) m \<and>
     (\<forall>w a w'. lawful trail c h past known w \<longrightarrow> m w = (Ok a, w') \<longrightarrow> X a \<subseteq> set (trail w'))"

lemma obeys_saw: "\<forall>e\<in>set es. \<forall>t. permitted c h t e \<Longrightarrow> obeys c h past new \<Longrightarrow> obeys c h past (es @ new)"
  by (induction es) auto

lemma keeps_saw:
  assumes "emits trail es m" "\<And>w e t. e \<in> set (es (fst (m w))) \<Longrightarrow> permitted c h t e"
  shows "keeps (lawful trail c h past known) m"
proof (rule keepsI)
  fix w assume "lawful trail c h past known w"
  then obtain new where n: "trail w = new @ past" "obeys c h past new" "known \<subseteq> set (trail w)"
    by (auto simp: lawful_def)
  have t: "trail (snd (m w)) = (es (fst (m w)) @ new) @ past" using assms(1) n(1) by (simp add: emits_def)
  have "obeys c h past (es (fst (m w)) @ new)" using assms(2) n(2) by (intro obeys_saw) auto
  moreover have "known \<subseteq> set (trail (snd (m w)))" using t n(1,3) by auto
  ultimately show "lawful trail c h past known (snd (m w))" using t unfolding lawful_def by blast
qed

lemma keeps_silent: "emits trail nothing m \<Longrightarrow> keeps (lawful trail c h past known) m"
  by (rule keeps_saw) auto

lemma learns_request:
  assumes "emits trail (\<lambda>r. [e r]) m" "\<And>t r. known \<subseteq> set t \<Longrightarrow> permitted c h t (e r)"
  shows "learns trail c h past known (\<lambda>a. {e (Ok a)}) m"
proof -
  have run: "lawful trail c h past known w' \<and> e r \<in> set (trail w')"
    if w: "lawful trail c h past known w" and mw: "m w = (r, w')" for w r w'
  proof -
    obtain new where n: "trail w = new @ past" "obeys c h past new" "known \<subseteq> set (trail w)"
      using w by (auto simp: lawful_def)
    have t: "trail w' = (e r # new) @ past" using assms(1) n(1) mw by (metis append_Cons append_Nil emits_def fst_conv snd_conv)
    have "permitted c h (new @ past) (e r)" using assms(2) n(1,3) by simp
    then have "obeys c h past (e r # new)" using n(2) by simp
    then show ?thesis using t n(1,3) unfolding lawful_def by auto
  qed
  then show ?thesis unfolding learns_def keeps_def by (metis empty_subsetI insert_subset prod.collapse)
qed

lemma keeps_request:
  assumes "emits trail (request e) m" "\<And>t. known \<subseteq> set t \<Longrightarrow> permitted c h t e"
  shows "keeps (lawful trail c h past known) m"
  using learns_request[OF assms(1), of known] assms(2) by (simp add: learns_def)

lemma lawful_mono: "lawful trail c h past known w \<Longrightarrow> k \<subseteq> known \<Longrightarrow> lawful trail c h past k w"
  by (auto simp: lawful_def)

lemma lawful_extend: "lawful trail c h past known w \<Longrightarrow> k \<subseteq> set (trail w) \<Longrightarrow> lawful trail c h past (known \<union> k) w"
  by (auto simp: lawful_def)

lemma keeps_attempt_learn:
  assumes "learns trail c h past known X m" "\<And>a. keeps (lawful trail c h past (known \<union> X a)) (f a)"
    and "\<And>e. keeps (lawful trail c h past known) (g e)"
  shows "keeps (lawful trail c h past known) (attempt m f g)"
proof (rule keepsI)
  fix w assume w: "lawful trail c h past known w"
  obtain r w1 where m: "m w = (r, w1)" by (cases "m w")
  have w1: "lawful trail c h past known w1" using assms(1) w m by (auto simp: learns_def dest: keepsD)
  show "lawful trail c h past known (snd (attempt m f g w))"
  proof (cases r)
    case (Ok a)
    then have "X a \<subseteq> set (trail w1)" using assms(1) w m by (auto simp: learns_def)
    then have "lawful trail c h past (known \<union> X a) (snd (f a w1))"
      using assms(2)[of a] lawful_extend[OF w1] by (auto simp: keeps_def)
    then show ?thesis using m Ok by (auto intro: lawful_mono)
  next
    case (Err e)
    then show ?thesis using m w1 assms(3)[of e] by (simp add: keeps_def)
  qed (use m w1 in simp)
qed

lemma keeps_bnd_learn:
  assumes "learns trail c h past known X m" "\<And>a. keeps (lawful trail c h past (known \<union> X a)) (f a)"
  shows "keeps (lawful trail c h past known) (bnd m f)"
  unfolding bnd_def by (rule keeps_attempt_learn[OF assms]) simp

lemma learns_attempt:
  assumes "learns trail c h past known X m" "\<And>a. learns trail c h past (known \<union> X a) Y (f a)"
    and "\<And>e. learns trail c h past known Y (g e)"
  shows "learns trail c h past known Y (attempt m f g)"
  unfolding learns_def
proof (intro conjI allI impI)
  show "keeps (lawful trail c h past known) (attempt m f g)"
    using assms by (intro keeps_attempt_learn[of trail c h past known X]) (simp_all add: learns_def)
  fix w b w2 assume w: "lawful trail c h past known w" and run: "attempt m f g w = (Ok b, w2)"
  obtain r w1 where m: "m w = (r, w1)" by (cases "m w")
  have w1: "lawful trail c h past known w1" using assms(1) w m by (auto simp: learns_def dest: keepsD)
  show "Y b \<subseteq> set (trail w2)"
  proof (cases r)
    case (Ok a)
    then have "lawful trail c h past (known \<union> X a) w1"
      using assms(1) w m w1 by (intro lawful_extend) (auto simp: learns_def)
    then show ?thesis using assms(2)[of a] run m Ok by (auto simp: learns_def)
  next
    case (Err e)
    then show ?thesis using assms(3)[of e] run m w1 by (auto simp: learns_def)
  qed (use run m in auto)
qed

lemma learns_raise [simp]: "learns trail c h past known X (raise e)"
  by (simp add: learns_def)

lemma learns_bnd:
  assumes "learns trail c h past known X m" "\<And>a. learns trail c h past (known \<union> X a) Y (f a)"
  shows "learns trail c h past known Y (bnd m f)"
  unfolding bnd_def by (rule learns_attempt[OF assms]) simp

lemma learns_keeps: "keeps (lawful trail c h past known) m \<Longrightarrow> learns trail c h past known (\<lambda>_. {}) m"
  by (simp add: learns_def)

lemma learns_bnd_keeps:
  assumes "keeps (lawful trail c h past known) m" "\<And>a. learns trail c h past known Y (f a)"
  shows "learns trail c h past known Y (bnd m f)"
  using learns_bnd[OF learns_keeps[OF assms(1)], of Y f] assms(2) by simp

lemma learns_ok: "X a \<subseteq> known \<Longrightarrow> learns trail c h past known X (ok a)"
  by (auto simp: learns_def lawful_def)

lemma learns_if: "(b \<Longrightarrow> learns trail c h past known X m) \<Longrightarrow> (\<not> b \<Longrightarrow> learns trail c h past known X n) \<Longrightarrow>
     learns trail c h past known X (if b then m else n)"
  by simp

lemma learns_list:
  "(xs = [] \<Longrightarrow> learns trail c h past known X m) \<Longrightarrow> (\<And>y ys. xs = y # ys \<Longrightarrow> learns trail c h past known X (f y ys)) \<Longrightarrow>
     learns trail c h past known X (case xs of [] \<Rightarrow> m | y # ys \<Rightarrow> f y ys)"
  by (cases xs) auto

lemma learns_saw:
  assumes "emits trail es m" "\<And>w e t. e \<in> set (es (fst (m w))) \<Longrightarrow> permitted c h t e" "\<And>a. X a \<subseteq> set (es (Ok a))"
  shows "learns trail c h past known X m"
  unfolding learns_def
proof (intro conjI allI impI)
  show "keeps (lawful trail c h past known) m" using assms(1,2) by (rule keeps_saw)
  fix w a w' assume "m w = (Ok a, w')"
  then have "trail w' = es (Ok a) @ trail w" using assms(1) by (metis emits_def fst_conv snd_conv)
  then show "X a \<subseteq> set (trail w')" using assms(3)[of a] by auto
qed

lemma permitted_saw:
  "e \<in> set (sawGroups (fst (ReadSecurityGroups (c_compute c) f w))) \<Longrightarrow> permitted c h t e"
  "e \<in> set (sawLoadBalancers n (fst (DescribeLoadBalancers (c_loadBalancer c) n w))) \<Longrightarrow> permitted c h t e"
  by (auto simp: sawGroups_def sawLoadBalancers_def answersGroup_def answersLoadBalancer_def split: res.splits)
    (metis prod.collapse)+

text \<open>Knowledge that allows a request.\<close>

lemma sawOwnGroup_iff:
  "sawOwnGroup c past i \<longleftrightarrow> (\<exists>g. SawGroup g \<in> set past \<and> strval (sg_SecurityGroupId g) = i \<and>
     hasClusterTag (c_tagging c) (sg_Tags g) = Ok True)" (is "_ \<longleftrightarrow> ?saw")
proof
  assume "sawOwnGroup c past i"
  then obtain e where "e \<in> set past" "case e of SawGroup g \<Rightarrow> strval (sg_SecurityGroupId g) = i \<and>
      hasClusterTag (c_tagging c) (sg_Tags g) = Ok True | _ \<Rightarrow> False"
    unfolding sawOwnGroup_def list_ex_iff by (erule bexE)
  then show ?saw by (cases e rule: entry.exhaust) auto
next
  assume ?saw
  then obtain g where "SawGroup g \<in> set past" "strval (sg_SecurityGroupId g) = i" "hasClusterTag (c_tagging c) (sg_Tags g) = Ok True"
    by blast
  then show "sawOwnGroup c past i" unfolding sawOwnGroup_def list_ex_iff by (intro bexI[of _ "SawGroup g"]) simp_all
qed

lemma itsLoadBalancer_seen:
  "SawLoadBalancer m lb \<in> set past \<Longrightarrow> GetLoadBalancerName s = Ok m \<Longrightarrow>
     itsLoadBalancer past s (strval (lb_LoadBalancerName lb))"
  by (fastforce simp: itsLoadBalancer_def list_ex_iff)

definition mayChange :: "entry set \<Rightarrow> Service \<Rightarrow> string \<Rightarrow> bool" where
  "mayChange known s n \<longleftrightarrow> (\<forall>t. known \<subseteq> set t \<longrightarrow> itsLoadBalancer t s n)"

lemma mayChange_name: "GetLoadBalancerName s = Ok n \<Longrightarrow> mayChange known s n"
  by (simp add: mayChange_def itsLoadBalancer_def)

lemma mayChange_seen:
  "SawLoadBalancer n lb \<in> known \<Longrightarrow> GetLoadBalancerName s = Ok n \<Longrightarrow> mayChange known s (strval (lb_LoadBalancerName lb))"
  by (auto simp: mayChange_def intro: itsLoadBalancer_seen)

lemma foundOrMade_seen:
  "SawGroup g \<in> set past \<Longrightarrow> foundOrMade past (strval (sg_SecurityGroupId g))"
  "MadeGroup n i \<in> set past \<Longrightarrow> foundOrMade past i"
  unfolding foundOrMade_def list_ex_iff by (erule bexI[rotated], simp)+

lemma keeps_bnd_nilDeref: "(\<And>x. p = Some x \<Longrightarrow> keeps P (f x)) \<Longrightarrow> keeps P (bnd (nilDeref p) f)"
  by (cases p) (auto simp: nilDeref_def keeps_def bnd_def attempt_def)

section \<open>Every handler keeps to the policy\<close>

locale audited_cloud =
  fixes c :: "'x sys Cloud"
    and trail :: "'x sys \<Rightarrow> entry list"
  assumes compute: "auditedCompute trail (c_compute c)"
    and elb: "auditedElb trail (c_loadBalancer c)"
    and outside: "auditedOutside trail c"
    and cache: "trail (w\<lparr>sys_snap := s\<rparr>) = trail w"
    and backoff: "ExponentialBackoff (c_libs c) = backoff_ref"
begin

abbreviation law :: "handlerCall \<Rightarrow> entry list \<Rightarrow> entry set \<Rightarrow> 'x sys \<Rightarrow> bool" where
  "law \<equiv> lawful trail c"

lemma compute_emits:
  "emits trail nothing (ReadVms (c_compute c) f1)"
  "emits trail sawGroups (ReadSecurityGroups (c_compute c) f2)"
  "emits trail nothing (DescribeSubnets (c_compute c) f3)"
  "emits trail nothing (ReadRouteTables (c_compute c) f4)"
  "emits trail (madeGroup (csg_SecurityGroupName q1)) (CreateSecurityGroup (c_compute c) q1)"
  "emits trail (request (DroppedGroup i)) (DeleteSecurityGroup (c_compute c) i)"
  "emits trail (request (ChangedRules (srr_SecurityGroupId q2))) (CreateSecurityGroupRule (c_compute c) q2)"
  "emits trail (request (ChangedRules (srr_SecurityGroupId q2))) (DeleteSecurityGroupRule (c_compute c) q2)"
  "emits trail (request (Tagged (ctr_ResourceIds q3))) (CreateTags (c_compute c) q3)"
  "emits trail (request OnRoutes) (api_CreateRoute (c_compute c) q4)"
  "emits trail (request OnRoutes) (api_DeleteRoute (c_compute c) q5)"
  "emits trail (request (OnVm (uvr_VmId q6))) (UpdateVM (c_compute c) q6)"
  using compute by (simp_all add: auditedCompute_def)

lemma elb_emits:
  "emits trail (sawLoadBalancers n) (DescribeLoadBalancers (c_loadBalancer c) n)"
  "emits trail nothing (DescribeLoadBalancerPolicies (c_loadBalancer c) n1 l1)"
  "emits trail nothing (DescribeLoadBalancerAttributes (c_loadBalancer c) n)"
  "emits trail (request (OnLoadBalancer CreateLb (clb_LoadBalancerName q1))) (CreateLoadBalancer (c_loadBalancer c) q1)"
  "emits trail (request (OnLoadBalancer DeleteLb (strval n1))) (DeleteLoadBalancer (c_loadBalancer c) n1)"
  "emits trail (request (OnLoadBalancer ChangeLb n)) (AddTags (c_loadBalancer c) n t)"
  "emits trail (request (OnLoadBalancer ChangeLb n)) (RegisterInstancesWithLoadBalancer (c_loadBalancer c) n l1)"
  "emits trail (request (OnLoadBalancer ChangeLb n)) (DeregisterInstancesFromLoadBalancer (c_loadBalancer c) n l1)"
  "emits trail (request (OnLoadBalancer ChangeLb (strval (clp_LoadBalancerName q2)))) (CreateLoadBalancerPolicy (c_loadBalancer c) q2)"
  "emits trail (request (OnLoadBalancer ChangeLb n)) (SetLoadBalancerPoliciesForBackendServer (c_loadBalancer c) n p l1)"
  "emits trail (request (OnLoadBalancer ChangeLb n)) (SetLoadBalancerPoliciesOfListener (c_loadBalancer c) n p l1)"
  "emits trail (request (OnLoadBalancer ChangeLb n)) (CreateLoadBalancerListeners (c_loadBalancer c) n l2)"
  "emits trail (request (OnLoadBalancer ChangeLb n)) (DeleteLoadBalancerListeners (c_loadBalancer c) n l3)"
  "emits trail (request (OnLoadBalancer ChangeLb (strval n1))) (ConfigureHealthCheck (c_loadBalancer c) n1 q3)"
  "emits trail (request (OnLoadBalancer ChangeLb n)) (ModifyLoadBalancerAttributes (c_loadBalancer c) n a)"
  using elb by (simp_all add: auditedElb_def)

lemma readsKeep_law: "readsKeep (law h past K) c"
  unfolding readsKeep_def using outside cache
  by (auto simp: auditedOutside_def lawful_def[of _ _ _ _ _ "_\<lparr>sys_snap := _\<rparr>"] lawful_def[of trail c h past K]
      intro: keeps_silent compute_emits elb_emits keeps_saw[OF compute_emits(2) permitted_saw(1)]
      keeps_saw[OF elb_emits(1) permitted_saw(2)])

end

sublocale audited_cloud \<subseteq> reading: reading_cloud c "lawful trail c h past K" for h past K
  by unfold_locales (rule readsKeep_law)

context audited_cloud
begin

lemma keeps_forget [audit_rules]: "keeps (law h past K) m \<Longrightarrow> keeps (law h past K) (forget m)"
  unfolding forget_def by (intro keeps_rules)

text \<open>Routes.\<close>

lemma route_requests [audit_rules]:
  assumes "changesRoutes h"
  shows "keeps (law h past K) (api_CreateRoute (c_compute c) q)" "keeps (law h past K) (api_DeleteRoute (c_compute c) d)"
    "keeps (law h past K) (UpdateVM (c_compute c) u)"
  using assms by (auto intro: keeps_request[OF compute_emits(10)] keeps_request[OF compute_emits(11)]
      keeps_request[OF compute_emits(12)])

lemma route_changes [audit_rules]:
  assumes "changesRoutes h"
  shows "keeps (law h past K) (CreateRoute c r)" "keeps (law h past K) (DeleteRoute c r)"
  unfolding CreateRoute_def DeleteRoute_def configureInstanceSourceDestCheck_def
  by (intro keeps_rules read_rules audit_rules assms)+

text \<open>Security groups.\<close>

lemma rule_calls: "changesService h = Some s \<Longrightarrow> ruleCallsKeep (law h past K) c"
  unfolding ruleCallsKeep_def
  by (auto intro!: reading.api_reads keeps_request[OF compute_emits(7)] keeps_request[OF compute_emits(8)])

lemmas rule_requests [audit_rules] = rule_calls[THEN keeps_setIngress] rule_calls[THEN keeps_updateInstanceSG]

lemma tag_requests:
  assumes "ensures h = Some s" "\<And>t. K \<subseteq> set t \<Longrightarrow> foundOrMade t i"
  shows "keeps (law h past K) (CreateTags (c_compute c) \<lparr>ctr_ResourceIds = [i], ctr_Tags = ts\<rparr>)"
  using assms by (intro keeps_request[OF compute_emits(9)]) simp

lemma learns_groups: "learns trail c h past K (\<lambda>gs. SawGroup ` set gs) (ReadSecurityGroups (c_compute c) f)"
  by (rule learns_saw[OF compute_emits(2) permitted_saw(1)]) (auto simp: sawGroups_def)

lemma learns_made:
  assumes "ensures h = Some s" "GetLoadBalancerName s = Ok n" "ElbSecurityGroup (globalCfg c) = []"
    and "csg_SecurityGroupName q = ''k8s-elb-'' @ n"
  shows "learns trail c h past K
    (\<lambda>g. {MadeGroup (csg_SecurityGroupName q) (case g of None \<Rightarrow> [] | Some sg \<Rightarrow> strval (sg_SecurityGroupId sg))})
    (CreateSecurityGroup (c_compute c) q)"
proof -
  let ?e = "\<lambda>r. MadeGroup (csg_SecurityGroupName q) (case r of Ok (Some g) \<Rightarrow> strval (sg_SecurityGroupId g) | _ \<Rightarrow> [])"
  have "permitted c h t (?e r)" for t r using assms by (simp add: forService_def)
  then show ?thesis
    using learns_request[OF compute_emits(5)[of q, unfolded madeGroup_def[abs_def]], of K] by simp
qed

text \<open>The new group of the loop is the one in the trail.\<close>

lemma learns_ensureSgLoop:
  assumes "ensures h = Some s" "GetLoadBalancerName s = Ok n" "ElbSecurityGroup (globalCfg c) = []"
    and name: "name = ''k8s-elb-'' @ n"
  shows "learns trail c h past K (\<lambda>r. case r of Inl _ \<Rightarrow> {} | Inr i \<Rightarrow> {MadeGroup name i})
    (ensureSgLoop c name description k)"
proof (induction "MaxReadThenCreateRetries - k" arbitrary: k K rule: less_induct)
  case less
  have repair: "keeps (law h past (K \<union> SawGroup ` set gs)) (readRepairClusterTags (c_environ c) (c_libs c) (c_tagging c)
      (c_compute c) (strval (sg_SecurityGroupId g)) ResourceLifecycleOwned [] (sg_Tags g))" if "gs = g # gs'" for gs g gs'
    using that by (intro keeps_readRepair backoff tag_requests[OF assms(1)] foundOrMade_seen(1)[of g]) auto
  have made: "learns trail c h past K' (\<lambda>g. {MadeGroup name (case g of None \<Rightarrow> [] | Some sg \<Rightarrow> strval (sg_SecurityGroupId sg))})
      (CreateSecurityGroup (c_compute c) (createSgRequest c name description))" for K'
    using learns_made[OF assms(1-3), of "createSgRequest c name description"] by (simp add: createSgRequest_def name)
  show ?case
    unfolding ensureSgLoop.simps[of c name description k]
    by (intro learns_bnd[OF learns_groups] learns_list learns_attempt[OF made] learns_if
        learns_bnd_keeps[OF reading.api_reads(11)] learns_bnd_keeps[OF repair] learns_ok learns_raise less) (assumption | auto)+
qed

lemma keeps_buildSgList [audit_rules]:
  assumes "ensures h = Some s" "GetLoadBalancerName s = Ok n"
  shows "keeps (law h past K) (buildELBSecurityGroupList c serviceName n annotations)"
proof -
  have tag: "keeps (law h past (K \<union> {MadeGroup name i})) (createTags (c_environ c) (c_libs c) (c_tagging c) (c_compute c) i l ts)"
    for name i l ts
    by (intro keeps_createTags backoff tag_requests[OF assms(1)] foundOrMade_seen(2)[of name]) auto
  have "keeps (law h past K) (ensureSecurityGroup c (''k8s-elb-'' @ n) description tags)"
    if "ElbSecurityGroup (globalCfg c) = []" for description tags
    unfolding ensureSecurityGroup_def
  proof (rule keeps_bnd_learn[OF learns_ensureSgLoop[OF assms that refl]])
    fix r :: "string + string"
    show "keeps (law h past (K \<union> (case r of Inl _ \<Rightarrow> {} | Inr i \<Rightarrow> {MadeGroup (''k8s-elb-'' @ n) i})))
      (case r of Inl groupID \<Rightarrow> ok groupID
       | Inr groupID \<Rightarrow>
          (if groupID = [] then raise (Errorf ''created security group, but id was not returned: %s'' [])
           else attempt (createTags (c_environ c) (c_libs c) (c_tagging c) (c_compute c) groupID ResourceLifecycleOwned tags)
                  (\<lambda>_. ok groupID)
                  (\<lambda>e. raise (Errorf ''error tagging security group: %q'' [e]))))"
    proof (cases r)
      case (Inr i)
      show ?thesis unfolding Inr sum.case by (intro keeps_rules tag)
    qed simp
  qed
  then show ?thesis
    unfolding buildELBSecurityGroupList_def Let_def by (intro keeps_rules) simp_all
qed

text \<open>Load balancers.\<close>

lemma describes: "learns trail c h past K (\<lambda>lb. SawLoadBalancer n ` set_option lb) (describeLoadBalancer c n)"
  unfolding describeLoadBalancer_def
proof (rule learns_attempt)
  show "learns trail c h past K (\<lambda>lbs. SawLoadBalancer n ` set lbs) (DescribeLoadBalancers (c_loadBalancer c) n)"
    by (rule learns_saw[OF elb_emits(1) permitted_saw(2)]) (auto simp: sawLoadBalancers_def)
  fix lbs :: "LoadBalancerDescription list"
  have "set_option (foldl (\<lambda>_ lb. Some lb) found lbs) \<subseteq> set_option found \<union> set lbs" for found
    by (induction lbs arbitrary: found) auto
  from this[of None] show "learns trail c h past (K \<union> SawLoadBalancer n ` set lbs) (\<lambda>lb. SawLoadBalancer n ` set_option lb)
      (ok (foldl (\<lambda>_ lb. Some lb) None lbs))"
    by (intro learns_ok) auto
next
  fix e
  show "learns trail c h past K (\<lambda>lb. SawLoadBalancer n ` set_option lb)
     (if awsCode e = Some ''LoadBalancerNotFound'' then ok None else raise e)"
    by (intro learns_if learns_ok) simp_all
qed

lemma change_requests:
  assumes "changesService h = Some s" "mayChange K s n"
  shows "keeps (law h past K) (AddTags (c_loadBalancer c) n t)"
    and "keeps (law h past K) (RegisterInstancesWithLoadBalancer (c_loadBalancer c) n l)"
    and "keeps (law h past K) (DeregisterInstancesFromLoadBalancer (c_loadBalancer c) n l)"
    and "keeps (law h past K) (SetLoadBalancerPoliciesForBackendServer (c_loadBalancer c) n p l)"
    and "keeps (law h past K) (SetLoadBalancerPoliciesOfListener (c_loadBalancer c) n p l)"
    and "keeps (law h past K) (CreateLoadBalancerListeners (c_loadBalancer c) n l2)"
    and "keeps (law h past K) (DeleteLoadBalancerListeners (c_loadBalancer c) n l3)"
    and "keeps (law h past K) (ModifyLoadBalancerAttributes (c_loadBalancer c) n a)"
    and "strval (clp_LoadBalancerName q) = n \<Longrightarrow> keeps (law h past K) (CreateLoadBalancerPolicy (c_loadBalancer c) q)"
    and "strval n1 = n \<Longrightarrow> keeps (law h past K) (ConfigureHealthCheck (c_loadBalancer c) n1 hc)"
  using assms by (auto simp: forService_def mayChange_def intro!: keeps_request[OF elb_emits(6)]
      keeps_request[OF elb_emits(7)] keeps_request[OF elb_emits(8)] keeps_request[OF elb_emits(9)]
      keeps_request[OF elb_emits(10)] keeps_request[OF elb_emits(11)] keeps_request[OF elb_emits(12)]
      keeps_request[OF elb_emits(13)] keeps_request[OF elb_emits(14)] keeps_request[OF elb_emits(15)])

lemma policy_changes:
  assumes "changesService h = Some s" "mayChange K s n"
  shows "keeps (law h past K) (setBackendPolicies c n p l)"
    and "keeps (law h past K) (createProxyProtocolPolicy c n b)"
    and "keeps (law h past K) (setSSLNegotiationPolicy c n x p)"
    and "keeps (law h past K) (ensureLoadBalancerInstances c n xs ys)"
  unfolding setBackendPolicies_def createProxyProtocolPolicy_def setSSLNegotiationPolicy_def ensureLoadBalancerInstances_def Let_def
  by (intro keeps_rules change_requests[OF assms]; simp)+

lemma sync_changes:
  assumes "changesService h = Some s" "mayChange K s n"
  shows "keeps (law h past K) (syncListeners c n ls b lb)"
    and "keeps (law h past K) (syncProxyProtocol c n ls b lb)"
    and "keeps (law h past K) (syncTags c n an)"
    and "keeps (law h past K) (syncAttributes c n at)"
  unfolding syncListeners_def syncProxyProtocol_def syncTags_def addLoadBalancerTags_def syncAttributes_def Let_def
  by (intro keeps_rules read_rules audit_rules change_requests[OF assms] policy_changes[OF assms])+

lemma keeps_createElb:
  assumes "ensures h = Some s" "changesService h = Some s" "GetLoadBalancerName s = Ok n"
  shows "keeps (law h past K) (createElb c nsn n ls sub sgs intern b an)"
proof -
  note change = assms(2) mayChange_name[OF assms(3)]
  have input: "keeps (law h past K) (createLbInput c nsn n ls sub sgs intern an)"
    unfolding createLbInput_def Let_def by (intro keeps_rules read_rules audit_rules)
  have create: "keeps (law h past K) (CreateLoadBalancer (c_loadBalancer c) q)" if "clb_LoadBalancerName q = n" for q
    using that assms(1,3) by (intro keeps_request[OF elb_emits(4)]) (simp add: forService_def)
  show ?thesis
    unfolding createElb_def
  proof (rule keeps_bnd_val[OF input])
    fix w q w' assume "createLbInput c nsn n ls sub sgs intern an w = (Ok q, w')"
    then have "clb_LoadBalancerName q = n" by (auto simp: createLbInput_def bnd_eq_Ok Let_def)
    then show "keeps (law h past K) (bnd (CreateLoadBalancer (c_loadBalancer c) q) (\<lambda>_.
       if b then
         bnd (createProxyProtocolPolicy c n False) (\<lambda>_.
         forEach ls (\<lambda>listener.
           bnd (nilDeref (li_InstancePort listener)) (\<lambda>port.
           setBackendPolicies c n port [ProxyProtocolPolicyName])))
       else ok ()))"
      by (intro keeps_rules create policy_changes[OF change] read_rules)
  qed
qed

lemma ensures_lb:
  assumes "ensures h = Some s" "changesService h = Some s" "GetLoadBalancerName s = Ok n"
  shows "learns trail c h past K (\<lambda>lb. SawLoadBalancer n ` set_option lb)
    (ensureLoadBalancer c nsn n ls sub sgs intern b at an)"
  unfolding ensureLoadBalancer_def
  by (intro learns_bnd[OF describes] learns_bnd_keeps learns_if describes learns_ok keeps_rules
      keeps_createElb[OF assms] sync_changes[OF assms(2) mayChange_name[OF assms(3)]]) simp

lemma ssl_changes:
  assumes "changesService h = Some s" "GetLoadBalancerName s = Ok n" "SawLoadBalancer n ` set_option lb \<subseteq> K"
  shows "keeps (law h past K) (applySSLPolicy c an n lb)"
proof -
  have seen: "mayChange K s (strval (lb_LoadBalancerName b))" if "lb = Some b" for b
    using assms(2,3) that by (intro mayChange_seen) auto
  have "keeps (law h past K) (ensureSSLNegotiationPolicy c lb p)" for p
    unfolding ensureSSLNegotiationPolicy_def Let_def
    by (rule keeps_bnd_nilDeref, intro keeps_rules read_rules audit_rules change_requests(9)[OF assms(1) seen]) simp_all
  then show ?thesis
    unfolding applySSLPolicy_def by (intro keeps_rules policy_changes(3)[OF assms(1) mayChange_name[OF assms(2)]])
qed

lemma health_changes:
  assumes "changesService h = Some s" "GetLoadBalancerName s = Ok n" "SawLoadBalancer n ` set_option lb \<subseteq> K"
  shows "keeps (law h past K) (ensureServiceHealthCheck c svc ls lb)"
proof -
  have seen: "mayChange K s (strval (lb_LoadBalancerName b))" if "lb = Some b" for b
    using assms(2,3) that by (intro mayChange_seen) auto
  have "keeps (law h past K) (ensureLoadBalancerHealthCheck c lb proto port path an)" for proto port path an
    unfolding ensureLoadBalancerHealthCheck_def Let_def
    by (rule keeps_bnd_nilDeref, intro keeps_rules read_rules audit_rules change_requests(10)[OF assms(1) seen]) simp_all
  then show ?thesis unfolding ensureServiceHealthCheck_def Let_def by (intro keeps_rules)
qed

lemma instance_changes:
  assumes "changesService h = Some s" "GetLoadBalancerName s = Ok n" "SawLoadBalancer n ` set_option lb \<subseteq> K" "lb = Some b"
  shows "keeps (law h past K) (ensureLoadBalancerInstances c (strval (lb_LoadBalancerName b)) xs ys)"
  using assms by (intro policy_changes(4) mayChange_seen) auto

lemmas lb_changes = ssl_changes health_changes instance_changes

text \<open>The handlers of a service.\<close>

lemma keeps_ensure:
  assumes "ensures h = Some s" "changesService h = Some s"
  shows "keeps (law h past K) (EnsureLoadBalancer c s ns)"
  unfolding EnsureLoadBalancer_def Let_def
  by (assumption | rule keeps_bnd_lift | rule keeps_bnd_learn[OF ensures_lb[OF assms]] | rule keeps_bnd_nilDeref |
      rule keeps_rules | rule read_rules | rule audit_rules | rule assms | rule lb_changes[OF assms(2)] | rule Un_upper2)+

lemma keeps_bnd_describe:
  assumes "keeps (law h past K) (f None)"
    and "\<And>b. keeps (law h past (K \<union> SawLoadBalancer n ` set_option (Some b))) (f (Some b))"
  shows "keeps (law h past K) (bnd (describeLoadBalancer c n) f)"
proof (rule keeps_bnd_learn[OF describes])
  fix found
  show "keeps (law h past (K \<union> SawLoadBalancer n ` set_option found)) (f found)"
    using assms by (cases found) simp_all
qed

lemma keeps_update:
  assumes "changesService h = Some s"
  shows "keeps (law h past K) (UpdateLoadBalancer c s ns)"
  unfolding UpdateLoadBalancer_def
  by (assumption | rule refl | rule keeps_bnd_lift | rule keeps_bnd_describe | simp only: option.case | rule keeps_rules |
      rule read_rules | rule audit_rules | rule assms | rule lb_changes[OF assms] | rule Un_upper2)+

lemma keeps_deleteGroups:
  assumes "deletes h = Some s"
  shows "keeps (law h past K) (deleteSecurityGroups k c sgs)"
  unfolding deleteSecurityGroups_def
proof (rule keeps_attempt_learn[OF learns_groups keeps_bnd_lift])
  fix gs m assume m: "foldRes (collectSG c) [] gs = Ok m"
  have "keeps (law h past (K \<union> SawGroup ` set gs)) (DeleteSecurityGroup (c_compute c) i)" if i: "i \<in> set (map fst m)" for i
  proof -
    obtain g where "g \<in> set gs" "strval (sg_SecurityGroupId g) = i" "hasClusterTag (c_tagging c) (sg_Tags g) = Ok True"
      "i \<noteq> ElbSecurityGroup (globalCfg c)"
      using i collectSG_spec[OF m] by auto
    then show ?thesis using assms sawOwnGroup_iff[of c] by (intro keeps_request[OF compute_emits(6)]) auto
  qed
  then show "keeps (law h past (K \<union> SawGroup ` set gs)) (bnd (Now (c_clock c)) (\<lambda>now.
      deleteSgLoop k c (now + 600 * 1000000000) (map fst m)))"
    by (intro keeps_bnd keeps_deleteSgLoop read_rules)
qed simp

lemma keeps_delete:
  assumes "deletes h = Some s" "changesService h = Some s"
  shows "keeps (law h past K) (EnsureLoadBalancerDeleted k c s)"
proof -
  have drop: "keeps (law h past K') (DeleteLoadBalancer (c_loadBalancer c) (lb_LoadBalancerName b))"
    if "GetLoadBalancerName s = Ok n" "SawLoadBalancer n ` set_option (Some b) \<subseteq> K'" for n b K'
    using that assms(1) mayChange_seen[of n b K' s]
    by (intro keeps_request[OF elb_emits(5)]) (simp add: forService_def mayChange_def)
  show ?thesis
    unfolding EnsureLoadBalancerDeleted_def Let_def
    by (assumption | rule refl | rule keeps_bnd_lift | rule keeps_bnd_describe | simp only: option.case | rule keeps_rules |
        rule read_rules | rule audit_rules | rule assms | rule lb_changes[OF assms(2)] | rule drop | rule keeps_deleteGroups[OF assms(1)] | rule Un_upper2)+
qed

text \<open>Every entry of a call is permitted for that call.\<close>

lemma keeps_onV2:
  "(\<And>i. c_instances c = Some i \<Longrightarrow> keeps (law h past K) (f i)) \<Longrightarrow> keeps (law h past K) (onV2 c f)"
  unfolding onV2_def by (intro keeps_rules keeps_forget)

lemma serve_lawful: "keeps (law h past K) (serve c h)"
  by (cases h) (auto intro!: keeps_forget keeps_onV2 keeps_ensure keeps_update keeps_delete reading.keeps_get
      reading.node_reads reading.v2_reads reading.route_reads route_changes)

lemma serve_obeys:
  assumes "serve c h w = (r, w')"
  shows "\<exists>new. trail w' = new @ trail w \<and> obeys c h (trail w) new"
proof -
  have "law h (trail w) {} w" by (simp add: lawful_def)
  from keepsD[OF serve_lawful this assms] show ?thesis by (simp add: lawful_def)
qed

end

section \<open>A recorder in front of arbitrary clients\<close>

text \<open>A call of a client that acts on the outside \<open>'y\<close>, with its entries put on the trail.  The memory of the
  provider, the instance cache, is out of the client's reach.\<close>

definition through :: "('a res \<Rightarrow> entry list) \<Rightarrow> ('y, 'a) io \<Rightarrow> ((entry list \<times> 'y) sys, 'a) io" where
  "through es m w = (case m (snd (sys_rest w)) of (r, y) \<Rightarrow>
     (r, w\<lparr>sys_rest := (es r @ fst (sys_rest w), y)\<rparr>))"

definition auditTrail :: "(entry list \<times> 'y) sys \<Rightarrow> entry list" where
  "auditTrail w = fst (sys_rest w)"

definition recordingCompute :: "'y Compute \<Rightarrow> (entry list \<times> 'y) sys Compute" where
  "recordingCompute k =
     \<lparr>ReadVms = (\<lambda>f. through nothing (ReadVms k f)),
      ReadSecurityGroups = (\<lambda>f. through sawGroups (ReadSecurityGroups k f)),
      CreateSecurityGroup = (\<lambda>q. through (madeGroup (csg_SecurityGroupName q)) (CreateSecurityGroup k q)),
      DeleteSecurityGroup = (\<lambda>i. through (request (DroppedGroup i)) (DeleteSecurityGroup k i)),
      CreateSecurityGroupRule = (\<lambda>q. through (request (ChangedRules (srr_SecurityGroupId q))) (CreateSecurityGroupRule k q)),
      DeleteSecurityGroupRule = (\<lambda>q. through (request (ChangedRules (srr_SecurityGroupId q))) (DeleteSecurityGroupRule k q)),
      DescribeSubnets = (\<lambda>f. through nothing (DescribeSubnets k f)),
      CreateTags = (\<lambda>q. through (request (Tagged (ctr_ResourceIds q))) (CreateTags k q)),
      ReadRouteTables = (\<lambda>f. through nothing (ReadRouteTables k f)),
      api_CreateRoute = (\<lambda>q. through (request OnRoutes) (api_CreateRoute k q)),
      api_DeleteRoute = (\<lambda>q. through (request OnRoutes) (api_DeleteRoute k q)),
      UpdateVM = (\<lambda>q. through (request (OnVm (uvr_VmId q))) (UpdateVM k q))\<rparr>"

definition recordingElb :: "'y LoadBalancer \<Rightarrow> (entry list \<times> 'y) sys LoadBalancer" where
  "recordingElb k =
     (let change = (\<lambda>n m. through (request (OnLoadBalancer ChangeLb n)) m) in
      \<lparr>CreateLoadBalancer = (\<lambda>q. through (request (OnLoadBalancer CreateLb (clb_LoadBalancerName q))) (CreateLoadBalancer k q)),
       DeleteLoadBalancer = (\<lambda>n. through (request (OnLoadBalancer DeleteLb (strval n))) (DeleteLoadBalancer k n)),
       DescribeLoadBalancers = (\<lambda>n. through (sawLoadBalancers n) (DescribeLoadBalancers k n)),
       AddTags = (\<lambda>n t. change n (AddTags k n t)),
       RegisterInstancesWithLoadBalancer = (\<lambda>n l. change n (RegisterInstancesWithLoadBalancer k n l)),
       DeregisterInstancesFromLoadBalancer = (\<lambda>n l. change n (DeregisterInstancesFromLoadBalancer k n l)),
       CreateLoadBalancerPolicy = (\<lambda>q. change (strval (clp_LoadBalancerName q)) (CreateLoadBalancerPolicy k q)),
       SetLoadBalancerPoliciesForBackendServer = (\<lambda>n p l. change n (SetLoadBalancerPoliciesForBackendServer k n p l)),
       SetLoadBalancerPoliciesOfListener = (\<lambda>n p l. change n (SetLoadBalancerPoliciesOfListener k n p l)),
       DescribeLoadBalancerPolicies = (\<lambda>n l. through nothing (DescribeLoadBalancerPolicies k n l)),
       DetachLoadBalancerFromSubnets = (\<lambda>n l. change n (DetachLoadBalancerFromSubnets k n l)),
       AttachLoadBalancerToSubnets = (\<lambda>n l. change n (AttachLoadBalancerToSubnets k n l)),
       CreateLoadBalancerListeners = (\<lambda>n l. change n (CreateLoadBalancerListeners k n l)),
       DeleteLoadBalancerListeners = (\<lambda>n l. change n (DeleteLoadBalancerListeners k n l)),
       ApplySecurityGroupsToLoadBalancer = (\<lambda>n l. change n (ApplySecurityGroupsToLoadBalancer k n l)),
       ConfigureHealthCheck = (\<lambda>n q. change (strval n) (ConfigureHealthCheck k n q)),
       DescribeLoadBalancerAttributes = (\<lambda>n. through nothing (DescribeLoadBalancerAttributes k n)),
       ModifyLoadBalancerAttributes = (\<lambda>n a. change n (ModifyLoadBalancerAttributes k n a))\<rparr>)"

text \<open>The v2 interface only sends \<open>ReadVms\<close>; the other calls of its client are passed on.\<close>

definition recordingSdk :: "'y APIClient \<Rightarrow> (entry list \<times> 'y) sys APIClient" where
  "recordingSdk k =
     \<lparr>sdk_ReadVms = (\<lambda>f. through nothing (sdk_ReadVms k f)),
      sdk_ReadSecurityGroups = (\<lambda>f. through nothing (sdk_ReadSecurityGroups k f)),
      sdk_ReadSubnets = (\<lambda>f. through nothing (sdk_ReadSubnets k f)),
      sdk_ReadRouteTables = (\<lambda>f. through nothing (sdk_ReadRouteTables k f)),
      sdk_CreateSecurityGroup = (\<lambda>q. through (request (MadeGroup (csg_SecurityGroupName q) [])) (sdk_CreateSecurityGroup k q)),
      sdk_DeleteSecurityGroup = (\<lambda>i. through (request (DroppedGroup i)) (sdk_DeleteSecurityGroup k i)),
      sdk_CreateSecurityGroupRule = (\<lambda>q. through (request (ChangedRules (srr_SecurityGroupId q))) (sdk_CreateSecurityGroupRule k q)),
      sdk_DeleteSecurityGroupRule = (\<lambda>q. through (request (ChangedRules (srr_SecurityGroupId q))) (sdk_DeleteSecurityGroupRule k q)),
      sdk_CreateTags = (\<lambda>q. through (request (Tagged (ctr_ResourceIds q))) (sdk_CreateTags k q)),
      sdk_CreateRoute = (\<lambda>q. through (request OnRoutes) (sdk_CreateRoute k q)),
      sdk_DeleteRoute = (\<lambda>q. through (request OnRoutes) (sdk_DeleteRoute k q)),
      sdk_UpdateVm = (\<lambda>q. through (request (OnVm (uvr_VmId q))) (sdk_UpdateVm k q))\<rparr>"

definition recordingVM :: "'y VM \<Rightarrow> (entry list \<times> 'y) sys VM" where
  "recordingVM v = \<lparr>self_compute = map_option recordingCompute (self_compute v), self_vmID = self_vmID v,
     self_nodeName = self_nodeName v, self_availabilityZone = self_availabilityZone v, self_vpcID = self_vpcID v,
     self_subnetID = self_subnetID v, self_instanceType = self_instanceType v\<rparr>"

definition recordingV2 :: "'y instancesV2 \<Rightarrow> (entry list \<times> 'y) sys instancesV2" where
  "recordingV2 i = \<lparr>v2_availabilityZone = v2_availabilityZone i, v2_client = recordingSdk (v2_client i),
     v2_region = v2_region i, v2_tags = v2_tags i\<rparr>"

text \<open>The backoff of the library runs the condition it is given, on whatever world; its reference is used.\<close>

definition recordingCloud :: "'y Cloud \<Rightarrow> (entry list \<times> 'y) sys Cloud" where
  "recordingCloud k =
     \<lparr>c_compute = recordingCompute (c_compute k), c_loadBalancer = recordingElb (c_loadBalancer k),
      c_metadata = \<lparr>md_Available = through nothing (md_Available (c_metadata k)),
        GetMetadata = (\<lambda>p. through nothing (GetMetadata (c_metadata k) p))\<rparr>,
      c_cfg = c_cfg k, c_region = c_region k, c_vpcID = c_vpcID k, c_instances = map_option recordingV2 (c_instances k),
      c_tagging = c_tagging k, c_selfAWSInstance = map_option recordingVM (c_selfAWSInstance k),
      c_nodeInformerHasSynced = map_option (through nothing) (c_nodeInformerHasSynced k),
      c_nodeLister = (\<lambda>n. through nothing (c_nodeLister k n)), c_environ = c_environ k,
      c_clock = \<lparr>Now = through nothing (Now (c_clock k)), Sleep = (\<lambda>s. through nothing (Sleep (c_clock k) s))\<rparr>,
      c_libs = \<lparr>GetLoadBalancerSourceRanges = GetLoadBalancerSourceRanges (c_libs k),
        GetServiceHealthCheckPathPort = GetServiceHealthCheckPathPort (c_libs k),
        HealthCheckValidate = HealthCheckValidate (c_libs k), ExponentialBackoff = backoff_ref,
        jsonRule = jsonRule (c_libs k)\<rparr>\<rparr>"

lemma emits_through: "emits auditTrail es (through es m)"
  by (simp add: emits_def through_def auditTrail_def split: prod.split)

interpretation recorded: audited_cloud "recordingCloud k" auditTrail for k :: "'y Cloud"
proof
  show "auditedCompute auditTrail (c_compute (recordingCloud k))"
    by (simp add: auditedCompute_def recordingCloud_def recordingCompute_def emits_through)
  show "auditedElb auditTrail (c_loadBalancer (recordingCloud k))"
    by (simp add: auditedElb_def recordingCloud_def recordingElb_def Let_def emits_through)
  show "auditedOutside auditTrail (recordingCloud k)"
    by (auto simp: auditedOutside_def recordingCloud_def recordingV2_def recordingSdk_def emits_through)
qed (simp_all add: auditTrail_def recordingCloud_def)

section \<open>Runs of the controller manager\<close>

text \<open>Between two calls everything may change but the trail.\<close>

inductive runs :: "'y Cloud \<Rightarrow> (entry list \<times> 'y) sys \<Rightarrow> handlerCall list \<Rightarrow> (entry list \<times> 'y) sys \<Rightarrow> bool"
  for k :: "'y Cloud" and w0 where
  start: "runs k w0 [] w0"
| handle: "runs k w0 hs w \<Longrightarrow> serve (recordingCloud k) h w = (r, w') \<Longrightarrow> runs k w0 (hs @ [h]) w'"
| outside: "runs k w0 hs w \<Longrightarrow> auditTrail w' = auditTrail w \<Longrightarrow> runs k w0 hs w'"

lemma obeys_entry:
  assumes "obeys c h past new" "new = newer @ e # older"
  shows "permitted c h (older @ past) e"
  using assms by (induction newer arbitrary: new) auto

lemma runs_permitted:
  assumes "runs k w0 hs w" "auditTrail w0 = []" "auditTrail w = newer @ e # older"
  shows "\<exists>h\<in>set hs. permitted (recordingCloud k) h older e"
  using assms(1,3)
proof (induction arbitrary: newer older)
  case start
  then show ?case using assms(2) by simp
next
  case (handle hs w h r w')
  obtain new where new: "auditTrail w' = new @ auditTrail w" "obeys (recordingCloud k) h (auditTrail w) new"
    using recorded.serve_obeys[OF handle.hyps(2)] by blast
  from new(1) handle.prems have "new @ auditTrail w = newer @ e # older" by simp
  then consider n where "new = newer @ e # n" "older = n @ auditTrail w" | n where "auditTrail w = n @ e # older"
    by (auto simp: append_eq_append_conv2 append_eq_Cons_conv Cons_eq_append_conv)
  then show ?case
  proof cases
    case 1
    then show ?thesis using obeys_entry[OF new(2)] by auto
  next
    case 2
    then show ?thesis using handle.IH by auto
  qed
next
  case (outside hs w w')
  then show ?case using outside.IH[of newer older] by simp
qed

text \<open>What the policy says about single entries of a run.\<close>

lemma runs_permitted_member:
  assumes "runs k w0 hs w" "auditTrail w0 = []" "e \<in> set (auditTrail w)"
  obtains older h where "h \<in> set hs" "permitted (recordingCloud k) h older e" "set older \<subseteq> set (auditTrail w)"
proof -
  obtain newer older where t: "auditTrail w = newer @ e # older" using split_list[OF assms(3)] by blast
  then have "set older \<subseteq> set (auditTrail w)" by auto
  then show thesis using runs_permitted[OF assms(1,2) t] that by blast
qed

lemma through_Ok: "through es m w = (Ok a, w') \<Longrightarrow> \<exists>v v'. m v = (Ok a, v')"
  by (auto simp: through_def split: prod.splits)

definition describesByName :: "'w LoadBalancer \<Rightarrow> bool" where
  "describesByName client \<longleftrightarrow> (\<forall>n w lbs w'. DescribeLoadBalancers client n w = (Ok lbs, w') \<longrightarrow>
     (\<forall>lb\<in>set lbs. strval (lb_LoadBalancerName lb) = n))"

lemma answersLoadBalancer_name:
  assumes "describesByName (c_loadBalancer k)" "answersLoadBalancer (recordingCloud k) n lb"
  shows "strval (lb_LoadBalancerName lb) = n"
proof -
  obtain w lbs w' where "through (sawLoadBalancers n) (DescribeLoadBalancers (c_loadBalancer k) n) w = (Ok lbs, w')" "lb \<in> set lbs"
    using assms(2) by (auto simp: answersLoadBalancer_def recordingCloud_def recordingElb_def Let_def)
  moreover from through_Ok[OF this(1)] obtain v v' where "DescribeLoadBalancers (c_loadBalancer k) n v = (Ok lbs, v')" by blast
  ultimately show ?thesis using assms(1) unfolding describesByName_def by blast
qed

lemma itsLoadBalancer_name:
  assumes "describesByName (c_loadBalancer k)" "runs k w0 hs w" "auditTrail w0 = []"
    and "set older \<subseteq> set (auditTrail w)" "itsLoadBalancer older s n"
  shows "GetLoadBalancerName s = Ok n"
proof (rule ccontr)
  assume no: "GetLoadBalancerName s \<noteq> Ok n"
  then obtain e where "e \<in> set older" "case e of SawLoadBalancer m lb \<Rightarrow> GetLoadBalancerName s = Ok m \<and>
      strval (lb_LoadBalancerName lb) = n | _ \<Rightarrow> False"
    using assms(5) unfolding itsLoadBalancer_def list_ex_iff by (elim disjE bexE) simp_all
  then obtain m lb where m: "SawLoadBalancer m lb \<in> set older" "GetLoadBalancerName s = Ok m" "strval (lb_LoadBalancerName lb) = n"
    by (cases e rule: entry.exhaust) auto
  have "SawLoadBalancer m lb \<in> set (auditTrail w)" using m(1) assms(4) by blast
  from runs_permitted_member[OF assms(2,3) this]
  have "answersLoadBalancer (recordingCloud k) m lb" by (metis permitted.simps(2))
  then show False using answersLoadBalancer_name[OF assms(1)] m(2,3) no by auto
qed

lemma recording_simps [simp]:
  "globalCfg (recordingCloud k) = globalCfg k" "c_tagging (recordingCloud k) = c_tagging k"
  by (simp_all add: recordingCloud_def globalCfg_def)

text \<open>The calls one after the other, with nothing in between.\<close>

definition serveAll :: "'y Cloud \<Rightarrow> (entry list \<times> 'y) sys \<Rightarrow> handlerCall list \<Rightarrow> (entry list \<times> 'y) sys" where
  "serveAll k w0 hs = foldl (\<lambda>w h. snd (serve (recordingCloud k) h w)) w0 hs"

lemma runs_serveAll: "runs k w0 hs (serveAll k w0 hs)"
proof (induction hs rule: rev_induct)
  case Nil
  show ?case by (simp add: serveAll_def runs.start)
next
  case (snoc h hs)
  then show ?case by (auto simp: serveAll_def intro: runs.handle surjective_pairing)
qed

section \<open>A small cloud\<close>

text \<open>Its world is the list of the load balancers that exist.  Every group carries the tag of the cluster.\<close>

definition liveGroup :: "string \<Rightarrow> SecurityGroup" where
  "liveGroup i = \<lparr>sg_SecurityGroupId = Some i, sg_SecurityGroupName = None,
     sg_Tags = Some [\<lparr>tag_Key = ''OscK8sClusterID/c1'', tag_Value = ''owned''\<rparr>], sg_InboundRules = Some []\<rparr>"

definition liveClient :: "string list Compute" where
  "liveClient = quietClient\<lparr>
     ReadSecurityGroups := (\<lambda>f. ok (case fsg_SecurityGroupIds f of None \<Rightarrow> [] | Some ids \<Rightarrow> map liveGroup ids)),
     CreateSecurityGroup := (\<lambda>_. ok (Some (liveGroup ''sg-1''))),
     DescribeSubnets := (\<lambda>_. ok [\<lparr>sn_SubnetId = Some ''subnet-1'', sn_SubregionName = Some ''eu-west-2a'',
        sn_NetId = None, sn_Tags = Some [\<lparr>tag_Key = ''OscK8sClusterID/c1'', tag_Value = ''owned''\<rparr>]\<rparr>]),
     ReadRouteTables := (\<lambda>_. ok [\<lparr>rtb_RouteTableId = Some ''rtb-1'',
        rtb_LinkRouteTables = Some [\<lparr>lrt_SubnetId = Some ''subnet-1'', lrt_Main = None\<rparr>],
        rtb_Routes = Some [\<lparr>rt_DestinationIpRange = None, rt_GatewayId = Some ''igw-1'', rt_State = None, rt_VmId = None\<rparr>],
        rtb_Tags = Some []\<rparr>])\<rparr>"

definition liveElb :: "string list LoadBalancer" where
  "liveElb = noElb\<lparr>
     DescribeLoadBalancers := (\<lambda>n w. (if n \<in> set w
        then Ok [(exLb n [])\<lparr>lb_SecurityGroups := [''sg-1''], lb_HealthCheck := Some \<lparr>hc_Target = None,
            hc_HealthyThreshold = None, hc_UnhealthyThreshold = None, hc_Timeout = None, hc_Interval = None\<rparr>\<rparr>]
        else Err (ApiErr (Some ''LoadBalancerNotFound'') []), w)),
     CreateLoadBalancer := (\<lambda>q w. (Ok (), clb_LoadBalancerName q # w)),
     DeleteLoadBalancer := (\<lambda>n w. (Ok (), removeAll (strval n) w)),
     DescribeLoadBalancerAttributes := (\<lambda>_. ok exAttributes),
     ModifyLoadBalancerAttributes := (\<lambda>_ _. ok ()), ConfigureHealthCheck := (\<lambda>_ _. ok ())\<rparr>"

definition liveCloud :: "string list Cloud" where
  "liveCloud = (exCloud liveClient)\<lparr>c_loadBalancer := liveElb,
     c_cfg := \<lparr>Global = exGlobal\<lparr>ElbSecurityGroup := []\<rparr>, cfg_ServiceOverride = []\<rparr>\<rparr>"

definition liveSys :: "(entry list \<times> string list) sys" where
  "liveSys = \<lparr>sys_snap = None, sys_rest = ([], [''u1''])\<rparr>"

definition liveService :: Service where
  "liveService = (exService ''u1'' Map.empty)\<lparr>svc_Ports :=
     [\<lparr>sp_Name = ''http'', sp_Protocol = ''TCP'', sp_Port = 80, sp_NodePort = 30080\<rparr>]\<rparr>"

definition liveCalls :: "handlerCall list" where
  "liveCalls = [Call_UpdateLoadBalancer liveService [], Call_NodeAddressesByProviderID ''i-1'',
     Call_EnsureLoadBalancerDeleted liveService]"

text \<open>What the run changes, newest entry first.\<close>

lemma liveRun_changes:
  "filter changes (auditTrail (serveAll liveCloud liveSys liveCalls)) = [DroppedGroup ''sg-1'', OnLoadBalancer DeleteLb ''u1'']"
  by code_simp

lemma liveRun_entry:
  "e = DroppedGroup ''sg-1'' \<or> e = OnLoadBalancer DeleteLb ''u1'' \<Longrightarrow> e \<in> set (auditTrail (serveAll liveCloud liveSys liveCalls))"
  using arg_cong[OF liveRun_changes, of set] by (auto simp only: set_filter list.set)

lemma liveSys_empty: "auditTrail liveSys = []"
  by (simp add: auditTrail_def liveSys_def)

end
