(* ===== verification/Convergence.thy ===== *)
theory Convergence
  imports Readers
begin

text \<open>
  What a successful handler of the service controller leaves behind, end to end.  The world is read through
  two views, the listeners and the registered instances of each load balancer.  The
  hypothesis \<open>lbService\<close> is the documented effect of the calls on the two views: the calls that are made for it change
  a view, every other call of either API leaves both alone.
\<close>

section \<open>Calls that do not touch a view\<close>

definition otherCallsKeep :: "('x sys \<Rightarrow> bool) \<Rightarrow> 'x sys Cloud \<Rightarrow> bool" where
  "otherCallsKeep P c \<longleftrightarrow> readsKeep P c \<and>
     (\<forall>q. keeps P (CreateSecurityGroup (c_compute c) q)) \<and>
     (\<forall>q. keeps P (CreateSecurityGroupRule (c_compute c) q)) \<and>
     (\<forall>q. keeps P (DeleteSecurityGroupRule (c_compute c) q)) \<and>
     (\<forall>q. keeps P (CreateTags (c_compute c) q)) \<and>
     (\<forall>n t. keeps P (AddTags (c_loadBalancer c) n t)) \<and>
     (\<forall>q. keeps P (CreateLoadBalancerPolicy (c_loadBalancer c) q)) \<and>
     (\<forall>n p l. keeps P (SetLoadBalancerPoliciesForBackendServer (c_loadBalancer c) n p l)) \<and>
     (\<forall>n p l. keeps P (SetLoadBalancerPoliciesOfListener (c_loadBalancer c) n p l)) \<and>
     (\<forall>n q. keeps P (ConfigureHealthCheck (c_loadBalancer c) n q)) \<and>
     (\<forall>n a. keeps P (ModifyLoadBalancerAttributes (c_loadBalancer c) n a)) \<and>
     ExponentialBackoff (c_libs c) = backoff_ref"

lemma others_reading: "otherCallsKeep P c \<Longrightarrow> reading_cloud c P"
  by unfold_locales (simp add: otherCallsKeep_def)

lemma others_calls:
  assumes "otherCallsKeep P c"
  shows "keeps P (CreateSecurityGroup (c_compute c) q1)" "keeps P (CreateTags (c_compute c) q4)"
    "keeps P (AddTags (c_loadBalancer c) n t)" "keeps P (CreateLoadBalancerPolicy (c_loadBalancer c) q5)"
    "keeps P (SetLoadBalancerPoliciesForBackendServer (c_loadBalancer c) n p l)"
    "keeps P (SetLoadBalancerPoliciesOfListener (c_loadBalancer c) n p l)"
    "keeps P (ConfigureHealthCheck (c_loadBalancer c) n1 q6)" "keeps P (ModifyLoadBalancerAttributes (c_loadBalancer c) n a)"
    "ExponentialBackoff (c_libs c) = backoff_ref" "ruleCallsKeep P c"
  using assms reading_cloud.api_reads(2)[OF others_reading[OF assms]] by (simp_all add: otherCallsKeep_def ruleCallsKeep_def)

lemma others_groups:
  assumes "otherCallsKeep P c"
  shows "keeps P (buildELBSecurityGroupList c serviceName n annotations)"
    and "keeps P (setSecurityGroupIngress c i permissions)"
    and "keeps P (updateInstanceSecurityGroupsForLoadBalancer c lb instances sgs)"
proof -
  note calls = others_calls[OF assms] and reads = reading_cloud.api_reads[OF others_reading[OF assms]]
  have loop: "keeps P (ensureSgLoop c name description k)" for name description k
  proof (induction "MaxReadThenCreateRetries - k" arbitrary: k rule: less_induct)
    case less
    then show ?case unfolding ensureSgLoop.simps[of c name description k]
      by (intro keeps_rules calls reads keeps_readRepair) auto
  qed
  have "keeps P (ensureSecurityGroup c name description tags)" for name description tags
    unfolding ensureSecurityGroup_def
    by (intro keeps_bnd loop) (auto split: sum.split intro!: keeps_rules keeps_createTags calls)
  then show "keeps P (buildELBSecurityGroupList c serviceName n annotations)"
    unfolding buildELBSecurityGroupList_def Let_def by (intro keeps_rules)
  show "keeps P (setSecurityGroupIngress c i permissions)" by (rule keeps_setIngress[OF calls(10)])
  show "keeps P (updateInstanceSecurityGroupsForLoadBalancer c lb instances sgs)" by (rule keeps_updateInstanceSG[OF calls(10)])
qed

lemma others_lb:
  assumes "otherCallsKeep P c"
  shows "keeps P (setBackendPolicies c n p ps)" "keeps P (createProxyProtocolPolicy c n u)"
    "keeps P (syncProxyProtocol c n ls b lb0)" "keeps P (syncTags c n an)" "keeps P (syncAttributes c n at)"
    "keeps P (applySSLPolicy c an n lb)" "keeps P (ensureServiceHealthCheck c svc ls lb)"
proof -
  note rd = others_reading[OF assms]
  note calls = others_calls[OF assms] and reads = reading_cloud.api_reads[OF rd] reading_cloud.selfs[OF rd]
  show pol: "keeps P (setBackendPolicies c n p ps)" "keeps P (createProxyProtocolPolicy c n u)" for n p ps u
    unfolding setBackendPolicies_def createProxyProtocolPolicy_def by (intro keeps_rules calls)+
  show "keeps P (syncProxyProtocol c n ls b lb0)" "keeps P (syncTags c n an)" "keeps P (syncAttributes c n at)"
    unfolding syncProxyProtocol_def syncTags_def addLoadBalancerTags_def syncAttributes_def Let_def
    by (intro keeps_rules calls reads pol)+
  have "keeps P (ensureSSLNegotiationPolicy c lb p)" "keeps P (setSSLNegotiationPolicy c n p q)" for p q
    unfolding ensureSSLNegotiationPolicy_def setSSLNegotiationPolicy_def Let_def by (intro keeps_rules calls reads)+
  then show "keeps P (applySSLPolicy c an n lb)" unfolding applySSLPolicy_def by (intro keeps_rules)
  have "keeps P (ensureLoadBalancerHealthCheck c lb proto port path an)" for proto port path an
    unfolding ensureLoadBalancerHealthCheck_def Let_def by (intro keeps_rules calls reads)
  then show "keeps P (ensureServiceHealthCheck c svc ls lb)" unfolding ensureServiceHealthCheck_def Let_def by (intro keeps_rules)
qed

section \<open>The load balancer service\<close>

definition lbService ::
  "'x sys Cloud \<Rightarrow> ('x sys \<Rightarrow> string \<Rightarrow> int \<rightharpoonup> listenerKey) \<Rightarrow> ('x sys \<Rightarrow> string \<Rightarrow> string set) \<Rightarrow> bool" where
  "lbService c listeners backends \<longleftrightarrow>
     listenerContract (c_loadBalancer c) listeners \<and> instanceContract (c_loadBalancer c) backends \<and>
     (\<forall>n w ds w' lb. DescribeLoadBalancers (c_loadBalancer c) n w = (Ok ds, w') \<longrightarrow> lb \<in> set ds \<longrightarrow>
        strval (lb_LoadBalancerName lb) = n \<and> set (map strval (lb_Instances lb)) = backends w' n) \<and>
     (\<forall>q w w'. CreateLoadBalancer (c_loadBalancer c) q w = (Ok (), w') \<longrightarrow>
        backends w' = (backends w)(clb_LoadBalancerName q := {})) \<and>
     (\<forall>v. otherCallsKeep (\<lambda>w. listeners w = v) c \<and>
        (\<forall>n l. keeps (\<lambda>w. listeners w = v) (RegisterInstancesWithLoadBalancer (c_loadBalancer c) n l)) \<and>
        (\<forall>n l. keeps (\<lambda>w. listeners w = v) (DeregisterInstancesFromLoadBalancer (c_loadBalancer c) n l))) \<and>
     (\<forall>v. otherCallsKeep (\<lambda>w. backends w = v) c \<and>
        (\<forall>n l. keeps (\<lambda>w. backends w = v) (CreateLoadBalancerListeners (c_loadBalancer c) n l)) \<and>
        (\<forall>n l. keeps (\<lambda>w. backends w = v) (DeleteLoadBalancerListeners (c_loadBalancer c) n l)))"

lemma lbServiceD:
  assumes "lbService c listeners backends"
  shows "listenerContract (c_loadBalancer c) listeners" "instanceContract (c_loadBalancer c) backends"
    and "DescribeLoadBalancers (c_loadBalancer c) n w = (Ok ds, w') \<Longrightarrow> lb \<in> set ds \<Longrightarrow>
      strval (lb_LoadBalancerName lb) = n \<and> set (map strval (lb_Instances lb)) = backends w' n"
    and "CreateLoadBalancer (c_loadBalancer c) q w = (Ok (), w') \<Longrightarrow>
      backends w' = (backends w)(clb_LoadBalancerName q := {})"
    and "otherCallsKeep (\<lambda>w. listeners w = v1) c" "otherCallsKeep (\<lambda>w. backends w = v2) c"
    and "keeps (\<lambda>w. listeners w = v1) (RegisterInstancesWithLoadBalancer (c_loadBalancer c) n l)"
    and "keeps (\<lambda>w. listeners w = v1) (DeregisterInstancesFromLoadBalancer (c_loadBalancer c) n l)"
    and "keeps (\<lambda>w. backends w = v2) (CreateLoadBalancerListeners (c_loadBalancer c) n l2)"
    and "keeps (\<lambda>w. backends w = v2) (DeleteLoadBalancerListeners (c_loadBalancer c) n l3)"
  using assms unfolding lbService_def by blast+

lemma describe_member:
  assumes "describeLoadBalancer c n w = (Ok (Some lb), w')"
  obtains ds where "DescribeLoadBalancers (c_loadBalancer c) n w = (Ok ds, w')" "lb \<in> set ds"
proof -
  have last: "foldl (\<lambda>_ l. Some l) None ds = Some lb \<Longrightarrow> lb \<in> set ds" for ds
    by (cases ds rule: rev_cases) auto
  show thesis using assms last that
    by (auto simp: describeLoadBalancer_def attempt_eq_Ok split: if_splits)
qed

lemma describe_shows:
  assumes "lbService c listeners backends" "describeLoadBalancer c n w = (Ok (Some lb), w')"
  shows "strval (lb_LoadBalancerName lb) = n \<and> set (map strval (lb_Instances lb)) = backends w' n"
  using assms(2) by (rule describe_member) (rule lbServiceD(3)[OF assms(1)])

lemma describe_backends:
  assumes "lbService c listeners backends" "describeLoadBalancer c n w = (r, w')"
  shows "backends w' = backends w"
proof -
  have "keeps (\<lambda>u. backends u = backends w) (describeLoadBalancer c n)"
    by (rule reading_cloud.describe_reads[OF others_reading[OF lbServiceD(6)[OF assms(1)]]])
  from keepsD[OF this refl assms(2)] show ?thesis .
qed

lemma createElb_backends:
  assumes svc: "lbService c listeners backends"
    and run: "createElb c ns name ls sub sgs intern proxy an w = (Ok u, w')"
  shows "backends w' = (backends w)(name := {})"
proof -
  obtain q w1 w2 where q: "createLbInput c ns name ls sub sgs intern an w = (Ok q, w1)"
    and cr: "CreateLoadBalancer (c_loadBalancer c) q w1 = (Ok (), w2)"
    and after: "(if proxy then bnd (createProxyProtocolPolicy c name False) (\<lambda>_.
         forEach ls (\<lambda>listener. bnd (nilDeref (li_InstancePort listener)) (\<lambda>port.
           setBackendPolicies c name port [ProxyProtocolPolicyName]))) else ok ()) w2 = (Ok u, w')"
    using run by (auto simp: createElb_def bnd_eq_Ok)
  have "clb_LoadBalancerName q = name" "w1 = w"
    using q by (auto simp: createLbInput_def bnd_eq_Ok Let_def selfInstance_def split: option.splits)
  moreover have "keeps (\<lambda>w. backends w = backends w2) (if proxy then bnd (createProxyProtocolPolicy c name False) (\<lambda>_.
         forEach ls (\<lambda>listener. bnd (nilDeref (li_InstancePort listener)) (\<lambda>port.
           setBackendPolicies c name port [ProxyProtocolPolicyName]))) else ok ())"
    by (intro keeps_rules others_lb[OF lbServiceD(6)[OF svc]] reading_cloud.selfs[OF others_reading[OF lbServiceD(6)[OF svc]]])
  from keepsD[OF this refl after] have "backends w' = backends w2" .
  ultimately show ?thesis using lbServiceD(4)[OF svc cr] by simp
qed

lemma sync_backends:
  assumes svc: "lbService c listeners backends"
  shows "keeps (\<lambda>w. backends w = v) (syncListeners c name ls proxy lb)"
  unfolding syncListeners_def Let_def
  by (intro keeps_rules others_lb[OF lbServiceD(6)[OF svc]] lbServiceD(9,10)[OF svc])

lemma ensureLoadBalancer_backends:
  assumes svc: "lbService c listeners backends"
    and run: "ensureLoadBalancer c ns name ls sub sgs intern proxy attrs an w = (Ok r, w')"
  shows "(\<exists>b. backends w' = (backends w)(name := b)) \<and> (\<forall>lb. r = Some lb \<longrightarrow>
    strval (lb_LoadBalancerName lb) = name \<and> set (map strval (lb_Instances lb)) = backends w' name)"
proof -
  note keep = others_lb[OF lbServiceD(6)[OF svc]]
  obtain found w1 dirty w2 d3 w3 where desc: "describeLoadBalancer c name w = (Ok found, w1)"
    and mid: "(case found of
            None \<Rightarrow> bnd (createElb c ns name ls sub sgs intern proxy an) (\<lambda>_. ok True)
          | Some loadBalancer \<Rightarrow>
              bnd (syncListeners c name ls proxy loadBalancer) (\<lambda>dirty1.
              bnd (syncProxyProtocol c name ls proxy loadBalancer) (\<lambda>dirty2.
              bnd (syncTags c name an) (\<lambda>_.
              ok (subnetsDiffer sub loadBalancer \<or> dirty1 \<or> dirty2))))) w1 = (Ok dirty, w2)"
    and attr: "syncAttributes c name attrs w2 = (Ok d3, w3)"
    and fin: "(if dirty \<or> d3 then describeLoadBalancer c name else ok found) w3 = (Ok r, w')"
    using run unfolding ensureLoadBalancer_def bnd_eq_Ok by auto
  have b1: "backends w1 = backends w" by (rule describe_backends[OF svc desc])
  have b3: "backends w3 = backends w2" using keepsD[OF keep(5) refl attr] .
  have b4: "backends w' = backends w3" using fin describe_backends[OF svc] by (auto split: if_splits)
  have again: "strval (lb_LoadBalancerName lb) = name \<and> set (map strval (lb_Instances lb)) = backends w' name"
    if "dirty \<or> d3" "r = Some lb" for lb
    using fin that describe_shows[OF svc] by (auto split: if_splits)
  show ?thesis
  proof (cases found)
    case None
    then have "dirty" "backends w2 = (backends w1)(name := {})"
      using mid createElb_backends[OF svc] by (auto simp: bnd_eq_Ok)
    then show ?thesis using b1 b3 b4 again by auto
  next
    case (Some lb0)
    have "keeps (\<lambda>w. backends w = backends w1) (bnd (syncListeners c name ls proxy lb0) (\<lambda>dirty1.
              bnd (syncProxyProtocol c name ls proxy lb0) (\<lambda>dirty2.
              bnd (syncTags c name an) (\<lambda>_. ok (subnetsDiffer sub lb0 \<or> dirty1 \<or> dirty2)))))"
      by (intro keeps_rules sync_backends[OF svc] keep)
    from keepsD[OF this refl] have b2: "backends w2 = backends w1" using mid Some by simp
    then have "strval (lb_LoadBalancerName lb) = name \<and> set (map strval (lb_Instances lb)) = backends w' name"
      if "r = Some lb" for lb
      using that fin again[of lb] describe_shows[OF svc, of name w lb0 w1] desc Some b3 b4 by (auto split: if_splits)
    then show ?thesis using b1 b2 b3 b4 by (metis fun_upd_triv)
  qed
qed

section \<open>Ensuring a load balancer\<close>

lemma buildListeners_ports:
  assumes "buildListeners s = Ok ls"
  shows "map listenerPort ls = map sp_Port (filter (\<lambda>p. sp_NodePort p \<noteq> 0) (svc_Ports s))"
proof -
  have "list_all2 (\<lambda>p l. buildListener p (svc_Annotations s)
      (getPortSets (mstr (svc_Annotations s) ServiceAnnotationLoadBalancerSSLPorts)) = Ok l)
      (filter (\<lambda>p. sp_NodePort p \<noteq> 0) (svc_Ports s)) ls"
    using foldRes_listeners[OF assms[unfolded buildListeners_def Let_def]] by auto
  then show ?thesis
    by (induction rule: list_all2_induct)
      (auto simp: listenerPort_def buildListener_def Let_def split: if_splits)
qed

text \<open>Taking a successful run apart.\<close>

lemma bnd_nilDeref_OkE:
  "bnd (nilDeref p) f w = (Ok b, w2) \<Longrightarrow> (\<And>a. p = Some a \<Longrightarrow> f a w = (Ok b, w2) \<Longrightarrow> thesis) \<Longrightarrow> thesis"
  by (auto simp: bnd_eq_Ok nilDeref_def split: option.splits)

lemmas OkEs = bnd_lift_OkE bnd_nilDeref_OkE guard_OkE bnd_OkE ok_OkE

text \<open>The parts of a successful run: what comes before and after \<open>ensureLoadBalancer\<close> touches no view.\<close>

lemma EnsureLoadBalancer_Ok:
  assumes "EnsureLoadBalancer c s nodes w = (Ok status, w')"
  obtains ls instances w1 name w2 subnets sgs proxy attrs lb w3 w4 where
    "buildListeners s = Ok ls" "findInstancesForELB c nodes w = (Ok instances, w1)" "GetLoadBalancerName s = Ok name"
    "\<And>P. otherCallsKeep P c \<Longrightarrow> P w \<Longrightarrow> P w2"
    "ensureLoadBalancer c (svc_Namespace s @ ''/'' @ svc_Name s) name ls subnets sgs (isInternalELB (svc_Annotations s))
       proxy attrs (svc_Annotations s) w2 = (Ok (Some lb), w3)"
    "\<And>P. otherCallsKeep P c \<Longrightarrow> P w3 \<Longrightarrow> P w4"
    "ensureLoadBalancerInstances c (strval (lb_LoadBalancerName lb)) (lb_Instances lb) instances w4 = (Ok (), w')"
    "status = toStatus lb"
proof -
  obtain ls instances w1 ranges proxy attrs found w2 subnets name sgs w3 w4 r w5 w6 w7 lb w8 where
    steps: "buildListeners s = Ok ls" "GetLoadBalancerName s = Ok name"
    "findInstancesForELB c nodes w = (Ok instances, w1)"
    "findELBSubnets c (isInternalELB (svc_Annotations s)) w1 = (Ok found, w2)"
    "(if \<not> (length (listval subnets) > 0 \<and> c_vpcID c \<noteq> []) then ok [DefaultSrcSgName]
      else buildELBSecurityGroupList c (svc_Namespace s @ ''/'' @ svc_Name s) name (svc_Annotations s)) w2 = (Ok sgs, w3)"
    "(if length (listval subnets) > 0 \<and> c_vpcID c \<noteq> []
      then bnd (setSecurityGroupIngress c (hd sgs) (servicePermissions (jsonRule (c_libs c)) ranges (svc_Ports s))) (\<lambda>_. ok ())
      else ok ()) w3 = (Ok (), w4)"
    "ensureLoadBalancer c (svc_Namespace s @ ''/'' @ svc_Name s) name ls subnets (Some sgs) (isInternalELB (svc_Annotations s))
       proxy attrs (svc_Annotations s) w4 = (Ok r, w5)"
    "applySSLPolicy c (svc_Annotations s) name r w5 = (Ok (), w6)"
    "ensureServiceHealthCheck c s ls r w6 = (Ok (), w7)" "r = Some lb"
    "updateInstanceSecurityGroupsForLoadBalancer c lb instances sgs w7 = (Ok (), w8)"
    "ensureLoadBalancerInstances c (strval (lb_LoadBalancerName lb)) (lb_Instances lb) instances w8 = (Ok (), w')"
    "status = toStatus lb"
    using assms unfolding EnsureLoadBalancer_def Let_def
    by (elim OkEs) (rule that; (assumption | simp))
  show thesis
  proof (rule that[OF steps(1,3,2) _ steps(7)[unfolded steps(10)] _ steps(12,13)])
    fix P assume o: "otherCallsKeep P c"
    note rd = others_reading[OF o]
    show "P w4" if "P w"
    proof -
      have "P w1" using keepsD[OF reading_cloud.instance_reads[OF rd] that steps(3)] .
      then have "P w2" using keepsD[OF reading_cloud.subnet_reads[OF rd] _ steps(4)] by blast
      then have "P w3" using steps(5) by (auto split: if_splits dest: keepsD[OF others_groups(1)[OF o]])
      then show "P w4" using steps(6) by (auto simp: bnd_eq_Ok split: if_splits dest: keepsD[OF others_groups(2)[OF o]])
    qed
    show "P w8" if "P w5"
    proof -
      have "P w6" using keepsD[OF others_lb(6)[OF o] that steps(8)] .
      then have "P w7" using keepsD[OF others_lb(7)[OF o] _ steps(9)] by blast
      then show "P w8" using keepsD[OF others_groups(3)[OF o] _ steps(11)] by blast
    qed
  qed
qed

text \<open>
  C1. \<open>EnsureLoadBalancer\<close> does what it is for: when it returns a status for a service whose ports are distinct, the load
  balancer named after the service has exactly the listeners built from the ports, and exactly the instances found for the nodes
  are registered with it; the listeners and instances of every other load balancer are as before; and this
  holds whether the load balancer was created or existed in any state.
\<close>

theorem EnsureLoadBalancer_converges:
  assumes "lbService c listeners backends" "distinct (map sp_Port (svc_Ports s))"
    and "EnsureLoadBalancer c s nodes w = (Ok status, w')"
  shows "\<exists>name ls instances w1. GetLoadBalancerName s = Ok name \<and> buildListeners s = Ok ls \<and>
    findInstancesForELB c nodes w = (Ok instances, w1) \<and>
    listeners w' = (listeners w)(name := listenersMap ls) \<and>
    backends w' = (backends w)(name := fst ` set instances)"
  using assms(3)
proof (rule EnsureLoadBalancer_Ok)
  fix ls instances w1 name w2 subnets sgs proxy attrs lb w3 w4
  note svc = lbServiceD[OF assms(1)]
  assume ls: "buildListeners s = Ok ls" and inst: "findInstancesForELB c nodes w = (Ok instances, w1)"
    and name: "GetLoadBalancerName s = Ok name"
    and before: "\<And>P. otherCallsKeep P c \<Longrightarrow> P w \<Longrightarrow> P w2"
    and lb: "ensureLoadBalancer c (svc_Namespace s @ ''/'' @ svc_Name s) name ls subnets sgs (isInternalELB (svc_Annotations s))
       proxy attrs (svc_Annotations s) w2 = (Ok (Some lb), w3)"
    and after: "\<And>P. otherCallsKeep P c \<Longrightarrow> P w3 \<Longrightarrow> P w4"
    and reg: "ensureLoadBalancerInstances c (strval (lb_LoadBalancerName lb)) (lb_Instances lb) instances w4 = (Ok (), w')"
  have "distinct (map listenerPort ls)"
    using assms(2) unfolding buildListeners_ports[OF ls] by (simp add: distinct_map_filter)
  then have "listeners w3 = (listeners w2)(name := listenersMap ls)" by (rule ensureLoadBalancer_view[OF svc(1) _ lb])
  moreover have "listeners w2 = listeners w" "listeners w4 = listeners w3" "backends w2 = backends w" "backends w4 = backends w3"
    using before[OF svc(5) refl] after[OF svc(5) refl] before[OF svc(6) refl] after[OF svc(6) refl] by simp_all
  moreover have "keeps (\<lambda>u. listeners u = listeners w4) (ensureLoadBalancerInstances c n xs ys)" for n xs ys
    unfolding ensureLoadBalancerInstances_def Let_def by (intro keeps_rules svc(7,8))
  from keepsD[OF this refl reg] have "listeners w' = listeners w4" .
  moreover obtain b where b: "backends w3 = (backends w2)(name := b)"
    and shown: "strval (lb_LoadBalancerName lb) = name" "set (map strval (lb_Instances lb)) = backends w3 name"
    using ensureLoadBalancer_backends[OF assms(1) lb] by auto
  moreover have "backends w' = (backends w4)(name := set (map fst instances))"
    using reg calculation by (intro instances_view[OF svc(2), of w4 name "lb_Instances lb"]) simp_all
  ultimately show ?thesis using ls inst name by auto
qed

section \<open>Updating a load balancer\<close>

text \<open>
  C7. \<open>UpdateLoadBalancer\<close> does what it is for, with one exception: when it reports success, the listeners are as before, and
  either exactly the instances found for the nodes are registered with the load balancer named after the service and
  every other load balancer is as before, or the calls that register and deregister instances failed and the error was dropped.
\<close>

theorem UpdateLoadBalancer_converges:
  assumes "lbService c listeners backends" "UpdateLoadBalancer c s nodes w = (Ok (), w')"
  shows "\<exists>name instances w1. GetLoadBalancerName s = Ok name \<and> findInstancesForELB c nodes w = (Ok instances, w1) \<and>
    listeners w' = listeners w \<and>
    (backends w' = (backends w)(name := fst ` set instances) \<or>
     (\<exists>lb w2 w3 e. describeLoadBalancer c name w1 = (Ok (Some lb), w2) \<and>
        ensureLoadBalancerInstances c name (lb_Instances lb) instances w3 = (Err e, w')))"
proof -
  note svc = lbServiceD[OF assms(1)]
  obtain instances w1 name found w2 where inst: "findInstancesForELB c nodes w = (Ok instances, w1)"
    and name: "GetLoadBalancerName s = Ok name" and desc: "describeLoadBalancer c name w1 = (Ok found, w2)"
    and rest: "(case found of None \<Rightarrow> raise (Errorf ''Load balancer not found'' [])
       | Some lb \<Rightarrow>
          bnd (applySSLPolicy c (svc_Annotations s) name (Some lb)) (\<lambda>_.
          attempt (ensureLoadBalancerInstances c (strval (lb_LoadBalancerName lb)) (lb_Instances lb) instances)
            (\<lambda>_. updateInstanceSecurityGroupsForLoadBalancer c lb instances
                   (if length (lb_SecurityGroups lb) = 0 \<and> c_vpcID c = [] then [DefaultSrcSgName] else []))
            (\<lambda>_. ok ()))) w2 = (Ok (), w')"
    using assms(2) unfolding UpdateLoadBalancer_def by (elim bnd_lift_OkE bnd_OkE)
  obtain lb where lb: "found = Some lb" using rest by (cases found) auto
  obtain w3 where ssl: "applySSLPolicy c (svc_Annotations s) name (Some lb) w2 = (Ok (), w3)"
    and tail: "attempt (ensureLoadBalancerInstances c (strval (lb_LoadBalancerName lb)) (lb_Instances lb) instances)
            (\<lambda>_. updateInstanceSecurityGroupsForLoadBalancer c lb instances
                   (if length (lb_SecurityGroups lb) = 0 \<and> c_vpcID c = [] then [DefaultSrcSgName] else []))
            (\<lambda>_. ok ()) w3 = (Ok (), w')"
    using rest unfolding lb option.case by (elim bnd_OkE) simp
  have others: "P w \<Longrightarrow> P w3" if "otherCallsKeep P c" for P
  proof -
    note rd = others_reading[OF that]
    assume "P w"
    then have "P w1" using keepsD[OF reading_cloud.instance_reads[OF rd] _ inst] by blast
    then have "P w2" using keepsD[OF reading_cloud.describe_reads[OF rd] _ desc] by blast
    then show "P w3" using keepsD[OF others_lb(6)[OF that] _ ssl] by blast
  qed
  have start: "listeners w3 = listeners w" "backends w3 = backends w"
    using others[OF svc(5) refl] others[OF svc(6) refl] by simp_all
  have b: "backends w2 = backends w3" using keepsD[OF others_lb(6)[OF svc(6)] refl ssl] by simp
  have shown: "strval (lb_LoadBalancerName lb) = name" "set (map strval (lb_Instances lb)) = backends w2 name"
    using describe_shows[OF assms(1) desc[unfolded lb]] by auto
  have l: "keeps (\<lambda>u. listeners u = v) (ensureLoadBalancerInstances c n xs ys)" for n xs ys v
    unfolding ensureLoadBalancerInstances_def Let_def by (intro keeps_rules svc(7,8))
  have groups: "keeps (\<lambda>u. listeners u = v) (updateInstanceSecurityGroupsForLoadBalancer c lb is sgs)"
    "keeps (\<lambda>u. backends u = v') (updateInstanceSecurityGroupsForLoadBalancer c lb is sgs)" for v v' "is" sgs
    by (rule others_groups(3) svc(5) svc(6))+
  from tail consider
    (registered) w4 where "ensureLoadBalancerInstances c name (lb_Instances lb) instances w3 = (Ok (), w4)"
      "updateInstanceSecurityGroupsForLoadBalancer c lb instances
         (if length (lb_SecurityGroups lb) = 0 \<and> c_vpcID c = [] then [DefaultSrcSgName] else []) w4 = (Ok (), w')"
  | (failed) e where "ensureLoadBalancerInstances c name (lb_Instances lb) instances w3 = (Err e, w')"
    unfolding shown(1) by (auto simp: attempt_eq_Ok)
  then show ?thesis
  proof cases
    case registered
    have "backends w4 = (backends w3)(name := set (map fst instances))"
      using registered(1) shown(2) b by (intro instances_view[OF svc(2), of w3 name "lb_Instances lb"]) simp_all
    moreover have "listeners w4 = listeners w3" using keepsD[OF l refl registered(1)] .
    moreover have "listeners w' = listeners w4" "backends w' = backends w4"
      using keepsD[OF groups(1) refl registered(2)] keepsD[OF groups(2) refl registered(2)] .
    ultimately show ?thesis using start name inst by auto
  next
    case failed
    then have "listeners w' = listeners w" using keepsD[OF l refl failed] start by simp
    then show ?thesis using failed name inst desc[unfolded lb] by blast
  qed
qed

section \<open>A load balancer service in memory\<close>

text \<open>The world: the listeners and the instances of the load balancers that exist.\<close>

type_synonym lbMemory = "(string \<Rightarrow> (Listener list \<times> string list) option) sys"

definition onLb :: "string \<Rightarrow> (Listener list \<times> string list \<Rightarrow> Listener list \<times> string list) \<Rightarrow> (lbMemory, unit) io" where
  "onLb n f w = (case sys_rest w n of
       None \<Rightarrow> (Err (ApiErr (Some ''LoadBalancerNotFound'') []), w)
     | Some lb \<Rightarrow> (Ok (), w\<lparr>sys_rest := (sys_rest w)(n \<mapsto> f lb)\<rparr>))"

definition memoryElb :: "lbMemory LoadBalancer" where
  "memoryElb = noElb\<lparr>
     DescribeLoadBalancers := (\<lambda>n w. (case sys_rest w n of
         None \<Rightarrow> Err (ApiErr (Some ''LoadBalancerNotFound'') [])
       | Some (ls, is) \<Rightarrow> Ok [(exLb n (onePerPort ls))\<lparr>lb_Instances := map Some is, lb_HealthCheck := Some
           \<lparr>hc_Target = None, hc_HealthyThreshold = None, hc_UnhealthyThreshold = None, hc_Timeout = None, hc_Interval = None\<rparr>\<rparr>], w)),
     CreateLoadBalancer := (\<lambda>q w. (Ok (), w\<lparr>sys_rest := (sys_rest w)(clb_LoadBalancerName q \<mapsto> (clb_Listeners q, []))\<rparr>)),
     DeleteLoadBalancerListeners := (\<lambda>n ps. onLb n (\<lambda>(ls, is). (filter (\<lambda>l. listenerPort l \<notin> set (map intval ps)) ls, is))),
     CreateLoadBalancerListeners := (\<lambda>n new. onLb n (\<lambda>(ls, is). (somes new @ ls, is))),
     RegisterInstancesWithLoadBalancer := (\<lambda>n new. onLb n (\<lambda>(ls, is). (ls, is @ new))),
     DeregisterInstancesFromLoadBalancer := (\<lambda>n old. onLb n (\<lambda>(ls, is). (ls, filter (\<lambda>i. i \<notin> set old) is))),
     DescribeLoadBalancerAttributes := (\<lambda>_. ok exAttributes), ModifyLoadBalancerAttributes := (\<lambda>_ _. ok ()),
     ConfigureHealthCheck := (\<lambda>_ _. ok ())\<rparr>"

definition memListenersOf :: "lbMemory \<Rightarrow> string \<Rightarrow> int \<rightharpoonup> listenerKey" where
  "memListenersOf w n = (case sys_rest w n of None \<Rightarrow> Map.empty | Some (ls, is) \<Rightarrow> listenersMap ls)"

definition memBackendsOf :: "lbMemory \<Rightarrow> string \<Rightarrow> string set" where
  "memBackendsOf w n = (case sys_rest w n of None \<Rightarrow> {} | Some (ls, is) \<Rightarrow> set is)"

definition memorySelf :: "'w VM" where
  "memorySelf = \<lparr>self_compute = None, self_vmID = ''i-0'', self_nodeName = ''master'', self_availabilityZone = ''eu-west-2a'',
     self_vpcID = [], self_subnetID = [], self_instanceType = []\<rparr>"

definition clusterVm :: "string \<Rightarrow> Vm" where
  "clusterVm i = (exVm i [])\<lparr>vm_Tags := Some [\<lparr>tag_Key = ''OscK8sClusterID/c1'', tag_Value = ''owned''\<rparr>]\<rparr>"

definition memoryCloud :: "lbMemory Cloud" where
  "memoryCloud = (exCloud (quietClient\<lparr>ReadVms := (\<lambda>_. ok [clusterVm ''i-1'', clusterVm ''i-2''])\<rparr>))\<lparr>
     c_loadBalancer := memoryElb, c_vpcID := [], c_selfAWSInstance := Some memorySelf,
     c_cfg := \<lparr>Global = exGlobal\<lparr>DisableSecurityGroupIngress := True\<rparr>, cfg_ServiceOverride = []\<rparr>\<rparr>"

definition webService :: Service where
  "webService = (exService ''u1'' Map.empty)\<lparr>svc_Ports :=
     [\<lparr>sp_Name = ''http'', sp_Protocol = ''TCP'', sp_Port = 80, sp_NodePort = 30080\<rparr>]\<rparr>"

definition webNode :: Node where
  "webNode = \<lparr>node_Name = ''n1'', node_ProviderID = ''aws:///eu-west-2a/i-1''\<rparr>"

definition memoryStart :: lbMemory where
  "memoryStart = \<lparr>sys_snap = None, sys_rest = [''other'' \<mapsto> ([], [''i-2''])]\<rparr>"

definition webListener :: Listener where
  "webListener = \<lparr>li_InstancePort = Some 30080, li_LoadBalancerPort = Some 80, li_Protocol = Some ''TCP'',
     li_InstanceProtocol = Some ''TCP'', li_SSLCertificateId = None\<rparr>"

definition memory1 :: lbMemory where
  "memory1 = memoryStart\<lparr>sys_snap := Some \<lparr>snap_timestamp = 0,
     snap_instances = [(''i-1'', clusterVm ''i-1''), (''i-2'', clusterVm ''i-2'')]\<rparr>\<rparr>"

lemma web_pure:
  "buildListeners webService = Ok [webListener]" "mapToAWSInstanceIDsTolerant [webNode] = [''i-1'']"
  "GetLoadBalancerName webService = Ok ''u1''"
  "wantsProxyProtocol (svc_Annotations webService) = Ok False"
  "isOk (getLoadBalancerAttributes (svc_Annotations webService))"
  "isInternalELB (svc_Annotations webService) = False"
  by code_simp+

lemma web_find:
  assumes "sys_snap w = None"
  shows "findInstancesForELB memoryCloud [webNode] w = (Ok [(''i-1'', clusterVm ''i-1'')], w\<lparr>sys_snap := Some \<lparr>snap_timestamp = 0,
     snap_instances = [(''i-1'', clusterVm ''i-1''), (''i-2'', clusterVm ''i-2'')]\<rparr>\<rparr>)"
proof -
  have "fillProviderIDs memoryCloud [webNode] w = (Ok [webNode], w)"
    by (simp add: fillProviderIDs_def webNode_def)
  moreover have "describeAllInstancesCached memoryCloud \<lparr>MaxAge = 0, HasInstances = [''i-1'']\<rparr> w =
      (Ok \<lparr>snap_timestamp = 0, snap_instances = [(''i-1'', clusterVm ''i-1''), (''i-2'', clusterVm ''i-2'')]\<rparr>,
       w\<lparr>sys_snap := Some \<lparr>snap_timestamp = 0, snap_instances = [(''i-1'', clusterVm ''i-1''), (''i-2'', clusterVm ''i-2'')]\<rparr>\<rparr>)"
    by (simp add: describeAllInstancesCached_def getSnapshot_def assms describeAllInstancesUncached_def
        memoryCloud_def exCloud_def describeInstances_def quietClient_def clusterVm_def exVm_def hasClusterTag_def
        clusterTagKey_def const_defs storeSnapshot_def bnd_def attempt_def Let_def)
  ultimately show ?thesis
    by (simp add: findInstancesForELB_def web_pure FindInstances_def)
qed

lemma web1: "findInstancesForELB memoryCloud [webNode] memoryStart = (Ok [(''i-1'', clusterVm ''i-1'')], memory1)"
  by (simp add: web_find memory1_def memoryStart_def)

lemma web2: "findELBSubnets memoryCloud False w = (Ok None, w)"
  by (simp add: findELBSubnets_def findSubnets_def memoryCloud_def exCloud_def selfInstance_def memorySelf_def subnetIDsByAZ_def bnd_def attempt_def sortStrings_def)
definition webLb :: "string list \<Rightarrow> LoadBalancerDescription" where
  "webLb is = (exLb ''u1'' [webListener])\<lparr>lb_Instances := map Some is, lb_HealthCheck := Some
     \<lparr>hc_Target = None, hc_HealthyThreshold = None, hc_UnhealthyThreshold = None, hc_Timeout = None, hc_Interval = None\<rparr>\<rparr>"

definition memory2 :: lbMemory where
  "memory2 = memory1\<lparr>sys_rest := (sys_rest memory1)(''u1'' \<mapsto> ([webListener], []))\<rparr>"

lemma memoryCloud_elb [simp]: "c_loadBalancer memoryCloud = memoryElb"
  by (simp add: memoryCloud_def)

lemma web3: "ensureLoadBalancer memoryCloud ns ''u1'' [webListener] None sgs False False at an memory1 = (Ok (Some (webLb [])), memory2)"
proof -
  have d1: "describeLoadBalancer memoryCloud ''u1'' memory1 = (Ok None, memory1)"
    by (simp add: describeLoadBalancer_def memoryElb_def memory1_def memoryStart_def)
  have cr: "createElb memoryCloud ns ''u1'' [webListener] None sgs False False an memory1 = (Ok (), memory2)"
    by (simp add: createElb_def createLbInput_def memoryElb_def memory2_def selfInstance_def memorySelf_def memoryCloud_def exCloud_def
        bnd_def attempt_def)
  have d2: "describeLoadBalancer memoryCloud ''u1'' memory2 = (Ok (Some (webLb [])), memory2)"
    by (simp add: describeLoadBalancer_def memoryElb_def memory2_def webLb_def)
  have "\<exists>d. syncAttributes memoryCloud ''u1'' at memory2 = (Ok d, memory2)"
    by (auto simp: syncAttributes_def memoryElb_def)
  then obtain d where "syncAttributes memoryCloud ''u1'' at memory2 = (Ok d, memory2)" by blast
  then show ?thesis unfolding ensureLoadBalancer_def by (simp add: d1 cr d2)
qed

lemma web_annotations: "svc_Annotations webService = Map.empty" "svc_SessionAffinity webService = ''None''"
  "svc_Ports webService \<noteq> []" "svc_LoadBalancerIP webService = []"
  by (simp_all add: webService_def exService_def)

lemma web4: "ensureServiceHealthCheck memoryCloud webService ls (Some (webLb [])) w = (Ok (), w)"
proof -
  have hc: "ensureLoadBalancerHealthCheck memoryCloud (Some (webLb [])) proto port path Map.empty w = (Ok (), w)" for proto port path
  proof -
    obtain h where h: "getExpectedHealthCheck (c_libs memoryCloud) (proto @ '':'' @ FormatInt port @ path) Map.empty = Ok h"
      by (simp add: getExpectedHealthCheck_def getOrDefault_def mstr_def memoryCloud_def exCloud_def plainLibs_def Let_def)
    have "ConfigureHealthCheck memoryElb n h = ok ()" for n h by (simp add: memoryElb_def)
    then show ?thesis
      unfolding ensureLoadBalancerHealthCheck_def Let_def nilDeref_def option.case bnd_ok h
      by (simp add: webLb_def attempt_def)
  qed
  have "GetServiceHealthCheckPathPort (c_libs memoryCloud) webService = ([], 0)"
    by (simp add: memoryCloud_def exCloud_def plainLibs_def)
  then show ?thesis
    by (simp add: ensureServiceHealthCheck_def Let_def web_annotations hc)
qed

lemma web5:
  "updateInstanceSecurityGroupsForLoadBalancer memoryCloud lb is sgs w = (Ok (), w)"
  "isOk (fst (ensureLoadBalancerInstances memoryCloud ''u1'' [] [(''i-1'', clusterVm ''i-1'')] memory2))"
  by (simp_all add: updateInstanceSecurityGroupsForLoadBalancer_def globalCfg_def memoryCloud_def
      ensureLoadBalancerInstances_def memoryElb_def onLb_def memory2_def isOk_def setList_def)

lemma web_run: "isOk (fst (EnsureLoadBalancer memoryCloud webService [webNode] memoryStart))"
proof -
  obtain at where at: "getLoadBalancerAttributes Map.empty = Ok at"
    using web_pure(5) by (cases "getLoadBalancerAttributes Map.empty") (auto simp: isOk_def web_annotations)
  obtain w where reg: "ensureLoadBalancerInstances memoryCloud ''u1'' [] [(''i-1'', clusterVm ''i-1'')] memory2 = (Ok (), w)"
    using isOk_run[OF web5(2)] by auto
  have ssl: "applySSLPolicy memoryCloud Map.empty n lb w = (Ok (), w)" for n lb w by (simp add: applySSLPolicy_def)
  have src: "GetLoadBalancerSourceRanges (c_libs memoryCloud) webService = Ok [''0.0.0.0/0'']"
    by (simp add: memoryCloud_def exCloud_def plainLibs_def)
  have sub: "chooseSubnet Map.empty None = Ok None" by (simp add: chooseSubnet_def)
  have lb: "strval (lb_LoadBalancerName (webLb [])) = ''u1''" "lb_Instances (webLb []) = []" by (simp_all add: webLb_def exLb_def)
  show ?thesis
    using web_annotations(3)
    by (simp add: EnsureLoadBalancer_def Let_def web_annotations web_pure[unfolded web_annotations] web1 web2 src at sub
        web3 ssl web4 nilDeref_def web5(1) lb reg isOk_def)
qed

text \<open>Its views, and its contract.\<close>

lemma mem_views:
  "memListenersOf (w\<lparr>sys_rest := (sys_rest w)(n \<mapsto> lb)\<rparr>) = (memListenersOf w)(n := listenersMap (fst lb))"
  "memBackendsOf (w\<lparr>sys_rest := (sys_rest w)(n \<mapsto> lb)\<rparr>) = (memBackendsOf w)(n := set (snd lb))"
  "memListenersOf (w\<lparr>sys_snap := s\<rparr>) = memListenersOf w" "memBackendsOf (w\<lparr>sys_snap := s\<rparr>) = memBackendsOf w"
  by (auto simp: memListenersOf_def memBackendsOf_def fun_eq_iff split: prod.splits)

lemma mem_at:
  "sys_rest w n = Some lb \<Longrightarrow> memListenersOf w n = listenersMap (fst lb)"
  "sys_rest w n = Some lb \<Longrightarrow> memBackendsOf w n = set (snd lb)"
  by (simp_all add: memListenersOf_def memBackendsOf_def split: prod.split)

lemma onLb_views:
  assumes "onLb n f w = (Ok (), w')"
  obtains ls ids where "memListenersOf w n = listenersMap ls" "memBackendsOf w n = set ids"
    "memListenersOf w' = (memListenersOf w)(n := listenersMap (fst (f (ls, ids))))"
    "memBackendsOf w' = (memBackendsOf w)(n := set (snd (f (ls, ids))))"
  using assms by (auto simp: onLb_def mem_views memListenersOf_def[of w n] memBackendsOf_def[of w n] split: option.splits)

lemma keeps_onLb:
  "(\<And>lb. fst (f lb) = fst lb) \<Longrightarrow> keeps (\<lambda>w. memListenersOf w = l) (onLb n f)"
  "(\<And>lb. snd (f lb) = snd lb) \<Longrightarrow> keeps (\<lambda>w. memBackendsOf w = b) (onLb n f)"
  by (auto simp: keeps_def onLb_def mem_views mem_at fun_upd_idem_iff split: option.splits)

lemma memory_others:
  assumes "\<And>w s. P w \<Longrightarrow> P (w\<lparr>sys_snap := s\<rparr>)"
  shows "otherCallsKeep P memoryCloud"
  using assms by (auto simp: otherCallsKeep_def readsKeep_def memoryCloud_def exCloud_def quietClient_def memoryElb_def noElb_def
      plainLibs_def keeps_def)

lemma memory_listeners: "listenerContract memoryElb memListenersOf"
proof -
  have "CreateLoadBalancer memoryElb q w = (Ok (), w') \<Longrightarrow>
      memListenersOf w' = (memListenersOf w)(clb_LoadBalancerName q := listenersMap (clb_Listeners q))" for q w w'
    by (auto simp: memoryElb_def mem_views)
  moreover have "DescribeLoadBalancers memoryElb n w = (r, w') \<Longrightarrow> memListenersOf w' = memListenersOf w \<and>
        (\<forall>ds. r = Ok ds \<longrightarrow> (\<forall>lb\<in>set ds. distinct (map listenerPort (somes (lb_ListenerDescriptions lb))) \<and>
            memListenersOf w n = listenersMap (somes (lb_ListenerDescriptions lb))))" for n w r w'
    by (auto simp: memoryElb_def exLb_def memListenersOf_def onePerPort_distinct listenersMap_onePerPort split: option.splits)
  moreover have "memListenersOf w' = (memListenersOf w)(n := memListenersOf w n |` (- set (map intval ps)))"
    if "DeleteLoadBalancerListeners memoryElb n ps w = (Ok (), w')" for n ps w w'
  proof -
    have "onLb n (\<lambda>(ls, is). (filter (\<lambda>l. listenerPort l \<notin> set (map intval ps)) ls, is)) w = (Ok (), w')"
      using that by (simp add: memoryElb_def)
    then show ?thesis by (rule onLb_views) (simp add: listenersMap_filter)
  qed
  moreover have "memListenersOf w' = (memListenersOf w)(n := memListenersOf w n ++ listenersMap ls)"
    if "CreateLoadBalancerListeners memoryElb n (map Some ls) w = (Ok (), w')" for n ls w w'
  proof -
    have "onLb n (\<lambda>(ms, is). (ls @ ms, is)) w = (Ok (), w')" using that by (simp add: memoryElb_def)
    then show ?thesis by (rule onLb_views) (simp add: listenersMap_def)
  qed
  moreover have "keeps P (CreateLoadBalancerPolicy memoryElb q)"
    "keeps P (SetLoadBalancerPoliciesForBackendServer memoryElb n p ps)" "keeps P (AddTags memoryElb n ts)"
    "keeps P (DescribeLoadBalancerAttributes memoryElb n)" "keeps P (ModifyLoadBalancerAttributes memoryElb n at)"
    for P q n p ps ts at
    by (simp_all add: memoryElb_def noElb_def)
  ultimately show ?thesis unfolding listenerContract_def by (intro conjI allI impI) simp_all
qed

lemma memory_instances: "instanceContract memoryElb memBackendsOf"
proof -
  have "memBackendsOf w' = (memBackendsOf w)(n := memBackendsOf w n \<union> set new)"
    if "RegisterInstancesWithLoadBalancer memoryElb n new w = (Ok (), w')" for n new w w'
  proof -
    have "onLb n (\<lambda>(ls, is). (ls, is @ new)) w = (Ok (), w')" using that by (simp add: memoryElb_def)
    then show ?thesis by (rule onLb_views) simp
  qed
  moreover have "memBackendsOf w' = (memBackendsOf w)(n := memBackendsOf w n - set old)"
    if "DeregisterInstancesFromLoadBalancer memoryElb n old w = (Ok (), w')" for n old w w'
  proof -
    have "onLb n (\<lambda>(ls, is). (ls, filter (\<lambda>i. i \<notin> set old) is)) w = (Ok (), w')" using that by (simp add: memoryElb_def)
    then show ?thesis by (rule onLb_views) (simp add: set_diff_eq)
  qed
  ultimately show ?thesis unfolding instanceContract_def by blast
qed

lemma memory_service: "lbService memoryCloud memListenersOf memBackendsOf"
proof -
  have "DescribeLoadBalancers memoryElb n w = (Ok ds, w') \<Longrightarrow> lb \<in> set ds \<Longrightarrow>
      strval (lb_LoadBalancerName lb) = n \<and> set (map strval (lb_Instances lb)) = memBackendsOf w' n" for n w ds w' lb
    by (auto simp: memoryElb_def exLb_def memBackendsOf_def image_image split: option.splits)
  moreover have "CreateLoadBalancer memoryElb q w = (Ok (), w') \<Longrightarrow>
      memBackendsOf w' = (memBackendsOf w)(clb_LoadBalancerName q := {})" for q w w'
    by (auto simp: memoryElb_def mem_views)
  moreover have "keeps (\<lambda>w. memListenersOf w = l) (RegisterInstancesWithLoadBalancer memoryElb n is)"
    "keeps (\<lambda>w. memListenersOf w = l) (DeregisterInstancesFromLoadBalancer memoryElb n is)"
    "keeps (\<lambda>w. memBackendsOf w = b) (CreateLoadBalancerListeners memoryElb n ls)"
    "keeps (\<lambda>w. memBackendsOf w = b) (DeleteLoadBalancerListeners memoryElb n ps)" for l b n "is" ls ps
    by (auto simp: memoryElb_def intro!: keeps_onLb split: prod.split)
  moreover have "otherCallsKeep (\<lambda>w. memListenersOf w = l) memoryCloud" "otherCallsKeep (\<lambda>w. memBackendsOf w = b) memoryCloud" for l b
    by (simp_all add: memory_others mem_views)
  ultimately show ?thesis
    unfolding lbService_def memoryCloud_elb using memory_listeners memory_instances by (intro conjI allI impI) simp_all
qed

theorem EnsureLoadBalancer_converges_witness:
  "\<exists>status w' ls instances. EnsureLoadBalancer memoryCloud webService [webNode] memoryStart = (Ok status, w') \<and>
     buildListeners webService = Ok ls \<and> memListenersOf w' ''u1'' = listenersMap ls \<and>
     memBackendsOf w' ''u1'' = {''i-1''} \<and> memBackendsOf w' ''other'' = {''i-2''}"
proof -
  obtain status w' where run: "EnsureLoadBalancer memoryCloud webService [webNode] memoryStart = (Ok status, w')"
    using isOk_run[OF web_run] by blast
  have "distinct (map sp_Port (svc_Ports webService))" by (simp add: webService_def)
  moreover have "memBackendsOf memoryStart ''other'' = {''i-2''}" by (simp add: memBackendsOf_def memoryStart_def)
  ultimately show ?thesis
    using EnsureLoadBalancer_converges[OF memory_service _ run] run web_pure(1,3) web1 by auto
qed

text \<open>An update of a load balancer whose backend is no longer a node.\<close>

definition memoryOld :: lbMemory where
  "memoryOld = memoryStart\<lparr>sys_rest := [''u1'' \<mapsto> ([webListener], [''i-2'']), ''other'' \<mapsto> ([], [''i-2''])]\<rparr>"

lemma web_update: "isOk (fst (UpdateLoadBalancer memoryCloud webService [webNode] memoryOld))"
proof -
  have find: "findInstancesForELB memoryCloud [webNode] memoryOld = (Ok [(''i-1'', clusterVm ''i-1'')], memory1\<lparr>sys_rest := sys_rest memoryOld\<rparr>)"
    by (simp add: web_find memoryOld_def memory1_def memoryStart_def)
  have desc: "describeLoadBalancer memoryCloud ''u1'' (memory1\<lparr>sys_rest := sys_rest memoryOld\<rparr>) =
      (Ok (Some (webLb [''i-2''])), memory1\<lparr>sys_rest := sys_rest memoryOld\<rparr>)"
    by (simp add: describeLoadBalancer_def memoryElb_def memoryOld_def webLb_def)
  have reg: "isOk (fst (ensureLoadBalancerInstances memoryCloud ''u1'' [Some ''i-2''] [(''i-1'', clusterVm ''i-1'')]
      (memory1\<lparr>sys_rest := sys_rest memoryOld\<rparr>)))"
    by (simp add: ensureLoadBalancerInstances_def memoryElb_def onLb_def memoryOld_def isOk_def setList_def bnd_def attempt_def)
  obtain w where run: "ensureLoadBalancerInstances memoryCloud ''u1'' [Some ''i-2''] [(''i-1'', clusterVm ''i-1'')]
      (memory1\<lparr>sys_rest := sys_rest memoryOld\<rparr>) = (Ok (), w)"
    using isOk_run[OF reg] by auto
  have lb: "strval (lb_LoadBalancerName (webLb is)) = ''u1''" "lb_Instances (webLb is) = map Some is" for "is"
    by (simp_all add: webLb_def exLb_def)
  show ?thesis
    by (simp add: UpdateLoadBalancer_def find web_pure desc applySSLPolicy_def web_annotations lb run web5(1) isOk_def)
qed

theorem UpdateLoadBalancer_converges_witness:
  "\<exists>w'. UpdateLoadBalancer memoryCloud webService [webNode] memoryOld = (Ok (), w') \<and>
     memListenersOf w' = memListenersOf memoryOld \<and>
     (memBackendsOf w' = (memBackendsOf memoryOld)(''u1'' := {''i-1''}) \<or>
      (\<exists>ids u e. ensureLoadBalancerInstances memoryCloud ''u1'' ids [(''i-1'', clusterVm ''i-1'')] u = (Err e, w')))"
proof -
  obtain w' where run: "UpdateLoadBalancer memoryCloud webService [webNode] memoryOld = (Ok (), w')"
    using isOk_run[OF web_update] by auto
  have "sys_snap memoryOld = None" by (simp add: memoryOld_def memoryStart_def)
  from web_find[OF this] show ?thesis
    using UpdateLoadBalancer_converges[OF memory_service run] run web_pure(3) by auto
qed

end
