(* ===== verification/Deletion.thy ===== *)
theory Deletion
  imports Service_Controller
begin

text \<open>
  What a successful deletion leaves behind, end to end.  The world is read through two views: the load
  balancers that exist, with their security groups, and the security groups that exist, with their tags.
\<close>

section \<open>The services behind the deletion\<close>

text \<open>The documented behaviour of the calls: a load balancer is described by name, with its groups, or is not found; groups are read by
  id, with their tags; a deletion that succeeds takes away what it names, and one that fails, like every
  other call of a deletion, leaves both views alone.\<close>

type_synonym 'w lbView = "'w \<Rightarrow> string \<rightharpoonup> string list"
type_synonym 'w groupView = "'w \<Rightarrow> string \<rightharpoonup> ResourceTag list option"

definition deletionService :: "'w Cloud \<Rightarrow> 'w lbView \<Rightarrow> 'w groupView \<Rightarrow> bool" where
  "deletionService c lbs groups \<longleftrightarrow>
     (\<forall>n w ds w'. DescribeLoadBalancers (c_loadBalancer c) n w = (Ok ds, w') \<longrightarrow>
        (case lbs w n of None \<Rightarrow> ds = []
         | Some sgs \<Rightarrow> ds \<noteq> [] \<and> (\<forall>lb\<in>set ds. lb_LoadBalancerName lb = Some n \<and> lb_SecurityGroups lb = sgs))) \<and>
     (\<forall>n w e w'. DescribeLoadBalancers (c_loadBalancer c) n w = (Err e, w') \<longrightarrow>
        awsCode e = Some ''LoadBalancerNotFound'' \<longrightarrow> lbs w n = None) \<and>
     (\<forall>n w w'. DeleteLoadBalancer (c_loadBalancer c) (Some n) w = (Ok (), w') \<longrightarrow>
        lbs w' = (lbs w)(n := None) \<and> groups w' = groups w) \<and>
     (\<forall>ids w gs w'. ReadSecurityGroups (c_compute c) (noSgFilter\<lparr>fsg_SecurityGroupIds := Some ids\<rparr>) w = (Ok gs, w') \<longrightarrow>
        (\<lambda>g. (strval (sg_SecurityGroupId g), sg_Tags g)) ` set gs = {(i, t). i \<in> set ids \<and> groups w i = Some t}) \<and>
     (\<forall>i w w'. DeleteSecurityGroup (c_compute c) i w = (Ok (), w') \<longrightarrow>
        lbs w' = lbs w \<and> groups w' = (groups w)(i := None)) \<and>
     (\<forall>i w e w'. DeleteSecurityGroup (c_compute c) i w = (Err e, w') \<longrightarrow> lbs w' = lbs w \<and> groups w' = groups w) \<and>
     (\<forall>v. let P = (\<lambda>w. (lbs w, groups w) = v) in
        ruleCallsKeep P c \<and> (\<forall>n. keeps P (DescribeLoadBalancers (c_loadBalancer c) n)) \<and>
        (\<forall>n is. keeps P (RegisterInstancesWithLoadBalancer (c_loadBalancer c) n is)) \<and>
        (\<forall>n is. keeps P (DeregisterInstancesFromLoadBalancer (c_loadBalancer c) n is)) \<and>
        keeps P (Now (c_clock c)) \<and> (\<forall>s. keeps P (Sleep (c_clock c) s)))"

lemma deletionServiceD:
  assumes "deletionService c lbs groups"
  shows "DescribeLoadBalancers (c_loadBalancer c) n w = (Ok ds, w') \<Longrightarrow>
        (case lbs w n of None \<Rightarrow> ds = []
         | Some sgs \<Rightarrow> ds \<noteq> [] \<and> (\<forall>lb\<in>set ds. lb_LoadBalancerName lb = Some n \<and> lb_SecurityGroups lb = sgs))"
    and "DescribeLoadBalancers (c_loadBalancer c) n w = (Err e, w') \<Longrightarrow> awsCode e = Some ''LoadBalancerNotFound'' \<Longrightarrow> lbs w n = None"
    and "DeleteLoadBalancer (c_loadBalancer c) (Some n) w = (Ok (), w') \<Longrightarrow> lbs w' = (lbs w)(n := None) \<and> groups w' = groups w"
    and "ReadSecurityGroups (c_compute c) (noSgFilter\<lparr>fsg_SecurityGroupIds := Some ids\<rparr>) w = (Ok gs, w') \<Longrightarrow>
        (\<lambda>g. (strval (sg_SecurityGroupId g), sg_Tags g)) ` set gs = {(i, t). i \<in> set ids \<and> groups w i = Some t}"
    and "DeleteSecurityGroup (c_compute c) i w = (Ok (), w') \<Longrightarrow> lbs w' = lbs w \<and> groups w' = (groups w)(i := None)"
    and "DeleteSecurityGroup (c_compute c) i w = (Err e, w') \<Longrightarrow> lbs w' = lbs w \<and> groups w' = groups w"
proof -
  note d1 = assms[unfolded deletionService_def]
  note d2 = d1[THEN conjunct2] note d3 = d2[THEN conjunct2] note d4 = d3[THEN conjunct2]
  note d5 = d4[THEN conjunct2] note d6 = d5[THEN conjunct2]
  show "DescribeLoadBalancers (c_loadBalancer c) n w = (Ok ds, w') \<Longrightarrow>
        (case lbs w n of None \<Rightarrow> ds = []
         | Some sgs \<Rightarrow> ds \<noteq> [] \<and> (\<forall>lb\<in>set ds. lb_LoadBalancerName lb = Some n \<and> lb_SecurityGroups lb = sgs))"
    by (rule d1[THEN conjunct1, rule_format])
  show "DescribeLoadBalancers (c_loadBalancer c) n w = (Err e, w') \<Longrightarrow> awsCode e = Some ''LoadBalancerNotFound'' \<Longrightarrow> lbs w n = None"
    by (rule d2[THEN conjunct1, rule_format])
  show "DeleteLoadBalancer (c_loadBalancer c) (Some n) w = (Ok (), w') \<Longrightarrow> lbs w' = (lbs w)(n := None) \<and> groups w' = groups w"
    by (rule d3[THEN conjunct1, rule_format])
  show "ReadSecurityGroups (c_compute c) (noSgFilter\<lparr>fsg_SecurityGroupIds := Some ids\<rparr>) w = (Ok gs, w') \<Longrightarrow>
        (\<lambda>g. (strval (sg_SecurityGroupId g), sg_Tags g)) ` set gs = {(i, t). i \<in> set ids \<and> groups w i = Some t}"
    by (rule d4[THEN conjunct1, rule_format])
  show "DeleteSecurityGroup (c_compute c) i w = (Ok (), w') \<Longrightarrow> lbs w' = lbs w \<and> groups w' = (groups w)(i := None)"
    by (rule d5[THEN conjunct1, rule_format])
  show "DeleteSecurityGroup (c_compute c) i w = (Err e, w') \<Longrightarrow> lbs w' = lbs w \<and> groups w' = groups w"
    by (rule d6[THEN conjunct1, rule_format])
qed

lemma deletionService_keeps:
  assumes "deletionService c lbs groups"
  shows "ruleCallsKeep (\<lambda>w. (lbs w, groups w) = v) c"
    "keeps (\<lambda>w. (lbs w, groups w) = v) (describeLoadBalancer c n)"
    "keeps (\<lambda>w. (lbs w, groups w) = v) (ensureLoadBalancerInstances c n xs ys)"
    "keeps (\<lambda>w. (lbs w, groups w) = v) (Now (c_clock c))" "keeps (\<lambda>w. (lbs w, groups w) = v) (Sleep (c_clock c) s)"
proof -
  have k: "ruleCallsKeep (\<lambda>w. (lbs w, groups w) = v) c"
    "\<And>n. keeps (\<lambda>w. (lbs w, groups w) = v) (DescribeLoadBalancers (c_loadBalancer c) n)"
    "\<And>n is. keeps (\<lambda>w. (lbs w, groups w) = v) (RegisterInstancesWithLoadBalancer (c_loadBalancer c) n is)"
    "\<And>n is. keeps (\<lambda>w. (lbs w, groups w) = v) (DeregisterInstancesFromLoadBalancer (c_loadBalancer c) n is)"
    "keeps (\<lambda>w. (lbs w, groups w) = v) (Now (c_clock c))" "\<And>s. keeps (\<lambda>w. (lbs w, groups w) = v) (Sleep (c_clock c) s)"
    using assms unfolding deletionService_def Let_def by blast+
  show "ruleCallsKeep (\<lambda>w. (lbs w, groups w) = v) c"
    "keeps (\<lambda>w. (lbs w, groups w) = v) (Now (c_clock c))" "keeps (\<lambda>w. (lbs w, groups w) = v) (Sleep (c_clock c) s)"
    by (fact k)+
  show "keeps (\<lambda>w. (lbs w, groups w) = v) (describeLoadBalancer c n)"
    unfolding describeLoadBalancer_def by (intro keeps_rules k)
  show "keeps (\<lambda>w. (lbs w, groups w) = v) (ensureLoadBalancerInstances c n xs ys)"
    unfolding ensureLoadBalancerInstances_def Let_def by (intro keeps_rules k)
qed

text \<open>What the description of the load balancer says.\<close>

lemma describe_deletion:
  assumes "deletionService c lbs groups" "describeLoadBalancer c n w = (Ok found, w')"
  shows "lbs w' = lbs w \<and> groups w' = groups w \<and>
    (case found of None \<Rightarrow> lbs w n = None
     | Some lb \<Rightarrow> lb_LoadBalancerName lb = Some n \<and> lbs w n = Some (lb_SecurityGroups lb))"
proof -
  have last: "foldl (\<lambda>_ l. Some l) None ds = (if ds = [] then None else Some (last ds))" for ds :: "LoadBalancerDescription list"
    by (cases ds rule: rev_cases) auto
  have "(lbs w', groups w') = (lbs w, groups w)"
    using keepsD[OF deletionService_keeps(2)[OF assms(1)] refl assms(2)] .
  moreover have "case found of None \<Rightarrow> lbs w n = None
     | Some lb \<Rightarrow> lb_LoadBalancerName lb = Some n \<and> lbs w n = Some (lb_SecurityGroups lb)"
  proof (cases "DescribeLoadBalancers (c_loadBalancer c) n w")
    case (Pair r w1)
    show ?thesis
    proof (cases r)
      case (Ok ds)
      then have "found = (if ds = [] then None else Some (last ds))" using assms(2) Pair by (simp add: describeLoadBalancer_def last)
      then show ?thesis using deletionServiceD(1)[OF assms(1) Pair[unfolded Ok]] by (auto split: option.splits)
    next
      case (Err e)
      then have "awsCode e = Some ''LoadBalancerNotFound'' \<and> found = None"
        using assms(2) Pair by (auto simp: describeLoadBalancer_def split: if_splits)
      then show ?thesis using deletionServiceD(2)[OF assms(1) Pair[unfolded Err]] by simp
    qed (use assms(2) Pair in \<open>simp add: describeLoadBalancer_def\<close>)
  qed
  ultimately show ?thesis by simp
qed

section \<open>The loop over the groups\<close>

text \<open>A pass deletes some of the ids, which are taken off the list.\<close>

lemma deletePass_view:
  assumes "deletionService c lbs groups" "deletePass c ids w = (Ok left, w')"
  shows "lbs w' = lbs w \<and> groups w' = groups w |` (- (set ids - set left)) \<and> set left \<subseteq> set ids"
proof -
  have "\<exists>D\<subseteq>set xs. left = filter (\<lambda>i. i \<notin> D) acc \<and> lbs w' = lbs w \<and> groups w' = groups w |` (- D)"
    if "foldIO (\<lambda>left i. attempt (DeleteSecurityGroup (c_compute c) i) (\<lambda>_. ok (filter (\<lambda>j. j \<noteq> i) left))
       (\<lambda>e. if ContainsStr (errText e) ''Conflict'' then ok left
            else raise (Errorf ''error while deleting load balancer security group (%s): %q'' [e]))) acc xs w = (Ok left, w')"
    for xs acc w
    using that
  proof (induction xs arbitrary: acc w)
    case Nil
    then show ?case by (intro exI[of _ "{}"]) (auto simp: restrict_map_def)
  next
    case (Cons i xs)
    obtain acc1 w1 where step: "attempt (DeleteSecurityGroup (c_compute c) i) (\<lambda>_. ok (filter (\<lambda>j. j \<noteq> i) acc))
       (\<lambda>e. if ContainsStr (errText e) ''Conflict'' then ok acc
            else raise (Errorf ''error while deleting load balancer security group (%s): %q'' [e])) w = (Ok acc1, w1)"
      and rest: "foldIO (\<lambda>left i. attempt (DeleteSecurityGroup (c_compute c) i) (\<lambda>_. ok (filter (\<lambda>j. j \<noteq> i) left))
       (\<lambda>e. if ContainsStr (errText e) ''Conflict'' then ok left
            else raise (Errorf ''error while deleting load balancer security group (%s): %q'' [e]))) acc1 xs w1 = (Ok left, w')"
      using Cons.prems unfolding foldIO.simps bnd_eq_Ok by blast
    from Cons.IH[OF rest] obtain D where D: "D \<subseteq> set xs" "left = filter (\<lambda>i. i \<notin> D) acc1" "lbs w' = lbs w1" "groups w' = groups w1 |` (- D)"
      by blast
    from step consider
      (deleted) "DeleteSecurityGroup (c_compute c) i w = (Ok (), w1)" "acc1 = filter (\<lambda>j. j \<noteq> i) acc"
    | (conflict) e where "DeleteSecurityGroup (c_compute c) i w = (Err e, w1)" "acc1 = acc"
      by (auto simp: attempt_eq_Ok split: if_splits)
    then show ?case
    proof cases
      case deleted
      then show ?thesis using D deletionServiceD(5)[OF assms(1) deleted(1)]
        by (intro exI[of _ "insert i D"]) (auto simp: restrict_map_def fun_eq_iff intro: filter_cong)
    next
      case conflict
      then show ?thesis using D deletionServiceD(6)[OF assms(1) conflict(1)] by (intro exI[of _ D]) auto
    qed
  qed
  from this[OF assms(2)[unfolded deletePass_def]] obtain D where
    "D \<subseteq> set ids" "left = filter (\<lambda>i. i \<notin> D) ids" "lbs w' = lbs w" "groups w' = groups w |` (- D)" by blast
  moreover from this have "set ids - set left = D" by auto
  ultimately show ?thesis by auto
qed

lemma deleteSgLoop_view:
  assumes "deletionService c lbs groups" "deleteSgLoop n c t ids w = (Ok (Some ()), w')"
  shows "lbs w' = lbs w \<and> groups w' = groups w |` (- set ids)"
  using assms(2)
proof (induction n arbitrary: ids w)
  case (Suc n)
  obtain left w1 where p: "deletePass c ids w = (Ok left, w1)"
    and rest: "(if length left = 0 then ok (Some ())
       else bnd (Now (c_clock c)) (\<lambda>now. if now > t
         then raise (Errorf ''timed out deleting ELB: %s. Could not delete security groups %v'' [])
         else bnd (Sleep (c_clock c) 10) (\<lambda>_. deleteSgLoop n c t left))) w1 = (Ok (Some ()), w')"
    using Suc.prems by (auto simp: bnd_eq_Ok)
  note view = deletePass_view[OF assms(1) p]
  show ?case
  proof (cases "left = []")
    case True
    then show ?thesis using view rest by simp
  next
    case False
    then obtain now w2 w3 where now: "Now (c_clock c) w1 = (Ok now, w2)" and sl: "Sleep (c_clock c) 10 w2 = (Ok (), w3)"
      and loop: "deleteSgLoop n c t left w3 = (Ok (Some ()), w')"
      using rest by (auto simp: bnd_eq_Ok split: if_splits)
    have "(lbs w2, groups w2) = (lbs w1, groups w1)" using keepsD[OF deletionService_keeps(4)[OF assms(1)] refl now] .
    moreover have "(lbs w3, groups w3) = (lbs w2, groups w2)" using keepsD[OF deletionService_keeps(5)[OF assms(1)] refl sl] .
    moreover have "- (set ids - set left) \<inter> - set left = - set ids" using view by auto
    ultimately show ?thesis using Suc.IH[OF loop] view by simp
  qed
qed simp

section \<open>Deleting a load balancer\<close>

text \<open>The groups a deletion is to remove: those of the load balancer that carry the tag of the cluster, the shared one excepted.\<close>

definition ownGroups :: "'w Cloud \<Rightarrow> (string \<rightharpoonup> ResourceTag list option) \<Rightarrow> string list \<Rightarrow> string set" where
  "ownGroups c tagged ids = {i \<in> set ids. i \<noteq> [] \<and> i \<noteq> ElbSecurityGroup (globalCfg c) \<and>
     (\<exists>t. tagged i = Some t \<and> hasClusterTag (c_tagging c) t = Ok True)}"

lemma deleteSecurityGroups_view:
  assumes "deletionService c lbs groups" "deleteSecurityGroups n c ids w = (Ok (Some ()), w')"
  shows "lbs w' = lbs w \<and> groups w' = groups w |` (- ownGroups c (groups w) ids)"
proof -
  obtain gs w1 m now w2 where rd: "ReadSecurityGroups (c_compute c) (noSgFilter\<lparr>fsg_SecurityGroupIds := Some ids\<rparr>) w = (Ok gs, w1)"
    and m: "foldRes (collectSG c) [] gs = Ok m" and now: "Now (c_clock c) w1 = (Ok now, w2)"
    and loop: "deleteSgLoop n c (now + 600 * 1000000000) (map fst m) w2 = (Ok (Some ()), w')"
    using assms(2) by (auto simp: deleteSecurityGroups_def attempt_eq_Ok bnd_eq_Ok)
  have "(lbs w1, groups w1) = (lbs w, groups w)"
    using keepsD[OF ruleCallsKeepD(1)[OF deletionService_keeps(1)[OF assms(1)]] refl rd] .
  moreover have "(lbs w2, groups w2) = (lbs w1, groups w1)" using keepsD[OF deletionService_keeps(4)[OF assms(1)] refl now] .
  moreover have "set (map fst m) = ownGroups c (groups w) ids"
  proof -
    have "(\<exists>g\<in>set gs. strval (sg_SecurityGroupId g) = i \<and> hasClusterTag (c_tagging c) (sg_Tags g) = Ok True) \<longleftrightarrow>
        (\<exists>t. (i, t) \<in> (\<lambda>g. (strval (sg_SecurityGroupId g), sg_Tags g)) ` set gs \<and> hasClusterTag (c_tagging c) t = Ok True)" for i
      by auto
    then show ?thesis
      unfolding set_map collectSG_spec[OF m] deletionServiceD(4)[OF assms(1) rd] by (auto simp: ownGroups_def)
  qed
  ultimately show ?thesis using deleteSgLoop_view[OF assms(1) loop] by simp
qed

text \<open>
  C2. \<open>EnsureLoadBalancerDeleted\<close> does what it is for: when it reports success, the load balancer named after the service is gone, and
  so are exactly those of its security groups that carry the tag of the cluster, the shared one excepted; every other load balancer and
  every other group is as before; and when there was no such load balancer, nothing has changed.
\<close>

theorem EnsureLoadBalancerDeleted_cleans:
  assumes "deletionService c lbs groups" "EnsureLoadBalancerDeleted fuel c s w = (Ok (Some ()), w')"
  shows "\<exists>name. GetLoadBalancerName s = Ok name \<and>
    (case lbs w name of
       None \<Rightarrow> lbs w' = lbs w \<and> groups w' = groups w
     | Some sgs \<Rightarrow> lbs w' = (lbs w)(name := None) \<and>
         groups w' = groups w |` (- ownGroups c (groups w) (if sgs = [] \<and> c_vpcID c = [] then [DefaultSrcSgName] else sgs)))"
proof -
  obtain name found w1 where name: "GetLoadBalancerName s = Ok name" and desc: "describeLoadBalancer c name w = (Ok found, w1)"
    and rest: "(case found of None \<Rightarrow> ok (Some ())
       | Some lb \<Rightarrow>
          (let loadBalancerSGs = (if length (lb_SecurityGroups lb) = 0 \<and> c_vpcID c = [] then [DefaultSrcSgName]
                 else lb_SecurityGroups lb)
           in
           bnd (attempt (ensureLoadBalancerInstances c (strval (lb_LoadBalancerName lb)) (lb_Instances lb) []) ok
                  (\<lambda>_. ok ())) (\<lambda>_.
           bnd (if c_vpcID c \<noteq> [] then updateInstanceSecurityGroupsForLoadBalancer c lb [] loadBalancerSGs else ok ()) (\<lambda>_.
           bnd (DeleteLoadBalancer (c_loadBalancer c) (lb_LoadBalancerName lb)) (\<lambda>_.
           deleteSecurityGroups fuel c loadBalancerSGs))))) w1 = (Ok (Some ()), w')"
    using assms(2) unfolding EnsureLoadBalancerDeleted_def by (elim bnd_lift_OkE bnd_OkE)
  note d = describe_deletion[OF assms(1) desc]
  show ?thesis
  proof (cases found)
    case None
    then show ?thesis using d rest name by simp
  next
    case (Some lb)
    let ?sgs = "if length (lb_SecurityGroups lb) = 0 \<and> c_vpcID c = [] then [DefaultSrcSgName] else lb_SecurityGroups lb"
    obtain w2 w3 w4 where
      dereg: "attempt (ensureLoadBalancerInstances c (strval (lb_LoadBalancerName lb)) (lb_Instances lb) []) ok (\<lambda>_. ok ()) w1 = (Ok (), w2)"
      and upd: "(if c_vpcID c \<noteq> [] then updateInstanceSecurityGroupsForLoadBalancer c lb [] ?sgs else ok ()) w2 = (Ok (), w3)"
      and del: "DeleteLoadBalancer (c_loadBalancer c) (lb_LoadBalancerName lb) w3 = (Ok (), w4)"
      and sgs: "deleteSecurityGroups fuel c ?sgs w4 = (Ok (Some ()), w')"
      using rest unfolding Some option.case Let_def by (elim bnd_OkE) (rule that; simp)
    have "keeps (\<lambda>w. (lbs w, groups w) = v)
        (attempt (ensureLoadBalancerInstances c (strval (lb_LoadBalancerName lb)) (lb_Instances lb) []) ok (\<lambda>_. ok ()))" for v
      by (intro keeps_rules deletionService_keeps[OF assms(1)])
    from keepsD[OF this refl dereg] have v2: "(lbs w2, groups w2) = (lbs w1, groups w1)" .
    have "keeps (\<lambda>w. (lbs w, groups w) = v) (if c_vpcID c \<noteq> [] then updateInstanceSecurityGroupsForLoadBalancer c lb [] ?sgs else ok ())" for v
      by (intro keeps_rules keeps_updateInstanceSG deletionService_keeps[OF assms(1)])
    from keepsD[OF this refl upd] have v3: "(lbs w3, groups w3) = (lbs w2, groups w2)" .
    have lbname: "lb_LoadBalancerName lb = Some name" "lbs w name = Some (lb_SecurityGroups lb)" using d Some by simp_all
    from deletionServiceD(3)[OF assms(1) del[unfolded lbname(1)]] deleteSecurityGroups_view[OF assms(1) sgs]
    show ?thesis using v2 v3 d name lbname(2) by simp
  qed
qed

section \<open>A deletion in memory\<close>

text \<open>The world: the load balancers with their groups, and the groups with their tags.\<close>

type_synonym deletionMemory = "(string \<rightharpoonup> string list) \<times> (string \<rightharpoonup> ResourceTag list option)"

definition memGroup :: "deletionMemory \<Rightarrow> string \<Rightarrow> SecurityGroup list" where
  "memGroup w i = (case snd w i of None \<Rightarrow> [] | Some t \<Rightarrow>
     [\<lparr>sg_SecurityGroupId = Some i, sg_SecurityGroupName = None, sg_Tags = t, sg_InboundRules = None\<rparr>])"

definition deletionCloud :: "deletionMemory Cloud" where
  "deletionCloud = (exCloud (quietClient\<lparr>
       ReadSecurityGroups := (\<lambda>f w. (Ok (concat (map (memGroup w) (listval (fsg_SecurityGroupIds f)))), w)),
       DeleteSecurityGroup := (\<lambda>i (lbs, groups). (Ok (), (lbs, groups(i := None))))\<rparr>))\<lparr>
     c_loadBalancer := noElb\<lparr>
       DescribeLoadBalancers := (\<lambda>n w. (case fst w n of
           None \<Rightarrow> Err (ApiErr (Some ''LoadBalancerNotFound'') [])
         | Some sgs \<Rightarrow> Ok [(exLb n [])\<lparr>lb_SecurityGroups := sgs\<rparr>], w)),
       DeleteLoadBalancer := (\<lambda>n (lbs, groups). (Ok (), (case n of None \<Rightarrow> lbs | Some m \<Rightarrow> lbs(m := None), groups)))\<rparr>\<rparr>"

definition ownTags :: "ResourceTag list option" where
  "ownTags = Some [\<lparr>tag_Key = ''OscK8sClusterID/c1'', tag_Value = ''owned''\<rparr>]"

definition deletionStart :: deletionMemory where
  "deletionStart = ([''u1'' \<mapsto> [''sg-1'', ''sg-global'', ''sg-2'']], [''sg-1'' \<mapsto> ownTags, ''sg-2'' \<mapsto> Some [], ''sg-global'' \<mapsto> ownTags])"

lemma deletionCloud_calls:
  "ReadSecurityGroups (c_compute deletionCloud) f w = (Ok (concat (map (memGroup w) (listval (fsg_SecurityGroupIds f)))), w)"
  "DeleteSecurityGroup (c_compute deletionCloud) i w = (Ok (), (fst w, (snd w)(i := None)))"
  "DescribeLoadBalancers (c_loadBalancer deletionCloud) n w = (case fst w n of
      None \<Rightarrow> Err (ApiErr (Some ''LoadBalancerNotFound'') []) | Some sgs \<Rightarrow> Ok [(exLb n [])\<lparr>lb_SecurityGroups := sgs\<rparr>], w)"
  "DeleteLoadBalancer (c_loadBalancer deletionCloud) (Some n) w = (Ok (), ((fst w)(n := None), snd w))"
  "RegisterInstancesWithLoadBalancer (c_loadBalancer deletionCloud) n l = raise NotImplemented"
  "DeregisterInstancesFromLoadBalancer (c_loadBalancer deletionCloud) n l = raise NotImplemented"
  "CreateSecurityGroupRule (c_compute deletionCloud) q = ok ()" "DeleteSecurityGroupRule (c_compute deletionCloud) q = ok ()"
  "c_clock deletionCloud = \<lparr>Now = ok 0, Sleep = (\<lambda>_. ok ())\<rparr>"
  by (simp_all add: deletionCloud_def exCloud_def noElb_def quietClient_def split: prod.split)

lemma memGroup_answer:
  "(\<lambda>g. (strval (sg_SecurityGroupId g), sg_Tags g)) ` set (concat (map (memGroup w) ids)) = {(i, t). i \<in> set ids \<and> snd w i = Some t}"
  by (force simp: memGroup_def image_UN split: option.splits)

lemma deletionCloud_service: "deletionService deletionCloud fst snd"
proof -
  have "ruleCallsKeep P deletionCloud" "keeps P (DescribeLoadBalancers (c_loadBalancer deletionCloud) n)" for P n
    by (simp_all add: ruleCallsKeep_def keeps_def deletionCloud_calls)
  then show ?thesis
    unfolding deletionService_def Let_def
    by (intro conjI allI impI;
        simp add: deletionCloud_calls exLb_def noSgFilter_def memGroup_answer[simplified] split: option.splits;
        auto)
qed

theorem EnsureLoadBalancerDeleted_cleans_witness:
  "\<exists>w'. EnsureLoadBalancerDeleted 62 deletionCloud (exService ''u1'' Map.empty) deletionStart = (Ok (Some ()), w') \<and>
     fst w' ''u1'' = None \<and> snd w' ''sg-1'' = None \<and> snd w' ''sg-2'' = Some (Some []) \<and> snd w' ''sg-global'' = Some ownTags"
proof -
  let ?r = "EnsureLoadBalancerDeleted 62 deletionCloud (exService ''u1'' Map.empty) deletionStart"
  have "fst ?r = Ok (Some ())" by code_simp
  then obtain w' where run: "?r = (Ok (Some ()), w')" by (cases ?r) auto
  have name: "GetLoadBalancerName (exService ''u1'' Map.empty) = Ok ''u1''" by code_simp
  have "hasClusterTag (c_tagging deletionCloud) ownTags = Ok True" "hasClusterTag (c_tagging deletionCloud) (Some []) \<noteq> Ok True"
    by code_simp+
  then have "ownGroups deletionCloud (snd deletionStart) [''sg-1'', ''sg-global'', ''sg-2''] = {''sg-1''}"
    by (auto simp: ownGroups_def deletionStart_def globalCfg_def deletionCloud_def exCloud_def)
  then show ?thesis
    using EnsureLoadBalancerDeleted_cleans[OF deletionCloud_service run] name run by (simp add: deletionStart_def)
qed

end
