(* ===== verification/Go_Floats.thy ===== *)
theory Go_Floats
  imports Complex_Main "HOL-Library.Log_Nat"
begin

text \<open>
  Binary floating point as the provider uses it.  A \<open>float32\<close> or \<open>float64\<close> is the rational number it
  denotes; every operation is the exact one followed by \<open>fround p\<close>, rounding to \<open>p\<close> significant bits,
  ties to even, as IEEE 754 and Go prescribe (\<open>p\<close> is 24 or 53).  The range of the exponent is not limited:
  the counters and rates of the provider are between the smallest and the largest number of the formats,
  except for decayed counters, which underflow to zero where the model keeps a tiny positive value.
\<close>

section \<open>Rounding to an integer, ties to even\<close>

definition roundEven :: "rat \<Rightarrow> int" where
  "roundEven y = (let f = \<lfloor>y\<rfloor>; r = y - of_int f in
     if r < 1 / 2 then f else if r > 1 / 2 then f + 1 else if even f then f else f + 1)"

lemma roundEven_of_int [simp]: "roundEven (of_int i) = i"
  by (simp add: roundEven_def)

lemma roundEven_bounds: "\<lfloor>y\<rfloor> \<le> roundEven y" "roundEven y \<le> \<lfloor>y\<rfloor> + 1"
  by (auto simp: roundEven_def Let_def)

lemma roundEven_mono: "y \<le> z \<Longrightarrow> roundEven y \<le> roundEven z"
proof (cases "\<lfloor>y\<rfloor> = \<lfloor>z\<rfloor>")
  case True
  then show "y \<le> z \<Longrightarrow> ?thesis" by (auto simp: roundEven_def Let_def)
next
  case False
  assume "y \<le> z"
  then have "\<lfloor>y\<rfloor> + 1 \<le> \<lfloor>z\<rfloor>" using False floor_mono[of y z] by linarith
  then show ?thesis using roundEven_bounds(2)[of y] roundEven_bounds(1)[of z] by linarith
qed

section \<open>The binary exponent\<close>

definition binExp :: "rat \<Rightarrow> int" where
  "binExp x = (let (n, d) = quotient_of x; a = bitlen n - bitlen d in if 2 powi a \<le> x then a else a - 1)"

lemma binExp_bounds:
  assumes "x > 0"
  shows "2 powi binExp x \<le> x" "x < 2 powi (binExp x + 1)"
proof -
  obtain n d where q: "quotient_of x = (n, d)" by (cases "quotient_of x")
  have d: "d > 0" and x: "x = of_int n / of_int d" using quotient_of_denom_pos[OF q] quotient_of_div[OF q] by auto
  have n: "n > 0" using assms d by (simp add: x zero_less_divide_iff)
  define a where "a = bitlen n - bitlen d"
  have bl: "bitlen n \<ge> 1" "bitlen d \<ge> 1" using n d by (simp_all add: bitlen_alt_def)
  have "(2::int) ^ nat (bitlen n - 1) \<le> n" "n < 2 ^ nat (bitlen n)" "(2::int) ^ nat (bitlen d - 1) \<le> d" "d < 2 ^ nat (bitlen d)"
    using bitlen_bounds n d by blast+
  then have "of_int ((2::int) ^ nat (bitlen n - 1)) \<le> (of_int n :: rat)" "of_int n < (of_int (2 ^ nat (bitlen n)) :: rat)"
    "of_int ((2::int) ^ nat (bitlen d - 1)) \<le> (of_int d :: rat)" "of_int d < (of_int (2 ^ nat (bitlen d)) :: rat)"
    by (simp_all only: of_int_le_iff of_int_less_iff)
  then have b: "(2::rat) powi (bitlen n - 1) \<le> of_int n" "of_int n < (2::rat) powi (bitlen n)"
    "(2::rat) powi (bitlen d - 1) \<le> of_int d" "of_int d < (2::rat) powi (bitlen d)"
    using bl by (simp_all add: power_int_def)
  have dp: "(of_int d :: rat) > 0" using d by simp
  have "x < 2 powi (bitlen n) / 2 powi (bitlen d - 1)"
    unfolding x by (rule frac_less[OF _ b(2) _ b(3)]) (use n in \<open>simp_all\<close>)
  also have "\<dots> = 2 powi (a + 1)" by (simp add: a_def power_int_diff[symmetric] algebra_simps)
  finally have up: "x < 2 powi (a + 1)" .
  have "2 powi (a - 1) = (2::rat) powi (bitlen n - 1) / 2 powi (bitlen d)"
    by (simp add: a_def power_int_diff[symmetric] algebra_simps)
  also have "\<dots> \<le> x" unfolding x by (rule frac_le) (use b dp n in \<open>simp_all\<close>)
  finally have lo: "2 powi (a - 1) \<le> x" .
  show "2 powi binExp x \<le> x" "x < 2 powi (binExp x + 1)"
    using up lo by (auto simp: binExp_def q a_def[symmetric])
qed

lemma powi_mono: "a \<le> b \<Longrightarrow> (2::rat) powi a \<le> 2 powi b"
  by (rule power_int_increasing) simp_all

lemma powi_less_D: "(2::rat) powi a < 2 powi b \<Longrightarrow> a < b"
  using powi_mono[of b a] by (meson linorder_not_le)

lemma powi_pos [simp]: "0 < (2::rat) powi a"
  by simp

lemma binExp_mono: "0 < x \<Longrightarrow> x \<le> y \<Longrightarrow> binExp x \<le> binExp y"
proof -
  assume "0 < x" "x \<le> y"
  then have "2 powi binExp x < (2::rat) powi (binExp y + 1)"
    using binExp_bounds(1)[of x] binExp_bounds(2)[of y] by simp
  from powi_less_D[OF this] show ?thesis by simp
qed

section \<open>Rounding to a number of bits\<close>

definition roundPos :: "nat \<Rightarrow> rat \<Rightarrow> rat" where
  "roundPos p x = (let s = binExp x - (int p - 1) in of_int (roundEven (x / 2 powi s)) * 2 powi s)"

definition fround :: "nat \<Rightarrow> rat \<Rightarrow> rat" where
  "fround p x = (if x = 0 then 0 else if x < 0 then - roundPos p (- x) else roundPos p x)"

abbreviation f32 :: "rat \<Rightarrow> rat" where "f32 \<equiv> fround 24"

abbreviation f64 :: "rat \<Rightarrow> rat" where "f64 \<equiv> fround 53"

lemma roundEven_int_le: "y \<le> of_int i \<Longrightarrow> roundEven y \<le> i"
  using roundEven_mono[of y "of_int i"] by simp

lemma roundEven_int_ge: "of_int i \<le> y \<Longrightarrow> i \<le> roundEven y"
  using roundEven_mono[of "of_int i" y] by simp

lemma two_power_powi: "(of_int (2 ^ n) :: rat) = 2 powi int n"
  by simp

text \<open>Rounding stays within the binade, ends included.\<close>

lemma roundPos_binade:
  assumes "x > 0" "p \<ge> 1"
  shows "2 powi binExp x \<le> roundPos p x" "roundPos p x \<le> 2 powi (binExp x + 1)"
proof -
  define s where "s = binExp x - (int p - 1)"
  have b: "2 powi binExp x \<le> x" "x \<le> 2 powi (binExp x + 1)" using binExp_bounds[OF assms(1)] by simp_all
  have scale: "of_int (2 ^ n) * (2::rat) powi s = 2 powi (int n + s)" for n
    unfolding two_power_powi by (rule power_int_add[symmetric]) simp
  have lo: "of_int (2 ^ (p - 1)) \<le> x / 2 powi s"
    using b(1) scale[of "p - 1"] assms(2) by (simp add: pos_le_divide_eq s_def of_nat_diff)
  have up: "x / 2 powi s \<le> of_int (2 ^ p)"
    using b(2) scale[of p] by (simp add: pos_divide_le_eq s_def)
  have "of_int (2 ^ (p - 1)) \<le> (of_int (roundEven (x / 2 powi s)) :: rat)"
    "(of_int (roundEven (x / 2 powi s)) :: rat) \<le> of_int (2 ^ p)"
    using roundEven_int_ge[OF lo] roundEven_int_le[OF up] by (simp_all only: of_int_le_iff)
  then have "of_int (2 ^ (p - 1)) * 2 powi s \<le> roundPos p x" "roundPos p x \<le> of_int (2 ^ p) * 2 powi s"
    unfolding roundPos_def Let_def s_def[symmetric] by (simp_all add: mult_right_mono)
  moreover have "int (p - 1) + s = binExp x" "int p + s = binExp x + 1"
    using assms(2) by (simp_all add: s_def of_nat_diff)
  ultimately show "2 powi binExp x \<le> roundPos p x" "roundPos p x \<le> 2 powi (binExp x + 1)"
    unfolding scale by (simp_all only:)
qed

lemma roundPos_mono:
  assumes "0 < x" "x \<le> y" "p \<ge> 1"
  shows "roundPos p x \<le> roundPos p y"
proof (cases "binExp x = binExp y")
  case True
  have "roundEven (x / 2 powi (binExp y - (int p - 1))) \<le> roundEven (y / 2 powi (binExp y - (int p - 1)))"
    by (rule roundEven_mono) (simp add: divide_right_mono assms(2))
  then show ?thesis unfolding roundPos_def Let_def True by (simp add: mult_right_mono)
next
  case False
  then have "binExp x + 1 \<le> binExp y" using binExp_mono[OF assms(1,2)] by simp
  from powi_mono[OF this] show ?thesis
    using roundPos_binade(2)[OF assms(1,3)] roundPos_binade(1)[of y p] assms by simp
qed

lemma roundPos_pos: "x > 0 \<Longrightarrow> p \<ge> 1 \<Longrightarrow> 0 < roundPos p x"
  using roundPos_binade(1)[of x p] powi_pos[of "binExp x"] by linarith

lemma fround_mono:
  assumes "x \<le> y" "p \<ge> 1"
  shows "fround p x \<le> fround p y"
proof -
  have neg: "- roundPos p (- x) < 0" if "x < 0" for x using roundPos_pos[of "- x" p] that assms(2) by simp
  show ?thesis
    using assms roundPos_mono[of x y p] roundPos_mono[of "- y" "- x" p] neg[of x] roundPos_pos[of y p]
    unfolding fround_def by (cases "x = 0"; cases "y = 0"; cases "x < 0"; cases "y < 0") auto
qed

text \<open>A number of at most \<open>p\<close> bits is not changed.\<close>

lemma roundPos_exact:
  assumes "0 < m" "m < 2 ^ p" "x = of_int m * 2 powi k"
  shows "roundPos p x = x"
proof -
  define s where "s = binExp x - (int p - 1)"
  have "x > 0" using assms by simp
  have "(of_int m :: rat) < of_int (2 ^ p)" using assms(2) by (simp only: of_int_less_iff)
  then have "x < 2 powi (int p) * 2 powi k" unfolding assms(3) by simp
  then have "2 powi binExp x < (2::rat) powi (int p + k)"
    using binExp_bounds(1)[OF \<open>x > 0\<close>] by (simp add: power_int_add)
  from powi_less_D[OF this] have sk: "s \<le> k" by (simp add: s_def)
  have "x / 2 powi s = of_int m * 2 powi (k - s)" by (simp add: assms(3) power_int_diff)
  also have "\<dots> = of_int (m * 2 ^ nat (k - s))" using sk by (simp add: power_int_def)
  finally have q: "x / 2 powi s = of_int (m * 2 ^ nat (k - s))" .
  have "roundPos p x = of_int (m * 2 ^ nat (k - s)) * 2 powi s"
    unfolding roundPos_def Let_def s_def[symmetric] q roundEven_of_int ..
  also have "\<dots> = x" unfolding q[symmetric] by simp
  finally show ?thesis .
qed

lemma fround_0 [simp]: "fround p 0 = 0"
  by (simp add: fround_def)

lemma fround_nonneg: "x \<ge> 0 \<Longrightarrow> p \<ge> 1 \<Longrightarrow> fround p x \<ge> 0"
  using fround_mono[of 0 x p] by simp

lemma fround_pos: "0 < x \<Longrightarrow> fround p x = roundPos p x"
  by (auto simp: fround_def)

lemma fround_exact: "0 \<le> m \<Longrightarrow> m < 2 ^ p \<Longrightarrow> fround p (of_int m * 2 powi k) = of_int m * 2 powi k"
proof (cases "m = 0")
  case False
  assume "0 \<le> m" "m < 2 ^ p"
  then have "0 < (of_int m * 2 powi k :: rat)" using False by simp
  from fround_pos[OF this] show ?thesis
    using roundPos_exact[of m p "of_int m * 2 powi k" k] \<open>0 \<le> m\<close> \<open>m < 2 ^ p\<close> False by simp
qed simp

lemma fround_int: "0 \<le> m \<Longrightarrow> m < 2 ^ p \<Longrightarrow> fround p (of_int m) = of_int m"
  using fround_exact[of m p 0] by simp

lemma fround_1 [simp]: "p \<ge> 1 \<Longrightarrow> fround p 1 = 1"
proof -
  assume "p \<ge> 1"
  then have "(1::int) < 2 ^ p" by (intro one_less_power) simp_all
  then show ?thesis using fround_int[of 1 p] by simp
qed

lemma fround_idem:
  assumes "0 \<le> x" "p \<ge> 1"
  shows "fround p (fround p x) = fround p x"
proof (cases "x = 0")
  case False
  then have x: "x > 0" using assms(1) by simp
  define s where "s = binExp x - (int p - 1)"
  define m where "m = roundEven (x / 2 powi s)"
  have r: "fround p x = of_int m * 2 powi s"
    unfolding fround_pos[OF x] roundPos_def Let_def s_def[symmetric] m_def ..
  have "0 < of_int m * (2::rat) powi s" using roundPos_pos[OF x assms(2)] r fround_pos[OF x] by metis
  then have "0 < (of_int m :: rat)" by (rule zero_less_mult_pos2) (simp add: zero_less_power_int)
  then have m0: "0 < m" by simp
  have "x < 2 powi (binExp x + 1)" by (rule binExp_bounds(2)[OF x])
  also have "\<dots> = of_int (2 ^ p) * 2 powi s"
    unfolding two_power_powi by (subst power_int_add[symmetric]) (simp_all add: s_def)
  finally have "x / 2 powi s \<le> of_int (2 ^ p)" by (simp add: pos_divide_le_eq)
  then have "m \<le> 2 ^ p" unfolding m_def by (rule roundEven_int_le)
  then consider "m < 2 ^ p" | "m = 2 ^ p" by linarith
  then show ?thesis
  proof cases
    case 1
    then show ?thesis unfolding r using m0 by (intro fround_exact) simp_all
  next
    case 2
    have "(of_int m * 2 powi s :: rat) = of_int 1 * 2 powi (int p + s)"
      unfolding 2 two_power_powi by (subst power_int_add) simp_all
    moreover have "(1::int) < 2 ^ p" using assms(2) by (intro one_less_power) simp_all
    ultimately show ?thesis unfolding r using fround_exact[of 1 p "int p + s"] by simp
  qed
qed simp

text \<open>Truncation, the conversion of a float to an integer.\<close>

definition truncf :: "rat \<Rightarrow> int" where
  "truncf x = (if x < 0 then \<lceil>x\<rceil> else \<lfloor>x\<rfloor>)"

lemma truncf_mono: "0 \<le> x \<Longrightarrow> x \<le> y \<Longrightarrow> truncf x \<le> truncf y"
  by (simp add: truncf_def floor_mono)

lemma truncf_nonneg: "0 \<le> x \<Longrightarrow> 0 \<le> truncf x"
  by (simp add: truncf_def)

end
