(* ===== verification/Backoff.thy ===== *)
theory Backoff
  imports Api_Sdk Go_Floats
begin

text \<open>
  The cross-request delay of \<open>retry_handler.go\<close>: counters of requests and of throttled requests, decayed
  exponentially, that give the delay before the next request, the two request handlers that use them, and
  the per-region table of delayers of \<open>oapi_provider.go\<close>.  Durations and times are in nanoseconds.
  \<open>math.Pow\<close>, whose last bits no standard fixes, is the parameter \<open>pow\<close>.
\<close>

section \<open>The counters\<close>

record BackoffState =
  b_decayIntervalSeconds :: int
  b_decayFraction :: rat
  b_maxDelay :: int
  countErrorsRequestLimit :: rat
  countRequests :: rat
  lastDecay :: int

definition second :: int where
  "second = 1000000000"

definition decayIntervalSeconds :: int where
  "decayIntervalSeconds = 20"

definition decayFraction :: rat where
  "decayFraction = f64 (4 / 5)"

definition maxDelay :: int where
  "maxDelay = 60 * second"

text \<open>\<open>now.Unix()\<close>\<close>

definition unix :: "int \<Rightarrow> int" where
  "unix now = now div second"

definition Backoff_init :: "int \<Rightarrow> rat \<Rightarrow> int \<Rightarrow> int \<Rightarrow> BackoffState" where
  "Backoff_init interval fraction delay now =
     \<lparr>b_decayIntervalSeconds = interval, b_decayFraction = fraction, b_maxDelay = delay,
      countErrorsRequestLimit = 0, countRequests = 4, lastDecay = unix now\<rparr>"

definition NewCrossRequestRetryDelay :: "'w Clock \<Rightarrow> ('w, BackoffState) io" where
  "NewCrossRequestRetryDelay clk =
     bnd (Now clk) (\<lambda>now. ok (Backoff_init decayIntervalSeconds decayFraction maxDelay now))"

text \<open>The exponential decay of the counters.\<close>

definition applyDecay :: "(rat \<Rightarrow> rat \<Rightarrow> rat) \<Rightarrow> BackoffState \<Rightarrow> int \<Rightarrow> BackoffState" where
  "applyDecay pow b now =
     (let timeDeltaSeconds = unix now - lastDecay b in
      if timeDeltaSeconds > b_decayIntervalSeconds b then
        (let intervals = f64 (f64 (of_int timeDeltaSeconds) / f64 (of_int (b_decayIntervalSeconds b)));
             decay = f32 (pow (b_decayFraction b) intervals)
         in b\<lparr>countErrorsRequestLimit := f32 (countErrorsRequestLimit b * decay),
              countRequests := f32 (countRequests b * decay), lastDecay := unix now\<rparr>)
      else b)"

definition errorFraction :: "BackoffState \<Rightarrow> rat" where
  "errorFraction b = (if countRequests b > 1 / 2 then f32 (countErrorsRequestLimit b / countRequests b) else 0)"

text \<open>\<open>Duration.Seconds()\<close> of a duration that is not negative.\<close>

definition durationSeconds :: "int \<Rightarrow> rat" where
  "durationSeconds d = f64 (f64 (of_int (d div second)) + f64 (f64 (of_int (d mod second)) / f64 (of_int second)))"

definition delayOf :: "BackoffState \<Rightarrow> int" where
  "delayOf b =
     (let fraction = errorFraction b in
      if fraction < f32 (1 / 10) then 0
      else
        (let delay = truncf (f32 (f32 (of_int (b_maxDelay b)) * fraction)) in
         second * truncf (durationSeconds delay)))"

definition ComputeDelayForRequest :: "(rat \<Rightarrow> rat \<Rightarrow> rat) \<Rightarrow> BackoffState \<Rightarrow> int \<Rightarrow> int \<times> BackoffState" where
  "ComputeDelayForRequest pow b now =
     (let b1 = applyDecay pow b now;
          b2 = b1\<lparr>countRequests := f32 (countRequests b1 + 1)\<rparr>
      in (delayOf b2, b2))"

definition ReportError :: "BackoffState \<Rightarrow> BackoffState" where
  "ReportError b = b\<lparr>countErrorsRequestLimit := f32 (countErrorsRequestLimit b + 1)\<rparr>"

section \<open>The request handlers\<close>

text \<open>A request of the AWS SDK, as far as the handlers look at it.  \<open>rq_SleepWithContext\<close> is
  \<open>aws.SleepWithContext(r.Context(), ...)\<close>, which fails when the context is cancelled.\<close>

record 'w Request =
  rq_ServiceName :: string
  rq_OperationName :: "string option"
  rq_SleepDelay :: "(int \<Rightarrow> ('w, unit) io) option"
  rq_SleepWithContext :: "int \<Rightarrow> ('w, unit) io"
  rq_Error :: "go_error option"
  rq_Retryable :: "bool option"
  rq_Time :: int

definition operationName :: "('w, 'z) Request_scheme \<Rightarrow> string" where
  "operationName r = (case rq_OperationName r of None \<Rightarrow> ''?'' | Some n \<Rightarrow> n)"

definition describeRequest :: "('w, 'z) Request_scheme \<Rightarrow> string" where
  "describeRequest r = rq_ServiceName r @ ''::'' @ operationName r"

definition computeDelay :: "(rat \<Rightarrow> rat \<Rightarrow> rat) \<Rightarrow> int \<Rightarrow> (BackoffState \<times> 'w, int) io" where
  "computeDelay pow now = (\<lambda>(b, w). case ComputeDelayForRequest pow b now of (d, b') \<Rightarrow> (Ok d, (b', w)))"

definition BeforeSign ::
  "(rat \<Rightarrow> rat \<Rightarrow> rat) \<Rightarrow> 'w Clock \<Rightarrow> 'w Request \<Rightarrow> (BackoffState \<times> 'w, 'w Request) io" where
  "BeforeSign pow clk r =
     bnd (onSnd (Now clk)) (\<lambda>now.
     bnd (computeDelay pow now) (\<lambda>delay.
     if delay > 0 then
       (case rq_SleepDelay r of
          Some sleepFn \<Rightarrow> bnd (onSnd (sleepFn delay)) (\<lambda>_. ok (r\<lparr>rq_Time := now\<rparr>))
        | None \<Rightarrow> attempt (onSnd (rq_SleepWithContext r delay)) (\<lambda>_. ok (r\<lparr>rq_Time := now\<rparr>))
            (\<lambda>e. ok (r\<lparr>rq_Error := Some (ApiErr (Some ''RequestCanceled'') ''request context canceled''),
                      rq_Retryable := Some False\<rparr>)))
     else ok r))"

definition reportError :: "(BackoffState \<times> 'w, unit) io" where
  "reportError = (\<lambda>(b, w). (Ok (), (ReportError b, w)))"

definition AfterRetry :: "'w Metrics \<Rightarrow> 'w Request \<Rightarrow> (BackoffState \<times> 'w, unit) io" where
  "AfterRetry m r = (case rq_Error r of
       None \<Rightarrow> ok ()
     | Some e \<Rightarrow>
        (if awsCode e = Some ''RequestLimitExceeded''
         then bnd reportError (\<lambda>_. onSnd (recordAWSThrottlesMetric m (operationName r)))
         else ok ()))"

section \<open>One delayer per region\<close>

text \<open>The table of the provider object maps a region to its delayer; the pointer to a delayer is its region.\<close>

definition getCrossRequestRetryDelay ::
  "'w Clock \<Rightarrow> string \<Rightarrow> ((string, BackoffState) gomap \<times> 'w, string) io" where
  "getCrossRequestRetryDelay clk regionName = (\<lambda>(regionDelayers, w).
     case map_of regionDelayers regionName of
       Some _ \<Rightarrow> (Ok regionName, (regionDelayers, w))
     | None \<Rightarrow> bnd (onSnd (NewCrossRequestRetryDelay clk))
         (\<lambda>delayer (m, w). (Ok regionName, (mput regionName delayer m, w))) (regionDelayers, w))"

section \<open>The delay is bounded when requests are not interleaved\<close>

text \<open>\<open>math.Pow\<close> of a base below one: between zero and one for exponents that are not negative.\<close>

definition powBounded :: "(rat \<Rightarrow> rat \<Rightarrow> rat) \<Rightarrow> bool" where
  "powBounded pow \<longleftrightarrow> (\<forall>x\<ge>0. 0 \<le> pow decayFraction x \<and> pow decayFraction x \<le> 1)"

definition configured :: "BackoffState \<Rightarrow> bool" where
  "configured b \<longleftrightarrow> b_decayIntervalSeconds b = decayIntervalSeconds \<and> b_decayFraction b = decayFraction \<and>
     b_maxDelay b = maxDelay"

text \<open>The invariant between requests: no more errors than requests have been counted (and the count of
  errors is a \<open>float32\<close>).\<close>

definition ratesOk :: "BackoffState \<Rightarrow> bool" where
  "ratesOk b \<longleftrightarrow> configured b \<and> 0 \<le> countErrorsRequestLimit b \<and> countErrorsRequestLimit b \<le> countRequests b \<and>
     f32 (countErrorsRequestLimit b) = countErrorsRequestLimit b"

text \<open>Requests one after the other: the time of each and whether it was throttled.\<close>

fun runRequests :: "(rat \<Rightarrow> rat \<Rightarrow> rat) \<Rightarrow> BackoffState \<Rightarrow> (int \<times> bool) list \<Rightarrow> int list" where
  "runRequests pow b [] = []"
| "runRequests pow b ((now, throttled) # trace) =
     (case ComputeDelayForRequest pow b now of
        (delay, b') \<Rightarrow> delay # runRequests pow (if throttled then ReportError b' else b') trace)"

lemma interval_nonneg:
  assumes "0 \<le> d"
  shows "0 \<le> f64 (f64 (of_int d) / f64 (of_int decayIntervalSeconds))"
proof -
  have "0 \<le> f64 (of_int d)" "0 \<le> f64 (of_int decayIntervalSeconds)"
    using assms by (auto intro!: fround_nonneg simp: decayIntervalSeconds_def)
  then show ?thesis by (intro fround_nonneg) simp_all
qed

lemma decay_factor:
  assumes "powBounded pow" "0 \<le> d"
  shows "0 \<le> f32 (pow decayFraction (f64 (f64 (of_int d) / f64 (of_int decayIntervalSeconds))))"
    "f32 (pow decayFraction (f64 (f64 (of_int d) / f64 (of_int decayIntervalSeconds)))) \<le> 1"
proof -
  let ?p = "pow decayFraction (f64 (f64 (of_int d) / f64 (of_int decayIntervalSeconds)))"
  have "0 \<le> ?p" "?p \<le> 1" using assms(1) interval_nonneg[OF assms(2)] by (auto simp: powBounded_def)
  then show "0 \<le> f32 ?p" "f32 ?p \<le> 1" using fround_nonneg[of ?p 24] fround_mono[of ?p 1 24] by simp_all
qed

lemma applyDecay_ratesOk:
  assumes "powBounded pow" "ratesOk b"
  shows "ratesOk (applyDecay pow b now)"
proof (cases "unix now - lastDecay b > b_decayIntervalSeconds b")
  case True
  have cfg: "configured b" and e: "0 \<le> countErrorsRequestLimit b" "countErrorsRequestLimit b \<le> countRequests b"
    using assms(2) by (simp_all add: ratesOk_def)
  have iv: "b_decayIntervalSeconds b = decayIntervalSeconds" "b_decayFraction b = decayFraction"
    using cfg by (simp_all add: configured_def)
  let ?d = "f32 (pow decayFraction (f64 (f64 (of_int (unix now - lastDecay b)) / f64 (of_int decayIntervalSeconds))))"
  have "0 \<le> unix now - lastDecay b" using True unfolding iv by (simp add: decayIntervalSeconds_def)
  from decay_factor(1)[OF assms(1) this] have d: "0 \<le> ?d" .
  have "f32 (countErrorsRequestLimit b * ?d) \<le> f32 (countRequests b * ?d)"
    using e(2) d by (intro fround_mono mult_right_mono) simp_all
  moreover have "0 \<le> f32 (countErrorsRequestLimit b * ?d)" using e(1) d by (intro fround_nonneg) simp_all
  moreover have "f32 (f32 (countErrorsRequestLimit b * ?d)) = f32 (countErrorsRequestLimit b * ?d)"
    using e(1) d by (intro fround_idem) simp_all
  ultimately show ?thesis using True cfg by (simp add: applyDecay_def Let_def ratesOk_def configured_def)
next
  case False
  then show ?thesis using assms(2) by (simp add: applyDecay_def)
qed

lemma ComputeDelay_state:
  assumes "powBounded pow" "ratesOk b" "ComputeDelayForRequest pow b now = (d, b')"
  shows "d = delayOf b'" "1 \<le> countRequests b'" "ratesOk b'" "ratesOk (ReportError b')"
proof -
  let ?b = "applyDecay pow b now"
  have b': "b' = ?b\<lparr>countRequests := f32 (countRequests ?b + 1)\<rparr>" and d: "d = delayOf b'"
    using assms(3) by (auto simp: ComputeDelayForRequest_def Let_def)
  show "d = delayOf b'" by (rule d)
  have e: "0 \<le> countErrorsRequestLimit ?b" "countErrorsRequestLimit ?b \<le> countRequests ?b" "configured ?b"
      "f32 (countErrorsRequestLimit ?b) = countErrorsRequestLimit ?b"
    using applyDecay_ratesOk[OF assms(1,2)] by (simp_all add: ratesOk_def)
  have "f32 1 \<le> f32 (countRequests ?b + 1)" using e by (intro fround_mono) simp_all
  then show "1 \<le> countRequests b'" by (simp add: b')
  have one: "f32 (countErrorsRequestLimit ?b + 1) \<le> f32 (countRequests ?b + 1)" using e by (intro fround_mono) simp_all
  have "f32 (countErrorsRequestLimit ?b) \<le> f32 (countErrorsRequestLimit ?b + 1)" by (intro fround_mono) simp_all
  then show "ratesOk b'" using e one by (simp add: ratesOk_def b' configured_def)
  have "0 \<le> f32 (countErrorsRequestLimit ?b + 1)" "f32 (f32 (countErrorsRequestLimit ?b + 1)) = f32 (countErrorsRequestLimit ?b + 1)"
    using e by (simp_all add: fround_nonneg fround_idem)
  then show "ratesOk (ReportError b')" using e one by (simp add: ratesOk_def ReportError_def b' configured_def)
qed

text \<open>The arithmetic of the delay: sixty seconds are not a \<open>float32\<close>, but the rounding up is cut off again.\<close>

lemma f32_maxDelay: "f32 (of_int maxDelay) = 60000002048"
  by (simp add: maxDelay_def second_def) code_simp

lemma durationSeconds_bounds:
  assumes "0 \<le> d" "d \<le> 60000002048"
  shows "0 \<le> truncf (durationSeconds d)" "truncf (durationSeconds d) \<le> 60"
proof -
  let ?s = "d div second" and ?n = "d mod second"
  have s: "0 \<le> ?s" "?s \<le> 60" and n: "0 \<le> ?n" "?n < second" using assms by (auto simp: second_def)
  have fs: "f64 (of_int ?s) = of_int ?s" "f64 (of_int ?n) = of_int ?n"
    using s n by (auto intro!: fround_int simp: second_def)
  have fs1: "f64 (of_int second) = of_int second" by (rule fround_int) (simp_all add: second_def)
  let ?q = "f64 (of_int ?n / of_int second)"
  have q0: "0 \<le> ?q" using n by (intro fround_nonneg) (simp_all add: second_def)
  have d: "durationSeconds d = f64 (of_int ?s + ?q)" by (simp add: durationSeconds_def fs fs1)
  have "0 \<le> durationSeconds d" unfolding d using s q0 by (intro fround_nonneg) simp_all
  then show "0 \<le> truncf (durationSeconds d)" by (rule truncf_nonneg)
  have "f64 (of_int ?s + ?q) \<le> 121 / 2"
  proof (cases "?s = 60")
    case True
    have "?n \<le> 2048" using assms(2) True minus_div_mult_eq_mod[of d second] by (simp add: second_def)
    then have "of_int ?n / of_int second \<le> (1 / 2 :: rat)" by (simp add: second_def)
    then have "?q \<le> f64 (1 / 2)" by (intro fround_mono) simp_all
    also have "f64 (1 / 2) = 1 / 2" using fround_exact[of 1 53 "-1"] by simp
    finally have "of_int ?s + ?q \<le> 121 / 2" using True by simp
    then have "f64 (of_int ?s + ?q) \<le> f64 (121 / 2)" by (intro fround_mono) simp_all
    also have "f64 (121 / 2) = 121 / 2" using fround_exact[of 121 53 "-1"] by simp
    finally show ?thesis .
  next
    case False
    have "of_int ?n / of_int second \<le> (1 :: rat)" using n by (simp add: second_def)
    then have "?q \<le> f64 1" by (intro fround_mono) simp_all
    then have "?q \<le> 1" by simp
    moreover have "?s \<le> 59" using False s by linarith
    then have "(of_int ?s :: rat) \<le> of_int 59" by (simp only: of_int_le_iff)
    ultimately have "of_int ?s + ?q \<le> of_int 60" by simp
    then have "f64 (of_int ?s + ?q) \<le> f64 (of_int 60)" by (intro fround_mono) simp_all
    also have "f64 (of_int 60) = of_int 60" by (intro fround_int) simp_all
    finally show ?thesis by simp
  qed
  then have "truncf (durationSeconds d) \<le> truncf (121 / 2)"
    using \<open>0 \<le> durationSeconds d\<close> unfolding d by (intro truncf_mono)
  also have "truncf (121 / 2) = 60" by (simp add: truncf_def floor_eq_iff)
  finally show "truncf (durationSeconds d) \<le> 60" .
qed

lemma delayOf_bounds:
  assumes "ratesOk b" "1 \<le> countRequests b"
  shows "0 \<le> delayOf b \<and> delayOf b \<le> maxDelay \<and> delayOf b mod second = 0"
proof -
  have e: "0 \<le> countErrorsRequestLimit b" "countErrorsRequestLimit b \<le> countRequests b" "b_maxDelay b = maxDelay"
    using assms by (simp_all add: ratesOk_def configured_def)
  have f0: "0 \<le> errorFraction b"
    unfolding errorFraction_def using e assms(2) by (auto intro!: fround_nonneg)
  have "f32 (countErrorsRequestLimit b / countRequests b) \<le> f32 1"
    using e assms(2) by (intro fround_mono) simp_all
  then have f1: "errorFraction b \<le> 1" by (simp add: errorFraction_def)
  let ?x = "f32 (f32 (of_int maxDelay) * errorFraction b)"
  have x0: "0 \<le> ?x" using f0 by (intro fround_nonneg) (simp_all add: f32_maxDelay)
  have "?x \<le> f32 (f32 (of_int maxDelay))"
    using f0 f1 by (intro fround_mono) (simp_all add: f32_maxDelay)
  also have "\<dots> = of_int 60000002048"
  proof -
    have "f32 (f32 (of_int maxDelay)) = f32 (of_int maxDelay)"
      by (rule fround_idem) (simp_all add: maxDelay_def second_def)
    then show ?thesis by (simp add: f32_maxDelay)
  qed
  finally have "truncf ?x \<le> truncf (of_int 60000002048)" using x0 by (rule truncf_mono[rotated])
  then have "truncf ?x \<le> 60000002048" by (simp add: truncf_def)
  note ds = durationSeconds_bounds[OF truncf_nonneg[OF x0] this]
  show ?thesis
    using ds by (auto simp: delayOf_def Let_def e(3) maxDelay_def second_def)
qed

text \<open>
  C16. As long as a request reports its throttling error before the next request is counted, every delay
  the handler inserts is a whole number of seconds between zero and the maximal delay of sixty, whatever
  the times of the requests and whichever of them are throttled.
\<close>

theorem delay_bounded:
  assumes "powBounded pow"
  shows "list_all (\<lambda>delay. 0 \<le> delay \<and> delay \<le> maxDelay \<and> delay mod second = 0)
     (runRequests pow (Backoff_init decayIntervalSeconds decayFraction maxDelay start) trace)"
proof -
  have "list_all (\<lambda>delay. 0 \<le> delay \<and> delay \<le> maxDelay \<and> delay mod second = 0) (runRequests pow b trace)"
    if "ratesOk b" for b
    using that
  proof (induction trace arbitrary: b)
    case (Cons x trace)
    obtain now throttled where x: "x = (now, throttled)" by (cases x)
    obtain d b' where c: "ComputeDelayForRequest pow b now = (d, b')" by (cases "ComputeDelayForRequest pow b now")
    note st = ComputeDelay_state[OF assms Cons.prems c]
    show ?case
      using Cons.IH[of b'] Cons.IH[of "ReportError b'"] delayOf_bounds[OF st(3,2)] st by (simp add: x c)
  qed simp
  then show ?thesis by (simp add: ratesOk_def configured_def Backoff_init_def)
qed

definition exPow :: "rat \<Rightarrow> rat \<Rightarrow> rat" where
  "exPow base x = (if x < 1 then 1 else 1 / x)"

lemma exPow_bounded: "powBounded exPow"
  by (auto simp: powBounded_def exPow_def)

theorem delay_bounded_witness:
  "powBounded exPow \<and>
   list_all (\<lambda>delay. 0 \<le> delay \<and> delay \<le> maxDelay \<and> delay mod second = 0)
     (runRequests exPow (Backoff_init decayIntervalSeconds decayFraction maxDelay 0)
       [(0, True), (0, True), (second, True), (2 * second, False)])"
  using delay_bounded[OF exPow_bounded] exPow_bounded by blast

section \<open>The delay fades\<close>

text \<open>\<open>math.Pow\<close> of a base below one falls below every bound.\<close>

definition powVanishes :: "(rat \<Rightarrow> rat \<Rightarrow> rat) \<Rightarrow> bool" where
  "powVanishes pow \<longleftrightarrow> (\<forall>n. \<exists>k::nat. \<forall>x\<ge>2 ^ k. pow decayFraction x \<le> 1 / 2 ^ n)"

lemma f32_two_power: "f32 (1 / 2 ^ n) = 1 / 2 ^ n"
  using fround_exact[of 1 24 "- int n"] by (simp add: power_int_minus divide_inverse)

lemma intervals_large:
  assumes "20 * 2 ^ k \<le> d"
  shows "2 ^ k \<le> f64 (f64 (of_int d) / f64 (of_int decayIntervalSeconds))"
proof -
  have i: "f64 (of_int decayIntervalSeconds) = 20"
    using fround_int[of 20 53] by (simp add: decayIntervalSeconds_def)
  have "(of_int 20 * 2 powi int k :: rat) = of_int (20 * 2 ^ k)" by simp
  then have "f64 (of_int 20 * 2 powi int k) \<le> f64 (of_int d)"
    using assms by (intro fround_mono) (simp_all only: of_int_le_iff)
  then have "20 * 2 ^ k \<le> f64 (of_int d)" using fround_exact[of 20 53 "int k"] by simp
  then have "2 ^ k \<le> f64 (of_int d) / 20" by simp
  then have "f64 (2 ^ k) \<le> f64 (f64 (of_int d) / 20)" by (intro fround_mono) simp_all
  then show ?thesis using fround_exact[of 1 53 "int k"] by (simp add: i)
qed

lemma delayOf_low:
  assumes "0 \<le> countErrorsRequestLimit b" "countErrorsRequestLimit b \<le> 1 / 16" "1 \<le> countRequests b"
  shows "delayOf b = 0"
proof -
  have "countErrorsRequestLimit b / countRequests b \<le> countErrorsRequestLimit b / 1"
    using assms by (intro divide_left_mono) simp_all
  then have "f32 (countErrorsRequestLimit b / countRequests b) \<le> f32 (1 / 2 ^ 4)"
    using assms by (intro fround_mono) simp_all
  then have "f32 (countErrorsRequestLimit b / countRequests b) \<le> 1 / 16" by (simp only: f32_two_power) simp
  then have "errorFraction b \<le> 1 / 16" by (simp add: errorFraction_def)
  moreover have "f32 (3 / 32) \<le> f32 (1 / 10)" by (intro fround_mono) simp_all
  then have "3 / 32 \<le> f32 (1 / 10)" using fround_exact[of 3 24 "-5"] by simp
  ultimately show ?thesis by (simp add: delayOf_def)
qed

lemma decayed_errors:
  assumes "powBounded pow" "powVanishes pow" "ratesOk b"
  obtains T where "\<And>now. T \<le> now \<Longrightarrow> countErrorsRequestLimit (applyDecay pow b now) \<le> 1 / 16"
proof -
  have cfg: "b_decayIntervalSeconds b = decayIntervalSeconds" "b_decayFraction b = decayFraction"
    and e: "0 \<le> countErrorsRequestLimit b" using assms(3) by (simp_all add: ratesOk_def configured_def)
  obtain n where "16 * countErrorsRequestLimit b < of_nat n" using reals_Archimedean2 by blast
  also have "of_nat n \<le> (2 ^ n :: rat)" using of_nat_less_two_power[of n] by simp
  finally have n: "countErrorsRequestLimit b * (1 / 2 ^ n) \<le> 1 / 16" by (simp add: field_simps)
  obtain k where k: "\<And>x. 2 ^ k \<le> x \<Longrightarrow> pow decayFraction x \<le> 1 / 2 ^ n"
    using assms(2) unfolding powVanishes_def by blast
  let ?T = "second * (lastDecay b + 20 * 2 ^ (k + 1))"
  have "countErrorsRequestLimit (applyDecay pow b now) \<le> 1 / 16" if "?T \<le> now" for now
  proof -
    have "?T div second \<le> now div second" using that by (intro zdiv_mono1) (simp_all add: second_def)
    then have u: "20 * 2 ^ (k + 1) \<le> unix now - lastDecay b" by (simp add: unix_def second_def)
    have "(1::int) \<le> 2 ^ k" by simp
    then have gt: "unix now - lastDecay b > decayIntervalSeconds"
      using u unfolding decayIntervalSeconds_def power_add power_one_right by linarith
    let ?x = "f64 (f64 (of_int (unix now - lastDecay b)) / f64 (of_int decayIntervalSeconds))"
    have "2 ^ k \<le> ?x" using u gt by (intro intervals_large) (simp add: decayIntervalSeconds_def)
    from k[OF this] have "f32 (pow decayFraction ?x) \<le> f32 (1 / 2 ^ n)"
      using assms(1) order_trans[OF _ \<open>2 ^ k \<le> ?x\<close>, of 0] by (intro fround_mono) (simp_all add: powBounded_def)
    then have "countErrorsRequestLimit b * f32 (pow decayFraction ?x) \<le> countErrorsRequestLimit b * (1 / 2 ^ n)"
      unfolding f32_two_power by (intro mult_left_mono e)
    then have "countErrorsRequestLimit b * f32 (pow decayFraction ?x) \<le> 1 / 16" using n by (rule order_trans)
    then have "countErrorsRequestLimit b * f32 (pow decayFraction ?x) \<le> 1 / 2 ^ 4" by (simp only: power_numeral) simp
    moreover have "0 \<le> countErrorsRequestLimit b * f32 (pow decayFraction ?x)"
      using e decay_factor(1)[OF assms(1), of "unix now - lastDecay b"] gt by (simp add: decayIntervalSeconds_def)
    ultimately have "f32 (countErrorsRequestLimit b * f32 (pow decayFraction ?x)) \<le> f32 (1 / 2 ^ 4)"
      by (intro fround_mono) simp_all
    then show ?thesis unfolding f32_two_power using gt by (simp add: applyDecay_def Let_def cfg)
  qed
  then show ?thesis by (rule that)
qed

lemma ComputeDelay_fades:
  assumes "powBounded pow" "powVanishes pow" "ratesOk b"
  shows "\<exists>T. \<forall>now\<ge>T. fst (ComputeDelayForRequest pow b now) = 0"
proof -
  obtain T where T: "\<And>now. T \<le> now \<Longrightarrow> countErrorsRequestLimit (applyDecay pow b now) \<le> 1 / 16"
    using decayed_errors[OF assms] by blast
  have "fst (ComputeDelayForRequest pow b now) = 0" if "T \<le> now" for now
  proof -
    obtain d b' where c: "ComputeDelayForRequest pow b now = (d, b')" by (cases "ComputeDelayForRequest pow b now")
    note st = ComputeDelay_state[OF assms(1,3) c]
    have "countErrorsRequestLimit b' \<le> 1 / 16" using c T[OF that] by (auto simp: ComputeDelayForRequest_def Let_def)
    then have "delayOf b' = 0" using st by (intro delayOf_low) (simp_all add: ratesOk_def)
    then show ?thesis by (simp add: c st(1))
  qed
  then show ?thesis by blast
qed

text \<open>
  C18. Throttling ends: whatever requests have been made and throttled, there is a time from which on the
  next request is not delayed any more, because the counted errors have decayed below the tenth that is ignored.
\<close>

theorem delay_fades:
  assumes "powBounded pow" "powVanishes pow"
  shows "\<exists>T. \<forall>now\<ge>T.
     last (runRequests pow (Backoff_init decayIntervalSeconds decayFraction maxDelay start) (trace @ [(now, throttled)])) = 0"
proof -
  have "\<exists>T. \<forall>now\<ge>T. last (runRequests pow b (trace @ [(now, throttled)])) = 0" if "ratesOk b" for b
    using that
  proof (induction trace arbitrary: b)
    case Nil
    then show ?case using ComputeDelay_fades[OF assms, of b] by (simp add: case_prod_beta)
  next
    case (Cons x trace)
    obtain t e where x: "x = (t, e)" by (cases x)
    obtain d b' where c: "ComputeDelayForRequest pow b t = (d, b')" by (cases "ComputeDelayForRequest pow b t")
    let ?b = "if e then ReportError b' else b'"
    have "ratesOk ?b" using ComputeDelay_state[OF assms(1) Cons.prems c] by simp
    from Cons.IH[OF this] obtain T where T: "\<forall>now\<ge>T. last (runRequests pow ?b (trace @ [(now, throttled)])) = 0" ..
    have ne: "runRequests pow ?b (trace @ [(now, throttled)]) \<noteq> []" for now
      by (cases trace) (auto simp: case_prod_beta)
    have "last (runRequests pow b ((x # trace) @ [(now, throttled)])) =
      last (runRequests pow ?b (trace @ [(now, throttled)]))" for now using ne[of now] by (simp add: x c)
    then show ?case using T by metis
  qed
  then show ?thesis by (simp add: ratesOk_def configured_def Backoff_init_def)
qed

lemma exPow_vanishes: "powVanishes exPow"
  unfolding powVanishes_def
proof (intro allI exI impI)
  fix n :: nat and x :: rat
  assume n: "2 ^ n \<le> x"
  have "(1::rat) \<le> 2 ^ n" by simp
  with n have "1 \<le> x" "2 ^ n \<le> x" by linarith+
  then show "exPow decayFraction x \<le> 1 / 2 ^ n" by (simp add: exPow_def frac_le)
qed

theorem delay_fades_witness:
  "powBounded exPow \<and> powVanishes exPow \<and>
   (\<exists>T. \<forall>now\<ge>T.
     last (runRequests exPow (Backoff_init decayIntervalSeconds decayFraction maxDelay 0)
       ([(0, True), (0, True), (second, True)] @ [(now, False)])) = 0)"
  using delay_fades[OF exPow_bounded exPow_vanishes] exPow_bounded exPow_vanishes by blast

section \<open>Overlapping requests\<close>

text \<open>Requests that are counted before any of them reports its error.\<close>

fun countRequestsAt :: "(rat \<Rightarrow> rat \<Rightarrow> rat) \<Rightarrow> nat \<Rightarrow> int \<Rightarrow> BackoffState \<Rightarrow> BackoffState" where
  "countRequestsAt pow 0 now b = b"
| "countRequestsAt pow (Suc n) now b = countRequestsAt pow n now (snd (ComputeDelayForRequest pow b now))"

fun reportErrors :: "nat \<Rightarrow> BackoffState \<Rightarrow> BackoffState" where
  "reportErrors 0 b = b"
| "reportErrors (Suc n) b = reportErrors n (ReportError b)"

lemma f32_of_nat: "n < 2 ^ 24 \<Longrightarrow> f32 (of_nat n) = of_nat n"
  using fround_int[of "int n" 24] by simp

lemma countRequestsAt_fresh:
  assumes "unix now - lastDecay b \<le> b_decayIntervalSeconds b" "countRequests b = of_nat k" "k + n < 2 ^ 24"
  shows "countRequestsAt pow n now b = b\<lparr>countRequests := of_nat (k + n)\<rparr>"
  using assms
proof (induction n arbitrary: b k)
  case (Suc n)
  have "f32 (of_nat k + 1) = of_nat (Suc k)" using f32_of_nat[of "Suc k"] Suc.prems(3) by (simp add: add.commute)
  then have "snd (ComputeDelayForRequest pow b now) = b\<lparr>countRequests := of_nat (Suc k)\<rparr>"
    using Suc.prems by (simp add: ComputeDelayForRequest_def applyDecay_def Let_def)
  moreover have "countRequestsAt pow n now (b\<lparr>countRequests := of_nat (Suc k)\<rparr>) =
      b\<lparr>countRequests := of_nat (Suc k)\<rparr>\<lparr>countRequests := of_nat (Suc k + n)\<rparr>"
    using Suc.prems by (intro Suc.IH) simp_all
  ultimately show ?case by simp
qed simp

lemma reportErrors_count:
  "countErrorsRequestLimit b = of_nat k \<Longrightarrow> k + n < 2 ^ 24 \<Longrightarrow>
     reportErrors n b = b\<lparr>countErrorsRequestLimit := of_nat (k + n)\<rparr>"
proof (induction n arbitrary: b k)
  case (Suc n)
  have "f32 (of_nat k + 1) = of_nat (Suc k)" using f32_of_nat[of "Suc k"] Suc.prems(2) by (simp add: add.commute)
  then have r: "ReportError b = b\<lparr>countErrorsRequestLimit := of_nat (Suc k)\<rparr>" using Suc.prems(1) by (simp add: ReportError_def)
  have "reportErrors n (b\<lparr>countErrorsRequestLimit := of_nat (Suc k)\<rparr>) =
      b\<lparr>countErrorsRequestLimit := of_nat (Suc k)\<rparr>\<lparr>countErrorsRequestLimit := of_nat (Suc k + n)\<rparr>"
    using Suc.prems by (intro Suc.IH) simp_all
  then show ?case by (simp add: r)
qed simp

lemma durationSeconds_lower:
  assumes "0 \<le> n" "n < 2 ^ 53" "n * second \<le> d"
  shows "n \<le> truncf (durationSeconds d)"
proof -
  have "n * second div second \<le> d div second" using assms(3) by (intro zdiv_mono1) (simp_all add: second_def)
  then have "f64 (of_int n) \<le> f64 (of_int (d div second))" by (intro fround_mono) (simp_all add: second_def)
  then have "of_int n \<le> f64 (of_int (d div second))" using fround_int[OF assms(1,2)] by simp
  moreover have "0 \<le> f64 (f64 (of_int (d mod second)) / f64 (of_int second))"
    by (intro fround_nonneg divide_nonneg_nonneg) (simp_all add: second_def)
  ultimately have "f64 (of_int n) \<le> durationSeconds d"
    unfolding durationSeconds_def by (intro fround_mono) simp_all
  then have "of_int n \<le> durationSeconds d" using fround_int[OF assms(1,2)] by simp
  moreover from this have "0 \<le> durationSeconds d" using assms(1) by (meson of_int_0_le_iff order_trans)
  ultimately show ?thesis by (simp add: truncf_def le_floor_iff)
qed

lemma delayOf_twice:
  assumes "2 \<le> errorFraction b" "b_maxDelay b = maxDelay"
  shows "120 * second \<le> delayOf b"
proof -
  have "f32 (1 / 10) \<le> f32 1" by (intro fround_mono) simp_all
  then have small: "\<not> errorFraction b < f32 (1 / 10)" using assms(1) by simp
  have m: "f32 (of_int maxDelay) = 60000002048" by (rule f32_maxDelay)
  have x: "f32 (of_int 14648438 * 2 powi 13) = of_int 14648438 * 2 powi 13" by (rule fround_exact) simp_all
  have "f32 (of_int 14648438 * 2 powi 13) \<le> f32 (f32 (of_int maxDelay) * errorFraction b)"
    using assms(1) by (intro fround_mono) (simp_all add: m)
  then have "of_int 120000004096 \<le> f32 (f32 (of_int maxDelay) * errorFraction b)" unfolding x by simp
  then have "120000004096 \<le> truncf (f32 (f32 (of_int maxDelay) * errorFraction b))"
    by (simp add: truncf_def le_floor_iff)
  then have "120 \<le> truncf (durationSeconds (truncf (f32 (f32 (of_int maxDelay) * errorFraction b))))"
    by (intro durationSeconds_lower) (simp_all add: second_def)
  then show ?thesis using small by (simp add: delayOf_def Let_def assms(2) second_def)
qed

text \<open>
  C20. Eight requests are under way when the counters decay after 1000 seconds without requests, then all of them report that they were
  throttled: the next request is delayed by two minutes or more, twice the maximal delay.  The only thing assumed of \<open>math.Pow\<close> is that
  the fiftieth power of 0.8 is between zero and a sixteenth.
\<close>

theorem delay_overshoots:
  assumes "0 \<le> pow decayFraction 50" "pow decayFraction 50 \<le> 1 / 16"
  defines "b0 \<equiv> Backoff_init decayIntervalSeconds decayFraction maxDelay 0"
  defines "b1 \<equiv> reportErrors 8 (countRequestsAt pow 1 (1000 * second) (countRequestsAt pow 8 0 b0))"
  shows "2 * maxDelay \<le> fst (ComputeDelayForRequest pow b1 (1000 * second))"
proof -
  let ?d = "f32 (pow decayFraction 50)" and ?now = "1000 * second"
  let ?r = "f32 (f32 (12 * ?d) + 1)"
  have x: "f64 (f64 1000 / f64 20) = 50"
    using fround_int[of 1000 53] fround_int[of 20 53] fround_int[of 50 53] by simp
  have u: "unix ?now = 1000" "unix 0 = 0" by (simp_all add: unix_def second_def)
  have c8: "countRequestsAt pow 8 0 b0 = b0\<lparr>countRequests := of_nat (4 + 8)\<rparr>"
    by (rule countRequestsAt_fresh) (simp_all add: b0_def Backoff_init_def unix_def decayIntervalSeconds_def)
  have c1: "countRequestsAt pow 1 ?now (b0\<lparr>countRequests := 12\<rparr>) =
      b0\<lparr>countRequests := ?r, countErrorsRequestLimit := 0, lastDecay := 1000\<rparr>"
    by (simp add: ComputeDelayForRequest_def applyDecay_def Let_def u b0_def Backoff_init_def
        decayIntervalSeconds_def x)
  have b1: "b1 = b0\<lparr>countRequests := ?r, countErrorsRequestLimit := 8, lastDecay := 1000\<rparr>"
  proof -
    have "b1 = reportErrors 8 (b0\<lparr>countRequests := ?r, countErrorsRequestLimit := 0, lastDecay := 1000\<rparr>)"
      unfolding b1_def c8 c1[symmetric] by simp
    also have "\<dots> = b0\<lparr>countRequests := ?r, countErrorsRequestLimit := 0, lastDecay := 1000\<rparr>\<lparr>
        countErrorsRequestLimit := of_nat (0 + 8)\<rparr>"
      by (rule reportErrors_count) simp_all
    finally show ?thesis by simp
  qed
  let ?b2 = "b1\<lparr>countRequests := f32 (?r + 1)\<rparr>"
  have run: "fst (ComputeDelayForRequest pow b1 ?now) = delayOf ?b2"
    by (simp add: ComputeDelayForRequest_def applyDecay_def Let_def u b1 b0_def Backoff_init_def decayIntervalSeconds_def)
  have "?d \<le> f32 (1 / 2 ^ 4)" using assms(1,2) by (intro fround_mono) simp_all
  then have d: "?d \<le> 1 / 16" unfolding f32_two_power by simp
  have d0: "0 \<le> ?d" using assms(1) by (simp add: fround_nonneg)
  have q: "f32 (3 / 4) = 3 / 4" "f32 (7 / 4) = 7 / 4" "f32 (11 / 4) = 11 / 4"
    using fround_exact[of 3 24 "-2"] fround_exact[of 7 24 "-2"] fround_exact[of 11 24 "-2"] by simp_all
  have "f32 (12 * ?d) \<le> f32 (3 / 4)" using d d0 by (intro fround_mono) simp_all
  then have "?r \<le> f32 (7 / 4)" using d0 by (intro fround_mono) (simp_all add: q fround_nonneg)
  moreover have r0: "0 \<le> ?r" using d0 by (intro fround_nonneg add_nonneg_nonneg) (simp_all add: fround_nonneg)
  ultimately have r2: "f32 (?r + 1) \<le> 11 / 4" using fround_mono[of "?r + 1" "11 / 4" 24] by (simp add: q)
  have "f32 1 \<le> f32 (?r + 1)" using r0 by (intro fround_mono) simp_all
  then have r1: "1 \<le> f32 (?r + 1)" by simp
  have "2 \<le> 8 / f32 (?r + 1)" using r1 r2 by (simp add: le_divide_eq)
  then have "f32 2 \<le> f32 (8 / f32 (?r + 1))" by (intro fround_mono) simp_all
  moreover have "f32 2 = 2" using fround_int[of 2 24] by simp
  ultimately have "2 \<le> errorFraction ?b2" using r1 by (simp add: errorFraction_def b1)
  then have "120 * second \<le> delayOf ?b2"
    by (rule delayOf_twice) (simp add: b1 b0_def Backoff_init_def)
  then show ?thesis by (simp add: run maxDelay_def)
qed

theorem delay_overshoots_witness:
  "2 * maxDelay \<le> fst (ComputeDelayForRequest exPow (reportErrors 8 (countRequestsAt exPow 1 (1000 * second)
     (countRequestsAt exPow 8 0 (Backoff_init decayIntervalSeconds decayFraction maxDelay 0)))) (1000 * second))"
  by (rule delay_overshoots) (simp_all add: exPow_def)

end
