(* ===== verification/Startup.thy ===== *)
theory Startup
  imports Instances_V2 Backoff
begin

text \<open>
  How the process comes up: the metadata service (\<open>metadata.go\<close>), the endpoint resolvers and the session
  (\<open>utils.go\<close>), the provider of API clients (\<open>oapi_provider.go\<close>), the construction of the \<open>Cloud\<close> object and
  its registration (\<open>ccm.go\<close>), and the initializer of \<open>main.go\<close>.

  The constructors of the AWS and Outscale SDKs are the fields of \<open>Sdk\<close>.  The provider object's table of
  delayers is process memory: the world of its methods is a pair of that table and the rest.
\<close>

section \<open>Third-party constructors\<close>

text \<open>The SDK's request handlers, as far as the provider pushes them: the name and the function.\<close>

datatype HandlerFn =
    AddToUserAgent string string
  | AwsHandlerLogger
  | DelayBeforeSign string
  | DelayAfterRetry string
  | AwsSendHandlerLogger
  | AwsValidateResponseHandlerLogger
  | SdkOwn string

record NamedHandler =
  nh_Name :: string
  nh_Fn :: HandlerFn

record Handlers =
  h_Build :: "NamedHandler list"
  h_Sign :: "NamedHandler list"
  h_Send :: "NamedHandler list"
  h_ValidateResponse :: "NamedHandler list"
  h_AfterRetry :: "NamedHandler list"

datatype CredentialsProvider = EnvProvider | SharedCredentialsProvider

datatype LogFlag = LogDebugWithSigning | LogDebugWithHTTPBody | LogDebugWithRequestRetries | LogDebugWithRequestErrors

record AwsConfig =
  ac_Region :: "string option"
  ac_Credentials :: "CredentialsProvider list option"
  ac_CredentialsChainVerboseErrors :: "bool option"
  ac_EndpointResolver :: "string \<Rightarrow> string \<Rightarrow> ResolvedEndpoint res"
  ac_LogLevel :: "LogFlag list"

record Session =
  ss_Config :: AwsConfig
  ss_Handlers :: Handlers

text \<open>The configuration of the Outscale SDK: what the provider sets, and the rest.  The context carries the
  keys, the index of the server and its variables.\<close>

record OscConfiguration =
  oc_Debug :: bool
  oc_UserAgent :: string
  oc_Rest :: string

record OscContext =
  ctx_AccessKey :: string
  ctx_SecretKey :: string
  ctx_ServerIndex :: int
  ctx_Region :: string

record 'w Sdk =
  sdk_Configuration :: "('w, OscConfiguration) io"
  sdk_NewAPIClient :: "OscConfiguration \<Rightarrow> OscContext \<Rightarrow> 'w APIClient"
  sdk_NewSession :: "AwsConfig \<Rightarrow> ('w, Session) io"
  sdk_elbHandlers :: "Session \<Rightarrow> Handlers"
  sdk_elbNew :: "Session \<Rightarrow> Handlers \<Rightarrow> 'w LoadBalancer"
  sdk_ec2metadataHandlers :: "Session \<Rightarrow> Handlers"
  sdk_ec2metadataNew :: "Session \<Rightarrow> Handlers \<Rightarrow> 'w EC2Metadata"
  sdk_EndpointFor :: "string \<Rightarrow> string \<Rightarrow> ResolvedEndpoint res"
  sdk_DefaultPartitions :: "string list list"
  sdk_Ec2ServiceID :: string
  sdk_ElasticloadbalancingServiceID :: string
  sdk_IamServiceID :: string
  sdk_DirectconnectServiceID :: string
  sdk_KmsServiceID :: string

text \<open>What a process has around it: the SDKs, the environment variables, the clock, the metrics and the
  libraries the handlers call.\<close>

record 'w Runtime =
  run_sdk :: "'w Sdk"
  run_environ :: "string \<rightharpoonup> string"
  run_clock :: "'w Clock"
  run_metrics :: "'w Metrics"
  run_libs :: "'w Libs"

definition Getenv :: "'w Runtime \<Rightarrow> string \<Rightarrow> string" where
  "Getenv rt name = (case run_environ rt name of None \<Rightarrow> [] | Some v \<Rightarrow> v)"

definition version :: string where
  "version = ''dev''"

definition GetVersion :: string where
  "GetVersion = version"

section \<open>The metadata service\<close>

record 'w Metadata =
  mds_InstanceID :: string
  mds_InstanceType :: string
  mds_Region :: string
  mds_AvailabilityZone :: string
  IsAvailable :: bool
  Client :: "'w EC2Metadata"

text \<open>A call whose error and whose empty answer are treated alike.\<close>

definition validMetadata :: "'w EC2Metadata \<Rightarrow> string \<Rightarrow> go_error \<Rightarrow> ('w, string) io" where
  "validMetadata svc key invalid = attempt (GetMetadata svc key)
     (\<lambda>v. if length v = 0 then raise invalid else ok v) (\<lambda>_. raise invalid)"

definition NewMetadataService :: "'w EC2Metadata \<Rightarrow> ('w, 'w Metadata) io" where
  "NewMetadataService svc =
     bnd (md_Available svc) (\<lambda>avail.
     if \<not> avail then raise (Errorf ''EC2 instance metadata is not available'' [])
     else
       bnd (validMetadata svc ''instance-id'' (Errorf ''could not get valid EC2 instance ID'' [])) (\<lambda>instanceID.
       bnd (validMetadata svc ''instance-type'' (Errorf ''could not get valid EC2 instance type'' [])) (\<lambda>instanceType.
       bnd (validMetadata svc ''placement/availability-zone'' (Errorf ''could not get valid EC2 availavility zone'' []))
         (\<lambda>availabilityZone.
       (let region = take (length availabilityZone - 1) availabilityZone in
        if length region = 0 then raise (Errorf ''could not get valid EC2 region'' [])
        else ok \<lparr>mds_InstanceID = instanceID, mds_InstanceType = instanceType, mds_Region = region,
                 mds_AvailabilityZone = availabilityZone, IsAvailable = avail, Client = svc\<rparr>)))))"

text \<open>The methods of \<open>*Metadata\<close>, and the value of the interface \<open>EC2Metadata\<close>.\<close>

definition GetInstanceID :: "'w Metadata \<Rightarrow> string" where
  "GetInstanceID m = mds_InstanceID m"

definition GetInstanceType :: "'w Metadata \<Rightarrow> string" where
  "GetInstanceType m = mds_InstanceType m"

definition GetRegion :: "'w Metadata \<Rightarrow> string" where
  [simp]: "GetRegion m = mds_Region m"

definition GetAvailabilityZone :: "'w Metadata \<Rightarrow> string" where
  "GetAvailabilityZone m = mds_AvailabilityZone m"

definition Metadata_Available :: "'w Metadata \<Rightarrow> ('w, bool) io" where
  "Metadata_Available m = ok (IsAvailable m)"

definition Metadata_GetMetadata :: "'w Metadata \<Rightarrow> string \<Rightarrow> ('w, string) io" where
  "Metadata_GetMetadata m path = GetMetadata (Client m) path"

definition asEC2Metadata :: "'w Metadata \<Rightarrow> 'w EC2Metadata" where
  "asEC2Metadata m = \<lparr>md_Available = Metadata_Available m, GetMetadata = Metadata_GetMetadata m\<rparr>"

section \<open>Endpoints\<close>

definition SetupMetadataResolver :: "string \<Rightarrow> string \<Rightarrow> ResolvedEndpoint res" where
  "SetupMetadataResolver service region =
     Ok \<lparr>ep_URL = ''http://169.254.169.254/latest'', ep_SigningRegion = ''custom-signing-region'',
         ep_SigningMethod = [], ep_SigningName = []\<rparr>"

definition Endpoint :: "string \<Rightarrow> string \<Rightarrow> string" where
  "Endpoint region service = ''https://'' @ service @ ''.'' @ region @ ''.outscale.com''"

definition supportedService :: "'w Sdk \<Rightarrow> (string, string) gomap" where
  "supportedService sdk =
     [(sdk_Ec2ServiceID sdk, ''fcu''), (sdk_ElasticloadbalancingServiceID sdk, ''lbu''),
      (sdk_IamServiceID sdk, ''eim''), (sdk_DirectconnectServiceID sdk, ''directlink''),
      (sdk_KmsServiceID sdk, ''kms'')]"

text \<open>The region the resolver is set up for is shadowed by the one it is asked for.\<close>

definition SetupServiceResolver :: "'w Runtime \<Rightarrow> string \<Rightarrow> string \<Rightarrow> string \<Rightarrow> ResolvedEndpoint res" where
  "SetupServiceResolver rt setupRegion service region =
     (case map_of (supportedService (run_sdk rt)) service of
        Some oscService \<Rightarrow>
          (let url =
             (if Getenv rt ''OSC_ENDPOINT_LBU'' \<noteq> [] \<and> service = sdk_ElasticloadbalancingServiceID (run_sdk rt)
              then Getenv rt ''OSC_ENDPOINT_LBU''
              else if Getenv rt ''OSC_ENDPOINT_FCU'' \<noteq> [] \<and> service = sdk_Ec2ServiceID (run_sdk rt)
              then Getenv rt ''OSC_ENDPOINT_FCU''
              else if Getenv rt ''OSC_ENDPOINT_EIM'' \<noteq> [] \<and> service = sdk_IamServiceID (run_sdk rt)
              then Getenv rt ''OSC_ENDPOINT_EIM''
              else Endpoint region oscService)
           in Ok \<lparr>ep_URL = url, ep_SigningRegion = region, ep_SigningMethod = [], ep_SigningName = service\<rparr>)
      | None \<Rightarrow> sdk_EndpointFor (run_sdk rt) service region)"

section \<open>Handlers and sessions\<close>

definition addOscUserAgent :: "Handlers \<Rightarrow> Handlers" where
  "addOscUserAgent h = h\<lparr>h_Build :=
     \<lparr>nh_Name = ''cloud-provider-osc/user-agent'', nh_Fn = AddToUserAgent ''osc-cloud-controller-manager'' GetVersion\<rparr>
       # h_Build h\<rparr>"

definition addAPILoggingHandlers :: "Handlers \<Rightarrow> Handlers" where
  "addAPILoggingHandlers h = h\<lparr>
     h_Send := h_Send h @ [\<lparr>nh_Name = ''k8s/api-request'', nh_Fn = AwsSendHandlerLogger\<rparr>],
     h_ValidateResponse :=
       \<lparr>nh_Name = ''k8s/api-validate-response'', nh_Fn = AwsValidateResponseHandlerLogger\<rparr> # h_ValidateResponse h\<rparr>"

type_synonym delayers = "(string, BackoffState) gomap"

text \<open>\<open>getCrossRequestRetryDelay\<close> never returns nil, so the handlers of the delayer are always pushed.\<close>

definition addHandlers :: "'x Clock \<Rightarrow> string \<Rightarrow> Handlers \<Rightarrow> (delayers \<times> 'x, Handlers) io" where
  "addHandlers clk regionName h =
     (let h1 = addOscUserAgent h;
          h2 = h1\<lparr>h_Sign := \<lparr>nh_Name = ''k8s/logger'', nh_Fn = AwsHandlerLogger\<rparr> # h_Sign h1\<rparr>
      in bnd (getCrossRequestRetryDelay clk regionName) (\<lambda>delayer.
         (let h3 = h2\<lparr>h_Sign := \<lparr>nh_Name = ''k8s/delay-presign'', nh_Fn = DelayBeforeSign delayer\<rparr> # h_Sign h2\<rparr>;
              h4 = h3\<lparr>h_AfterRetry :=
                \<lparr>nh_Name = ''k8s/delay-afterretry'', nh_Fn = DelayAfterRetry delayer\<rparr> # h_AfterRetry h3\<rparr>
          in ok (addAPILoggingHandlers h4))))"

definition debugLog :: "LogFlag list" where
  "debugLog = [LogDebugWithSigning, LogDebugWithHTTPBody, LogDebugWithRequestRetries, LogDebugWithRequestErrors]"

definition metadataConfig :: AwsConfig where
  "metadataConfig = \<lparr>ac_Region = None, ac_Credentials = None, ac_CredentialsChainVerboseErrors = None,
     ac_EndpointResolver = SetupMetadataResolver, ac_LogLevel = debugLog\<rparr>"

text \<open>\<open>session.Must\<close> panics on an error; a session whose handlers got the user agent.\<close>

definition metadataSession :: "'w Sdk \<Rightarrow> ('w, Session) io" where
  "metadataSession sdk =
     attempt (sdk_NewSession sdk metadataConfig)
       (\<lambda>sess. ok (sess\<lparr>ss_Handlers := addOscUserAgent (ss_Handlers sess)\<rparr>))
       (\<lambda>e. panic (errText e))"

definition newEC2MetadataSvc :: "'w Sdk \<Rightarrow> ('w, 'w EC2Metadata) io" where
  "newEC2MetadataSvc sdk =
     bnd (metadataSession sdk) (\<lambda>sess. ok (sdk_ec2metadataNew sdk sess (sdk_ec2metadataHandlers sdk sess)))"

definition NewMetadata :: "'w Sdk \<Rightarrow> ('w, 'w Metadata) io" where
  "NewMetadata sdk =
     bnd (newEC2MetadataSvc sdk) (\<lambda>svc.
     attempt (NewMetadataService svc) ok (\<lambda>e. raise (Errorf ''could not get metadata from AWS: %v'' [e])))"

text \<open>The argument of \<open>NewSession\<close> by its dynamic type: nil, a \<open>MetadataService\<close>, or something else.\<close>

datatype 'w metadataArg = NilMetadata | ServiceMetadata "'w Metadata" | OtherMetadata "'w EC2Metadata"

definition initMetadata :: "'w Sdk \<Rightarrow> 'w metadataArg \<Rightarrow> ('w, 'w Metadata) io" where
  "initMetadata sdk meta = (case meta of
       NilMetadata \<Rightarrow> NewMetadata sdk
     | ServiceMetadata value \<Rightarrow> ok value
     | OtherMetadata _ \<Rightarrow> raise (Errorf ''Unable to retrieve Metadata'' []))"

definition NewSession :: "'w Runtime \<Rightarrow> 'w metadataArg \<Rightarrow> ('w, Session) io" where
  "NewSession rt meta =
     attempt (initMetadata (run_sdk rt) meta)
       (\<lambda>metadata.
         attempt (sdk_NewSession (run_sdk rt)
             \<lparr>ac_Region = Some (GetRegion metadata), ac_Credentials = Some [EnvProvider, SharedCredentialsProvider],
              ac_CredentialsChainVerboseErrors = Some True,
              ac_EndpointResolver = SetupServiceResolver rt (GetRegion metadata), ac_LogLevel = debugLog\<rparr>)
           ok (\<lambda>e. raise (Errorf ''unable to initialize NewSession session: %v'' [e])))
       (\<lambda>e. raise (Errorf ''unable to initialize OSC Metadata session: %v'' [e]))"

section \<open>The provider of API clients\<close>

record 'w Services =
  svcs_Compute :: "string \<Rightarrow> ('w, 'w Compute) io"
  svcs_LoadBalancing :: "string \<Rightarrow> ('w, 'w LoadBalancer) io"
  svcs_Metadata :: "('w, 'w EC2Metadata) io"

definition NewOscClient :: "'w Runtime \<Rightarrow> string \<Rightarrow> ('w, 'w APIClient) io" where
  "NewOscClient rt regionName =
     bnd (sdk_Configuration (run_sdk rt)) (\<lambda>config.
     ok (sdk_NewAPIClient (run_sdk rt)
          (config\<lparr>oc_Debug := True, oc_UserAgent := ''osc-cloud-controller-manager/'' @ GetVersion\<rparr>)
          \<lparr>ctx_AccessKey = Getenv rt ''OSC_ACCESS_KEY'', ctx_SecretKey = Getenv rt ''OSC_SECRET_KEY'',
           ctx_ServerIndex = 0, ctx_Region = regionName\<rparr>))"

definition awsSDKProvider_Compute :: "'w Runtime \<Rightarrow> string \<Rightarrow> ('w, 'w Compute) io" where
  "awsSDKProvider_Compute rt regionName =
     bnd (NewOscClient rt regionName) (\<lambda>client.
     ok (asCompute \<lparr>osc_client = client, osc_clock = run_clock rt, osc_metrics = run_metrics rt\<rparr>))"

definition awsSDKProvider_LoadBalancing ::
  "(delayers \<times> 'x) Runtime \<Rightarrow> 'x Clock \<Rightarrow> string \<Rightarrow> (delayers \<times> 'x, (delayers \<times> 'x) LoadBalancer) io" where
  "awsSDKProvider_LoadBalancing rt clk regionName =
     attempt (NewSession rt NilMetadata)
       (\<lambda>sess. bnd (addHandlers clk regionName (sdk_elbHandlers (run_sdk rt) sess)) (\<lambda>h.
          ok (sdk_elbNew (run_sdk rt) sess h)))
       (\<lambda>e. raise (Errorf ''unable to initialize AWS session: %v'' [e]))"

definition awsSDKProvider_Metadata :: "'w Runtime \<Rightarrow> ('w, 'w EC2Metadata) io" where
  "awsSDKProvider_Metadata rt =
     bnd (metadataSession (run_sdk rt)) (\<lambda>sess.
     attempt (NewMetadataService (sdk_ec2metadataNew (run_sdk rt) sess
                (addAPILoggingHandlers (sdk_ec2metadataHandlers (run_sdk rt) sess))))
       (\<lambda>metadata. ok (asEC2Metadata metadata))
       (\<lambda>e. raise (Errorf ''could not get metadata from AWS: %v'' [e])))"

definition awsSDKProvider :: "(delayers \<times> 'x) Runtime \<Rightarrow> 'x Clock \<Rightarrow> (delayers \<times> 'x) Services" where
  "awsSDKProvider rt clk = \<lparr>svcs_Compute = awsSDKProvider_Compute rt,
     svcs_LoadBalancing = awsSDKProvider_LoadBalancing rt clk, svcs_Metadata = awsSDKProvider_Metadata rt\<rparr>"

text \<open>A new provider object has an empty table of delayers.\<close>

definition newAWSSDKProvider :: "(delayers \<times> 'x) Runtime \<Rightarrow> 'x Clock \<Rightarrow> (delayers \<times> 'x, (delayers \<times> 'x) Services) io" where
  "newAWSSDKProvider rt clk = (\<lambda>(_, w). (Ok (awsSDKProvider rt clk), ([], w)))"

section \<open>The zone and the region\<close>

definition getAvailabilityZone :: "'w EC2Metadata \<Rightarrow> ('w, string) io" where
  "getAvailabilityZone metadata = GetMetadata metadata ''placement/availability-zone''"

definition setZone :: "string \<Rightarrow> CloudConfig \<Rightarrow> CloudConfig" where
  "setZone zone conf = conf\<lparr>Global := (Global conf)\<lparr>cfg_Zone := zone\<rparr>\<rparr>"

text \<open>The configuration is changed in place; a nil metadata interface is \<open>None\<close>.\<close>

definition updateConfigZone :: "CloudConfig \<Rightarrow> 'w EC2Metadata option \<Rightarrow> ('w, CloudConfig) io" where
  "updateConfigZone conf metadata =
     (if cfg_Zone (Global conf) = [] then
        bnd (case metadata of
               None \<Rightarrow> ok conf
             | Some m \<Rightarrow> bnd (getAvailabilityZone m) (\<lambda>zone. ok (setZone zone conf)))
          (\<lambda>conf'. if cfg_Zone (Global conf') = []
                   then raise (Errorf ''no zone specified in configuration file'' []) else ok conf')
      else ok conf)"

definition isRegionValid :: "'w Sdk \<Rightarrow> string \<Rightarrow> 'w EC2Metadata \<Rightarrow> ('w, bool) io" where
  "isRegionValid sdk region metadata =
     (if \<exists>p\<in>set (sdk_DefaultPartitions sdk). region \<in> set p then ok True
      else if region = ''ap-northeast-3'' then ok True
      else attempt (getAvailabilityZone metadata)
             (\<lambda>az. ok (azToRegion az = Ok region)) (\<lambda>_. ok False))"

section \<open>The cloud object\<close>

definition newInstancesV2 :: "'w Runtime \<Rightarrow> string \<Rightarrow> resourceTagging \<Rightarrow> ('w, 'w instancesV2) io" where
  "newInstancesV2 rt az tagging =
     bnd (lift (azToRegion az)) (\<lambda>region.
     bnd (NewOscClient rt region) (\<lambda>client.
     ok \<lparr>v2_availabilityZone = az, v2_client = client, v2_region = region, v2_tags = tagging\<rparr>))"

definition zeroTagging :: resourceTagging where
  "zeroTagging = \<lparr>ClusterID = [], usesLegacyTags = False\<rparr>"

text \<open>The literal \<open>&Cloud{...}\<close>.  Until \<open>SetInformers\<close> the node informer is nil.\<close>

definition cloudLiteral ::
  "'w Runtime \<Rightarrow> CloudConfig \<Rightarrow> string \<Rightarrow> 'w Compute \<Rightarrow> 'w LoadBalancer \<Rightarrow> 'w EC2Metadata \<Rightarrow> 'w Cloud" where
  "cloudLiteral rt conf regionName computeService elb metadata =
     \<lparr>c_compute = computeService, c_loadBalancer = elb, c_metadata = metadata, c_cfg = conf, c_region = regionName,
      c_vpcID = [], c_instances = None, c_tagging = zeroTagging, c_selfAWSInstance = None,
      c_nodeInformerHasSynced = None, c_nodeLister = (\<lambda>_. panic nilPointer),
      c_environ = run_environ rt, c_clock = run_clock rt, c_libs = run_libs rt\<rparr>"

definition clusterTagged :: "GlobalConfig \<Rightarrow> bool" where
  "clusterTagged g \<longleftrightarrow> KubernetesClusterTag g \<noteq> [] \<or> KubernetesClusterID g \<noteq> []"

definition masterElsewhere :: "GlobalConfig \<Rightarrow> bool" where
  "masterElsewhere g \<longleftrightarrow> cfg_VPC g \<noteq> [] \<and> (cfg_SubnetID g \<noteq> [] \<or> RoleARN g \<noteq> []) \<and> clusterTagged g"

text \<open>The self instance: a dummy when the master runs elsewhere, otherwise the described machine.\<close>

definition selfOf :: "'w Cloud \<Rightarrow> ('w, 'w VM) io" where
  "selfOf c =
     (if masterElsewhere (globalCfg c) then
        ok \<lparr>self_compute = None, self_vmID = [], self_nodeName = ''master-dummy'', self_availabilityZone = [],
            self_vpcID = cfg_VPC (globalCfg c), self_subnetID = cfg_SubnetID (globalCfg c), self_instanceType = []\<rparr>
      else buildSelfAWSInstance c)"

text \<open>A method of the tagging, run on the tagging of the object under construction.\<close>

definition onTagging :: "(resourceTagging, unit) io \<Rightarrow> resourceTagging \<Rightarrow> ('w, resourceTagging) io" where
  "onTagging m t = (case m t of (r, t') \<Rightarrow> bnd (lift r) (\<lambda>_. ok t'))"

definition taggingOf :: "'w Cloud \<Rightarrow> 'w VM \<Rightarrow> ('w, resourceTagging) io" where
  "taggingOf c self =
     (if clusterTagged (globalCfg c)
      then onTagging (tagging_init (KubernetesClusterTag (globalCfg c)) (KubernetesClusterID (globalCfg c))) (c_tagging c)
      else bnd (VM_describeInstance self) (\<lambda>info. onTagging (initFromTags (c_environ c) (vm_Tags info)) (c_tagging c)))"

definition newCloud :: "'w Runtime \<Rightarrow> CloudConfig \<Rightarrow> 'w Services \<Rightarrow> ('w, 'w Cloud) io" where
  "newCloud rt conf0 awsServices =
     bnd (attempt (svcs_Metadata awsServices) ok (\<lambda>e. raise (Errorf ''error creating OSC metadata client: %q'' [e]))) (\<lambda>metadata.
     bnd (attempt (updateConfigZone conf0 (Some metadata)) ok (\<lambda>e. raise (Errorf
        ''unable to determine OSC zone from cloud provider config or EC2 instance metadata: %v'' [e]))) (\<lambda>conf.
     (let zone = cfg_Zone (Global conf) in
      if length zone \<le> 1 then raise (Errorf ''invalid OSC zone in config file: %s'' [])
      else
        bnd (lift (azToRegion zone)) (\<lambda>regionName.
        bnd (if DisableStrictZoneCheck (Global conf) then ok True
             else isRegionValid (run_sdk rt) regionName metadata) (\<lambda>valid.
        if \<not> valid then raise (Errorf ''not a valid AWS zone (unknown region): %s'' [])
        else
          bnd (attempt (svcs_Compute awsServices regionName) ok
                (\<lambda>e. raise (Errorf ''error creating OSC EC2 client: %v'' [e]))) (\<lambda>computeService.
          bnd (attempt (svcs_LoadBalancing awsServices regionName) ok
                (\<lambda>e. raise (Errorf ''error creating OSC ELB client: %v'' [e]))) (\<lambda>elb.
          (let c0 = cloudLiteral rt conf regionName computeService elb metadata in
           bnd (selfOf c0) (\<lambda>self.
           (let c1 = c0\<lparr>c_selfAWSInstance := Some self, c_vpcID := self_vpcID self\<rparr> in
            bnd (taggingOf c1 self) (\<lambda>tagging.
            bnd (newInstancesV2 rt zone tagging) (\<lambda>instances.
            ok (c1\<lparr>c_tagging := tagging, c_instances := Some instances\<rparr>)))))))))))))"

definition noOverride :: CloudConfig where
  "noOverride = \<lparr>Global = \<lparr>cfg_Zone = [], cfg_VPC = [], cfg_SubnetID = [], RouteTableID = [], RoleARN = [],
     KubernetesClusterTag = [], KubernetesClusterID = [], DisableSecurityGroupIngress = False,
     ElbSecurityGroup = [], DisableStrictZoneCheck = False\<rparr>, cfg_ServiceOverride = []\<rparr>"

text \<open>\<open>gcfg.ReadInto\<close> is the parameter; without a configuration file the zero configuration is used.\<close>

definition readCloudConfig :: "(string \<Rightarrow> CloudConfig res) \<Rightarrow> string option \<Rightarrow> CloudConfig res" where
  "readCloudConfig ReadInto config = (case config of None \<Rightarrow> Ok noOverride | Some text \<Rightarrow> ReadInto text)"

text \<open>The factory \<open>init\<close> registers with the cloud provider framework.\<close>

definition oscFactory ::
  "(delayers \<times> 'x) Runtime \<Rightarrow> 'x Clock \<Rightarrow> (string \<Rightarrow> CloudConfig res) \<Rightarrow> string option \<Rightarrow>
   (delayers \<times> 'x, (delayers \<times> 'x) Cloud) io" where
  "oscFactory rt clk ReadInto config =
     attempt (lift (readCloudConfig ReadInto config))
       (\<lambda>conf. case validateOverrides conf of (r, conf') \<Rightarrow>
          attempt (lift r)
            (\<lambda>_. bnd (newAWSSDKProvider rt clk) (\<lambda>services. newCloud rt conf' services))
            (\<lambda>e. raise (Errorf ''unable to validate custom endpoint overrides: %v'' [e])))
       (\<lambda>e. raise (Errorf ''unable to read OSC cloud provider config file: %v'' [e]))"

section \<open>The methods that hand out interfaces, and the informers\<close>

text \<open>The receiver itself is the implementation, so the flag of support is what the method decides.\<close>

definition Clusters :: "'w Cloud \<Rightarrow> unit option \<times> bool" where
  "Clusters c = (None, False)"

definition Cloud_ProviderName :: "'w Cloud \<Rightarrow> string" where
  "Cloud_ProviderName c = ProviderName"

definition Cloud_LoadBalancer :: "'w Cloud \<Rightarrow> 'w Cloud \<times> bool" where
  "Cloud_LoadBalancer c = (c, True)"

definition Cloud_Instances :: "'w Cloud \<Rightarrow> 'w Cloud \<times> bool" where
  "Cloud_Instances c = (c, True)"

definition Cloud_InstancesV2 :: "'w Cloud \<Rightarrow> 'w instancesV2 option \<times> bool" where
  "Cloud_InstancesV2 c = (c_instances c, True)"

definition Cloud_Zones :: "'w Cloud \<Rightarrow> 'w Cloud \<times> bool" where
  "Cloud_Zones c = (c, True)"

definition Cloud_Routes :: "'w Cloud \<Rightarrow> 'w Cloud \<times> bool" where
  "Cloud_Routes c = (c, False)"

record 'w NodeInformer =
  inf_HasSynced :: "('w, bool) io"
  inf_Lister :: "string \<Rightarrow> ('w, Node) io"

definition SetInformers :: "'w Cloud \<Rightarrow> 'w NodeInformer \<Rightarrow> 'w Cloud" where
  "SetInformers c nodes = c\<lparr>c_nodeInformerHasSynced := Some (inf_HasSynced nodes), c_nodeLister := inf_Lister nodes\<rparr>"

section \<open>The initializer of the process\<close>

text \<open>\<open>klog.Fatalf\<close> ends the process, which is a panic that nothing recovers.  \<open>InitCloudProvider\<close> of the
  framework is the parameter.\<close>

definition cloudInitializer ::
  "(string \<Rightarrow> string \<Rightarrow> ('w, 'w Cloud option) io) \<Rightarrow> string \<Rightarrow> string \<Rightarrow> bool \<Rightarrow> ('w, 'w Cloud) io" where
  "cloudInitializer InitCloudProvider name configFile AllowUntaggedCloud =
     (let providerName = (if name = [] then ProviderName else name) in
      attempt (InitCloudProvider providerName configFile)
        (\<lambda>cloud. case cloud of
             None \<Rightarrow> panic ''Cloud provider is nil''
           | Some c \<Rightarrow>
              (if HasClusterID c then ok c
               else if AllowUntaggedCloud then ok c
               else panic ''no ClusterID found''))
        (\<lambda>e. panic ''Cloud provider could not be initialized: %v''))"

section \<open>What a started cloud satisfies\<close>

definition cloudWf :: "'w Cloud \<Rightarrow> bool" where
  "cloudWf c \<longleftrightarrow> length (cfg_Zone (globalCfg c)) > 1 \<and> c_region c = butlast (cfg_Zone (globalCfg c)) \<and>
     ClusterID (c_tagging c) \<noteq> [] \<and>
     (case c_selfAWSInstance c of None \<Rightarrow> False | Some self \<Rightarrow> c_vpcID c = self_vpcID self) \<and>
     (case c_instances c of None \<Rightarrow> False
      | Some v2 \<Rightarrow> v2_region v2 = c_region c \<and> v2_availabilityZone v2 = cfg_Zone (globalCfg c) \<and>
          v2_tags v2 = c_tagging c)"

lemma azToRegion_Ok: "azToRegion az = Ok r \<longleftrightarrow> az \<noteq> [] \<and> r = butlast az"
  by (auto simp: azToRegion_def butlast_conv_take Suc_le_eq)

lemma tagging_init_ClusterID: "tagging_init l n t = (Ok u, t') \<Longrightarrow> ClusterID t' \<noteq> []"
  by (auto simp: tagging_init_def Let_def split: if_splits)

lemma initFromTags_ClusterID: "initFromTags env tags t = (Ok u, t') \<Longrightarrow> ClusterID t' \<noteq> []"
  by (auto simp: initFromTags_def bnd_eq_Ok dest: tagging_init_ClusterID)

lemma onTagging_Ok: "onTagging m t w = (Ok t', w') \<longleftrightarrow> m t = (Ok (), t') \<and> w' = w"
  by (auto simp: onTagging_def bnd_eq_Ok split: prod.splits)

lemma taggingOf_ClusterID: "taggingOf c self w = (Ok t, w') \<Longrightarrow> ClusterID t \<noteq> []"
  by (auto simp: taggingOf_def bnd_eq_Ok onTagging_Ok dest: tagging_init_ClusterID initFromTags_ClusterID split: if_splits)

lemma newInstancesV2_Ok:
  "newInstancesV2 rt az t w = (Ok v, w') \<Longrightarrow> v2_region v = butlast az \<and> v2_availabilityZone v = az \<and> v2_tags v = t"
  by (auto simp: newInstancesV2_def bnd_eq_Ok azToRegion_Ok)

lemma attempt_rename_Ok: "attempt m ok (\<lambda>e. raise (f e)) w = (Ok a, w') \<longleftrightarrow> m w = (Ok a, w')"
  by (auto simp: attempt_eq_Ok)

text \<open>A successful construction, step by step.\<close>

lemma newCloud_Ok:
  assumes "newCloud rt conf0 svcs w = (Ok c, w')"
  obtains metadata conf w1 w2 regionName w3 computeService w4 elb w5 self w6 tagging w7 instances where
    "svcs_Metadata svcs w = (Ok metadata, w1)"
    "updateConfigZone conf0 (Some metadata) w1 = (Ok conf, w2)"
    "length (cfg_Zone (Global conf)) > 1" "regionName = butlast (cfg_Zone (Global conf))"
    "(if DisableStrictZoneCheck (Global conf) then ok True else isRegionValid (run_sdk rt) regionName metadata) w2 = (Ok True, w3)"
    "svcs_Compute svcs regionName w3 = (Ok computeService, w4)"
    "svcs_LoadBalancing svcs regionName w4 = (Ok elb, w5)"
    "selfOf (cloudLiteral rt conf regionName computeService elb metadata) w5 = (Ok self, w6)"
    "taggingOf (cloudLiteral rt conf regionName computeService elb metadata\<lparr>
        c_selfAWSInstance := Some self, c_vpcID := self_vpcID self\<rparr>) self w6 = (Ok tagging, w7)"
    "newInstancesV2 rt (cfg_Zone (Global conf)) tagging w7 = (Ok instances, w')"
    "c = cloudLiteral rt conf regionName computeService elb metadata\<lparr>
        c_selfAWSInstance := Some self, c_vpcID := self_vpcID self, c_tagging := tagging, c_instances := Some instances\<rparr>"
  using assms unfolding newCloud_def Let_def
  by (clarsimp simp: bnd_eq_Ok attempt_rename_Ok azToRegion_Ok split: if_splits)

lemma newCloud_cloudWf:
  assumes "newCloud rt conf svcs w = (Ok c, w')"
  shows "cloudWf c"
  using assms
proof (rule newCloud_Ok)
qed (auto simp: cloudWf_def globalCfg_def cloudLiteral_def dest: taggingOf_ClusterID newInstancesV2_Ok)

lemma cloudWf_serves:
  assumes "cloudWf c"
  shows "HasClusterID c \<and> isOk (fst (GetZone c w)) \<and> isOk (fst (CurrentNodeName c hostname w))"
  using assms
  by (auto simp: cloudWf_def HasClusterID_def GetZone_def CurrentNodeName_def selfInstance_def isOk_def split: option.splits)

text \<open>
  A cloud object that \<open>newCloud\<close> returns is ready to serve, in every world: its zone has more than one character, its region is the
  zone without the last one, it has a cluster id, the machine it runs on is known and determines the VPC, and the v2
  instance interface works on the same zone, region and cluster; the handlers that ask for the own zone and node name
  do not fail.
\<close>

theorem newCloud_wf:
  assumes "newCloud rt conf svcs w = (Ok c, w')"
  shows "cloudWf c \<and> HasClusterID c \<and> isOk (fst (GetZone c w'')) \<and> isOk (fst (CurrentNodeName c hostname w''))"
  using cloudWf_serves[OF newCloud_cloudWf[OF assms]] newCloud_cloudWf[OF assms] by blast

text \<open>A process on a machine of the cloud: the SDK answers, the metadata service knows the machine.\<close>

definition exMetadata :: "string \<Rightarrow> 'w EC2Metadata" where
  "exMetadata az = \<lparr>md_Available = ok True, GetMetadata = (\<lambda>key. ok (
     if key = ''placement/availability-zone'' then az else if key = ''instance-id'' then ''i-1''
     else if key = ''instance-type'' then ''tinav5'' else []))\<rparr>"

definition noHandlers :: Handlers where
  "noHandlers = \<lparr>h_Build = [], h_Sign = [], h_Send = [], h_ValidateResponse = [], h_AfterRetry = []\<rparr>"

definition exRuntime :: "'w Runtime" where
  "exRuntime = \<lparr>
     run_sdk = \<lparr>sdk_Configuration = ok \<lparr>oc_Debug = False, oc_UserAgent = [], oc_Rest = []\<rparr>,
       sdk_NewAPIClient = (\<lambda>_ _. directoryClient [exNodeVm ''i-1'' ''n1'']),
       sdk_NewSession = (\<lambda>config. ok \<lparr>ss_Config = config, ss_Handlers = noHandlers\<rparr>),
       sdk_elbHandlers = ss_Handlers, sdk_elbNew = (\<lambda>_ _. noElb),
       sdk_ec2metadataHandlers = ss_Handlers, sdk_ec2metadataNew = (\<lambda>_ _. exMetadata ''eu-west-2a''),
       sdk_EndpointFor = (\<lambda>_ _. Err NotImplemented), sdk_DefaultPartitions = [[''us-east-1'']],
       sdk_Ec2ServiceID = ''ec2'', sdk_ElasticloadbalancingServiceID = ''elasticloadbalancing'',
       sdk_IamServiceID = ''iam'', sdk_DirectconnectServiceID = ''directconnect'', sdk_KmsServiceID = ''kms''\<rparr>,
     run_environ = Map.empty, run_clock = \<lparr>Now = ok 0, Sleep = (\<lambda>_. ok ())\<rparr>,
     run_metrics = \<lparr>met_Observe = (\<lambda>_ _ _. ok ()), met_Inc = (\<lambda>_ _. ok ()), met_MustRegister = (\<lambda>_. ok ())\<rparr>,
     run_libs = plainLibs\<rparr>"

definition exClock :: "unit Clock" where
  "exClock = \<lparr>Now = ok 0, Sleep = (\<lambda>_. ok ())\<rparr>"

abbreviation exStart :: "string \<Rightarrow> (delayers \<times> unit) Cloud res \<times> delayers \<times> unit" where
  "exStart zone \<equiv> newCloud exRuntime (setZone zone noOverride) (awsSDKProvider exRuntime exClock) ([], ())"

theorem newCloud_wf_witness: "\<exists>c w. exStart [] = (Ok c, w) \<and> cloudWf c"
proof -
  have "isOk (fst (exStart []))" by code_simp
  then obtain c w where run: "exStart [] = (Ok c, w)" using isOk_run by metis
  from newCloud_wf[OF run] show ?thesis using run by blast
qed

section \<open>Which region the clients talk to\<close>

text \<open>The session keeps the configuration it is given, and the metadata service always names the same zone.\<close>

definition sessionKeeps :: "'w Sdk \<Rightarrow> bool" where
  "sessionKeeps sdk \<longleftrightarrow> (\<forall>config w s w'. sdk_NewSession sdk config w = (Ok s, w') \<longrightarrow> ss_Config s = config)"

definition zoneAnswer :: "'w Sdk \<Rightarrow> string \<Rightarrow> bool" where
  "zoneAnswer sdk az \<longleftrightarrow>
     (\<forall>s h w. fst (GetMetadata (sdk_ec2metadataNew sdk s h) ''placement/availability-zone'' w) = Ok az)"

lemma zoneAnswerD:
  assumes "zoneAnswer sdk az" "GetMetadata (sdk_ec2metadataNew sdk s h) ''placement/availability-zone'' w = (r, w')"
  shows "r = Ok az"
  using assms unfolding zoneAnswer_def by (metis fst_conv)

lemma validMetadata_Ok: "validMetadata svc key e w = (Ok v, w') \<longleftrightarrow> GetMetadata svc key w = (Ok v, w') \<and> v \<noteq> []"
  by (auto simp: validMetadata_def attempt_eq_Ok split: if_splits)

lemma NewMetadataService_Ok:
  assumes "zoneAnswer sdk az" "NewMetadataService (sdk_ec2metadataNew sdk s h) w = (Ok m, w')"
  shows "mds_Region m = butlast az \<and> Client m = sdk_ec2metadataNew sdk s h"
  using assms(2)
  by (auto simp: NewMetadataService_def bnd_eq_Ok validMetadata_Ok Let_def butlast_conv_take
      dest: zoneAnswerD[OF assms(1)] split: if_splits)

lemma NewSession_region:
  assumes "sessionKeeps (run_sdk rt)" "zoneAnswer (run_sdk rt) az" "NewSession rt NilMetadata w = (Ok s, w')"
  shows "ac_Region (ss_Config s) = Some (butlast az)"
proof -
  obtain m w1 where m: "NewMetadata (run_sdk rt) w = (Ok m, w1)"
    and s: "\<exists>config. ac_Region config = Some (mds_Region m) \<and> sdk_NewSession (run_sdk rt) config w1 = (Ok s, w')"
    using assms(3) by (fastforce simp: NewSession_def initMetadata_def attempt_eq_Ok)
  have "mds_Region m = butlast az"
    using m NewMetadataService_Ok[OF assms(2)]
    by (auto simp: NewMetadata_def newEC2MetadataSvc_def bnd_eq_Ok attempt_rename_Ok)
  then show ?thesis using s assms(1) unfolding sessionKeeps_def by metis
qed

lemma getCrossRequestRetryDelay_Ok: "getCrossRequestRetryDelay clk r w = (Ok d, w') \<Longrightarrow> d = r"
  by (auto simp: getCrossRequestRetryDelay_def bnd_eq_Ok split: prod.splits option.splits)

lemma addHandlers_Ok:
  "addHandlers clk r h0 w = (Ok h, w') \<Longrightarrow> nh_Fn (hd (h_Sign h)) = DelayBeforeSign r \<and> nh_Fn (hd (h_AfterRetry h)) = DelayAfterRetry r"
  by (auto simp: addHandlers_def Let_def bnd_eq_Ok addAPILoggingHandlers_def dest: getCrossRequestRetryDelay_Ok)

lemma updateConfigZone_Ok:
  assumes "zoneAnswer sdk az" "Client m = sdk_ec2metadataNew sdk s h"
    "updateConfigZone conf (Some (asEC2Metadata m)) w = (Ok conf', w')"
  shows "cfg_Zone (Global conf') = (if cfg_Zone (Global conf) = [] then az else cfg_Zone (Global conf))"
  using assms(3)
  by (auto simp: updateConfigZone_def bnd_eq_Ok getAvailabilityZone_def asEC2Metadata_def Metadata_GetMetadata_def
      assms(2) setZone_def dest: zoneAnswerD[OF assms(1)] split: if_splits)

text \<open>
  C25. The two clients of a started cloud can live in different regions: the compute client and the delay table follow the zone of the
  configuration file when it names one, the load balancer client always uses the region of the metadata service, whatever region
  \<open>LoadBalancing\<close> is asked for.
\<close>

theorem newCloud_regions:
  assumes "sessionKeeps (run_sdk rt)" "zoneAnswer (run_sdk rt) az"
    "newCloud rt conf (awsSDKProvider rt clk) w = (Ok c, w')"
  shows "c_region c = butlast (if cfg_Zone (Global conf) = [] then az else cfg_Zone (Global conf)) \<and>
    (\<exists>config ctx. c_compute c = asCompute \<lparr>osc_client = sdk_NewAPIClient (run_sdk rt) config ctx,
         osc_clock = run_clock rt, osc_metrics = run_metrics rt\<rparr> \<and> ctx_Region ctx = c_region c) \<and>
    (\<exists>s h. c_loadBalancer c = sdk_elbNew (run_sdk rt) s h \<and> ac_Region (ss_Config s) = Some (butlast az) \<and>
       nh_Fn (hd (h_Sign h)) = DelayBeforeSign (c_region c))"
proof -
  let ?svcs = "awsSDKProvider rt clk"
  obtain metadata conf' w1 w2 regionName w3 computeService w4 elb w5 where
    md: "svcs_Metadata ?svcs w = (Ok metadata, w1)" and z: "updateConfigZone conf (Some metadata) w1 = (Ok conf', w2)"
    and r: "regionName = butlast (cfg_Zone (Global conf'))" and cs: "svcs_Compute ?svcs regionName w3 = (Ok computeService, w4)"
    and lb: "svcs_LoadBalancing ?svcs regionName w4 = (Ok elb, w5)"
    and c: "c_region c = regionName" "c_compute c = computeService" "c_loadBalancer c = elb"
    using assms(3) by (rule newCloud_Ok) (simp add: cloudLiteral_def)
  obtain m s h where m: "metadata = asEC2Metadata m" "Client m = sdk_ec2metadataNew (run_sdk rt) s h"
    using md NewMetadataService_Ok[OF assms(2)]
    by (fastforce simp: awsSDKProvider_def awsSDKProvider_Metadata_def bnd_eq_Ok attempt_eq_Ok)
  have "cfg_Zone (Global conf') = (if cfg_Zone (Global conf) = [] then az else cfg_Zone (Global conf))"
    using updateConfigZone_Ok[OF assms(2) m(2)] z m(1) by blast
  moreover have "\<exists>config ctx. computeService = asCompute \<lparr>osc_client = sdk_NewAPIClient (run_sdk rt) config ctx,
         osc_clock = run_clock rt, osc_metrics = run_metrics rt\<rparr> \<and> ctx_Region ctx = regionName"
    using cs by (fastforce simp: awsSDKProvider_def awsSDKProvider_Compute_def NewOscClient_def bnd_eq_Ok)
  moreover obtain se h w6 where "NewSession rt NilMetadata w4 = (Ok se, w6)"
      "addHandlers clk regionName (sdk_elbHandlers (run_sdk rt) se) w6 = (Ok h, w5)" "elb = sdk_elbNew (run_sdk rt) se h"
    using lb by (auto simp: awsSDKProvider_def awsSDKProvider_LoadBalancing_def bnd_eq_Ok attempt_eq_Ok)
  then have "\<exists>s h. elb = sdk_elbNew (run_sdk rt) s h \<and> ac_Region (ss_Config s) = Some (butlast az) \<and>
       nh_Fn (hd (h_Sign h)) = DelayBeforeSign regionName"
    using NewSession_region[OF assms(1,2)] addHandlers_Ok by blast
  ultimately show ?thesis using r c by simp
qed

lemma exRuntime_hyps: "sessionKeeps (run_sdk exRuntime)" "zoneAnswer (run_sdk exRuntime) ''eu-west-2a''"
  by (simp_all add: sessionKeeps_def zoneAnswer_def exRuntime_def exMetadata_def)

theorem newCloud_regions_witness:
  "\<exists>c w. exStart ''us-east-1a'' = (Ok c, w) \<and> c_region c = ''us-east-1'' \<and>
     (\<exists>s h. c_loadBalancer c = sdk_elbNew (run_sdk exRuntime) s h \<and> ac_Region (ss_Config s) = Some ''eu-west-2'')"
proof -
  have "isOk (fst (exStart ''us-east-1a''))" by code_simp
  then obtain c w where run: "exStart ''us-east-1a'' = (Ok c, w)" using isOk_run by metis
  have z: "cfg_Zone (Global (setZone ''us-east-1a'' noOverride)) = ''us-east-1a''" by (simp add: setZone_def)
  from newCloud_regions[OF exRuntime_hyps run] have "c_region c = ''us-east-1''"
    "\<exists>s h. c_loadBalancer c = sdk_elbNew (run_sdk exRuntime) s h \<and> ac_Region (ss_Config s) = Some ''eu-west-2''"
    unfolding z by auto
  then show ?thesis using run by blast
qed

section \<open>The option for untagged clusters\<close>

text \<open>\<open>InitCloudProvider\<close> returns, for the provider's name, a cloud that the registered factory has made.\<close>

definition callsFactory ::
  "(string \<Rightarrow> string \<Rightarrow> ('w, 'w Cloud option) io) \<Rightarrow> (string option \<Rightarrow> ('w, 'w Cloud) io) \<Rightarrow> bool" where
  "callsFactory InitCloudProvider fac \<longleftrightarrow>
     (\<forall>file w c w'. InitCloudProvider ProviderName file w = (Ok (Some c), w') \<longrightarrow>
        (\<exists>config w0. fac config w0 = (Ok c, w')))"

lemma oscFactory_wf:
  assumes "oscFactory rt clk ReadInto config w = (Ok c, w')"
  shows "cloudWf c"
proof -
  obtain conf where "(case validateOverrides conf of (r, conf') \<Rightarrow>
      attempt (lift r) (\<lambda>_. bnd (newAWSSDKProvider rt clk) (\<lambda>services. newCloud rt conf' services))
        (\<lambda>e. raise (Errorf ''unable to validate custom endpoint overrides: %v'' [e]))) w = (Ok c, w')"
    using assms by (auto simp: oscFactory_def attempt_eq_Ok)
  then obtain conf' services w0 where "newCloud rt conf' services w0 = (Ok c, w')"
    by (cases "validateOverrides conf") (auto simp: attempt_eq_Ok bnd_eq_Ok)
  then show ?thesis by (rule newCloud_cloudWf)
qed

text \<open>
  C39. The option that allows untagged clusters has no effect for this provider: its factory never returns a cloud without a cluster id,
  so the initializer behaves the same with the option and without it.
\<close>

theorem cloudInitializer_untagged:
  assumes "callsFactory InitCloudProvider (oscFactory rt clk ReadInto)" "name = [] \<or> name = ProviderName"
  shows "cloudInitializer InitCloudProvider name file True w = cloudInitializer InitCloudProvider name file False w"
proof -
  have "HasClusterID c" if "InitCloudProvider ProviderName file w = (Ok (Some c), w')" for c w'
    using assms(1) that oscFactory_wf cloudWf_serves unfolding callsFactory_def by metis
  moreover have "(if name = [] then ProviderName else name) = ProviderName" using assms(2) by auto
  ultimately show ?thesis
    by (auto simp: cloudInitializer_def attempt_def split: res.splits prod.splits option.splits)
qed

text \<open>The framework, with the one provider registered and no configuration file.\<close>

definition exInit :: "string \<Rightarrow> string \<Rightarrow> (delayers \<times> unit, (delayers \<times> unit) Cloud option) io" where
  "exInit name file = (if name = ProviderName
     then bnd (oscFactory exRuntime exClock (\<lambda>_. Err NotImplemented) None) (\<lambda>c. ok (Some c)) else ok None)"

theorem cloudInitializer_untagged_witness:
  "cloudInitializer exInit [] [] True ([], ()) = cloudInitializer exInit [] [] False ([], ())"
proof -
  have "callsFactory exInit (oscFactory exRuntime exClock (\<lambda>_. Err NotImplemented))"
    unfolding callsFactory_def exInit_def by (fastforce simp: bnd_eq_Ok)
  then show ?thesis by (rule cloudInitializer_untagged) simp
qed

end
