(* ===== verification/Diagnostics.thy ===== *)
theory Diagnostics
  imports Backoff
begin

text \<open>
  What the provider writes to its log on behalf of the SDK and of itself: the request loggers of \<open>log_handler.go\<close> and
  the functions of \<open>utils.go\<close> that look up names on the call stack.  The sink \<open>klog.V(level).Infof(format, args)\<close> is a
  parameter; arguments are given as they are rendered.
\<close>

type_synonym 'w klog = "nat \<Rightarrow> string \<Rightarrow> string list \<Rightarrow> ('w, unit) io"

section \<open>The request loggers\<close>

text \<open>What the loggers look at besides: the rendered operation and parameters, and the status of the response, which
  is nil before the request has been sent and when no response arrived.\<close>

record 'w LoggedRequest = "'w Request" +
  rq_Operation :: string
  rq_Params :: string
  rq_HTTPResponse :: "string option"

definition awsServiceAndName :: "('w, 'z) Request_scheme \<Rightarrow> string \<times> string" where
  "awsServiceAndName req =
     (rq_ServiceName req, case rq_OperationName req of None \<Rightarrow> ''?'' | Some n \<Rightarrow> n)"

definition awsHandlerLogger :: "'w klog \<Rightarrow> 'w LoggedRequest \<Rightarrow> ('w, unit) io" where
  "awsHandlerLogger klog req =
     (case awsServiceAndName req of (service, name) \<Rightarrow> klog 2 ''AWS request: %s %s'' [service, name])"

definition awsSendHandlerLogger :: "'w klog \<Rightarrow> 'w LoggedRequest \<Rightarrow> ('w, unit) io" where
  "awsSendHandlerLogger klog req =
     (case awsServiceAndName req of (service, name) \<Rightarrow>
        klog 2 ''AWS API Send: %s %s %v %v'' [service, name, rq_Operation req, rq_Params req])"

definition awsValidateResponseHandlerLogger :: "'w klog \<Rightarrow> 'w LoggedRequest \<Rightarrow> ('w, unit) io" where
  "awsValidateResponseHandlerLogger klog req =
     (case awsServiceAndName req of (service, name) \<Rightarrow>
      (case rq_HTTPResponse req of
         None \<Rightarrow> panic ''invalid memory address or nil pointer dereference''
       | Some status \<Rightarrow> klog 2 ''AWS API ValidateResponse: %s %s %v %v %s''
           [service, name, rq_Operation req, rq_Params req, status]))"

text \<open>The two places that name an operation agree on it.\<close>

lemma describeRequest_loggers:
  "describeRequest r = (case awsServiceAndName r of (service, name) \<Rightarrow> service @ ''::'' @ name)"
  by (simp add: describeRequest_def operationName_def awsServiceAndName_def)

lemma validate_logger_panics_iff:
  assumes "\<And>l f args w p. fst (klog l f args w) \<noteq> Panic p"
  shows "(\<exists>p. fst (awsValidateResponseHandlerLogger klog req w) = Panic p) \<longleftrightarrow> rq_HTTPResponse req = None"
  using assms by (simp add: awsValidateResponseHandlerLogger_def awsServiceAndName_def split: option.split)

section \<open>Names on the call stack\<close>

record Frame =
  fr_Function :: string
  fr_File :: string
  fr_Line :: int

definition zeroFrame :: Frame where
  "zeroFrame = \<lparr>fr_Function = [], fr_File = [], fr_Line = 0\<rparr>"

definition unknownFrame :: Frame where
  "unknownFrame = zeroFrame\<lparr>fr_Function := ''unknown''\<rparr>"

text \<open>\<open>Frames.Next\<close>: the next frame, whether there is one after it, and the frames that are left.\<close>

fun Frames_Next :: "Frame list \<Rightarrow> Frame \<times> bool \<times> Frame list" where
  "Frames_Next [] = (zeroFrame, False, [])"
| "Frames_Next (f # fs) = (f, fs \<noteq> [], fs)"

text \<open>The loop of \<open>debugGetFrame\<close>.\<close>

function frameLoop :: "Frame list \<Rightarrow> bool \<Rightarrow> int \<Rightarrow> int \<Rightarrow> Frame \<Rightarrow> Frame" where
  "frameLoop frames hasMore frameIndex targetFrameIndex frame =
     (if hasMore \<and> frameIndex \<le> targetFrameIndex then
        (case Frames_Next frames of (frameCandidate, hasMore', frames') \<Rightarrow>
           frameLoop frames' hasMore' (frameIndex + 1) targetFrameIndex
             (if frameIndex = targetFrameIndex then frameCandidate else frame))
      else frame)"
  by pat_completeness auto
termination by (relation "measure (\<lambda>(frames, hasMore, i, t, frame). nat (t + 1 - i))") auto

declare frameLoop.simps [simp del]

text \<open>\<open>inner\<close> are the two innermost frames, of \<open>runtime.Callers\<close> and of \<open>debugGetFrame\<close> itself; \<open>stack\<close> are the
  frames from the caller of \<open>debugGetFrame\<close> on.  \<open>make\<close> panics when the size is negative.\<close>

definition debugGetFrame :: "Frame \<times> Frame \<Rightarrow> Frame list \<Rightarrow> int \<Rightarrow> Frame res" where
  "debugGetFrame inner stack skipFrames =
     (let targetFrameIndex = skipFrames + 2 in
      if targetFrameIndex + 2 < 0 then Panic ''makeslice: len out of range''
      else
        (let programCounters = take (nat (targetFrameIndex + 2)) (fst inner # snd inner # stack) in
         Ok (if length programCounters > 0 then frameLoop programCounters True 0 targetFrameIndex unknownFrame
             else unknownFrame)))"

text \<open>The format of the line, with its line breaks and tabs.\<close>

definition newLine :: "nat \<Rightarrow> string" where
  "newLine tabs = CHR 0x0A # replicate tabs (CHR 0x09)"

definition debugFormat :: string where
  "debugFormat = ''DebugStack %s{'' @
     newLine 1 @ '' call'' @ [CHR 0x09] @ '' {'' @ newLine 2 @ ''Func:%s, '' @ newLine 2 @ ''File:(%s:%d)'' @ newLine 1 @ ''}'' @
     newLine 1 @ '' called {'' @ newLine 2 @ ''Func:%s, '' @ newLine 2 @ ''File:(%s:%d)'' @ newLine 1 @ ''}'' @
     newLine 0 @ ''}''"

text \<open>A function's \<open>stack\<close> begins with its own frame.\<close>

definition debugPrintCallerFunctionName :: "'w klog \<Rightarrow> Frame \<times> Frame \<Rightarrow> Frame list \<Rightarrow> ('w, unit) io" where
  "debugPrintCallerFunctionName klog inner stack =
     bnd (lift (debugGetFrame inner stack 1)) (\<lambda>called.
     bnd (lift (debugGetFrame inner stack 2)) (\<lambda>caller.
     klog 5 debugFormat
       [fr_Function called, fr_Function called, fr_File called, FormatInt (fr_Line called),
        fr_Function caller, fr_File caller, FormatInt (fr_Line caller)]))"

definition debugGetCurrentFunctionName :: "Frame \<times> Frame \<Rightarrow> Frame list \<Rightarrow> string res" where
  "debugGetCurrentFunctionName inner stack = res_map fr_Function (debugGetFrame inner stack 1)"

definition debugGetCallerFunctionName :: "Frame \<times> Frame \<Rightarrow> Frame list \<Rightarrow> string res" where
  "debugGetCallerFunctionName inner stack = res_map fr_Function (debugGetFrame inner stack 2)"

text \<open>The loop finds the frame at the index, when the stack is that deep.\<close>

lemma frameLoop_nth:
  assumes "0 \<le> i" "i \<le> t" "fs \<noteq> []"
  shows "frameLoop fs True i t frame = (if nat (t - i) < length fs then fs ! nat (t - i) else frame)"
  using assms
proof (induction "nat (t - i)" arbitrary: i fs)
  case 0
  then show ?case by (cases fs) (simp_all add: frameLoop.simps)
next
  case (Suc n)
  obtain f rest where fs: "fs = f # rest" using Suc.prems(3) by (cases fs) auto
  have step: "frameLoop fs True i t frame = frameLoop rest (rest \<noteq> []) (i + 1) t frame"
    using Suc.prems Suc.hyps(2) by (subst frameLoop.simps) (auto simp: fs)
  have n: "nat (t - i) = Suc (nat (t - (i + 1)))" using Suc.hyps(2) by simp
  show ?case
  proof (cases "rest = []")
    case True
    then show ?thesis using n by (simp add: step frameLoop.simps fs)
  next
    case False
    then have "frameLoop rest True (i + 1) t frame =
        (if nat (t - (i + 1)) < length rest then rest ! nat (t - (i + 1)) else frame)"
      using Suc.hyps Suc.prems by (intro Suc.hyps(1)) simp_all
    then show ?thesis using False n step by (simp add: fs)
  qed
qed

text \<open>Whatever the depth of the stack, \<open>debugGetFrame\<close> returns the frame that many calls up, or the frame named unknown.\<close>

lemma debugGetFrame_spec:
  assumes "0 \<le> skip"
  shows "debugGetFrame inner stack skip = Ok (if nat skip < length stack then stack ! nat skip else unknownFrame)"
proof -
  let ?n = "nat (skip + 2 + 2)" and ?all = "fst inner # snd inner # stack"
  have t: "nat (skip + 2) = Suc (Suc (nat skip))" "?n = Suc (Suc (Suc (Suc (nat skip))))" using assms by simp_all
  have "frameLoop (take ?n ?all) True 0 (skip + 2) unknownFrame =
      (if nat (skip + 2 - 0) < length (take ?n ?all) then take ?n ?all ! nat (skip + 2 - 0) else unknownFrame)"
    using assms t by (intro frameLoop_nth) simp_all
  also have "\<dots> = (if nat skip < length stack then stack ! nat skip else unknownFrame)"
    unfolding diff_0_right t(1) using assms by (auto simp: nat_add_distrib)
  finally show ?thesis using assms t by (simp add: debugGetFrame_def)
qed

lemma debug_names:
  "debugGetCurrentFunctionName inner (own # f # g # rest) = Ok (fr_Function f)"
  "debugGetCallerFunctionName inner (own # f # g # rest) = Ok (fr_Function g)"
  by (simp_all add: debugGetCurrentFunctionName_def debugGetCallerFunctionName_def debugGetFrame_spec)

text \<open>So the line a function \<open>f\<close>, called by \<open>g\<close>, writes about itself shows \<open>f\<close> under ``call'' and \<open>g\<close> under ``called''; it is written
  whatever the depth of the stack, and nothing but the log is touched.\<close>

lemma debugPrint_spec:
  "debugPrintCallerFunctionName klog inner (own # f # g # rest) =
     klog 5 debugFormat
       [fr_Function f, fr_Function f, fr_File f, FormatInt (fr_Line f), fr_Function g, fr_File g, FormatInt (fr_Line g)]"
  by (simp add: debugPrintCallerFunctionName_def debugGetFrame_spec)

lemma keeps_debugPrint:
  assumes "\<And>l f args. keeps P (klog l f args)"
  shows "keeps P (debugPrintCallerFunctionName klog inner stack)"
  using assms by (simp add: debugPrintCallerFunctionName_def keeps_rules)

end
