(* ===== verification/Process.thy ===== *)
theory Process
  imports Startup Diagnostics
begin

text \<open>
  The process around the provider: what \<open>init\<close> of \<open>ccm.go\<close> does before \<open>main\<close> starts, \<open>main\<close> itself (\<open>main.go\<close>), and
  \<open>Cloud.Initialize\<close> (\<open>ccm_cloud.go\<close>).  The framework \<open>k8s.io/cloud-provider\<close> and the Kubernetes client library are parameters.
\<close>

section \<open>Registration and the command\<close>

text \<open>The functions of the framework.  \<open>fw_Execute opts initializer\<close> is \<open>NewCloudControllerManagerCommand\<close>, with the default
  controllers, no further flags and a channel that never closes, and \<open>Execute\<close> on its result; the initializer gets the
  name of the provider, the configuration file and whether an untagged cluster is allowed.\<close>

type_synonym 'w initializer = "string \<Rightarrow> string \<Rightarrow> bool \<Rightarrow> ('w, 'w Cloud) io"

record ('w, 'o) Framework =
  fw_RegisterCloudProvider :: "string \<Rightarrow> (string option \<Rightarrow> ('w, 'w Cloud) io) \<Rightarrow> ('w, unit) io"
  fw_InitCloudProvider :: "string \<Rightarrow> string \<Rightarrow> ('w, 'w Cloud option) io"
  fw_Seed :: "int \<Rightarrow> ('w, unit) io"
  fw_NewOptions :: "('w, 'o) io"
  fw_Execute :: "'o \<Rightarrow> 'w initializer \<Rightarrow> ('w, unit) io"

definition osc_init ::
  "(delayers \<times> 'x) Runtime \<Rightarrow> 'x Clock \<Rightarrow> (string \<Rightarrow> CloudConfig res) \<Rightarrow> (delayers \<times> 'x, 'o) Framework \<Rightarrow>
   (bool \<times> delayers \<times> 'x, unit) io" where
  "osc_init rt clk ReadInto fw =
     bnd (registerMetrics (run_metrics rt)) (\<lambda>_.
     onSnd (fw_RegisterCloudProvider fw ProviderName (oscFactory rt clk ReadInto)))"

text \<open>The value is the exit status.  \<open>klog.Fatalf\<close> is a panic that nothing recovers.\<close>

definition main :: "'w Clock \<Rightarrow> ('w, 'o) Framework \<Rightarrow> ('w, int) io" where
  "main clk fw =
     bnd (Now clk) (\<lambda>now.
     bnd (fw_Seed fw now) (\<lambda>_.
     attempt (fw_NewOptions fw)
       (\<lambda>opts. attempt (fw_Execute fw opts (cloudInitializer (fw_InitCloudProvider fw))) (\<lambda>_. ok 0) (\<lambda>e. ok 1))
       (\<lambda>e. panic ''unable to initialize command options: %v'')))"

section \<open>The event recorder\<close>

text \<open>The client builder and the event library.\<close>

record ('w, 'k, 'b, 'r) KubeApi =
  ka_ClientOrDie :: "string \<Rightarrow> ('w, 'k) io"
  ka_NewBroadcaster :: "('w, 'b) io"
  ka_StartLogging :: "'b \<Rightarrow> ('w, unit) io"
  ka_StartRecordingToSink :: "'b \<Rightarrow> 'k \<Rightarrow> string \<Rightarrow> ('w, unit) io"
  ka_NewRecorder :: "'b \<Rightarrow> string \<Rightarrow> ('w, 'r) io"

text \<open>The fields of \<open>Cloud\<close> that \<open>Initialize\<close> writes and that nothing else in the provider reads.\<close>

record ('w, 'k, 'b, 'r) KubeClients =
  c_clientBuilder :: "('w, 'k, 'b, 'r) KubeApi"
  c_kubeClient :: 'k
  c_eventBroadcaster :: 'b
  c_eventRecorder :: 'r

definition Initialize :: "('w, 'k, 'b, 'r) KubeApi \<Rightarrow> ('w, ('w, 'k, 'b, 'r) KubeClients) io" where
  "Initialize clientBuilder =
     bnd (ka_ClientOrDie clientBuilder ''aws-cloud-provider'') (\<lambda>kubeClient.
     bnd (ka_NewBroadcaster clientBuilder) (\<lambda>eventBroadcaster.
     bnd (ka_StartLogging clientBuilder eventBroadcaster) (\<lambda>_.
     bnd (ka_StartRecordingToSink clientBuilder eventBroadcaster kubeClient []) (\<lambda>_.
     bnd (ka_NewRecorder clientBuilder eventBroadcaster ''aws-cloud-provider'') (\<lambda>eventRecorder.
     ok \<lparr>c_clientBuilder = clientBuilder, c_kubeClient = kubeClient, c_eventBroadcaster = eventBroadcaster,
        c_eventRecorder = eventRecorder\<rparr>)))))"

section \<open>What the controllers get\<close>

text \<open>The documented behaviour of the framework's table of providers, for a view \<open>registered\<close> that tells whether the provider's
  name is there with the factory: a successful registration puts it there, and a cloud that is then initialised by that name comes
  out of the factory.\<close>

definition providerTable ::
  "('w, 'o) Framework \<Rightarrow> (string option \<Rightarrow> ('w, 'w Cloud) io) \<Rightarrow> ('w \<Rightarrow> bool) \<Rightarrow> bool" where
  "providerTable fw factory registered \<longleftrightarrow>
     (\<forall>w w'. fw_RegisterCloudProvider fw ProviderName factory w = (Ok (), w') \<longrightarrow> registered w') \<and>
     (\<forall>file w c w'. registered w \<longrightarrow> fw_InitCloudProvider fw ProviderName file w = (Ok (Some c), w') \<longrightarrow>
        (\<exists>conf w1 w2. factory conf w1 = (Ok c, w2)))"

lemma osc_init_registered:
  assumes "osc_init rt clk ReadInto fw (b, w) = (Ok (), (b', w'))" "providerTable fw (oscFactory rt clk ReadInto) registered"
  shows "registered w'"
proof -
  obtain b1 w1 where "onSnd (fw_RegisterCloudProvider fw ProviderName (oscFactory rt clk ReadInto)) (b1, w1) = (Ok (), (b', w'))"
    using assms(1) by (auto simp: osc_init_def bnd_eq_Ok)
  then have "fw_RegisterCloudProvider fw ProviderName (oscFactory rt clk ReadInto) w1 = (Ok (), w')"
    by (auto simp: onSnd_def split: prod.splits)
  then show ?thesis using assms(2) unfolding providerTable_def by blast
qed

text \<open>
  C23. The process as a whole: once \<open>init\<close> has run, and as long as the provider stays registered, a cloud object that the
  initializer of \<open>main\<close> hands to the controllers, for the default name or the provider's own, comes out of \<open>newCloud\<close>: its
  zone, region, cluster id, own machine and v2 interface are set and agree, and the
  handlers for the own zone and the own node name do not fail.
\<close>

theorem initialised_cloud_wf:
  assumes "providerTable fw (oscFactory rt clk ReadInto) registered"
    and "osc_init rt clk ReadInto fw (False, w0) = (Ok (), (b, w1))" "registered w1 \<Longrightarrow> registered w2"
    and "name = [] \<or> name = ProviderName"
    and "cloudInitializer (fw_InitCloudProvider fw) name file untagged w2 = (Ok c, w3)"
  shows "cloudWf c \<and> HasClusterID c \<and> isOk (fst (GetZone c w)) \<and> isOk (fst (CurrentNodeName c hostname w))"
proof -
  have "registered w2" using osc_init_registered[OF assms(2,1)] by (rule assms(3))
  moreover have "(if name = [] then ProviderName else name) = ProviderName" using assms(4) by auto
  then have "fw_InitCloudProvider fw ProviderName file w2 = (Ok (Some c), w3)"
    using assms(5) by (auto simp: cloudInitializer_def attempt_eq_Ok split: option.splits if_splits)
  ultimately obtain conf u u' where "oscFactory rt clk ReadInto conf u = (Ok c, u')"
    using assms(1) unfolding providerTable_def by blast
  then have "cloudWf c" by (rule oscFactory_wf)
  then show ?thesis using cloudWf_serves[of c w hostname] by simp
qed

text \<open>A framework whose table is one flag.\<close>

definition flagClock :: "bool Clock" where
  "flagClock = \<lparr>Now = ok 0, Sleep = (\<lambda>_. ok ())\<rparr>"

abbreviation flagFactory :: "string option \<Rightarrow> (delayers \<times> bool, (delayers \<times> bool) Cloud) io" where
  "flagFactory \<equiv> oscFactory exRuntime flagClock (\<lambda>_. Err NotImplemented)"

definition flagFramework :: "(delayers \<times> bool, unit) Framework" where
  "flagFramework = \<lparr>fw_RegisterCloudProvider = (\<lambda>_ _ (d, _). (Ok (), (d, True))),
     fw_InitCloudProvider = (\<lambda>name file (d, b). if b \<and> name = ProviderName
       then bnd (flagFactory None) (\<lambda>c. ok (Some c)) (d, b) else (Ok None, (d, b))),
     fw_Seed = (\<lambda>_. ok ()), fw_NewOptions = ok (), fw_Execute = (\<lambda>_ initializer. bnd (initializer [] [] False) (\<lambda>_. ok ()))\<rparr>"

theorem initialised_cloud_wf_witness:
  "\<exists>w1 c w3. osc_init exRuntime flagClock (\<lambda>_. Err NotImplemented) flagFramework (False, ([], False)) = (Ok (), (True, w1)) \<and>
     cloudInitializer (fw_InitCloudProvider flagFramework) [] [] False w1 = (Ok c, w3) \<and> cloudWf c"
proof -
  have law: "providerTable flagFramework flagFactory snd"
    by (auto simp: providerTable_def flagFramework_def bnd_eq_Ok split: if_splits) blast
  have init: "osc_init exRuntime flagClock (\<lambda>_. Err NotImplemented) flagFramework (False, ([], False)) = (Ok (), (True, ([], True)))"
    by (simp add: osc_init_def registerMetrics_def onceDo_def exRuntime_def flagFramework_def)
  have "isOk (fst (cloudInitializer (fw_InitCloudProvider flagFramework) [] [] False ([], True)))" by code_simp
  then obtain c w3 where run: "cloudInitializer (fw_InitCloudProvider flagFramework) [] [] False ([], True) = (Ok c, w3)"
    using isOk_run by blast
  from initialised_cloud_wf[OF law init _ _ run] init run show ?thesis by simp
qed

text \<open>The exit status of the process says whether the command succeeded.\<close>

lemma main_status:
  assumes "main clk fw w = (r, w')" "\<And>w. \<exists>t w'. Now clk w = (Ok t, w')" "\<And>t w. \<exists>w'. fw_Seed fw t w = (Ok (), w')"
  shows "r = Ok 0 \<or> r = Ok 1 \<or> (\<exists>p. r = Panic p)"
proof -
  obtain t w1 w2 where "Now clk w = (Ok t, w1)" "fw_Seed fw t w1 = (Ok (), w2)" using assms(2,3) by metis
  then have "r = fst (attempt (fw_NewOptions fw)
      (\<lambda>opts. attempt (fw_Execute fw opts (cloudInitializer (fw_InitCloudProvider fw))) (\<lambda>_. ok 0) (\<lambda>e. ok 1))
      (\<lambda>e. panic ''unable to initialize command options: %v'') w2)"
    using assms(1) by (simp add: main_def)
  then show ?thesis by (auto simp: attempt_def split: res.splits prod.splits)
qed

end
