(* ===== verification/Fakes.thy ===== *)
theory Fakes
  imports Startup
begin

text \<open>
  The in-memory doubles of \<open>osc_fakes.go\<close>, which stand for the cloud in the unit tests.  The whole memory
  of the doubles is the record \<open>FakeOscServices\<close>, and their methods run on worlds of that type.

  The provider never sets \<open>TagValues\<close> of a VM filter nor the flat fields of a rule request, which the
  doubles read: the records extended by those fields are the arguments of the doubles, and the values of the
  interface types leave them unset.  \<open>CreateSubnet\<close> and \<open>CreateRouteTable\<close> take values of the EC2 SDK.
\<close>

section \<open>State\<close>

text \<open>The slice \<open>instances\<close> holds pointers, one of which is usually \<open>selfInstance\<close>.\<close>

datatype VmPtr = SelfVm | OtherVm Vm

record FullSubnet = Subnet +
  sn_AvailableIpsCount :: "int option"
  sn_IpRange :: "string option"
  sn_MapPublicIpOnLaunch :: "bool option"
  sn_State :: "string option"

record FullLinkRouteTable = LinkRouteTable +
  lrt_LinkRouteTableId :: "string option"
  lrt_RouteTableId :: "string option"

record FullRoute = Route +
  rt_CreationMethod :: "string option"
  rt_NatServiceId :: "string option"
  rt_NetPeeringId :: "string option"
  rt_NicId :: "string option"
  rt_VmAccountId :: "string option"

record FullRouteTable =
  frtb_LinkRouteTables :: "FullLinkRouteTable list"
  frtb_NetId :: "string option"
  frtb_Tags :: "ResourceTag list"
  frtb_Routes :: "FullRoute list"

record FakeOscServices =
  fk_region :: string
  fk_instances :: "VmPtr list"
  fk_selfInstance :: Vm
  networkInterfacesMacs :: "string list"
  networkInterfacesPrivateIPs :: "string list list"
  networkInterfacesVpcIDs :: "string list"
  fk_Subnets :: "FullSubnet list"
  fk_DescribeSubnetsInput :: "FiltersSubnet option"
  fk_RouteTables :: "FullRouteTable list"
  fk_DescribeRouteTablesInput :: "FiltersRouteTable option"
  fk_MainSecurityGroup :: SecurityGroup
  fk_OutboundRules :: "SecurityGroupRule list"
  fk_LoadBalancers :: "(string, LoadBalancerDescription) gomap"

definition derefVm :: "FakeOscServices \<Rightarrow> VmPtr \<Rightarrow> Vm" where
  "derefVm s p = (case p of SelfVm \<Rightarrow> fk_selfInstance s | OtherVm v \<Rightarrow> v)"

definition fakeSelf :: "string \<Rightarrow> Vm" where
  "fakeSelf clusterID =
     \<lparr>vm_VmId = Some ''i-self'', vm_State = None, vm_VmType = None, vm_NetId = None, vm_SubnetId = None,
      vm_PrivateDnsName = Some ''ip-172-20-0-100.ec2.internal'', vm_PublicDnsName = None,
      vm_PrivateIp = Some ''192.168.0.1'', vm_PublicIp = Some ''1.2.3.4'',
      vm_Placement = Some \<lparr>pl_SubregionName = Some ''us-east-1a''\<rparr>, vm_Nics = None, vm_SecurityGroups = None,
      vm_Tags = Some [\<lparr>tag_Key = TagNameKubernetesClusterPrefix @ clusterID, tag_Value = ''owned''\<rparr>]\<rparr>"

definition NewFakeAWSServices :: "string \<Rightarrow> FakeOscServices" where
  "NewFakeAWSServices clusterID =
     \<lparr>fk_region = ''us-east-1'', fk_instances = [SelfVm], fk_selfInstance = fakeSelf clusterID,
      networkInterfacesMacs = [''aa:bb:cc:dd:ee:00'', ''aa:bb:cc:dd:ee:01''], networkInterfacesPrivateIPs = [],
      networkInterfacesVpcIDs = [''vpc-mac0'', ''vpc-mac1''],
      fk_Subnets = [], fk_DescribeSubnetsInput = None, fk_RouteTables = [], fk_DescribeRouteTablesInput = None,
      fk_MainSecurityGroup = \<lparr>sg_SecurityGroupId = Some ''sg-1234'', sg_SecurityGroupName = None,
        sg_Tags = Some [\<lparr>tag_Key = TagNameKubernetesClusterPrefix @ clusterID, tag_Value = ''owned''\<rparr>,
                        \<lparr>tag_Key = TagNameMainSG @ clusterID, tag_Value = ''true''\<rparr>],
        sg_InboundRules = Some []\<rparr>,
      fk_OutboundRules = [], fk_LoadBalancers = []\<rparr>"

definition WithAz :: "string \<Rightarrow> FakeOscServices \<Rightarrow> FakeOscServices" where
  "WithAz az s = s\<lparr>fk_selfInstance := (fk_selfInstance s)\<lparr>vm_Placement := Some \<lparr>pl_SubregionName = Some az\<rparr>\<rparr>\<rparr>"

section \<open>Compute\<close>

record FullFiltersVm = FiltersVm +
  fv_TagValues :: "string list option"

text \<open>One turn of the loop over \<open>Tags\<close>: the second field of a tag filter without \<open>=\<close> does not exist.\<close>

definition tagFilterStep :: "ResourceTag list \<Rightarrow> bool \<Rightarrow> string \<Rightarrow> bool res" where
  "tagFilterStep tags allMatch tag =
     (let tagSplit = Split (CHR ''='') tag in
      if length tagSplit < 2 then Panic ''index out of range''
      else Ok (allMatch \<and> (\<exists>t\<in>set tags. tag_Value t = tagSplit ! 1 \<and> tag_Key t = tagSplit ! 0)))"

definition fakeVmMatches :: "FullFiltersVm option \<Rightarrow> Vm \<Rightarrow> bool res" where
  "fakeVmMatches filters instance = (case filters of
       None \<Rightarrow> Ok True
     | Some f \<Rightarrow>
        (if fv_VmIds f \<noteq> None \<and> (vm_VmId instance = None \<or> strval (vm_VmId instance) \<notin> set (listval (fv_VmIds f)))
         then Ok False
         else
           (let tags = listval (vm_Tags instance);
                keysMatch = (\<forall>tagKey\<in>set (listval (fv_TagKeys f)). \<exists>t\<in>set tags. tag_Key t = tagKey);
                valuesMatch = (\<forall>tagValue\<in>set (listval (fv_TagValues f)). \<exists>t\<in>set tags. tag_Value t = tagValue)
            in res_map (\<lambda>allMatch. allMatch \<and> (\<forall>vmID\<in>set (listval (fv_VmIds f)). vmID = strval (vm_VmId instance)))
                 (foldRes (tagFilterStep tags) (keysMatch \<and> valuesMatch) (listval (fv_Tags f))))))"

definition fake_ReadVms :: "FullFiltersVm option \<Rightarrow> (FakeOscServices, Vm list) io" where
  "fake_ReadVms filters s = (filterRes (fakeVmMatches filters) (map (derefVm s) (fk_instances s)), s)"

definition fake_ReadSecurityGroups :: "FiltersSecurityGroup \<Rightarrow> (FakeOscServices, SecurityGroup list) io" where
  "fake_ReadSecurityGroups request s = (Ok [fk_MainSecurityGroup s], s)"

definition notImplemented :: "('w, 'a) io" where
  "notImplemented = panic ''Not implemented''"

record FullRuleRequest = SecurityGroupRuleRequest +
  srr_FromPortRange :: "int option"
  srr_ToPortRange :: "int option"
  srr_IpProtocol :: "string option"
  srr_IpRange :: "string option"

definition fake_CreateSecurityGroupRule :: "FullRuleRequest \<Rightarrow> (FakeOscServices, unit) io" where
  "fake_CreateSecurityGroupRule request s =
     (let g = fk_MainSecurityGroup s;
          rule = \<lparr>rule_FromPortRange = srr_FromPortRange request, rule_ToPortRange = srr_ToPortRange request,
                  rule_IpProtocol = srr_IpProtocol request, rule_IpRanges = Some [strval (srr_IpRange request)],
                  rule_SecurityGroupsMembers = None, rule_ServiceIds = None\<rparr>
      in
      if strval (sg_SecurityGroupId g) \<noteq> srr_SecurityGroupId request
      then raise (Errorf ''OSC Fake: Wrong security Group Id'' []) s
      else if srr_Flow request = ''Inbound''
      then ok () (s\<lparr>fk_MainSecurityGroup := g\<lparr>sg_InboundRules := Some (listval (sg_InboundRules g) @ [rule])\<rparr>\<rparr>)
      else ok () (s\<lparr>fk_OutboundRules := fk_OutboundRules s @ [rule]\<rparr>))"

text \<open>The methods that only panic.\<close>

definition fake_CreateSecurityGroup :: "CreateSecurityGroupRequest \<Rightarrow> (FakeOscServices, SecurityGroup option) io" where
  "fake_CreateSecurityGroup request = notImplemented"

definition fake_DeleteSecurityGroup :: "string \<Rightarrow> (FakeOscServices, unit) io" where
  "fake_DeleteSecurityGroup request = notImplemented"

definition fake_DeleteSecurityGroupRule :: "SecurityGroupRuleRequest \<Rightarrow> (FakeOscServices, unit) io" where
  "fake_DeleteSecurityGroupRule request = notImplemented"

definition fake_CreateTags :: "CreateTagsRequest \<Rightarrow> (FakeOscServices, unit) io" where
  "fake_CreateTags request = notImplemented"

definition fake_CreateRoute :: "CreateRouteRequest \<Rightarrow> (FakeOscServices, unit) io" where
  "fake_CreateRoute request = notImplemented"

definition fake_DeleteRoute :: "DeleteRouteRequest \<Rightarrow> (FakeOscServices, unit) io" where
  "fake_DeleteRoute request = notImplemented"

definition fake_UpdateVM :: "UpdateVmRequest \<Rightarrow> (FakeOscServices, unit) io" where
  "fake_UpdateVM request = notImplemented"

text \<open>The values of the EC2 SDK.  A conversion to \<open>int32\<close> keeps the low 32 bits.\<close>

record Ec2Tag =
  e_Key :: "string option"
  e_Value :: "string option"

record Ec2Subnet =
  es_AvailableIpAddressCount :: "int option"
  es_CidrBlock :: "string option"
  es_MapPublicIpOnLaunch :: "bool option"
  es_VpcId :: "string option"
  es_State :: "string option"
  es_SubnetId :: "string option"
  es_AvailabilityZone :: "string option"
  es_Tags :: "Ec2Tag list"

definition int32 :: "int \<Rightarrow> int" where
  "int32 x = (x + 2 ^ 31) mod 2 ^ 32 - 2 ^ 31"

definition oscTagStep :: "ResourceTag list \<Rightarrow> Ec2Tag \<Rightarrow> ResourceTag list res" where
  "oscTagStep oscTags tag = (case (e_Key tag, e_Value tag) of
       (Some k, Some v) \<Rightarrow> Ok (oscTags @ [\<lparr>tag_Key = k, tag_Value = v\<rparr>])
     | _ \<Rightarrow> Panic nilPointer)"

definition fake_CreateSubnet :: "Ec2Subnet \<Rightarrow> (FakeOscServices, Ec2Subnet) io" where
  "fake_CreateSubnet request =
     bnd (lift (foldRes oscTagStep [] (es_Tags request))) (\<lambda>oscTags s.
     ok request (s\<lparr>fk_Subnets := fk_Subnets s @
       [\<lparr>sn_SubnetId = es_SubnetId request, sn_SubregionName = es_AvailabilityZone request,
         sn_NetId = es_VpcId request, sn_Tags = Some oscTags,
         sn_AvailableIpsCount = map_option int32 (es_AvailableIpAddressCount request),
         sn_IpRange = es_CidrBlock request, sn_MapPublicIpOnLaunch = es_MapPublicIpOnLaunch request,
         sn_State = es_State request\<rparr>]\<rparr>))"

definition fake_DescribeSubnets :: "FiltersSubnet \<Rightarrow> (FakeOscServices, Subnet list) io" where
  "fake_DescribeSubnets request s =
     (Ok (map Subnet.truncate (fk_Subnets s)), s\<lparr>fk_DescribeSubnetsInput := Some request\<rparr>)"

definition fake_RemoveSubnets :: "(FakeOscServices, unit) io" where
  "fake_RemoveSubnets s = (Ok (), s\<lparr>fk_Subnets := []\<rparr>)"

record Ec2RouteTableAssociation =
  ea_RouteTableAssociationId :: "string option"
  ea_Main :: "bool option"
  ea_RouteTableId :: "string option"
  ea_SubnetId :: "string option"

record Ec2Route =
  er_Origin :: "string option"
  er_DestinationCidrBlock :: "string option"
  er_GatewayId :: "string option"
  er_NatGatewayId :: "string option"
  er_VpcPeeringConnectionId :: "string option"
  er_NetworkInterfaceId :: "string option"
  er_State :: "string option"
  er_InstanceOwnerId :: "string option"
  er_InstanceId :: "string option"

record Ec2RouteTable =
  ert_Associations :: "Ec2RouteTableAssociation list"
  ert_Tags :: "Ec2Tag list"
  ert_Routes :: "Ec2Route list"
  ert_VpcId :: "string option"

definition oscLink :: "Ec2RouteTableAssociation \<Rightarrow> FullLinkRouteTable" where
  "oscLink assoc = \<lparr>lrt_SubnetId = ea_SubnetId assoc, lrt_Main = ea_Main assoc,
     lrt_LinkRouteTableId = ea_RouteTableAssociationId assoc, lrt_RouteTableId = ea_RouteTableId assoc\<rparr>"

definition oscRoute :: "Ec2Route \<Rightarrow> FullRoute" where
  "oscRoute route = \<lparr>rt_DestinationIpRange = er_DestinationCidrBlock route, rt_GatewayId = er_GatewayId route,
     rt_State = er_State route, rt_VmId = er_InstanceId route, rt_CreationMethod = er_Origin route,
     rt_NatServiceId = er_NatGatewayId route, rt_NetPeeringId = er_VpcPeeringConnectionId route,
     rt_NicId = er_NetworkInterfaceId route, rt_VmAccountId = er_InstanceOwnerId route\<rparr>"

text \<open>The converted table has no id.\<close>

definition fake_CreateRouteTable :: "Ec2RouteTable \<Rightarrow> (FakeOscServices, Ec2RouteTable) io" where
  "fake_CreateRouteTable request =
     bnd (lift (foldRes oscTagStep [] (ert_Tags request))) (\<lambda>oscTags s.
     ok request (s\<lparr>fk_RouteTables := fk_RouteTables s @
       [\<lparr>frtb_LinkRouteTables = map oscLink (ert_Associations request), frtb_NetId = ert_VpcId request,
         frtb_Tags = oscTags, frtb_Routes = map oscRoute (ert_Routes request)\<rparr>]\<rparr>))"

definition truncateRouteTable :: "FullRouteTable \<Rightarrow> RouteTable" where
  "truncateRouteTable t = \<lparr>rtb_RouteTableId = None,
     rtb_LinkRouteTables = Some (map LinkRouteTable.truncate (frtb_LinkRouteTables t)),
     rtb_Routes = Some (map Route.truncate (frtb_Routes t)), rtb_Tags = Some (frtb_Tags t)\<rparr>"

definition fake_ReadRouteTables :: "FiltersRouteTable \<Rightarrow> (FakeOscServices, RouteTable list) io" where
  "fake_ReadRouteTables request s =
     (Ok (map truncateRouteTable (fk_RouteTables s)), s\<lparr>fk_DescribeRouteTablesInput := Some request\<rparr>)"

definition fake_RemoveRouteTables :: "(FakeOscServices, unit) io" where
  "fake_RemoveRouteTables s = (Ok (), s\<lparr>fk_RouteTables := []\<rparr>)"

definition fullFilters :: "FiltersVm \<Rightarrow> FullFiltersVm" where
  "fullFilters f = FiltersVm.extend f (FullFiltersVm.fields None)"

definition fullRequest :: "SecurityGroupRuleRequest \<Rightarrow> FullRuleRequest" where
  "fullRequest r = SecurityGroupRuleRequest.extend r (FullRuleRequest.fields None None None None)"

definition FakeComputeImpl :: "FakeOscServices Compute" where
  "FakeComputeImpl = \<lparr>ReadVms = (\<lambda>f. fake_ReadVms (map_option fullFilters f)),
     ReadSecurityGroups = fake_ReadSecurityGroups,
     CreateSecurityGroup = fake_CreateSecurityGroup, DeleteSecurityGroup = fake_DeleteSecurityGroup,
     CreateSecurityGroupRule = (\<lambda>r. fake_CreateSecurityGroupRule (fullRequest r)),
     DeleteSecurityGroupRule = fake_DeleteSecurityGroupRule, DescribeSubnets = fake_DescribeSubnets,
     CreateTags = fake_CreateTags, ReadRouteTables = fake_ReadRouteTables,
     api_CreateRoute = fake_CreateRoute, api_DeleteRoute = fake_DeleteRoute, UpdateVM = fake_UpdateVM\<rparr>"

section \<open>Metadata\<close>

text \<open>The value at the position of the first matching address; a list that is too short panics.\<close>

fun byMac :: "string \<Rightarrow> string list \<Rightarrow> 'a list \<Rightarrow> 'a option res" where
  "byMac mac [] vals = Ok None"
| "byMac mac (m # macs) vals =
     (if mac = m then (case vals of [] \<Rightarrow> Panic ''index out of range'' | v # _ \<Rightarrow> Ok (Some v))
      else byMac mac macs (tl vals))"

definition networkInterfacesPrefix :: string where
  "networkInterfacesPrefix = ''network/interfaces/macs/''"

definition fake_interfaceMetadata :: "FakeOscServices \<Rightarrow> string \<Rightarrow> string res" where
  "fake_interfaceMetadata s key =
     (if key = networkInterfacesPrefix
      then Ok (JoinStr (networkInterfacesMacs s) (''/'' @ [CHR 0x0A]) @ ''/'' @ [CHR 0x0A])
      else
        (let keySplit = Split (CHR ''/'') key;
             macParam = keySplit ! 3 in
         res_bind
           (if length keySplit = 5 \<and> keySplit ! 4 = ''vpc-id''
            then byMac macParam (networkInterfacesMacs s) (networkInterfacesVpcIDs s) else Ok None)
           (\<lambda>vpc. case vpc of
               Some v \<Rightarrow> Ok v
             | None \<Rightarrow>
                 res_bind
                   (if length keySplit = 5 \<and> keySplit ! 4 = ''local-ipv4s''
                    then byMac macParam (networkInterfacesMacs s) (networkInterfacesPrivateIPs s) else Ok None)
                   (\<lambda>ips. case ips of
                       Some l \<Rightarrow> Ok (JoinStr l (''/'' @ [CHR 0x0A]))
                     | None \<Rightarrow> Ok []))))"

definition fake_GetMetadata :: "string \<Rightarrow> (FakeOscServices, string) io" where
  "fake_GetMetadata key s =
     (let i = fk_selfInstance s in
      (if key = ''placement/availability-zone'' then Ok (GetSubregionName i)
       else if key = ''instance-id'' then Ok (strval (vm_VmId i))
       else if key = ''local-hostname'' then Ok (strval (vm_PrivateDnsName i))
       else if key = ''public-hostname'' then Ok (strval (vm_PublicDnsName i))
       else if key = ''local-ipv4'' then Ok (strval (vm_PrivateIp i))
       else if key = ''public-ipv4'' then Ok (strval (vm_PublicIp i))
       else if HasPrefix key networkInterfacesPrefix then fake_interfaceMetadata s key
       else Ok [], s))"

text \<open>The fake answers of the interface \<open>MetadataService\<close>.\<close>

definition fake_GetInstanceID :: "FakeOscServices \<Rightarrow> string" where
  "fake_GetInstanceID s = []"

definition fake_GetInstanceType :: "FakeOscServices \<Rightarrow> string" where
  "fake_GetInstanceType s = []"

definition fake_GetRegion :: "FakeOscServices \<Rightarrow> string" where
  "fake_GetRegion s = []"

definition fake_GetAvailabilityZone :: "FakeOscServices \<Rightarrow> string" where
  "fake_GetAvailabilityZone s = []"

definition fake_Available :: "(FakeOscServices, bool) io" where
  "fake_Available = ok True"

definition FakeMetadata :: "FakeOscServices EC2Metadata" where
  "FakeMetadata = \<lparr>md_Available = fake_Available, GetMetadata = fake_GetMetadata\<rparr>"

section \<open>Load balancers\<close>

definition zeroHealthCheck :: HealthCheck where
  "zeroHealthCheck = \<lparr>hc_Target = None, hc_HealthyThreshold = None, hc_UnhealthyThreshold = None, hc_Timeout = None,
     hc_Interval = None\<rparr>"

definition fake_CreateLoadBalancer :: "CreateLoadBalancerInput \<Rightarrow> (FakeOscServices, unit) io" where
  "fake_CreateLoadBalancer input s =
     (let lb = \<lparr>lb_LoadBalancerName = Some (clb_LoadBalancerName input), lb_DNSName = Some (clb_LoadBalancerName input),
        lb_Subnets = listval (clb_Subnets input), lb_SecurityGroups = [], lb_Instances = [],
        lb_ListenerDescriptions = [], lb_BackendServerDescriptions = [], lb_HealthCheck = Some zeroHealthCheck\<rparr>
      in (Ok (), s\<lparr>fk_LoadBalancers := mput (clb_LoadBalancerName input) lb (fk_LoadBalancers s)\<rparr>))"

text \<open>A name that is not in the map gives a nil description.\<close>

definition fake_DescribeLoadBalancers :: "string list \<Rightarrow> (FakeOscServices, LoadBalancerDescription option list) io" where
  "fake_DescribeLoadBalancers names s = (Ok (map (map_of (fk_LoadBalancers s)) names), s)"

definition fake_ConfigureHealthCheck :: "string option \<Rightarrow> HealthCheck \<Rightarrow> (FakeOscServices, unit) io" where
  "fake_ConfigureHealthCheck name healthCheck s = (case name of
       None \<Rightarrow> panic nilPointer s
     | Some lbName \<Rightarrow> (case map_of (fk_LoadBalancers s) lbName of
         None \<Rightarrow> raise (Errorf ''LoadBalancer not found'' []) s
       | Some lb \<Rightarrow> ok () (s\<lparr>fk_LoadBalancers :=
           mput lbName (lb\<lparr>lb_HealthCheck := Some healthCheck\<rparr>) (fk_LoadBalancers s)\<rparr>)))"

definition fake_DescribeLoadBalancerAttributes :: "string \<Rightarrow> (FakeOscServices, LoadBalancerAttributes) io" where
  "fake_DescribeLoadBalancerAttributes name = ok
     \<lparr>la_AccessLog = None, la_DrainingEnabled = Some False, la_DrainingTimeout = None, la_IdleTimeout = Some 60,
      la_CrossZoneLoadBalancing = None, la_AdditionalAttributes = []\<rparr>"

text \<open>The methods that only panic.\<close>

definition fake_DeleteLoadBalancer :: "string option \<Rightarrow> (FakeOscServices, unit) io" where
  "fake_DeleteLoadBalancer a = notImplemented"

definition fake_AddTags :: "string \<Rightarrow> (string, string) gomap \<Rightarrow> (FakeOscServices, unit) io" where
  "fake_AddTags a b = notImplemented"

definition fake_RegisterInstancesWithLoadBalancer :: "string \<Rightarrow> string list \<Rightarrow> (FakeOscServices, unit) io" where
  "fake_RegisterInstancesWithLoadBalancer a b = notImplemented"

definition fake_DeregisterInstancesFromLoadBalancer :: "string \<Rightarrow> string list \<Rightarrow> (FakeOscServices, unit) io" where
  "fake_DeregisterInstancesFromLoadBalancer a b = notImplemented"

definition fake_CreateLoadBalancerPolicy :: "CreateLoadBalancerPolicyInput \<Rightarrow> (FakeOscServices, unit) io" where
  "fake_CreateLoadBalancerPolicy a = notImplemented"

definition fake_SetLoadBalancerPoliciesForBackendServer :: "string \<Rightarrow> int \<Rightarrow> string list \<Rightarrow> (FakeOscServices, unit) io" where
  "fake_SetLoadBalancerPoliciesForBackendServer a b c = notImplemented"

definition fake_SetLoadBalancerPoliciesOfListener :: "string \<Rightarrow> int \<Rightarrow> string list \<Rightarrow> (FakeOscServices, unit) io" where
  "fake_SetLoadBalancerPoliciesOfListener a b c = notImplemented"

definition fake_DescribeLoadBalancerPolicies :: "string option \<Rightarrow> string list \<Rightarrow> (FakeOscServices, string list option \<times> go_error option) io" where
  "fake_DescribeLoadBalancerPolicies a b = notImplemented"

definition fake_DetachLoadBalancerFromSubnets :: "string \<Rightarrow> string list \<Rightarrow> (FakeOscServices, unit) io" where
  "fake_DetachLoadBalancerFromSubnets a b = notImplemented"

definition fake_AttachLoadBalancerToSubnets :: "string \<Rightarrow> string list \<Rightarrow> (FakeOscServices, unit) io" where
  "fake_AttachLoadBalancerToSubnets a b = notImplemented"

definition fake_CreateLoadBalancerListeners :: "string \<Rightarrow> Listener option list \<Rightarrow> (FakeOscServices, unit) io" where
  "fake_CreateLoadBalancerListeners a b = notImplemented"

definition fake_DeleteLoadBalancerListeners :: "string \<Rightarrow> int option list \<Rightarrow> (FakeOscServices, unit) io" where
  "fake_DeleteLoadBalancerListeners a b = notImplemented"

definition fake_ApplySecurityGroupsToLoadBalancer :: "string \<Rightarrow> string list \<Rightarrow> (FakeOscServices, unit) io" where
  "fake_ApplySecurityGroupsToLoadBalancer a b = notImplemented"

definition fake_ModifyLoadBalancerAttributes :: "string \<Rightarrow> LoadBalancerAttributes \<Rightarrow> (FakeOscServices, unit) io" where
  "fake_ModifyLoadBalancerAttributes a b = notImplemented"

definition fake_expectDescribeLoadBalancers :: "string \<Rightarrow> (FakeOscServices, unit) io" where
  "fake_expectDescribeLoadBalancers loadBalancerName = notImplemented"

text \<open>The interface value.  A nil description is left out: the provider asks for one name, and no
  description and a nil one are the same to it.\<close>

definition FakeELB :: "FakeOscServices LoadBalancer" where
  "FakeELB = \<lparr>CreateLoadBalancer = fake_CreateLoadBalancer, DeleteLoadBalancer = fake_DeleteLoadBalancer,
     DescribeLoadBalancers = (\<lambda>n. bnd (fake_DescribeLoadBalancers [n]) (\<lambda>lbs. ok (map the (filter (\<lambda>d. d \<noteq> None) lbs)))),
     AddTags = fake_AddTags, RegisterInstancesWithLoadBalancer = fake_RegisterInstancesWithLoadBalancer,
     DeregisterInstancesFromLoadBalancer = fake_DeregisterInstancesFromLoadBalancer, CreateLoadBalancerPolicy = fake_CreateLoadBalancerPolicy,
     SetLoadBalancerPoliciesForBackendServer = fake_SetLoadBalancerPoliciesForBackendServer,
     SetLoadBalancerPoliciesOfListener = fake_SetLoadBalancerPoliciesOfListener,
     DescribeLoadBalancerPolicies = fake_DescribeLoadBalancerPolicies, DetachLoadBalancerFromSubnets = fake_DetachLoadBalancerFromSubnets,
     AttachLoadBalancerToSubnets = fake_AttachLoadBalancerToSubnets, CreateLoadBalancerListeners = fake_CreateLoadBalancerListeners,
     DeleteLoadBalancerListeners = fake_DeleteLoadBalancerListeners, ApplySecurityGroupsToLoadBalancer = fake_ApplySecurityGroupsToLoadBalancer,
     ConfigureHealthCheck = fake_ConfigureHealthCheck,
     DescribeLoadBalancerAttributes = fake_DescribeLoadBalancerAttributes,
     ModifyLoadBalancerAttributes = fake_ModifyLoadBalancerAttributes\<rparr>"

definition fakeServices :: "FakeOscServices Services" where
  "fakeServices = \<lparr>svcs_Compute = (\<lambda>region. ok FakeComputeImpl), svcs_LoadBalancing = (\<lambda>region. ok FakeELB),
     svcs_Metadata = ok FakeMetadata\<rparr>"

section \<open>The filters of the EC2 API\<close>

record Ec2Instance =
  ei_PrivateDnsName :: "string option"
  ei_State :: "string option option"
  ei_Tags :: "Ec2Tag list"

text \<open>A nil element of the haystack panics when the search reaches it.\<close>

fun fake_contains :: "string option list \<Rightarrow> string \<Rightarrow> bool res" where
  "fake_contains [] needle = Ok False"
| "fake_contains (None # haystack) needle = Panic nilPointer"
| "fake_contains (Some s # haystack) needle = (if needle = s then Ok True else fake_contains haystack needle)"

fun anyTag :: "(Ec2Tag \<Rightarrow> bool res) \<Rightarrow> Ec2Tag list \<Rightarrow> bool res" where
  "anyTag p [] = Ok False"
| "anyTag p (t # ts) = res_bind (p t) (\<lambda>b. if b then Ok True else anyTag p ts)"

definition instanceMatchesFilter :: "Ec2Instance \<Rightarrow> string option \<Rightarrow> string option list \<Rightarrow> bool res" where
  "instanceMatchesFilter instance filterName values = (case filterName of
       None \<Rightarrow> Panic nilPointer
     | Some name \<Rightarrow>
        (if name = ''private-dns-name'' then
           (case ei_PrivateDnsName instance of None \<Rightarrow> Ok False | Some d \<Rightarrow> fake_contains values d)
         else if name = ''instance-state-name'' then
           (case ei_State instance of
              Some (Some st) \<Rightarrow> fake_contains values st
            | _ \<Rightarrow> Panic nilPointer)
         else if name = ''tag-key'' then anyTag (\<lambda>t. fake_contains values (strval (e_Key t))) (ei_Tags instance)
         else if HasPrefix name ''tag:'' then
           anyTag (\<lambda>t. if strval (e_Key t) = drop 4 name then fake_contains values (strval (e_Value t)) else Ok False)
             (ei_Tags instance)
         else Panic (''Unknown filter name: '' @ name)))"

section \<open>How far the double stands for the directory\<close>

lemma listval_full [simp]:
  "fv_VmIds (fullFilters f) = fv_VmIds f" "fv_TagKeys (fullFilters f) = fv_TagKeys f"
  "fv_Tags (fullFilters f) = fv_Tags f" "fv_TagValues (fullFilters f) = None"
  by (simp_all add: fullFilters_def FiltersVm.defs FullFiltersVm.defs)

lemma card_le_1_iff_all_eq: "x \<in> set xs \<Longrightarrow> card (set xs) \<le> 1 \<longleftrightarrow> (\<forall>y\<in>set xs. y = x)"
proof
  assume "x \<in> set xs" "card (set xs) \<le> 1"
  then show "\<forall>y\<in>set xs. y = x" using card_le_Suc0_iff_eq[of "set xs"] by auto
next
  assume "\<forall>y\<in>set xs. y = x"
  then have "set xs \<subseteq> {x}" by blast
  then show "card (set xs) \<le> 1" using card_mono[of "{x}" "set xs"] by simp
qed

lemma fakeVmMatches_directory:
  assumes "vm_VmId v \<noteq> None" "fv_Tags f = None" "fv_TagKeys f = None \<or> fv_TagKeys f = Some [k]"
  shows "fakeVmMatches (Some (fullFilters f)) v =
     Ok (vmMatches (Some f) v \<and> card (set (listval (fv_VmIds f))) \<le> 1)"
proof -
  have keys: "(\<forall>tagKey\<in>set (listval (fv_TagKeys f)). \<exists>t\<in>set (listval (vm_Tags v)). tag_Key t = tagKey) =
      (case fv_TagKeys f of None \<Rightarrow> True | Some ks \<Rightarrow> hasTagKey ks v)"
    using assms(3) by (auto simp: hasTagKey_def list_ex_iff)
  show ?thesis
  proof (cases "fv_VmIds f")
    case None
    then show ?thesis using assms(2) by (simp add: fakeVmMatches_def vmMatches_def keys)
  next
    case (Some ids)
    show ?thesis
    proof (cases "strval (vm_VmId v) \<in> set ids")
      case True
      have id: "vm_VmId v \<noteq> None \<and> (card (set ids) \<le> Suc 0) = (\<forall>vmID\<in>set ids. vmID = strval (vm_VmId v))"
        using assms(1) card_le_1_iff_all_eq[OF True] by simp
      show ?thesis
        using assms(2) Some True id unfolding fakeVmMatches_def vmMatches_def by (clarsimp simp: keys)
    next
      case False
      then show ?thesis using Some by (simp add: fakeVmMatches_def vmMatches_def)
    qed
  qed
qed

text \<open>
  C40. For the requests the provider makes (instance ids, at most one tag key), the double answers like a directory of its instances as
  long as at most one distinct id is asked for; asked for two or more, it answers with no instance at all.
\<close>

theorem fake_ReadVms_directory:
  assumes "list_all (\<lambda>p. vm_VmId (derefVm s p) \<noteq> None) (fk_instances s)"
    "fv_Tags f = None" "fv_TagKeys f = None \<or> fv_TagKeys f = Some [k]"
  shows "ReadVms FakeComputeImpl (Some f) s =
     (Ok (if card (set (listval (fv_VmIds f))) \<le> 1
          then filter (vmMatches (Some f)) (map (derefVm s) (fk_instances s)) else []), s)"
proof -
  let ?vms = "map (derefVm s) (fk_instances s)"
  have "fakeVmMatches (Some (fullFilters f)) v =
     Ok (vmMatches (Some f) v \<and> card (set (listval (fv_VmIds f))) \<le> 1)" if "v \<in> set ?vms" for v
    using assms that by (intro fakeVmMatches_directory) (auto simp: list_all_iff)
  then have "filterRes (fakeVmMatches (Some (fullFilters f))) ?vms =
     Ok (filter (\<lambda>v. vmMatches (Some f) v \<and> card (set (listval (fv_VmIds f))) \<le> 1) ?vms)"
    by (rule filterRes_pure)
  then show ?thesis by (simp add: FakeComputeImpl_def fake_ReadVms_def)
qed

theorem fake_ReadVms_directory_witness:
  "ReadVms FakeComputeImpl (vmIdFilter [''i-self'']) (NewFakeAWSServices ''c1'') =
     (Ok [fakeSelf ''c1''], NewFakeAWSServices ''c1'') \<and>
   ReadVms FakeComputeImpl (vmIdFilter [''i-self'', ''i-2'']) (NewFakeAWSServices ''c1'') =
     (Ok [], NewFakeAWSServices ''c1'')"
proof -
  let ?s = "NewFakeAWSServices ''c1''"
  have "list_all (\<lambda>p. vm_VmId (derefVm ?s p) \<noteq> None) (fk_instances ?s)"
    by (simp add: NewFakeAWSServices_def derefVm_def fakeSelf_def)
  note d = fake_ReadVms_directory[OF this]
  show ?thesis
    unfolding vmIdFilter_def
    by (simp add: d noVmFilter_def) (simp add: NewFakeAWSServices_def derefVm_def fakeSelf_def vmMatches_def)
qed

section \<open>The doubles start a cloud\<close>

definition fakeInstances :: "FakeOscServices \<Rightarrow> Vm list" where
  "fakeInstances s = map (derefVm s) (fk_instances s)"

definition fakeIdsOk :: "FakeOscServices \<Rightarrow> bool" where
  "fakeIdsOk s \<longleftrightarrow> distinct (map (\<lambda>v. strval (vm_VmId v)) (fakeInstances s)) \<and> list_all (\<lambda>v. vm_VmId v \<noteq> None) (fakeInstances s)"

interpretation fakedir: still_directory FakeComputeImpl fakeInstances fakeIdsOk
proof
  fix s i
  assume "fakeIdsOk s"
  then have "filterRes (fakeVmMatches (Some (fullFilters (noVmFilter\<lparr>fv_VmIds := Some [i]\<rparr>)))) (fakeInstances s) =
      Ok (filter (\<lambda>v. strval (vm_VmId v) = i) (fakeInstances s))"
    by (intro filterRes_pure)
      (auto simp: fakeIdsOk_def list_all_iff fakeVmMatches_directory noVmFilter_def vmMatches_def)
  then show "fst (ReadVms FakeComputeImpl (vmIdFilter [i]) s) = Ok (filter (\<lambda>v. strval (vm_VmId v) = i) (fakeInstances s))"
    by (simp add: FakeComputeImpl_def fake_ReadVms_def vmIdFilter_def fakeInstances_def)
qed (simp_all add: fakeIdsOk_def FakeComputeImpl_def fake_ReadVms_def)

lemma cluster_tag_found:
  assumes "env ''TAG_NAME_KUBERNETES_CLUSTER'' = None" "clusterID \<noteq> []"
  shows "initFromTags env (vm_Tags (fakeSelf clusterID)) zeroTagging =
     (Ok (), \<lparr>ClusterID = clusterID, usesLegacyTags = False\<rparr>)"
  using assms
  by (simp add: initFromTags_def findClusterIDs_def findClusterIDsStep_def fakeSelf_def HasPrefix_def TrimPrefix_def
      tagNameKubernetesCluster_def const_defs tagging_init_def zeroTagging_def bnd_def attempt_def)

text \<open>
  The doubles are enough to bring a cloud up: with a cluster id and a zone of more than one character, \<open>newCloud\<close> on the doubles
  succeeds, finds the cluster id on the tags of the fake machine and derives the region from the fake metadata, and leaves the
  doubles as they were.
\<close>

theorem fake_newCloud_starts:
  assumes "clusterID \<noteq> []" "length az > 1" "run_environ rt ''TAG_NAME_KUBERNETES_CLUSTER'' = None"
    "s = WithAz az (NewFakeAWSServices clusterID)" "sdk_Configuration (run_sdk rt) s = (Ok config, s)"
  shows "\<exists>c. newCloud rt noOverride fakeServices s = (Ok c, s) \<and> c_region c = butlast az \<and>
     c_tagging c = \<lparr>ClusterID = clusterID, usesLegacyTags = False\<rparr> \<and>
     map_option self_availabilityZone (c_selfAWSInstance c) = Some az"
proof -
  let ?vm = "fk_selfInstance s"
  have vm: "?vm = (fakeSelf clusterID)\<lparr>vm_Placement := Some \<lparr>pl_SubregionName = Some az\<rparr>\<rparr>" "fk_instances s = [SelfVm]"
    by (simp_all add: assms(4) WithAz_def NewFakeAWSServices_def)
  have i: "vm_VmId ?vm = Some ''i-self''" "vm_Tags ?vm = vm_Tags (fakeSelf clusterID)" "GetSubregionName ?vm = az"
    by (simp_all add: vm fakeSelf_def GetSubregionName_def)
  have dirs: "fakeIdsOk s" "?vm \<in> set (fakeInstances s)"
    using vm(2) i(1) by (simp_all add: fakeIdsOk_def fakeInstances_def derefVm_def)
  have az: "getAvailabilityZone FakeMetadata s = (Ok az, s)" and iid: "GetMetadata FakeMetadata ''instance-id'' s = (Ok ''i-self'', s)"
    using i by (simp_all add: getAvailabilityZone_def FakeMetadata_def fake_GetMetadata_def)
  have ne: "az \<noteq> []" using assms(2) by auto
  have conf: "updateConfigZone noOverride (Some FakeMetadata) s = (Ok (setZone az noOverride), s)"
    using ne by (simp add: updateConfigZone_def az noOverride_def setZone_def)
  have r: "azToRegion az = Ok (butlast az)" using ne by (simp add: azToRegion_Ok)
  have valid: "isRegionValid (run_sdk rt) (butlast az) FakeMetadata s = (Ok True, s)"
    by (simp add: isRegionValid_def az r)
  let ?c = "cloudLiteral rt (setZone az noOverride) (butlast az) FakeComputeImpl FakeELB FakeMetadata"
  have g: "globalCfg ?c = (Global noOverride)\<lparr>cfg_Zone := az\<rparr>" by (simp add: globalCfg_def cloudLiteral_def setZone_def)
  have "\<not> masterElsewhere (globalCfg ?c)" unfolding g by (simp add: masterElsewhere_def noOverride_def)
  moreover have cl: "c_compute ?c = FakeComputeImpl" "c_metadata ?c = FakeMetadata" "c_selfAWSInstance ?c = None"
    by (simp_all add: cloudLiteral_def)
  ultimately have self: "selfOf ?c s = (Ok (newAWSInstance FakeComputeImpl ?vm), s)"
    using fakedir.getInstanceByID_still[OF dirs, of "''i-self''" ?c] i(1) iid
    by (simp add: selfOf_def buildSelfAWSInstance_def cl)
  have tag: "taggingOf (?c\<lparr>c_selfAWSInstance := x, c_vpcID := y\<rparr>) (newAWSInstance FakeComputeImpl ?vm) s =
      (Ok \<lparr>ClusterID = clusterID, usesLegacyTags = False\<rparr>, s)" for x y
    using cluster_tag_found[of "run_environ rt" clusterID, OF assms(3,1)] i(2)
      fakedir.describeInstance_still[OF dirs, of "''i-self''"]
    by (simp add: taggingOf_def clusterTagged_def globalCfg_def cloudLiteral_def setZone_def noOverride_def
        VM_describeInstance_def newAWSInstance_def i(1) onTagging_def)
  obtain v2 where v2: "newInstancesV2 rt az \<lparr>ClusterID = clusterID, usesLegacyTags = False\<rparr> s = (Ok v2, s)"
    using assms(5) by (simp add: newInstancesV2_def r NewOscClient_def)
  have z: "cfg_Zone (Global (setZone az noOverride)) = az" "DisableStrictZoneCheck (Global (setZone az noOverride)) = False"
    by (simp_all add: setZone_def noOverride_def)
  have "newCloud rt noOverride fakeServices s = (Ok (?c\<lparr>c_selfAWSInstance := Some (newAWSInstance FakeComputeImpl ?vm),
      c_vpcID := self_vpcID (newAWSInstance FakeComputeImpl ?vm), c_tagging := \<lparr>ClusterID = clusterID, usesLegacyTags = False\<rparr>,
      c_instances := Some v2\<rparr>), s)"
    using assms(2) by (simp add: newCloud_def fakeServices_def conf z r valid self tag v2 Let_def)
  then show ?thesis by (auto simp: cloudLiteral_def newAWSInstance_def i)
qed

theorem fake_newCloud_starts_witness:
  "\<exists>c. newCloud exRuntime noOverride fakeServices (WithAz ''eu-west-2b'' (NewFakeAWSServices ''c1'')) =
      (Ok c, WithAz ''eu-west-2b'' (NewFakeAWSServices ''c1'')) \<and> c_region c = ''eu-west-2'' \<and>
     c_tagging c = \<lparr>ClusterID = ''c1'', usesLegacyTags = False\<rparr> \<and>
     map_option self_availabilityZone (c_selfAWSInstance c) = Some ''eu-west-2b''"
  using fake_newCloud_starts[of "''c1''" "''eu-west-2b''" exRuntime, OF _ _ _ refl] by (simp add: exRuntime_def)

end
