(* ===== verification/Spec2Isabelle.thy ===== *)
theory Spec2Isabelle
  imports Audit_Trail Convergence Deletion Process Fakes
begin

text \<open>
  Verification of the Outscale cloud controller manager (\<open>src/cloud-controller-manager\<close>).

  \<^bold>\<open>The program.\<close>  The controller manager of Kubernetes calls one object, \<open>Cloud\<close>, through the interfaces of
  \<open>k8s.io/cloud-provider\<close>.  For a Service of type LoadBalancer it creates and keeps up to date a load balancer,
  the security group of the load balancer, and the rules that let it reach the nodes (\<open>EnsureLoadBalancer\<close>,
  \<open>UpdateLoadBalancer\<close>, \<open>EnsureLoadBalancerDeleted\<close>, \<open>GetLoadBalancer\<close>).  For a node it answers addresses,
  type, zone and existence, once through the older interfaces \<open>Instances\<close> and \<open>Zones\<close> and once through
  \<open>InstancesV2\<close>; for routes it edits the route table of the cluster.  All of them talk to the compute API, the load
  balancer API and the metadata service, and recognise their own resources by a tag that carries the cluster id.

  \<^bold>\<open>How it is modelled.\<close>  A Go function that talks to the outside is a function on an arbitrary world \<open>'w\<close> that
  returns a value, an error or a panic together with the new world (theory \<open>Prelude\<close>).  The API clients are records of such
  functions, so a theorem holds for every client; a property that needs more than that states it as a named
  hypothesis (for example \<open>lbService\<close>, \<open>deletionService\<close>, \<open>routeService\<close>, \<open>servesVms\<close>, \<open>powBounded\<close>), and its witness gives a client for which
  it holds.  Fields of the \<open>Cloud\<close> object that never change after start-up are fields of a record; the instance cache and the table of
  delayers, which do change, are part of the world.  Third-party code (the SDKs, gcfg, the controller framework,
  \<open>wait.ExponentialBackoff\<close>, \<open>math.Pow\<close>) is a parameter.

  Conventions: a pointer is an option, a slice of pointers the list of the pointees, a Go map an association list whose order is the order of
  iteration; the text of an error is its format literal with the errors rendered into it; upper and lower case and
  white space are those of ASCII; integers that cannot leave their width are unbounded; floating point numbers
  are rationals with rounding to 24 or 53 bits and without bounds on the exponent.  The log lines the functions write on their way are left out.

  \<^bold>\<open>The theories\<close>, in the order in which they build on each other.

  \<^item> \<open>Prelude\<close>: outcomes, the world-passing monad, loops with early return, and the frame predicate \<open>keeps\<close>, by which a theorem says
    which calls an operation cannot make.  \<open>Go_Strings\<close>, \<open>Go_Maps\<close>, \<open>Go_Net\<close>, \<open>Go_Floats\<close>: what the program uses of the
    standard library.  \<open>Reconcile\<close>: the locale of a plan of additions and removals, interpreted by the rule sets, the
    backends and the listeners.  \<open>Consts\<close> (\<open>ccm_const.go\<close>), \<open>Cloud_API\<close> (\<open>oapi_itf.go\<close> and the data of the APIs).
  \<^item> \<open>Tags\<close> (\<open>tags.go\<close>): which cluster a resource belongs to.  A tag written by one cluster is
    recognised by that cluster only; repairing the tags of a resource adds the missing tags of the own cluster, in at most nine
    attempts, and never changes a value the resource carries (a resource that only another cluster has tagged is tagged too).
  \<^item> \<open>IP_Rules\<close> (\<open>sets_ippermissions.go\<close>, the comparisons of \<open>utils.go\<close>): sets of security group rules; \<open>Ungroup\<close> keeps what they
    allow.  \<open>Annotations\<close>: everything read from the annotations and ports of a Service, the name of the load balancer included.
    \<open>Cloud\<close> (\<open>ccm_cloud_config.go\<close>, \<open>oapi_vm.go\<close>, the object of \<open>ccm_cloud.go\<close>).
  \<^item> \<open>Security_Groups\<close>: a successful \<open>setSecurityGroupIngress\<close> leaves exactly the wanted rules; the groups opened and closed for a load
    balancer are the exact difference; the shared group of the configuration is never changed; a group is created in at most 30
    attempts.  \<open>Subnets\<close>: the subnets of a load balancer do not depend on the order of the API's answer.
  \<^item> \<open>Instances\<close> (\<open>instances.go\<close>): instance ids, the queries, and the cache.  Concurrent refreshes of the cache are the step relation
    \<open>cache_step\<close>; the cache always holds the newest snapshot stored.
  \<^item> \<open>Load_Balancers\<close> (\<open>osc_loadbalancer.go\<close>): the listeners and backends of the load balancer are exactly the wanted ones
    afterwards.  \<open>Service_Controller\<close>: the handlers that compose all this.  The loop of \<open>EnsureLoadBalancerDeleted\<close> carries fuel; 62 passes are proved
    enough, because every pass but the last sleeps ten seconds and the deadline is 600 seconds away.
  \<^item> \<open>Nodes\<close>: the node and zone handlers of \<open>ccm_cloud.go\<close>.  \<open>Vm_Directory\<close>: the locale of a client that lists instances by id, with what the handlers
    answer for an instance that is listed and for one that is not; interpreted for the SDK client and for the test double.
    \<open>Api_Sdk\<close> (\<open>oapi_sdk.go\<close>, \<open>osc_metrics.go\<close>): the implementation of the compute interface.  \<open>Instances_V2\<close> (\<open>instances_v2.go\<close>): the provider id
    given to a node finds the same instance again; the two instance interfaces agree except on instances without the cluster tag.
  \<^item> \<open>Routes\<close> (\<open>osc_routes.go\<close>): what \<open>CreateRoute\<close> and \<open>DeleteRoute\<close> change in the answer of \<open>ListRoutes\<close>.
  \<^item> \<open>Backoff\<close> (\<open>retry_handler.go\<close>): the delay before a request is between zero and sixty seconds as long as an error is reported before
    the next request is counted, and it fades when time passes.  (When requests overlap, an error may be counted after the
    request it belongs to has decayed, and the delay can be twice as long.)
  \<^item> \<open>Startup\<close> (\<open>ccm.go\<close>, \<open>metadata.go\<close>, \<open>oapi_provider.go\<close>, the resolvers and sessions of \<open>utils.go\<close>, \<open>main.go\<close>): a cloud object that comes out of \<open>newCloud\<close> is
    complete and consistent; which region its clients talk to.  \<open>Fakes\<close> (\<open>osc_fakes.go\<close>): the test doubles, how far they behave like a
    directory of instances, and that they start a cloud.

  \<^item> \<open>Diagnostics\<close> (\<open>log_handler.go\<close>, the functions of \<open>utils.go\<close> that look at the call stack): which frame is named, and when the
    logger of a response panics.  \<open>Process\<close> (\<open>init\<close> of \<open>ccm.go\<close>, \<open>main.go\<close>, \<open>Cloud.Initialize\<close>): the cloud object that the controllers get is well formed.
  \<^item> \<open>Readers\<close>: the locale of what only reads; every lookup and every node handler keeps what the reading calls keep.
    \<open>Audit_Trail\<close>: a cloud whose clients write every request to a trail, a policy that says which handler may send which request and
    when, and runs, which are sequences of handler calls with anything in between; the policy is proved for every handler through the locale
    \<open>audited_cloud\<close>, which is interpreted on the recording clients.  \<open>Convergence\<close>: what a successful \<open>EnsureLoadBalancer\<close> and
    \<open>UpdateLoadBalancer\<close> leave behind, end to end; \<open>Deletion\<close>: the same for \<open>EnsureLoadBalancerDeleted\<close>.  This theory states what holds over whole
    runs: who touches load balancers, groups and routes.

  \<^bold>\<open>Not modelled.\<close>  The log lines that functions write on their way, \<open>awsValidateResponseHandlerLogger\<close> and its kin apart;
  \<open>GetInstanceIdentityDocument\<close>, which nothing calls; scheduling other than the interleaving of cache refreshes (a run takes one handler after the other, with
  the world changing in between).  What is left of the source is package clauses, imports, comments and the declarations of interfaces whose
  methods are modelled at their implementations.
\<close>

section \<open>The provider as a whole\<close>

text \<open>
  C6. Whatever the clients answer and whatever happens between the calls, every entry of the audit trail of a run of
  the provider is permitted, by the policy, for one of the calls of the run.  Load balancers are created, changed and deleted by the
  handlers of a service only, under the name of the service.  A group is made only for a service to be ensured, under the name
  derived from its load balancer and when the configuration names no shared group; tags go only to groups that were
  read or made; a group is deleted only for a service to be deleted, after an answer showed it with the tag of the cluster;
  rules are changed by the handlers of a service only, in any group but the shared one.  Routes and the settings of VMs are
  changed by the handlers of routes only.
\<close>

theorem run_obeys_policy:
  assumes "runs k w0 hs w" "auditTrail w0 = []" "auditTrail w = newer @ e # older"
  shows "\<exists>h\<in>set hs. permitted (recordingCloud k) h older e"
  using assms by (rule runs_permitted)

theorem run_obeys_policy_witness:
  "\<exists>older. \<exists>h\<in>set liveCalls. permitted (recordingCloud liveCloud) h older (OnLoadBalancer DeleteLb ''u1'')"
proof -
  obtain newer older where
    "auditTrail (serveAll liveCloud liveSys liveCalls) = newer @ OnLoadBalancer DeleteLb ''u1'' # older"
    using split_list[OF liveRun_entry] by blast
  from run_obeys_policy[OF runs_serveAll liveSys_empty this] show ?thesis by blast
qed

text \<open>
  C8. Services do not interfere: when the load balancer API answers a query by name with load balancers of that name,
  every request of a run that creates, changes or deletes a load balancer is about the one named after a service the run was
  called for, load balancers are created only for a service to be ensured, and deleted only for a service to be deleted.
\<close>

theorem load_balancers_isolated:
  assumes "describesByName (c_loadBalancer k)" "runs k w0 hs w" "auditTrail w0 = []"
    and "OnLoadBalancer op n \<in> set (auditTrail w)"
  shows "\<exists>h\<in>set hs. \<exists>s. changesService h = Some s \<and> GetLoadBalancerName s = Ok n \<and>
    (op = CreateLb \<longrightarrow> ensures h = Some s) \<and> (op = DeleteLb \<longrightarrow> deletes h = Some s)"
proof -
  obtain h older where h: "h \<in> set hs" "permitted (recordingCloud k) h older (OnLoadBalancer op n)"
    and older: "set older \<subseteq> set (auditTrail w)"
    using runs_permitted_member[OF assms(2-4)] by metis
  have "\<exists>s. changesService h = Some s \<and> GetLoadBalancerName s = Ok n \<and>
    (op = CreateLb \<longrightarrow> ensures h = Some s) \<and> (op = DeleteLb \<longrightarrow> deletes h = Some s)"
    using h(2) itsLoadBalancer_name[OF assms(1-3) older]
    by (cases op; cases h) (auto simp: forService_def)
  then show ?thesis using h(1) by blast
qed

theorem load_balancers_isolated_witness:
  "\<exists>h\<in>set liveCalls. \<exists>s. GetLoadBalancerName s = Ok ''u1'' \<and> deletes h = Some s"
proof -
  have "describesByName (c_loadBalancer liveCloud)"
    by (auto simp: describesByName_def liveCloud_def liveElb_def exLb_def split: if_splits)
  moreover have "OnLoadBalancer DeleteLb ''u1'' \<in> set (auditTrail (serveAll liveCloud liveSys liveCalls))"
    by (rule liveRun_entry) simp
  ultimately show ?thesis
    using load_balancers_isolated[OF _ runs_serveAll liveSys_empty, of liveCloud DeleteLb "''u1''" liveCalls] by blast
qed

text \<open>
  C5. Over a whole run, the rules of the security group that the configuration shares between load balancers are never changed,
  the group is never deleted, and a group is only deleted when an earlier answer of the API showed it with the tag of the
  cluster and a service was to be deleted.
\<close>

theorem groups_guarded:
  assumes "runs k w0 hs w" "auditTrail w0 = []" "auditTrail w = newer @ e # older"
  shows "(e = ChangedRules i \<longrightarrow> i \<noteq> ElbSecurityGroup (globalCfg k)) \<and>
    (e = DroppedGroup i \<longrightarrow> i \<noteq> ElbSecurityGroup (globalCfg k) \<and> (\<exists>h\<in>set hs. deletes h \<noteq> None) \<and>
       (\<exists>g. SawGroup g \<in> set older \<and> strval (sg_SecurityGroupId g) = i \<and> hasClusterTag (c_tagging k) (sg_Tags g) = Ok True))"
proof -
  obtain h where h: "h \<in> set hs" "permitted (recordingCloud k) h older e"
    using runs_permitted[OF assms] by blast
  then show ?thesis by (auto simp: sawOwnGroup_iff intro: bexI[of _ h])
qed

theorem groups_guarded_witness:
  "\<exists>older g. SawGroup g \<in> set older \<and> strval (sg_SecurityGroupId g) = ''sg-1'' \<and>
     hasClusterTag (c_tagging liveCloud) (sg_Tags g) = Ok True"
proof -
  obtain newer older where
    "auditTrail (serveAll liveCloud liveSys liveCalls) = newer @ DroppedGroup ''sg-1'' # older"
    using split_list[OF liveRun_entry] by blast
  from groups_guarded[OF runs_serveAll liveSys_empty this, of "''sg-1''"] show ?thesis by blast
qed

text \<open>
  C22. The handlers of nodes, zones and instances, \<open>GetLoadBalancer\<close> and \<open>ListRoutes\<close> only read: a run made of them
  sends no request that changes anything.
\<close>

theorem readers_change_nothing:
  assumes "runs k w0 hs w" "auditTrail w0 = []" "\<forall>h\<in>set hs. changesService h = None \<and> \<not> changesRoutes h"
  shows "\<forall>e\<in>set (auditTrail w). \<not> changes e"
proof
  fix e assume "e \<in> set (auditTrail w)"
  then obtain h older where h: "h \<in> set hs" "permitted (recordingCloud k) h older e"
    by (rule runs_permitted_member[OF assms(1,2)])
  have "changesService h = None" "\<not> changesRoutes h" using h(1) assms(3) by auto
  then have "ensures h = None" "deletes h = None" by (cases h; simp)+
  then show "\<not> changes e"
    using h(2) \<open>changesService h = None\<close> \<open>\<not> changesRoutes h\<close>
    by (cases "(recordingCloud k, h, older, e)" rule: permitted.cases) (simp_all add: forService_def)
qed

theorem readers_change_nothing_witness:
  "filter changes (auditTrail (serveAll liveCloud liveSys [Call_GetLoadBalancer liveService, Call_ListRoutes ''c1''])) = []"
proof -
  have "\<forall>e\<in>set (auditTrail (serveAll liveCloud liveSys [Call_GetLoadBalancer liveService, Call_ListRoutes ''c1''])). \<not> changes e"
    by (rule readers_change_nothing[OF runs_serveAll liveSys_empty]) simp
  then show ?thesis by (simp only: filter_False)
qed

end
